(* ===== verification/Base_Prelude.thy ===== *)
theory Base_Prelude
  imports Main "HOL-Library.Sublist"
begin

text \<open>
  Shared vocabulary of the development: Go errors as values, the sequencing of operations
  that read and change a state, and the generic lemmas on lists the components use.

  A Go function \<open>func f(args) (T, error)\<close> with effects on the machine is a function
  \<open>args \<Rightarrow> 'w \<Rightarrow> (go_error + 'a) \<times> 'w\<close>: \<open>Inl e\<close> is the return of a non-nil error,
  \<open>Inr x\<close> the normal return, and the second component is the state afterwards, which a
  failing call may have changed too.
\<close>

section \<open>Hint collections\<close>

named_theorems io_simps \<open>unfolding of the sequencing operations\<close>
named_theorems text_simps \<open>facts on strings that rendered configuration text uses\<close>

section \<open>Errors\<close>

text \<open>
  \<open>Errno\<close> is an error of a system call, \<open>Err fmt args\<close> a message built by
  \<open>errors.New\<close> or \<open>fmt.Errorf\<close> (the source's format string with its arguments, not yet
  interpolated), \<open>Exit_Error\<close> the error value of an unsuccessful child process, and
  \<open>Wrap fmt args e\<close> a \<open>fmt.Errorf\<close> with a \<open>%w\<close> verb.
\<close>

datatype errno = ENOENT | EEXIST | EISDIR | ENOTDIR | ENOTEMPTY | EINVAL | EIO | ESRCH | EPERM

datatype go_error =
    Errno errno
  | Err string "string list"
  | Exit_Error int string
  | Wrap string "string list" go_error

type_synonym 'a result = "go_error + 'a"
type_synonym ('a, 'w) io = "'w \<Rightarrow> 'a result \<times> 'w"

text \<open>\<open>errors.Is\<close> against a sentinel follows the chain of wrapped errors.\<close>

fun errors_is :: "go_error \<Rightarrow> go_error \<Rightarrow> bool" where
  "errors_is (Wrap f as e) t = (Wrap f as e = t \<or> errors_is e t)"
| "errors_is e t = (e = t)"

abbreviation is_not_exist :: "go_error \<Rightarrow> bool" where
  "is_not_exist e \<equiv> errors_is e (Errno ENOENT)"

abbreviation is_exist :: "go_error \<Rightarrow> bool" where
  "is_exist e \<equiv> errors_is e (Errno EEXIST)"

section \<open>Sequencing\<close>

definition io_return :: "'a \<Rightarrow> ('a, 'w) io" where
  "io_return x = (\<lambda>w. (Inr x, w))"

definition io_fail :: "go_error \<Rightarrow> ('a, 'w) io" where
  "io_fail e = (\<lambda>w. (Inl e, w))"

text \<open>\<open>x, err := m(); if err != nil { return err }; k(x)\<close>\<close>

definition io_bind :: "('a, 'w) io \<Rightarrow> ('a \<Rightarrow> ('b, 'w) io) \<Rightarrow> ('b, 'w) io" where
  "io_bind m k = (\<lambda>w. case m w of (Inl e, w') \<Rightarrow> (Inl e, w') | (Inr x, w') \<Rightarrow> k x w')"

text \<open>\<open>x, err := m(); if err != nil { h(err) } else { k(x) }\<close>\<close>

definition io_case :: "('a, 'w) io \<Rightarrow> (go_error \<Rightarrow> ('b, 'w) io) \<Rightarrow> ('a \<Rightarrow> ('b, 'w) io) \<Rightarrow> ('b, 'w) io" where
  "io_case m h k = (\<lambda>w. case m w of (Inl e, w') \<Rightarrow> h e w' | (Inr x, w') \<Rightarrow> k x w')"

text \<open>\<open>if err := m(); err != nil { return fmt.Errorf("...: %w", err) }\<close>\<close>

definition io_wrap :: "string \<Rightarrow> string list \<Rightarrow> ('a, 'w) io \<Rightarrow> ('a, 'w) io" where
  "io_wrap f as m = (\<lambda>w. case m w of (Inl e, w') \<Rightarrow> (Inl (Wrap f as e), w') | (Inr x, w') \<Rightarrow> (Inr x, w'))"

text \<open>\<open>_ = m()\<close>: the effects stay, the error is dropped.\<close>

definition io_ignore :: "('a, 'w) io \<Rightarrow> (unit, 'w) io" where
  "io_ignore m = (\<lambda>w. (Inr (), snd (m w)))"

text \<open>A pure computation that may fail, used as an operation.\<close>

definition io_lift :: "'a result \<Rightarrow> ('a, 'w) io" where
  "io_lift r = (\<lambda>w. (r, w))"

declare io_return_def [io_simps] io_fail_def [io_simps] io_bind_def [io_simps]
  io_case_def [io_simps] io_wrap_def [io_simps] io_ignore_def [io_simps] io_lift_def [io_simps]

lemma io_return_apply [simp]: "io_return x w = (Inr x, w)"
  by (simp add: io_simps)

lemma io_fail_apply [simp]: "io_fail e w = (Inl e, w)"
  by (simp add: io_simps)

lemma io_lift_apply [simp]: "io_lift r w = (r, w)"
  by (simp add: io_simps)

lemma io_ignore_apply [simp]: "io_ignore m w = (Inr (), snd (m w))"
  by (simp add: io_simps)

lemma io_bind_Inr: "m w = (Inr x, w') \<Longrightarrow> io_bind m k w = k x w'"
  by (simp add: io_simps)

lemma io_bind_Inl: "m w = (Inl e, w') \<Longrightarrow> io_bind m k w = (Inl e, w')"
  by (simp add: io_simps)

lemma io_bind_eq_Inr:
  "io_bind m k w = (Inr y, w'') \<longleftrightarrow> (\<exists>x w'. m w = (Inr x, w') \<and> k x w' = (Inr y, w''))"
  by (auto simp: io_bind_def split: prod.splits sum.splits)

lemma io_bind_eq_Inl:
  "io_bind m k w = (Inl e, w'') \<longleftrightarrow>
     m w = (Inl e, w'') \<or> (\<exists>x w'. m w = (Inr x, w') \<and> k x w' = (Inl e, w''))"
  by (auto simp: io_bind_def split: prod.splits sum.splits)

lemma io_wrap_eq_Inr [simp]: "io_wrap f as m w = (Inr x, w') \<longleftrightarrow> m w = (Inr x, w')"
  by (auto simp: io_wrap_def split: prod.splits sum.splits)

lemma io_wrap_eq_Inl:
  "io_wrap f as m w = (Inl e, w') \<longleftrightarrow> (\<exists>e'. m w = (Inl e', w') \<and> e = Wrap f as e')"
  by (auto simp: io_wrap_def split: prod.splits sum.splits)

lemma snd_io_wrap [simp]: "snd (io_wrap f as m w) = snd (m w)"
  by (auto simp: io_wrap_def split: prod.splits sum.splits)

text \<open>
  \<open>leaves f m\<close>: operation \<open>m\<close> leaves the observation \<open>f\<close> of the state as it is, whether
  it succeeds or fails. A sequence leaves what each of its operations leaves: this is the
  frame rule of the development.
\<close>

definition leaves :: "('w \<Rightarrow> 'o) \<Rightarrow> ('a, 'w) io \<Rightarrow> bool" where
  "leaves f m \<longleftrightarrow> (\<forall>w. f (snd (m w)) = f w)"

named_theorems frame \<open>what an operation leaves unchanged\<close>

lemma leavesI: "(\<And>w. f (snd (m w)) = f w) \<Longrightarrow> leaves f m"
  by (simp add: leaves_def)

lemma leavesD: "leaves f m \<Longrightarrow> f (snd (m w)) = f w"
  by (simp add: leaves_def)

lemma leaves_result: "leaves f m \<Longrightarrow> m w = (r, w') \<Longrightarrow> f w' = f w"
  by (metis leavesD snd_conv)

lemma leaves_comp: "leaves f m \<Longrightarrow> leaves (\<lambda>w. g (f w)) m"
  by (simp add: leaves_def)

lemma leaves_return [frame, simp]: "leaves f (io_return x)"
  by (simp add: leaves_def)

lemma leaves_fail [frame, simp]: "leaves f (io_fail e)"
  by (simp add: leaves_def)

lemma leaves_Pair [frame, simp]: "leaves f (Pair x)"
  by (simp add: leaves_def)

lemma leaves_lift [frame, simp]: "leaves f (io_lift r)"
  by (simp add: leaves_def)

lemma leaves_bind [frame]: "leaves f m \<Longrightarrow> (\<And>x. leaves f (k x)) \<Longrightarrow> leaves f (io_bind m k)"
  unfolding leaves_def io_bind_def by (auto split: prod.splits sum.splits) (metis snd_conv)+

lemma leaves_case [frame]:
  "leaves f m \<Longrightarrow> (\<And>e. leaves f (h e)) \<Longrightarrow> (\<And>x. leaves f (k x)) \<Longrightarrow> leaves f (io_case m h k)"
  unfolding leaves_def io_case_def by (auto split: prod.splits sum.splits) (metis snd_conv)+

lemma leaves_wrap [frame]: "leaves f m \<Longrightarrow> leaves f (io_wrap g as m)"
  by (simp add: leaves_def)

lemma leaves_ignore [frame]: "leaves f m \<Longrightarrow> leaves f (io_ignore m)"
  by (simp add: leaves_def)

lemma leaves_if [frame]: "(b \<Longrightarrow> leaves f m) \<Longrightarrow> (\<not> b \<Longrightarrow> leaves f m') \<Longrightarrow> leaves f (if b then m else m')"
  by simp

text \<open>\<open>keeps P m\<close>: operation \<open>m\<close> keeps the invariant \<open>P\<close>.\<close>

definition keeps :: "('w \<Rightarrow> bool) \<Rightarrow> ('a, 'w) io \<Rightarrow> bool" where
  "keeps P m \<longleftrightarrow> (\<forall>w. P w \<longrightarrow> P (snd (m w)))"

lemma keepsI: "(\<And>w. P w \<Longrightarrow> P (snd (m w))) \<Longrightarrow> keeps P m"
  by (simp add: keeps_def)

lemma keeps_result: "keeps P m \<Longrightarrow> m w = (r, w') \<Longrightarrow> P w \<Longrightarrow> P w'"
  by (metis keeps_def snd_conv)

lemma keeps_leaves: "leaves f m \<Longrightarrow> keeps (\<lambda>w. P (f w)) m"
  by (simp add: keeps_def leaves_def)

section \<open>Lists\<close>

lemma dropWhile_idem [simp]: "dropWhile P (dropWhile P xs) = dropWhile P xs"
  by (induction xs) auto

lemma dropWhile_append_all: "\<forall>x \<in> set xs. P x \<Longrightarrow> dropWhile P (xs @ ys) = dropWhile P ys"
  by (induction xs) auto

lemma dropWhile_hd_False: "xs = [] \<or> \<not> P (hd xs) \<Longrightarrow> dropWhile P xs = xs"
  by (cases xs) auto

lemma map_of_map_keys:
  "map_of (map (\<lambda>(k, v). (k, f k v)) xs) k = map_option (f k) (map_of xs k)"
  by (induction xs) auto

lemma list_update_map_id: "i < length xs \<Longrightarrow> f (xs ! i) = y \<Longrightarrow> map f (xs[i := x]) = (map f xs)[i := f x]"
  by (simp add: map_update)

end
