(* ===== verification/Go_Strings.thy ===== *)
theory Go_Strings
  imports Base_Prelude
begin

text \<open>
  The functions of Go's \<open>strings\<close> and \<open>fmt\<close> packages the program calls, on strings as
  lists of bytes (a \<open>char\<close> is a byte, as an element of a Go string is).
\<close>

section \<open>Searching\<close>

text \<open>\<open>strings.Index(s, sub)\<close>; \<open>None\<close> stands for \<open>-1\<close>.\<close>

fun str_index :: "string \<Rightarrow> string \<Rightarrow> nat option" where
  "str_index [] sub = (if sub = [] then Some 0 else None)"
| "str_index (c # cs) sub =
     (if prefix sub (c # cs) then Some 0 else map_option Suc (str_index cs sub))"

definition str_contains :: "string \<Rightarrow> string \<Rightarrow> bool" where
  "str_contains s sub \<longleftrightarrow> str_index s sub \<noteq> None"

text \<open>\<open>strings.ContainsAny(s, chars)\<close>\<close>

definition contains_any :: "string \<Rightarrow> string \<Rightarrow> bool" where
  "contains_any s cs \<longleftrightarrow> list_ex (\<lambda>c. c \<in> set cs) s"

lemma str_index_Some: "str_index s sub = Some i \<Longrightarrow> i \<le> length s \<and> prefix sub (drop i s)"
  by (induction s sub arbitrary: i rule: str_index.induct) (auto split: if_splits)

lemma str_index_bound: "str_index s sub = Some i \<Longrightarrow> i + length sub \<le> length s"
proof -
  assume "str_index s sub = Some i"
  then have "i \<le> length s" and "prefix sub (drop i s)"
    by (auto dest: str_index_Some)
  then show ?thesis
    using prefix_length_le [of sub "drop i s"] by simp
qed

lemma str_index_least: "str_index s sub = Some i \<Longrightarrow> j < i \<Longrightarrow> \<not> prefix sub (drop j s)"
proof (induction s sub arbitrary: i j rule: str_index.induct)
  case (1 sub)
  then show ?case by (simp split: if_splits)
next
  case (2 c cs sub)
  then show ?case by (cases j) (auto split: if_splits)
qed

lemma str_index_None: "str_index s sub = None \<longleftrightarrow> (\<forall>i \<le> length s. \<not> prefix sub (drop i s))"
proof (induction s sub rule: str_index.induct)
  case (1 sub)
  then show ?case by simp
next
  case (2 c cs sub)
  show ?case
  proof
    assume none: "str_index (c # cs) sub = None"
    then have "\<not> prefix sub (c # cs)" and "str_index cs sub = None"
      by (auto split: if_splits)
    with "2.IH" have "\<forall>i \<le> length cs. \<not> prefix sub (drop i cs)" by simp
    with \<open>\<not> prefix sub (c # cs)\<close> show "\<forall>i \<le> length (c # cs). \<not> prefix sub (drop i (c # cs))"
      by (metis drop0 drop_Suc_Cons length_Cons not_less_eq_eq not0_implies_Suc)
  next
    assume all: "\<forall>i \<le> length (c # cs). \<not> prefix sub (drop i (c # cs))"
    then have "\<not> prefix sub (c # cs)" by (metis drop0 le0)
    moreover have "\<forall>i \<le> length cs. \<not> prefix sub (drop i cs)"
      using all by (metis Suc_le_mono drop_Suc_Cons length_Cons)
    ultimately show "str_index (c # cs) sub = None" using "2.IH" by simp
  qed
qed

lemma str_contains_iff: "str_contains s sub \<longleftrightarrow> (\<exists>a b. s = a @ sub @ b)"
proof
  assume "str_contains s sub"
  then obtain i where "str_index s sub = Some i" by (auto simp: str_contains_def)
  then have "prefix sub (drop i s)" by (blast dest: str_index_Some)
  then show "\<exists>a b. s = a @ sub @ b"
    by (metis append_take_drop_id prefix_def)
next
  assume "\<exists>a b. s = a @ sub @ b"
  then obtain a b where s: "s = a @ sub @ b" by blast
  then have "prefix sub (drop (length a) s)" and "length a \<le> length s" by auto
  then show "str_contains s sub" unfolding str_contains_def str_index_None by blast
qed

lemma str_contains_infix [simp, intro]: "str_contains (a @ sub @ b) sub"
  by (auto simp: str_contains_iff)

lemma str_contains_append1: "str_contains a sub \<Longrightarrow> str_contains (a @ b) sub"
  unfolding str_contains_iff by (metis append_assoc)

lemma str_contains_append2: "str_contains b sub \<Longrightarrow> str_contains (a @ b) sub"
  unfolding str_contains_iff by (metis append_assoc)

lemma str_index_prefix [simp]: "prefix sub s \<Longrightarrow> str_index s sub = Some 0"
  by (cases s) auto

text \<open>Where the first byte of the pattern does not occur, the pattern does not.\<close>

lemma str_index_skip:
  assumes "c \<notin> set a"
  shows "str_index (a @ s) (c # p) = map_option ((+) (length a)) (str_index s (c # p))"
  using assms
proof (induction a)
  case Nil
  show ?case by (cases "str_index s (c # p)") auto
next
  case (Cons x xs)
  then show ?case by (cases "str_index s (c # p)") auto
qed

lemma str_index_no_head: "c \<notin> set s \<Longrightarrow> str_index s (c # p) = None"
  by (induction s) auto

section \<open>Trimming, splitting, joining, replacing\<close>

definition trim_left :: "string \<Rightarrow> string \<Rightarrow> string" where
  "trim_left s cs = dropWhile (\<lambda>c. c \<in> set cs) s"

definition trim_right :: "string \<Rightarrow> string \<Rightarrow> string" where
  "trim_right s cs = rev (dropWhile (\<lambda>c. c \<in> set cs) (rev s))"

text \<open>\<open>strings.Cut(s, string(c))\<close>; \<open>None\<close> where the separator is missing.\<close>

fun str_cut :: "char \<Rightarrow> string \<Rightarrow> (string \<times> string) option" where
  "str_cut c [] = None"
| "str_cut c (x # xs) =
     (if x = c then Some ([], xs) else map_option (\<lambda>(a, b). (x # a, b)) (str_cut c xs))"

lemma str_cut_Some: "str_cut c s = Some (a, b) \<longleftrightarrow> s = a @ c # b \<and> c \<notin> set a"
proof (induction s arbitrary: a)
  case Nil
  then show ?case by simp
next
  case (Cons x xs)
  then show ?case by (cases a) auto
qed

lemma str_cut_None: "str_cut c s = None \<longleftrightarrow> c \<notin> set s"
  by (induction s) auto

text \<open>\<open>strings.Split(s, string(c))\<close>: never empty.\<close>

fun str_split :: "char \<Rightarrow> string \<Rightarrow> string list" where
  "str_split c [] = [[]]"
| "str_split c (x # xs) =
     (if x = c then [] # str_split c xs
      else (case str_split c xs of [] \<Rightarrow> [[x]] | y # ys \<Rightarrow> (x # y) # ys))"

fun str_join :: "string \<Rightarrow> string list \<Rightarrow> string" where
  "str_join sep [] = []"
| "str_join sep [x] = x"
| "str_join sep (x # y # ys) = x @ sep @ str_join sep (y # ys)"

text \<open>\<open>strings.ReplaceAll(s, string(c), r)\<close>\<close>

definition replace_char :: "char \<Rightarrow> string \<Rightarrow> string \<Rightarrow> string" where
  "replace_char c r s = concat (map (\<lambda>x. if x = c then r else [x]) s)"

lemma str_split_ne [simp]: "str_split c s \<noteq> []"
  by (induction s) (auto split: list.splits)

lemma str_split_no_sep: "c \<notin> set s \<Longrightarrow> str_split c s = [s]"
  by (induction s) auto

lemma str_split_append: "str_split c (s @ c # t) = str_split c s @ str_split c t"
proof (induction s)
  case Nil
  then show ?case by simp
next
  case (Cons x xs)
  have "str_split c xs \<noteq> []" by simp
  with Cons show ?case by (auto split: list.splits)
qed

lemma str_split_parts: "p \<in> set (str_split c s) \<Longrightarrow> c \<notin> set p"
proof (induction s arbitrary: p)
  case Nil
  then show ?case by simp
next
  case (Cons x xs)
  obtain y ys where sp: "str_split c xs = y # ys"
    by (cases "str_split c xs") auto
  then have y: "c \<notin> set y" and ys: "\<And>q. q \<in> set ys \<Longrightarrow> c \<notin> set q"
    using Cons.IH by auto
  from Cons.prems sp y ys show ?case by (auto split: if_splits)
qed

lemma str_join_Cons: "str_join sep (x # xs) = x @ (if xs = [] then [] else sep @ str_join sep xs)"
  by (cases xs) auto

lemma str_join_append:
  "xs \<noteq> [] \<Longrightarrow> ys \<noteq> [] \<Longrightarrow> str_join sep (xs @ ys) = str_join sep xs @ sep @ str_join sep ys"
  by (induction xs) (auto simp: str_join_Cons)

lemma str_split_join:
  "xs \<noteq> [] \<Longrightarrow> \<forall>x \<in> set xs. c \<notin> set x \<Longrightarrow> str_split c (str_join [c] xs) = xs"
proof (induction xs rule: induct_list012)
  case (3 x y ys)
  then have "str_split c (x @ c # str_join [c] (y # ys)) = [x] @ (y # ys)"
    by (subst str_split_append) (simp add: str_split_no_sep)
  then show ?case by simp
qed (auto simp: str_split_no_sep)

lemma set_str_join: "set (str_join sep xs) \<subseteq> set sep \<union> (\<Union>x \<in> set xs. set x)"
  by (induction xs) (auto simp: str_join_Cons)

lemma replace_char_append [simp]: "replace_char c r (s @ t) = replace_char c r s @ replace_char c r t"
  by (simp add: replace_char_def)

lemma replace_char_Nil [simp]: "replace_char c r [] = []"
  by (simp add: replace_char_def)

lemma replace_char_Cons:
  "replace_char c r (x # xs) = (if x = c then r else [x]) @ replace_char c r xs"
  by (simp add: replace_char_def)

lemma set_replace_char: "set (replace_char c r s) \<subseteq> set s \<union> set r"
  by (auto simp: replace_char_def split: if_splits)

lemma trim_left_idem [simp]: "trim_left (trim_left s cs) cs = trim_left s cs"
  by (simp add: trim_left_def)

lemma trim_left_Nil [simp]: "trim_left [] cs = []"
  by (simp add: trim_left_def)

lemma trim_left_append_all: "set a \<subseteq> set cs \<Longrightarrow> trim_left (a @ s) cs = trim_left s cs"
  unfolding trim_left_def by (rule dropWhile_append_all) auto

lemma trim_left_Cons: "c \<notin> set cs \<Longrightarrow> trim_left (c # s) cs = c # s"
  by (simp add: trim_left_def)

section \<open>Numbers in decimal\<close>

definition digit_chars :: string where
  "digit_chars = ''0123456789''"

definition digit :: "int \<Rightarrow> char" where
  "digit n = digit_chars ! nat n"

function show_digits :: "int \<Rightarrow> string" where
  "show_digits n = (if n < 10 then [digit n] else show_digits (n div 10) @ [digit (n mod 10)])"
  by pat_completeness auto
termination
  by (relation "measure nat") auto

declare show_digits.simps [simp del]

text \<open>The \<open>%d\<close> verb of \<open>fmt.Sprintf\<close>.\<close>

definition show_int :: "int \<Rightarrow> string" where
  "show_int i = (if i < 0 then CHR ''-'' # show_digits (- i) else show_digits i)"

lemmas show_simps = show_int_def show_digits.simps digit_def digit_chars_def

lemma digit_in: "0 \<le> n \<Longrightarrow> n < 10 \<Longrightarrow> digit n \<in> set digit_chars"
  unfolding digit_def by (rule nth_mem) (simp add: digit_chars_def)

lemma set_show_digits: "0 \<le> n \<Longrightarrow> set (show_digits n) \<subseteq> set digit_chars"
proof (induction n rule: show_digits.induct)
  case (1 n)
  then show ?case by (subst show_digits.simps) (simp add: digit_in)
qed

lemma show_digits_ne [simp]: "show_digits n \<noteq> []"
  by (subst show_digits.simps) simp

lemma show_int_ne [simp]: "show_int i \<noteq> []"
  by (simp add: show_int_def)

lemma set_show_int: "set (show_int i) \<subseteq> insert (CHR ''-'') (set digit_chars)"
  using set_show_digits [of i] set_show_digits [of "- i"]
  unfolding show_int_def by auto

lemma show_int_avoids: "c \<noteq> CHR ''-'' \<Longrightarrow> c \<notin> set digit_chars \<Longrightarrow> c \<notin> set (show_int i)"
  using set_show_int [of i] by blast

text \<open>A number can be read back from its digits, so different numbers look different.\<close>

definition digit_value :: "char \<Rightarrow> int" where
  "digit_value c = of_char c - 48"

definition read_digits :: "string \<Rightarrow> int" where
  "read_digits s = foldl (\<lambda>n c. 10 * n + digit_value c) 0 s"

lemma digit_value_digit: "0 \<le> n \<Longrightarrow> n < 10 \<Longrightarrow> digit_value (digit n) = n"
proof -
  assume "0 \<le> n" "n < 10"
  then have "n \<in> {0, 1, 2, 3, 4, 5, 6, 7, 8, 9}" by simp presburger
  then show ?thesis by (auto simp: digit_value_def digit_def digit_chars_def)
qed

lemma read_show_digits: "0 \<le> n \<Longrightarrow> read_digits (show_digits n) = n"
proof (induction n rule: show_digits.induct)
  case (1 n)
  show ?case
  proof (cases "n < 10")
    case True
    then show ?thesis using 1 by (subst show_digits.simps) (simp add: read_digits_def digit_value_digit)
  next
    case False
    then have "read_digits (show_digits (n div 10)) = n div 10" using 1 by simp
    then show ?thesis using False by (subst show_digits.simps) (simp add: read_digits_def digit_value_digit)
  qed
qed

lemma show_int_inject [simp]: "show_int a = show_int b \<longleftrightarrow> a = b"
proof
  have minus: "CHR ''-'' \<notin> set (show_digits n)" if "0 \<le> n" for n
    using set_show_digits [OF that] by (auto simp: digit_chars_def)
  have digits: "show_digits m = show_digits n \<longleftrightarrow> m = n" if "0 \<le> m" "0 \<le> n" for m n
    using that read_show_digits by metis
  have sign: "show_digits m \<noteq> CHR ''-'' # s" if "0 \<le> m" for m s
    using minus [OF that] by force
  assume eq: "show_int a = show_int b"
  then show "a = b"
    using digits [of "- a" "- b"] digits [of a b] sign [of a] sign [of b] sign [of b, symmetric]
    by (cases "a < 0"; cases "b < 0") (auto simp: show_int_def)
qed simp

section \<open>White space and letter case\<close>

text \<open>
  \<open>strings.TrimSpace\<close> removes leading and trailing Unicode white space. \<open>space_runes\<close>
  lists the UTF-8 encodings of the white-space code points: U+0009 to U+000D, U+0020,
  U+0085, U+00A0, U+1680, U+2000 to U+200A, U+2028, U+2029, U+202F, U+205F, U+3000.
\<close>

definition space_runes :: "string list" where
  "space_runes =
    [[CHR 0x09], [CHR 0x0A], [CHR 0x0B], [CHR 0x0C], [CHR 0x0D], [CHR 0x20],
     [CHR 0xC2, CHR 0x85], [CHR 0xC2, CHR 0xA0], [CHR 0xE1, CHR 0x9A, CHR 0x80],
     [CHR 0xE2, CHR 0x80, CHR 0x80], [CHR 0xE2, CHR 0x80, CHR 0x81],
     [CHR 0xE2, CHR 0x80, CHR 0x82], [CHR 0xE2, CHR 0x80, CHR 0x83],
     [CHR 0xE2, CHR 0x80, CHR 0x84], [CHR 0xE2, CHR 0x80, CHR 0x85],
     [CHR 0xE2, CHR 0x80, CHR 0x86], [CHR 0xE2, CHR 0x80, CHR 0x87],
     [CHR 0xE2, CHR 0x80, CHR 0x88], [CHR 0xE2, CHR 0x80, CHR 0x89],
     [CHR 0xE2, CHR 0x80, CHR 0x8A], [CHR 0xE2, CHR 0x80, CHR 0xA8],
     [CHR 0xE2, CHR 0x80, CHR 0xA9], [CHR 0xE2, CHR 0x80, CHR 0xAF],
     [CHR 0xE2, CHR 0x81, CHR 0x9F], [CHR 0xE3, CHR 0x80, CHR 0x80]]"

text \<open>\<open>strip_runes rs s\<close> removes the longest prefix of \<open>s\<close> made of elements of \<open>rs\<close>.\<close>

function strip_runes :: "string list \<Rightarrow> string \<Rightarrow> string" where
  "strip_runes rs s =
     (case find (\<lambda>r. r \<noteq> [] \<and> prefix r s) rs of
        None \<Rightarrow> s
      | Some r \<Rightarrow> strip_runes rs (drop (length r) s))"
  by pat_completeness auto
termination
  by (relation "measure (length \<circ> snd)")
    (auto simp: find_Some_iff dest: prefix_length_le intro!: diff_less)

declare strip_runes.simps [simp del]

definition trim_space :: "string \<Rightarrow> string" where
  "trim_space s =
     rev (strip_runes (map rev space_runes) (rev (strip_runes space_runes s)))"

text \<open>
  \<open>strings.ToLower\<close> and \<open>strings.EqualFold\<close>, as far as ASCII letters are concerned: the
  only code points beyond ASCII that these functions relate to an ASCII letter are
  U+212A (Kelvin sign, to \<open>k\<close>), U+017F (long s, folded to \<open>s\<close>) and U+0130 (capital
  dotted I, lowered to \<open>i\<close>). Other bytes are kept. \<open>equal_fold\<close> is exact where one of its
  arguments is an ASCII string, as in every call of the program, and a search for an ASCII
  pattern in \<open>to_lower s\<close> finds it where the search in \<open>strings.ToLower(s)\<close> does.
\<close>

definition lower_char :: "char \<Rightarrow> char" where
  "lower_char c =
     (let n = of_char c :: nat in if 65 \<le> n \<and> n \<le> 90 then char_of (n + 32) else c)"

fun to_lower :: "string \<Rightarrow> string" where
  "to_lower (a # b # c # s) =
     (if [a, b, c] = [CHR 0xE2, CHR 0x84, CHR 0xAA] then CHR ''k'' # to_lower s
      else if [a, b] = [CHR 0xC4, CHR 0xB0] then CHR ''i'' # to_lower (c # s)
      else lower_char a # to_lower (b # c # s))"
| "to_lower [a, b] =
     (if [a, b] = [CHR 0xC4, CHR 0xB0] then ''i'' else [lower_char a, lower_char b])"
| "to_lower [a] = [lower_char a]"
| "to_lower [] = []"

fun fold_case :: "string \<Rightarrow> string" where
  "fold_case (a # b # c # s) =
     (if [a, b, c] = [CHR 0xE2, CHR 0x84, CHR 0xAA] then CHR ''k'' # fold_case s
      else if [a, b] = [CHR 0xC5, CHR 0xBF] then CHR ''s'' # fold_case (c # s)
      else lower_char a # fold_case (b # c # s))"
| "fold_case [a, b] =
     (if [a, b] = [CHR 0xC5, CHR 0xBF] then ''s'' else [lower_char a, lower_char b])"
| "fold_case [a] = [lower_char a]"
| "fold_case [] = []"

definition equal_fold :: "string \<Rightarrow> string \<Rightarrow> bool" where
  "equal_fold s t \<longleftrightarrow> fold_case s = fold_case t"

lemma strip_runes_stop: "\<forall>r \<in> set rs. r \<noteq> [] \<longrightarrow> \<not> prefix r s \<Longrightarrow> strip_runes rs s = s"
proof -
  assume "\<forall>r \<in> set rs. r \<noteq> [] \<longrightarrow> \<not> prefix r s"
  then have "find (\<lambda>r. r \<noteq> [] \<and> prefix r s) rs = None" by (auto simp: find_None_iff)
  then show ?thesis by (subst strip_runes.simps) simp
qed

text \<open>The first and last bytes of the encodings of white space.\<close>

definition space_bytes :: string where
  "space_bytes = map hd space_runes @ map last space_runes"

lemma space_bytes_set: "r \<in> set space_runes \<Longrightarrow> r \<noteq> [] \<and> hd r \<in> set space_bytes \<and> last r \<in> set space_bytes"
proof -
  assume r: "r \<in> set space_runes"
  have "\<forall>r \<in> set space_runes. r \<noteq> []" by (simp add: space_runes_def)
  with r show ?thesis by (auto simp: space_bytes_def)
qed

lemma trim_space_id:
  assumes "s \<noteq> []" and "hd s \<notin> set space_bytes" and "last s \<notin> set space_bytes"
  shows "trim_space s = s"
proof -
  have "\<not> prefix r s" if "r \<in> set space_runes" for r
    using space_bytes_set [OF that] assms(2) by (cases r; cases s) auto
  then have left: "strip_runes space_runes s = s" by (intro strip_runes_stop) blast
  have "\<not> prefix (rev r) (rev s)" if "r \<in> set space_runes" for r
    using space_bytes_set [OF that] assms(3)
    by (cases r rule: rev_cases; cases s rule: rev_cases) auto
  then have "strip_runes (map rev space_runes) (rev s) = rev s"
    by (intro strip_runes_stop) auto
  then show ?thesis by (simp add: trim_space_def left)
qed

lemma equal_fold_refl [simp]: "equal_fold s s"
  by (simp add: equal_fold_def)

lemma trim_space_Nil [simp]: "trim_space [] = []"
proof -
  have "find (\<lambda>r :: string. r \<noteq> [] \<and> prefix r []) rs = None" for rs
    by (auto simp: find_None_iff)
  then have "strip_runes rs [] = []" for rs
    by (subst strip_runes.simps) (simp del: prefix_Nil)
  then show ?thesis by (simp add: trim_space_def)
qed

end
