(* ===== verification/Go_Paths.thy ===== *)
theory Go_Paths
  imports Go_Strings
begin

text \<open>
  Go's \<open>path/filepath\<close> on a Unix host (separator \<open>/\<close>, list separator \<open>:\<close>), as far as the
  program uses it. The development models the non-Windows build; where a function of the
  program takes the name of an operating system as an argument, the argument is kept.
\<close>

section \<open>Clean\<close>

text \<open>
  \<open>filepath.Clean\<close> works through the components of a path with a stack (here reversed):
  empty and \<open>.\<close> components are dropped, \<open>..\<close> removes the component before it, is dropped
  at the root and kept at the start of a relative path.
\<close>

definition clean_step :: "bool \<Rightarrow> string list \<Rightarrow> string \<Rightarrow> string list" where
  "clean_step rooted st c =
     (if c = [] \<or> c = ''.'' then st
      else if c = ''..'' then
        (case st of
           [] \<Rightarrow> if rooted then [] else [c]
         | t # ts \<Rightarrow> if t = ''..'' then c # st else ts)
      else c # st)"

definition is_abs :: "string \<Rightarrow> bool" where
  "is_abs p \<longleftrightarrow> prefix ''/'' p"

definition path_stack :: "string \<Rightarrow> string list" where
  "path_stack p = rev (foldl (clean_step (is_abs p)) [] (str_split (CHR ''/'') p))"

definition render_path :: "bool \<Rightarrow> string list \<Rightarrow> string" where
  "render_path rooted st =
     (if rooted then ''/'' @ str_join ''/'' st
      else if st = [] then ''.'' else str_join ''/'' st)"

definition path_clean :: "string \<Rightarrow> string" where
  "path_clean p = render_path (is_abs p) (path_stack p)"

text \<open>\<open>filepath.Join\<close>: leading empty elements are skipped, no element gives the empty string.\<close>

definition path_join :: "string list \<Rightarrow> string" where
  "path_join es =
     (case dropWhile (\<lambda>e. e = []) es of [] \<Rightarrow> [] | ds \<Rightarrow> path_clean (str_join ''/'' ds))"

text \<open>\<open>filepath.Dir\<close>: the cleaned path up to and including the last separator.\<close>

definition path_dir :: "string \<Rightarrow> string" where
  "path_dir p = path_clean (rev (dropWhile (\<lambda>c. c \<noteq> CHR ''/'') (rev p)))"

text \<open>\<open>filepath.Ext\<close>: from the last dot of the last component on.\<close>

definition path_ext :: "string \<Rightarrow> string" where
  "path_ext p =
     (let base = takeWhile (\<lambda>c. c \<noteq> CHR ''/'') (rev p)
      in if CHR ''.'' \<in> set base
         then CHR ''.'' # rev (takeWhile (\<lambda>c. c \<noteq> CHR ''.'') base) else [])"

definition split_list :: "string \<Rightarrow> string list" where
  "split_list p = (if p = [] then [] else str_split (CHR '':'') p)"

section \<open>Normal paths\<close>

text \<open>
  A component that \<open>Clean\<close> keeps wherever it stands; every file name of the program is one.
\<close>

definition plain_name :: "string \<Rightarrow> bool" where
  "plain_name c \<longleftrightarrow> c \<noteq> [] \<and> c \<noteq> ''.'' \<and> c \<noteq> ''..'' \<and> CHR ''/'' \<notin> set c"

text \<open>What the (reversed) stack of \<open>Clean\<close> always looks like.\<close>

fun good_stack :: "bool \<Rightarrow> string list \<Rightarrow> bool" where
  "good_stack rooted [] = True"
| "good_stack rooted (c # st) =
     (if c = ''..'' then \<not> rooted \<and> (\<forall>d \<in> set st. d = ''..'')
      else plain_name c \<and> good_stack rooted st)"

lemma good_stack_dotdots: "\<forall>d \<in> set st. d = ''..'' \<Longrightarrow> st = [] \<or> \<not> rooted \<Longrightarrow> good_stack rooted st"
  by (cases st) auto

lemma good_stack_tl: "good_stack rooted (c # st) \<Longrightarrow> good_stack rooted st"
  by (cases "c = ''..''") (auto intro: good_stack_dotdots)

lemma clean_step_skip [simp]: "clean_step rooted st [] = st" "clean_step rooted st ''.'' = st"
  by (simp_all add: clean_step_def)

lemma clean_step_good:
  assumes good: "good_stack rooted st" and c: "CHR ''/'' \<notin> set c"
  shows "good_stack rooted (clean_step rooted st c)"
proof (cases "c = [] \<or> c = ''.'' \<or> c = ''..''")
  case True
  then show ?thesis
    using good good_stack_tl [of rooted "hd st" "tl st"]
    by (cases st) (auto simp: clean_step_def)
next
  case False
  then show ?thesis using good c by (simp add: clean_step_def plain_name_def)
qed

lemma foldl_clean_good:
  "good_stack rooted st \<Longrightarrow> \<forall>c \<in> set cs. CHR ''/'' \<notin> set c \<Longrightarrow>
   good_stack rooted (foldl (clean_step rooted) st cs)"
  by (induction cs arbitrary: st) (simp_all add: clean_step_good)

lemma path_stack_good: "good_stack (is_abs p) (rev (path_stack p))"
  unfolding path_stack_def rev_rev_ident
  by (rule foldl_clean_good) (auto dest: str_split_parts)

lemma good_stack_comps: "good_stack rooted st \<Longrightarrow> c \<in> set st \<Longrightarrow> c \<noteq> [] \<and> CHR ''/'' \<notin> set c"
proof (induction st)
  case (Cons d st)
  then have "good_stack rooted st" by (blast dest: good_stack_tl)
  moreover have "d \<noteq> [] \<and> CHR ''/'' \<notin> set d"
    using Cons.prems(1) by (cases "d = ''..''") (simp_all add: plain_name_def)
  ultimately show ?case using Cons by auto
qed simp

text \<open>Working through an already clean stack rebuilds it.\<close>

lemma foldl_clean_rebuild:
  "good_stack rooted (st @ acc) \<Longrightarrow> foldl (clean_step rooted) acc (rev st) = st @ acc"
proof (induction st)
  case Nil
  then show ?case by simp
next
  case (Cons c st)
  have good: "good_stack rooted (st @ acc)"
    using Cons.prems by (simp only: append_Cons) (rule good_stack_tl)
  then have "foldl (clean_step rooted) acc (rev (c # st)) = clean_step rooted (st @ acc) c"
    using Cons.IH by simp
  also have "\<dots> = c # st @ acc"
    using Cons.prems by (cases "st @ acc") (auto simp: clean_step_def plain_name_def split: if_splits)
  finally show ?case by simp
qed

lemma str_split_render:
  assumes "good_stack rooted (rev st)" and "st \<noteq> []"
  shows "str_split (CHR ''/'') (str_join ''/'' st) = st"
  using assms good_stack_comps [OF assms(1)] by (intro str_split_join) auto

lemma is_abs_Cons [simp]: "is_abs (c # s) \<longleftrightarrow> c = CHR ''/''" "\<not> is_abs []"
  by (auto simp: is_abs_def)

lemma is_abs_render: "good_stack rooted (rev st) \<Longrightarrow> is_abs (render_path rooted st) = rooted"
proof (cases st)
  case (Cons c cs)
  assume "good_stack rooted (rev st)"
  then have "c \<noteq> []" and "CHR ''/'' \<notin> set c"
    using good_stack_comps [of rooted "rev st" c] Cons by auto
  then show ?thesis using Cons by (cases c) (auto simp: render_path_def str_join_Cons)
qed (auto simp: render_path_def)

lemma path_stack_render:
  assumes good: "good_stack rooted (rev st)"
  shows "path_stack (render_path rooted st) = st"
proof (cases "st = []")
  case True
  then show ?thesis by (cases rooted) (simp_all add: path_stack_def render_path_def clean_step_def)
next
  case False
  let ?f = "foldl (clean_step rooted)"
  have split: "str_split (CHR ''/'') (str_join ''/'' st) = st"
    using good False by (rule str_split_render)
  have rebuild: "?f [] st = rev st"
    using foldl_clean_rebuild [of rooted "rev st" "[]"] good by simp
  show ?thesis
  proof (cases rooted)
    case True
    have "str_split (CHR ''/'') (render_path rooted st) = [] # st"
      using True split by (simp add: render_path_def)
    with True rebuild is_abs_render [OF good] show ?thesis by (simp add: path_stack_def)
  next
    case rooted: False
    then have "render_path rooted st = str_join ''/'' st" using False by (simp add: render_path_def)
    with rooted rebuild split is_abs_render [OF good] show ?thesis by (simp add: path_stack_def)
  qed
qed

lemma path_clean_render: "good_stack rooted (rev st) \<Longrightarrow> path_clean (render_path rooted st) = render_path rooted st"
  by (simp add: path_clean_def is_abs_render path_stack_render)

lemma path_clean_idem [simp]: "path_clean (path_clean p) = path_clean p"
  unfolding path_clean_def [of p] by (rule path_clean_render) (rule path_stack_good)

lemma path_clean_ne [simp]: "path_clean p \<noteq> []"
proof (cases "is_abs p \<or> path_stack p = []")
  case True
  then show ?thesis by (auto simp: path_clean_def render_path_def)
next
  case False
  then obtain c cs where st: "path_stack p = c # cs" by (cases "path_stack p") auto
  then have "c \<noteq> []" using good_stack_comps [OF path_stack_good, of c p] by simp
  with False st show ?thesis by (simp add: path_clean_def render_path_def str_join_Cons)
qed

section \<open>Joining a directory and a file name\<close>

lemma clean_step_plain: "plain_name c \<Longrightarrow> clean_step rooted st c = c # st"
  by (simp add: clean_step_def plain_name_def)

lemma good_stack_push: "plain_name c \<Longrightarrow> good_stack rooted st \<Longrightarrow> good_stack rooted (c # st)"
  by (auto simp: plain_name_def)

lemma path_join_name:
  assumes n: "plain_name n"
  shows "path_join [d, n] = render_path (is_abs d) (path_stack d @ [n])"
proof (cases "d = []")
  case True
  have "path_join [d, n] = path_clean n"
    using n True by (simp add: path_join_def plain_name_def)
  moreover have "\<not> is_abs n" using n by (cases n) (auto simp: plain_name_def)
  moreover have "str_split (CHR ''/'') n = [n]"
    using n by (auto intro: str_split_no_sep simp: plain_name_def)
  ultimately show ?thesis
    using n True by (simp add: path_clean_def path_stack_def clean_step_def plain_name_def)
next
  case False
  then have abs: "is_abs (d @ CHR ''/'' # n) = is_abs d" by (cases d) auto
  have "str_split (CHR ''/'') (d @ CHR ''/'' # n) = str_split (CHR ''/'') d @ [n]"
    using n by (simp add: str_split_append str_split_no_sep plain_name_def)
  then have "path_stack (d @ CHR ''/'' # n) = path_stack d @ [n]"
    using n by (simp add: path_stack_def abs clean_step_plain)
  moreover have "path_join [d, n] = path_clean (d @ CHR ''/'' # n)"
    using False by (simp add: path_join_def)
  ultimately show ?thesis by (simp add: path_clean_def abs)
qed

lemma good_stack_join: "plain_name n \<Longrightarrow> good_stack (is_abs d) (rev (path_stack d @ [n]))"
  by (auto intro: good_stack_push path_stack_good simp: plain_name_def simp del: good_stack.simps)

lemma path_stack_join: "plain_name n \<Longrightarrow> path_stack (path_join [d, n]) = path_stack d @ [n]"
  by (simp only: path_join_name path_stack_render good_stack_join)

lemma is_abs_join: "plain_name n \<Longrightarrow> is_abs (path_join [d, n]) = is_abs d"
  by (simp only: path_join_name is_abs_render good_stack_join)

lemma path_clean_join [simp]: "plain_name n \<Longrightarrow> path_clean (path_join [d, n]) = path_join [d, n]"
  by (simp only: path_join_name path_clean_render good_stack_join)

lemma path_join_ne [simp]: "plain_name n \<Longrightarrow> path_join [d, n] \<noteq> []"
  by (metis path_clean_join path_clean_ne)

text \<open>Two file names in one directory are two files.\<close>

lemma path_join_inject:
  assumes "plain_name m" and "plain_name n"
  shows "path_join [d, m] = path_join [d, n] \<longleftrightarrow> m = n"
proof
  assume "path_join [d, m] = path_join [d, n]"
  then have "path_stack d @ [m] = path_stack d @ [n]" by (metis assms path_stack_join)
  then show "m = n" by simp
qed simp

text \<open>Files of different names are different files, in whatever directories.\<close>

lemma path_join_names_differ:
  assumes "plain_name m" and "plain_name n" and "m \<noteq> n"
  shows "path_join [d, m] \<noteq> path_join [e, n]"
proof
  assume "path_join [d, m] = path_join [e, n]"
  then have "path_stack d @ [m] = path_stack e @ [n]" by (metis assms(1,2) path_stack_join)
  with assms(3) show False by simp
qed

text \<open>A file of a directory is neither the root nor the working directory.\<close>

lemma path_join_not_root:
  assumes "plain_name n"
  shows "path_join [d, n] \<noteq> ''/''" and "path_join [d, n] \<noteq> ''.''"
proof -
  have "path_stack ''/'' = []" and "path_stack ''.'' = []" by (simp_all add: path_stack_def clean_step_def)
  then show "path_join [d, n] \<noteq> ''/''" and "path_join [d, n] \<noteq> ''.''"
    using path_stack_join [OF assms, of d] by (metis append_is_Nil_conv not_Cons_self2)+
qed

lemma path_clean_slash: "p \<noteq> [] \<Longrightarrow> path_clean (p @ ''/'') = path_clean p"
proof -
  assume "p \<noteq> []"
  then have abs: "is_abs (p @ ''/'') = is_abs p" by (cases p) auto
  then have "path_stack (p @ ''/'') = path_stack p"
    by (simp add: path_stack_def str_split_append)
  with abs show ?thesis by (simp add: path_clean_def)
qed

text \<open>The directory of a joined path is the directory it was joined to.\<close>

lemma path_dir_join:
  assumes n: "plain_name n"
  shows "path_dir (path_join [d, n]) = path_clean d"
proof -
  let ?st = "path_stack d" and ?r = "is_abs d"
  let ?pre = "(if ?r then ''/'' else []) @ (if ?st = [] then [] else str_join ''/'' ?st @ ''/'')"
  have slash: "CHR ''/'' \<notin> set n" using n by (simp add: plain_name_def)
  have join: "path_join [d, n] = ?pre @ n"
    by (simp add: path_join_name n render_path_def str_join_append)
  have drop: "dropWhile (\<lambda>c. c \<noteq> CHR ''/'') (rev n @ rev ?pre) = rev ?pre"
  proof (subst dropWhile_append_all)
    show "\<forall>c \<in> set (rev n). c \<noteq> CHR ''/''" using slash by auto
    show "dropWhile (\<lambda>c. c \<noteq> CHR ''/'') (rev ?pre) = rev ?pre"
      by (rule dropWhile_hd_False) auto
  qed
  then have dir: "path_dir (path_join [d, n]) = path_clean ?pre"
    by (simp only: path_dir_def join rev_append rev_rev_ident)
  show ?thesis
  proof (cases "?st = []")
    case True
    then show ?thesis
      by (simp add: dir path_clean_def render_path_def path_stack_def)
  next
    case False
    then have "?pre = path_clean d @ ''/''" by (simp add: path_clean_def render_path_def)
    with dir show ?thesis by (simp add: path_clean_slash)
  qed
qed

end
