(* ===== verification/Go_OS.thy ===== *)
theory Go_OS
  imports Go_Paths "HOL-Library.Word"
begin

unbundle bit_operations_syntax

text \<open>
  The machine the program runs on, as far as Go's \<open>os\<close> and \<open>syscall\<close> packages show it: a
  file system, a process table and a source of failures.

  Every operation takes one step of \<open>w_clock\<close>. \<open>w_fault t op p\<close> says that operation \<open>op\<close> on
  path \<open>p\<close> at step \<open>t\<close> fails for a reason of the machine's own (permissions, a full disk,
  an I/O error), so a theorem over all worlds covers a failure at every point. A failing
  write of file data may leave the first \<open>w_short t\<close> bytes behind. A file is found under the
  cleaned form of its path; symbolic links are not modelled.
\<close>

type_synonym mode = "9 word"

datatype node = File string mode | Dir mode

datatype fsop = FRead | FStat | FOpen | FWrite | FChmod | FMkdir | FRemove | FClose | FKill

record world =
  w_nodes :: "string \<Rightarrow> node option"
  w_umask :: mode
  w_fault :: "nat \<Rightarrow> fsop \<Rightarrow> string \<Rightarrow> bool"
  w_short :: "nat \<Rightarrow> nat"
  w_clock :: nat
  w_procs :: "(int \<times> int) list"

section \<open>Observations\<close>

text \<open>The root and the working directory always exist.\<close>

definition lookup_node :: "world \<Rightarrow> string \<Rightarrow> node option" where
  "lookup_node w p =
     (if p = [] then None
      else if path_clean p = ''/'' \<or> path_clean p = ''.'' then Some (Dir 493)
      else w_nodes w (path_clean p))"

definition file_at :: "world \<Rightarrow> string \<Rightarrow> string option" where
  "file_at w p = (case lookup_node w p of Some (File c m) \<Rightarrow> Some c | _ \<Rightarrow> None)"

definition mode_at :: "world \<Rightarrow> string \<Rightarrow> mode option" where
  "mode_at w p = (case lookup_node w p of Some (File c m) \<Rightarrow> Some m | _ \<Rightarrow> None)"

definition is_dir :: "world \<Rightarrow> string \<Rightarrow> bool" where
  "is_dir w p = (case lookup_node w p of Some (Dir m) \<Rightarrow> True | _ \<Rightarrow> False)"

definition bump :: "world \<Rightarrow> world" where
  "bump w = w\<lparr>w_clock := Suc (w_clock w)\<rparr>"

definition faulty :: "world \<Rightarrow> fsop \<Rightarrow> string \<Rightarrow> bool" where
  "faulty w op p = w_fault w (w_clock w) op (path_clean p)"

definition put_node :: "world \<Rightarrow> string \<Rightarrow> node option \<Rightarrow> world" where
  "put_node w p n = w\<lparr>w_nodes := (w_nodes w)(path_clean p := n)\<rparr>"

section \<open>File operations\<close>

definition os_read_file :: "string \<Rightarrow> (string, world) io" where
  "os_read_file p w =
     ((if faulty w FRead p then Inl (Errno EIO)
       else (case lookup_node w p of
               None \<Rightarrow> Inl (Errno ENOENT)
             | Some (Dir m) \<Rightarrow> Inl (Errno EISDIR)
             | Some (File c m) \<Rightarrow> Inr c)), bump w)"

definition os_stat :: "string \<Rightarrow> (node, world) io" where
  "os_stat p w =
     ((if faulty w FStat p then Inl (Errno EIO)
       else (case lookup_node w p of None \<Rightarrow> Inl (Errno ENOENT) | Some n \<Rightarrow> Inr n)), bump w)"

definition write_data :: "string \<Rightarrow> string \<Rightarrow> mode \<Rightarrow> (unit, world) io" where
  "write_data p data m w =
     (if faulty w FWrite p
      then (Inl (Errno EIO), bump (put_node w p (Some (File (take (w_short w (w_clock w)) data) m))))
      else (Inr (), bump (put_node w p (Some (File data m)))))"

text \<open>\<open>os.WriteFile\<close>: the mode argument counts only where the file is created.\<close>

definition os_write_file :: "string \<Rightarrow> string \<Rightarrow> mode \<Rightarrow> (unit, world) io" where
  "os_write_file p data perm w =
     (if faulty w FOpen p then (Inl (Errno EIO), bump w)
      else (case lookup_node w p of
              Some (Dir m) \<Rightarrow> (Inl (Errno EISDIR), bump w)
            | Some (File c m) \<Rightarrow> write_data p data m w
            | None \<Rightarrow>
                if p = [] \<or> \<not> is_dir w (path_dir p) then (Inl (Errno ENOENT), bump w)
                else write_data p data (perm AND NOT (w_umask w)) w))"

definition os_chmod :: "string \<Rightarrow> mode \<Rightarrow> (unit, world) io" where
  "os_chmod p perm w =
     (if faulty w FChmod p then (Inl (Errno EIO), bump w)
      else (case lookup_node w p of
              None \<Rightarrow> (Inl (Errno ENOENT), bump w)
            | Some (File c m) \<Rightarrow> (Inr (), bump (put_node w p (Some (File c perm))))
            | Some (Dir m) \<Rightarrow> (Inr (), bump (put_node w p (Some (Dir perm))))))"

text \<open>The path itself and every directory above it, outermost first.\<close>

definition ancestors :: "string \<Rightarrow> string list" where
  "ancestors p = map (\<lambda>k. render_path (is_abs p) (take k (path_stack p))) [1..<Suc (length (path_stack p))]"

definition os_mkdir_all :: "string \<Rightarrow> mode \<Rightarrow> (unit, world) io" where
  "os_mkdir_all p perm w =
     (if faulty w FMkdir p then (Inl (Errno EIO), bump w)
      else if p = [] then (Inl (Errno ENOENT), bump w)
      else if list_ex (\<lambda>q. file_at w q \<noteq> None) (ancestors p) then (Inl (Errno ENOTDIR), bump w)
      else (Inr (), bump (w\<lparr>w_nodes := (\<lambda>q. case w_nodes w q of
                Some n \<Rightarrow> Some n
              | None \<Rightarrow> if List.member (ancestors p) q then Some (Dir (perm AND NOT (w_umask w))) else None)\<rparr>)))"

text \<open>
  \<open>os.Remove\<close>. The program removes files only; a directory in the place of one of them is
  taken to be non-empty.
\<close>

definition os_remove :: "string \<Rightarrow> (unit, world) io" where
  "os_remove p w =
     (if faulty w FRemove p then (Inl (Errno EIO), bump w)
      else (case lookup_node w p of
              None \<Rightarrow> (Inl (Errno ENOENT), bump w)
            | Some (Dir m) \<Rightarrow> (Inl (Errno ENOTEMPTY), bump w)
            | Some (File c m) \<Rightarrow> (Inr (), bump (put_node w p None))))"

text \<open>\<open>path_under p q\<close>: \<open>q\<close> is \<open>p\<close> or lies below it.\<close>

definition path_under :: "string \<Rightarrow> string \<Rightarrow> bool" where
  "path_under p q \<longleftrightarrow> is_abs p = is_abs q \<and> prefix (path_stack p) (path_stack q)"

definition os_remove_all :: "string \<Rightarrow> (unit, world) io" where
  "os_remove_all p w =
     (if p = [] then (Inr (), bump w)
      else if p = ''.'' \<or> suffix ''/.'' p then (Inl (Errno EINVAL), bump w)
      else if faulty w FRemove p then (Inl (Errno EIO), bump w)
      else (Inr (), bump (w\<lparr>w_nodes := (\<lambda>q. if path_under p q then None else w_nodes w q)\<rparr>)))"

text \<open>\<open>os.OpenFile\<close> with \<open>O_CREATE|O_EXCL|O_WRONLY\<close>\<close>

definition os_create_excl :: "string \<Rightarrow> mode \<Rightarrow> (unit, world) io" where
  "os_create_excl p perm w =
     (if faulty w FOpen p then (Inl (Errno EIO), bump w)
      else if lookup_node w p \<noteq> None then (Inl (Errno EEXIST), bump w)
      else if p = [] \<or> \<not> is_dir w (path_dir p) then (Inl (Errno ENOENT), bump w)
      else (Inr (), bump (put_node w p (Some (File [] (perm AND NOT (w_umask w)))))))"

text \<open>\<open>os.OpenFile\<close> with \<open>O_CREATE|O_APPEND|O_WRONLY\<close>\<close>

definition os_open_append :: "string \<Rightarrow> mode \<Rightarrow> (unit, world) io" where
  "os_open_append p perm w =
     (if faulty w FOpen p then (Inl (Errno EIO), bump w)
      else (case lookup_node w p of
              Some (Dir m) \<Rightarrow> (Inl (Errno EISDIR), bump w)
            | Some (File c m) \<Rightarrow> (Inr (), bump w)
            | None \<Rightarrow>
                if p = [] \<or> \<not> is_dir w (path_dir p) then (Inl (Errno ENOENT), bump w)
                else (Inr (), bump (put_node w p (Some (File [] (perm AND NOT (w_umask w))))))))"

text \<open>\<open>(*os.File).Close\<close>: reports a failure, changes nothing that can be observed by path.\<close>

definition os_close :: "string \<Rightarrow> (unit, world) io" where
  "os_close p w = ((if faulty w FClose p then Inl (Errno EIO) else Inr ()), bump w)"

section \<open>Processes\<close>

text \<open>
  \<open>w_procs\<close> lists the running processes of the user with their process groups. \<open>sys_kill\<close> is
  \<open>syscall.Kill\<close>: a positive process id names a process, -1 every process, another negative
  one a process group; signal 0 only asks.
\<close>

definition alive :: "world \<Rightarrow> int \<Rightarrow> bool" where
  "alive w pid \<longleftrightarrow> pid \<in> fst ` set (w_procs w)"

definition sys_kill :: "int \<Rightarrow> bool \<Rightarrow> (unit, world) io" where
  "sys_kill pid terminate w =
     (let hit = (\<lambda>(q, g). if 0 < pid then q = pid else if pid = -1 then True else g = - pid)
      in if \<not> list_ex hit (w_procs w) then (Inl (Errno ESRCH), bump w)
         else if faulty w FKill (show_int pid) then (Inl (Errno EPERM), bump w)
         else if terminate then (Inr (), bump (w\<lparr>w_procs := filter (\<lambda>x. \<not> hit x) (w_procs w)\<rparr>))
         else (Inr (), bump w))"

section \<open>Facts\<close>

named_theorems os_defs \<open>definitions of the operations of the machine\<close>

declare os_read_file_def [os_defs] os_stat_def [os_defs] write_data_def [os_defs]
  os_write_file_def [os_defs] os_chmod_def [os_defs] os_mkdir_all_def [os_defs]
  os_remove_def [os_defs] os_remove_all_def [os_defs] os_create_excl_def [os_defs]
  os_open_append_def [os_defs] os_close_def [os_defs] sys_kill_def [os_defs]

lemma bump_simps [simp]:
  "w_nodes (bump w) = w_nodes w" "w_umask (bump w) = w_umask w" "w_fault (bump w) = w_fault w"
  "w_short (bump w) = w_short w" "w_procs (bump w) = w_procs w" "w_clock (bump w) = Suc (w_clock w)"
  by (simp_all add: bump_def)

lemma put_node_simps [simp]:
  "w_umask (put_node w p n) = w_umask w" "w_fault (put_node w p n) = w_fault w"
  "w_short (put_node w p n) = w_short w" "w_procs (put_node w p n) = w_procs w"
  "w_clock (put_node w p n) = w_clock w"
  by (simp_all add: put_node_def)

lemma lookup_node_bump [simp]: "lookup_node (bump w) p = lookup_node w p"
  by (simp add: lookup_node_def)

lemma file_at_bump [simp]: "file_at (bump w) p = file_at w p"
  by (simp add: file_at_def)

lemma mode_at_bump [simp]: "mode_at (bump w) p = mode_at w p"
  by (simp add: mode_at_def)

lemma is_dir_bump [simp]: "is_dir (bump w) p = is_dir w p"
  by (simp add: is_dir_def)

text \<open>\<open>ordinary p\<close>: a path that names neither the root nor the working directory.\<close>

definition ordinary :: "string \<Rightarrow> bool" where
  "ordinary p \<longleftrightarrow> p \<noteq> [] \<and> path_clean p \<noteq> ''/'' \<and> path_clean p \<noteq> ''.''"

lemma ordinary_join [simp, intro]: "plain_name n \<Longrightarrow> ordinary (path_join [d, n])"
  using path_join_ne path_join_not_root by (auto simp: ordinary_def)

lemma lookup_put [simp]:
  "ordinary p \<Longrightarrow> lookup_node (put_node w p n) p = n"
  by (simp add: lookup_node_def put_node_def ordinary_def)

lemma lookup_put_other [simp]:
  "path_clean p \<noteq> path_clean q \<Longrightarrow> lookup_node (put_node w p n) q = lookup_node w q"
  by (simp add: lookup_node_def put_node_def)

lemma lookup_File_ordinary: "lookup_node w p = Some (File c m) \<Longrightarrow> ordinary p"
  by (auto simp: lookup_node_def ordinary_def split: if_splits)

lemma file_at_Some: "file_at w p = Some c \<longleftrightarrow> (\<exists>m. lookup_node w p = Some (File c m))"
  by (auto simp: file_at_def split: option.splits node.splits)

lemma mode_at_Some: "mode_at w p = Some m \<longleftrightarrow> (\<exists>c. lookup_node w p = Some (File c m))"
  by (auto simp: mode_at_def split: option.splits node.splits)

lemma lookup_node_Nil [simp]: "lookup_node w [] = None"
  by (simp add: lookup_node_def)

lemma lookup_None_file [simp]: "lookup_node w p = None \<Longrightarrow> file_at w p = None"
  by (simp add: file_at_def)

text \<open>\<open>calm w\<close>: the machine itself never fails.\<close>

definition calm :: "world \<Rightarrow> bool" where
  "calm w \<longleftrightarrow> (\<forall>t op p. \<not> w_fault w t op p)"

lemma calm_not_faulty [simp]: "calm w \<Longrightarrow> \<not> faulty w op p"
  by (simp add: calm_def faulty_def)

lemma calm_bump [simp]: "calm (bump w) = calm w"
  by (simp add: calm_def)

lemma calm_put_node [simp]: "calm (put_node w p n) = calm w"
  by (simp add: calm_def)

section \<open>What the operations leave alone\<close>

text \<open>
  \<open>frame\<close> collects the facts \<open>leaves f op\<close>: no file operation touches the process table or
  the failure source, and an operation on one path leaves the files at other paths alone.
\<close>

text \<open>The parts of the world that only the machine itself or \<open>sys_kill\<close> changes.\<close>

definition fixed_part :: "world \<Rightarrow> (int \<times> int) list \<times> (nat \<Rightarrow> fsop \<Rightarrow> string \<Rightarrow> bool) \<times> (nat \<Rightarrow> nat) \<times> mode" where
  "fixed_part w = (w_procs w, w_fault w, w_short w, w_umask w)"

lemma fixed_part_simps [simp]:
  "fixed_part (bump w) = fixed_part w" "fixed_part (put_node w p n) = fixed_part w"
  "fixed_part (w\<lparr>w_nodes := ns\<rparr>) = fixed_part w"
  by (simp_all add: fixed_part_def)

lemma fixed_part_ops [frame]:
  "leaves fixed_part (os_read_file p)"
  "leaves fixed_part (os_stat p)"
  "leaves fixed_part (os_write_file p d m)"
  "leaves fixed_part (os_chmod p m)"
  "leaves fixed_part (os_mkdir_all p m)"
  "leaves fixed_part (os_remove p)"
  "leaves fixed_part (os_remove_all p)"
  "leaves fixed_part (os_create_excl p m)"
  "leaves fixed_part (os_open_append p m)"
  "leaves fixed_part (os_close p)"
  by (auto simp: leaves_def os_defs split: option.splits node.splits)

lemma calm_fixed_part: "calm w \<longleftrightarrow> (case fixed_part w of (ps, f, s, u) \<Rightarrow> \<forall>t op p. \<not> f t op p)"
  by (simp add: calm_def fixed_part_def)

text \<open>A sequence that keeps the fixed part keeps the absence of failures and the processes.\<close>

lemma leaves_calm [frame]: "leaves fixed_part m \<Longrightarrow> leaves calm m"
  by (simp add: leaves_def calm_fixed_part)

lemma leaves_procs [frame]: "leaves fixed_part m \<Longrightarrow> leaves w_procs m"
  using leaves_comp [of fixed_part m fst] by (simp add: fixed_part_def)

lemma leaves_file_read [frame]:
  "leaves (\<lambda>w. lookup_node w q) (os_read_file p)"
  "leaves (\<lambda>w. lookup_node w q) (os_stat p)"
  "leaves (\<lambda>w. lookup_node w q) (os_close p)"
  by (auto simp: leaves_def os_defs)

lemma leaves_file_other [frame]:
  assumes "path_clean p \<noteq> path_clean q"
  shows "leaves (\<lambda>w. lookup_node w q) (os_write_file p d m)"
    and "leaves (\<lambda>w. lookup_node w q) (os_chmod p m)"
    and "leaves (\<lambda>w. lookup_node w q) (os_remove p)"
    and "leaves (\<lambda>w. lookup_node w q) (os_create_excl p m)"
    and "leaves (\<lambda>w. lookup_node w q) (os_open_append p m)"
  using assms by (auto simp: leaves_def os_defs split: option.splits node.splits)

text \<open>Creating directories leaves every file as it is.\<close>

lemma mkdir_all_file_at [simp]: "file_at (snd (os_mkdir_all p m w)) q = file_at w q"
  by (auto simp: os_mkdir_all_def file_at_def lookup_node_def split: option.splits node.splits)

lemma mkdir_all_mode_at [simp]: "mode_at (snd (os_mkdir_all p m w)) q = mode_at w q"
  by (auto simp: os_mkdir_all_def mode_at_def lookup_node_def split: option.splits node.splits)

lemma leaves_file_mkdir [frame]:
  "leaves (\<lambda>w. file_at w q) (os_mkdir_all p m)"
  "leaves (\<lambda>w. mode_at w q) (os_mkdir_all p m)"
  by (simp_all add: leaves_def)

lemma leaves_file_at: "leaves (\<lambda>w. lookup_node w q) m \<Longrightarrow> leaves (\<lambda>w. file_at w q) m"
  by (simp add: leaves_def file_at_def)

lemma leaves_mode_at: "leaves (\<lambda>w. lookup_node w q) m \<Longrightarrow> leaves (\<lambda>w. mode_at w q) m"
  by (simp add: leaves_def mode_at_def)

lemmas leaves_file_at_ops [frame] =
  leaves_file_read [THEN leaves_file_at] leaves_file_other [THEN leaves_file_at]
  leaves_file_read [THEN leaves_mode_at] leaves_file_other [THEN leaves_mode_at]

section \<open>What the operations do\<close>

lemma read_file_ok: "os_read_file p w = (Inr c, w') \<Longrightarrow> file_at w p = Some c \<and> w' = bump w"
  by (auto simp: os_read_file_def file_at_def split: if_splits option.splits node.splits)

lemma read_file_missing: "os_read_file p w = (Inl e, w') \<Longrightarrow> is_not_exist e \<Longrightarrow> lookup_node w p = None \<and> w' = bump w"
  by (auto simp: os_read_file_def split: if_splits option.splits node.splits)

lemma read_file_calm: "calm w \<Longrightarrow> file_at w p = Some c \<Longrightarrow> os_read_file p w = (Inr c, bump w)"
  by (auto simp: os_read_file_def file_at_Some)

lemma read_file_none: "calm w \<Longrightarrow> lookup_node w p = None \<Longrightarrow> os_read_file p w = (Inl (Errno ENOENT), bump w)"
  by (simp add: os_read_file_def)

lemma snd_read_file [simp]: "snd (os_read_file p w) = bump w"
  by (simp add: os_read_file_def)

lemma lookup_None_ordinary: "lookup_node w p = None \<Longrightarrow> p \<noteq> [] \<Longrightarrow> ordinary p"
  by (auto simp: lookup_node_def ordinary_def split: if_splits)

lemma write_file_ok:
  "os_write_file p d m w = (Inr (), w') \<Longrightarrow> ordinary p \<and> file_at w' p = Some d"
  by (auto simp: os_write_file_def write_data_def file_at_def
      dest: lookup_None_ordinary lookup_File_ordinary split: if_splits option.splits node.splits)

lemma chmod_ok:
  "os_chmod p m w = (Inr (), w') \<Longrightarrow> file_at w p = Some c \<Longrightarrow>
   file_at w' p = Some c \<and> mode_at w' p = Some m"
  by (auto simp: os_chmod_def file_at_def mode_at_def dest: lookup_File_ordinary
      split: if_splits option.splits node.splits)

lemma chmod_file_at: "file_at (snd (os_chmod p m w)) q = file_at w q"
  by (cases "path_clean p = path_clean q")
    (auto simp: os_chmod_def file_at_def lookup_node_def put_node_def split: option.splits node.splits)

lemma remove_ok: "os_remove p w = (Inr (), w') \<Longrightarrow> lookup_node w' p = None"
  by (auto simp: os_remove_def dest: lookup_File_ordinary split: if_splits option.splits node.splits)

lemma remove_missing: "os_remove p w = (Inl e, w') \<Longrightarrow> is_not_exist e \<Longrightarrow> lookup_node w' p = None"
  by (auto simp: os_remove_def split: if_splits option.splits node.splits)

lemma remove_keeps_absent: "lookup_node w q = None \<Longrightarrow> lookup_node (snd (os_remove p w)) q = None"
proof (cases "path_clean p = path_clean q \<and> lookup_node w p \<noteq> None")
  case True
  assume "lookup_node w q = None"
  moreover from True have "p \<noteq> []" by (auto simp: lookup_node_def)
  ultimately have "q = []" using True by (auto simp: lookup_node_def split: if_splits)
  then show ?thesis by simp
next
  case False
  assume none: "lookup_node w q = None"
  from False consider "path_clean p \<noteq> path_clean q" | "lookup_node w p = None" by blast
  then show ?thesis
  proof cases
    case 1
    then have "leaves (\<lambda>w. lookup_node w q) (os_remove p)" by (rule leaves_file_other)
    with none show ?thesis by (simp add: leaves_def)
  next
    case 2
    with none show ?thesis by (simp add: os_remove_def)
  qed
qed

lemma remove_calm:
  "calm w \<Longrightarrow> file_at w p = Some c \<Longrightarrow> os_remove p w = (Inr (), bump (put_node w p None))"
  by (auto simp: os_remove_def file_at_Some)

lemma write_file_calm_existing:
  "calm w \<Longrightarrow> file_at w p = Some c \<Longrightarrow>
   \<exists>m'. os_write_file p d m w = (Inr (), bump (put_node w p (Some (File d m'))))"
  by (auto simp: os_write_file_def write_data_def file_at_Some)

lemma write_file_calm_new:
  "calm w \<Longrightarrow> lookup_node w p = None \<Longrightarrow> p \<noteq> [] \<Longrightarrow> is_dir w (path_dir p) \<Longrightarrow>
   os_write_file p d m w = (Inr (), bump (put_node w p (Some (File d (m AND NOT (w_umask w))))))"
  by (simp add: os_write_file_def write_data_def)

lemma ancestors_self:
  "path_clean p \<noteq> ''/'' \<Longrightarrow> path_clean p \<noteq> ''.'' \<Longrightarrow> path_clean p \<in> set (ancestors p)"
proof -
  assume a: "path_clean p \<noteq> ''/''" "path_clean p \<noteq> ''.''"
  then have "path_stack p \<noteq> []" by (auto simp: path_clean_def render_path_def split: if_splits)
  then have "length (path_stack p) \<in> set [1..<Suc (length (path_stack p))]"
    by (cases "path_stack p") auto
  then show ?thesis
    unfolding ancestors_def path_clean_def set_map by (rule rev_image_eqI) simp
qed

text \<open>After a successful \<open>MkdirAll\<close> the directory exists.\<close>

lemma mkdir_all_ok:
  assumes ok: "os_mkdir_all p m w = (Inr (), w')"
  shows "is_dir w' (path_clean p)"
proof (cases "path_clean p = ''/'' \<or> path_clean p = ''.''")
  case True
  then show ?thesis by (auto simp: is_dir_def lookup_node_def)
next
  case False
  then have self: "path_clean p \<in> set (ancestors p)" by (blast intro: ancestors_self)
  have nofile: "file_at w (path_clean p) = None"
    using ok self by (auto simp: os_mkdir_all_def list_ex_iff split: if_splits)
  have "w_nodes w' (path_clean p) \<noteq> None"
    using ok self by (cases "w_nodes w (path_clean p)") (auto simp: os_mkdir_all_def split: if_splits)
  moreover have "file_at w' (path_clean p) = None"
    using nofile mkdir_all_file_at [of p m w "path_clean p"] ok by simp
  ultimately show ?thesis
    using False by (auto simp: is_dir_def file_at_def lookup_node_def split: option.splits node.splits)
qed

end
