(* ===== verification/Ssh_Config.thy ===== *)
theory Ssh_Config
  imports Go_OS
begin

text \<open>
  \<open>internal/sshconfig/sshconfig.go\<close>: the temporary \<open>ssh_config\<close> and \<open>known_hosts\<close> files of
  one session, their rendering, their permissions and their removal.
\<close>

section \<open>Options and files\<close>

record session_options =
  so_dir :: string
  so_alias :: string
  so_user :: string
  so_identity_file :: string
  so_local_host :: string
  so_local_port :: int
  so_host_key :: string
  so_alive_interval :: int
  so_alive_count_max :: int
  so_tcp_keep_alive :: bool

record session_files =
  sf_config_path :: string
  sf_known_hosts_path :: string

definition file_mode :: mode where
  "file_mode = 384"

definition dir_mode :: mode where
  "dir_mode = 448"

definition validate_session :: "session_options \<Rightarrow> unit result" where
  "validate_session o1 =
     (if so_dir o1 = [] then Inl (Err ''SSH config directory is required'' [])
      else if so_alias o1 = [] then Inl (Err ''SSH alias is required'' [])
      else if so_local_host o1 = [] then Inl (Err ''local host is required'' [])
      else if so_local_port o1 \<le> 0 then Inl (Err ''invalid local port %d'' [show_int (so_local_port o1)])
      else if trim_space (so_host_key o1) = [] then Inl (Err ''pinned SSH host key is required'' [])
      else Inr ())"

section \<open>Rendering\<close>

definition quote_config_value :: "string \<Rightarrow> string" where
  "quote_config_value v =
     (let escaped = replace_char (CHR 0x5C) [CHR 0x5C, CHR 0x5C] v;
          escaped' = replace_char (CHR 0x22) [CHR 0x5C, CHR 0x22] escaped
      in [CHR 0x22] @ escaped' @ [CHR 0x22])"

definition config_lines :: "session_options \<Rightarrow> string \<Rightarrow> string list" where
  "config_lines o1 known_hosts_path =
     (let lines =
            [''Host '' @ so_alias o1,
             ''  HostName '' @ so_local_host o1,
             ''  Port '' @ show_int (so_local_port o1),
             ''  UserKnownHostsFile '' @ quote_config_value known_hosts_path,
             ''  StrictHostKeyChecking yes'',
             ''  IdentitiesOnly yes''];
          lines = (if so_user o1 \<noteq> []
                   then take 3 lines @ [''  User '' @ so_user o1] @ drop 3 lines else lines);
          insert_at = length lines - 1;
          lines = (if so_identity_file o1 \<noteq> []
                   then take insert_at lines @ [''  IdentityFile '' @ quote_config_value (so_identity_file o1)]
                          @ drop insert_at lines
                   else lines);
          lines = (if 0 < so_alive_interval o1
                   then lines @ [''  ServerAliveInterval '' @ show_int (so_alive_interval o1)] else lines);
          lines = (if 0 < so_alive_count_max o1
                   then lines @ [''  ServerAliveCountMax '' @ show_int (so_alive_count_max o1)] else lines)
      in lines @ [if so_tcp_keep_alive o1 then ''  TCPKeepAlive yes'' else ''  TCPKeepAlive no''])"

abbreviation nl :: char where
  "nl \<equiv> CHR 0x0A"

definition render_config :: "session_options \<Rightarrow> string \<Rightarrow> string" where
  "render_config o1 known_hosts_path = str_join [nl] (config_lines o1 known_hosts_path) @ [nl]"

definition known_hosts_line :: "session_options \<Rightarrow> string" where
  "known_hosts_line o1 =
     ''['' @ so_local_host o1 @ '']:'' @ show_int (so_local_port o1) @ '' '' @
     trim_space (so_host_key o1) @ [nl]"

section \<open>Files\<close>

definition write_restricted :: "string \<Rightarrow> string \<Rightarrow> (unit, world) io" where
  "write_restricted p data =
     io_bind (io_wrap ''write %s: %w'' [p] (os_write_file p data file_mode)) (\<lambda>_.
     io_wrap ''set permissions on %s: %w'' [p] (os_chmod p file_mode))"

definition session_files_in :: "string \<Rightarrow> session_files" where
  "session_files_in dir =
     \<lparr>sf_config_path = path_join [dir, ''ssh_config''],
      sf_known_hosts_path = path_join [dir, ''known_hosts'']\<rparr>"

definition write_session_files :: "session_options \<Rightarrow> (session_files, world) io" where
  "write_session_files o1 =
     io_bind (io_lift (validate_session o1)) (\<lambda>_.
     io_bind (io_wrap ''create SSH temp directory: %w'' [] (os_mkdir_all (so_dir o1) dir_mode)) (\<lambda>_.
     let files = session_files_in (so_dir o1) in
     io_bind (write_restricted (sf_known_hosts_path files) (known_hosts_line o1)) (\<lambda>_.
     io_bind (write_restricted (sf_config_path files)
                (render_config o1 (sf_known_hosts_path files))) (\<lambda>_.
     io_return files))))"

text \<open>\<open>if err := os.Remove(path); err != nil && !errors.Is(err, os.ErrNotExist)\<close>\<close>

definition remove_if_exists :: "string \<Rightarrow> string \<Rightarrow> string list \<Rightarrow> (unit, world) io" where
  "remove_if_exists p f as =
     io_case (os_remove p)
       (\<lambda>e. if is_not_exist e then io_return () else io_fail (Wrap f as e))
       io_return"

fun cleanup_paths :: "string list \<Rightarrow> (unit, world) io" where
  "cleanup_paths [] = io_return ()"
| "cleanup_paths (p # ps) =
     (if p = [] then cleanup_paths ps
      else io_bind (remove_if_exists p ''remove %s: %w'' [p]) (\<lambda>_. cleanup_paths ps))"

definition ssh_cleanup :: "session_files \<Rightarrow> (unit, world) io" where
  "ssh_cleanup files = cleanup_paths [sf_config_path files, sf_known_hosts_path files]"

section \<open>Reading the configuration back\<close>

text \<open>
  What OpenSSH does with the text: a line is a keyword, a space and an argument after
  leading blanks, the first value of a keyword counts, and a quoted argument is unescaped.
\<close>

definition parse_line :: "string \<Rightarrow> (string \<times> string) option" where
  "parse_line l = str_cut (CHR '' '') (trim_left l '' '')"

definition directives :: "string \<Rightarrow> (string \<times> string) list" where
  "directives text = List.map_filter parse_line (str_split nl text)"

definition ssh_lookup :: "string \<Rightarrow> string \<Rightarrow> string option" where
  "ssh_lookup key text = map_of (directives text) key"

fun unquote_body :: "string \<Rightarrow> string option" where
  "unquote_body [] = None"
| "unquote_body (c # cs) =
     (if c = CHR 0x22 then (if cs = [] then Some [] else None)
      else if c = CHR 0x5C then
        (case cs of
           [] \<Rightarrow> None
         | d # ds \<Rightarrow>
             if d = CHR 0x5C \<or> d = CHR 0x22 \<or> d = CHR 0x27 then map_option ((#) d) (unquote_body ds)
             else map_option (\<lambda>r. c # r) (unquote_body cs))
      else map_option ((#) c) (unquote_body cs))"

definition unquote_value :: "string \<Rightarrow> string option" where
  "unquote_value s = (case s of [] \<Rightarrow> None | c # cs \<Rightarrow> if c = CHR 0x22 then unquote_body cs else Some s)"

lemma unquote_quoted:
  "unquote_body (replace_char (CHR 0x22) [CHR 0x5C, CHR 0x22]
     (replace_char (CHR 0x5C) [CHR 0x5C, CHR 0x5C] v) @ [CHR 0x22]) = Some v"
  by (induction v) (auto simp: replace_char_Cons)

lemma nl_not_in_int [simp]: "nl \<notin> set (show_int i)"
  by (rule show_int_avoids) (simp_all add: digit_chars_def)

lemma nl_not_in_quote [simp]: "nl \<in> set (quote_config_value v) \<longleftrightarrow> nl \<in> set v"
proof -
  have "nl \<in> set (replace_char c [CHR 0x5C, d] s) \<longleftrightarrow> nl \<in> set s"
    if "nl \<noteq> c" "nl \<noteq> d" for c d s
    using that by (induction s) (auto simp: replace_char_Cons)
  then show ?thesis by (simp add: quote_config_value_def)
qed

text \<open>The lines in closed form: what each option contributes.\<close>

definition config_directives :: "session_options \<Rightarrow> string \<Rightarrow> (string \<times> string) list" where
  "config_directives o1 kh =
     [(''Host'', so_alias o1), (''HostName'', so_local_host o1),
      (''Port'', show_int (so_local_port o1))] @
     (if so_user o1 = [] then [] else [(''User'', so_user o1)]) @
     [(''UserKnownHostsFile'', quote_config_value kh), (''StrictHostKeyChecking'', ''yes'')] @
     (if so_identity_file o1 = [] then []
      else [(''IdentityFile'', quote_config_value (so_identity_file o1))]) @
     [(''IdentitiesOnly'', ''yes'')] @
     (if 0 < so_alive_interval o1 then [(''ServerAliveInterval'', show_int (so_alive_interval o1))] else []) @
     (if 0 < so_alive_count_max o1 then [(''ServerAliveCountMax'', show_int (so_alive_count_max o1))] else []) @
     [(''TCPKeepAlive'', if so_tcp_keep_alive o1 then ''yes'' else ''no'')]"

definition one_line :: "session_options \<Rightarrow> string \<Rightarrow> bool" where
  "one_line o1 kh \<longleftrightarrow>
     nl \<notin> set (so_alias o1) \<and> nl \<notin> set (so_local_host o1) \<and> nl \<notin> set (so_user o1) \<and>
     nl \<notin> set (so_identity_file o1) \<and> nl \<notin> set kh"

definition directive_line :: "string \<times> string \<Rightarrow> string" where
  "directive_line d = (if fst d = ''Host'' then [] else ''  '') @ fst d @ '' '' @ snd d"

lemma config_lines_eq: "config_lines o1 kh = map directive_line (config_directives o1 kh)"
  by (simp add: config_lines_def config_directives_def directive_line_def numeral_3_eq_3)

lemma parse_directive_line:
  assumes "k \<noteq> []" and "CHR '' '' \<notin> set k"
  shows "parse_line (directive_line (k, v)) = Some (k, v)"
proof -
  have "trim_left (directive_line (k, v)) '' '' = k @ CHR '' '' # v"
    using assms by (cases k) (auto simp: directive_line_def trim_left_def)
  then show ?thesis using assms by (simp add: parse_line_def str_cut_Some)
qed

lemma config_directives_keys:
  "d \<in> set (config_directives o1 kh) \<Longrightarrow> fst d \<noteq> [] \<and> CHR '' '' \<notin> set (fst d) \<and> nl \<notin> set (fst d)"
  by (auto simp: config_directives_def split: if_splits)

lemma config_directives_values:
  "one_line o1 kh \<Longrightarrow> d \<in> set (config_directives o1 kh) \<Longrightarrow> nl \<notin> set (snd d)"
  by (auto simp: config_directives_def one_line_def split: if_splits)

lemma config_lines_one_line:
  assumes "one_line o1 kh" and "l \<in> set (config_lines o1 kh)"
  shows "nl \<notin> set l"
proof -
  obtain d where d: "d \<in> set (config_directives o1 kh)" and l: "l = directive_line d"
    using assms(2) by (auto simp: config_lines_eq)
  with assms(1) have "nl \<notin> set (fst d)" and "nl \<notin> set (snd d)"
    using config_directives_keys config_directives_values by blast+
  then show ?thesis by (auto simp: l directive_line_def split: if_splits)
qed

lemma config_lines_ne [simp]: "config_lines o1 kh \<noteq> []"
  by (simp add: config_lines_eq config_directives_def)

lemma split_render:
  "one_line o1 kh \<Longrightarrow> str_split nl (render_config o1 kh) = config_lines o1 kh @ [[]]"
  unfolding render_config_def
  by (simp add: str_split_append str_split_join config_lines_one_line)

lemma map_filter_inverse:
  "(\<And>x. x \<in> set xs \<Longrightarrow> f (g x) = Some x) \<Longrightarrow> List.map_filter f (map g xs) = xs"
  by (induction xs) (simp_all add: List.map_filter_simps)

lemma directives_render:
  assumes "one_line o1 kh"
  shows "directives (render_config o1 kh) = config_directives o1 kh"
proof -
  have "List.map_filter parse_line (config_lines o1 kh) = config_directives o1 kh"
    unfolding config_lines_eq
    by (rule map_filter_inverse) (metis config_directives_keys parse_directive_line prod.collapse)
  then show ?thesis
    by (simp add: directives_def split_render assms List.map_filter_def
        parse_line_def trim_left_def)
qed

section \<open>Removing files\<close>

lemma remove_if_exists_ok: "remove_if_exists p f as w = (Inr (), w') \<Longrightarrow> lookup_node w' p = None"
proof (cases "os_remove p w")
  case (Pair r w1)
  assume ok: "remove_if_exists p f as w = (Inr (), w')"
  show ?thesis
  proof (cases r)
    case (Inl e)
    with ok Pair have "is_not_exist e" and "w' = w1"
      by (simp_all add: remove_if_exists_def io_case_def split: if_splits)
    with Pair Inl show ?thesis using remove_missing [of p w e w1] by simp
  next
    case (Inr u)
    with ok Pair show ?thesis
      by (auto simp: remove_if_exists_def io_case_def dest: remove_ok)
  qed
qed

lemma snd_remove_if_exists: "snd (remove_if_exists p f as w) = snd (os_remove p w)"
  by (cases "os_remove p w"; cases "fst (os_remove p w)") (simp_all add: remove_if_exists_def io_case_def)

lemma remove_if_exists_leaves [frame]:
  "leaves fixed_part (remove_if_exists p f as)"
  "path_clean p \<noteq> path_clean q \<Longrightarrow> leaves (\<lambda>w. lookup_node w q) (remove_if_exists p f as)"
  "path_clean p \<noteq> path_clean q \<Longrightarrow> leaves (\<lambda>w. file_at w q) (remove_if_exists p f as)"
  unfolding remove_if_exists_def by (intro frame; assumption?)+

lemma remove_if_exists_absent:
  "calm w \<Longrightarrow> lookup_node w p = None \<Longrightarrow> remove_if_exists p f as w = (Inr (), bump w)"
  by (simp add: remove_if_exists_def io_case_def os_remove_def)

lemma remove_if_exists_calm:
  "calm w \<Longrightarrow> file_at w p = Some c \<Longrightarrow> remove_if_exists p f as w = (Inr (), bump (put_node w p None))"
  by (simp add: remove_if_exists_def io_case_def remove_calm)

lemma cleanup_paths_absent: "lookup_node w q = None \<Longrightarrow> lookup_node (snd (cleanup_paths ps w)) q = None"
proof (induction ps arbitrary: w)
  case (Cons p ps)
  have "lookup_node (snd (remove_if_exists p ''remove %s: %w'' [p] w)) q = None"
    unfolding snd_remove_if_exists using Cons.prems by (rule remove_keeps_absent)
  with Cons show ?case
    by (auto simp: io_bind_def split: prod.splits sum.splits)
qed simp

lemma cleanup_paths_ok:
  "cleanup_paths ps w = (Inr (), w') \<Longrightarrow> p \<in> set ps \<Longrightarrow> p \<noteq> [] \<Longrightarrow> lookup_node w' p = None"
proof (induction ps arbitrary: w)
  case (Cons q ps)
  show ?case
  proof (cases "q = []")
    case True
    with Cons show ?thesis by auto
  next
    case False
    then obtain w1 where rm: "remove_if_exists q ''remove %s: %w'' [q] w = (Inr (), w1)"
      and rest: "cleanup_paths ps w1 = (Inr (), w')"
      using Cons.prems(1) by (auto simp: io_bind_eq_Inr)
    show ?thesis
    proof (cases "p \<in> set ps")
      case True
      with rest Cons.IH Cons.prems(3) show ?thesis by blast
    next
      case False
      with Cons.prems(2) have "p = q" by simp
      with rm have "lookup_node w1 p = None" by (simp add: remove_if_exists_ok)
      then show ?thesis using cleanup_paths_absent [of w1 p ps] rest by simp
    qed
  qed
qed simp

lemma cleanup_paths_leaves [frame]:
  "leaves fixed_part (cleanup_paths ps)"
  "\<forall>p \<in> set ps. p = [] \<or> path_clean p \<noteq> path_clean q \<Longrightarrow> leaves (\<lambda>w. lookup_node w q) (cleanup_paths ps)"
  by (induction ps) (auto intro!: frame)

lemma ssh_cleanup_leaves [frame]:
  "leaves fixed_part (ssh_cleanup files)"
  "sf_config_path files = [] \<or> path_clean (sf_config_path files) \<noteq> path_clean q \<Longrightarrow>
   sf_known_hosts_path files = [] \<or> path_clean (sf_known_hosts_path files) \<noteq> path_clean q \<Longrightarrow>
   leaves (\<lambda>w. lookup_node w q) (ssh_cleanup files)"
  unfolding ssh_cleanup_def by (rule frame; simp)+

section \<open>Writing files\<close>

lemma plain_names [simp]:
  "plain_name ''ssh_config''" "plain_name ''known_hosts''"
  by (simp_all add: plain_name_def)

lemma write_restricted_ok:
  "write_restricted p d w = (Inr (), w') \<Longrightarrow>
   file_at w' p = Some d \<and> mode_at w' p = Some file_mode"
  by (auto simp: write_restricted_def io_bind_eq_Inr dest!: write_file_ok dest: chmod_ok)

lemma write_restricted_leaves [frame]:
  "leaves fixed_part (write_restricted p d)"
  "path_clean p \<noteq> path_clean q \<Longrightarrow> leaves (\<lambda>w. lookup_node w q) (write_restricted p d)"
  unfolding write_restricted_def by (intro frame; assumption)+

lemma session_files_paths:
  "path_clean (sf_config_path (session_files_in d)) = sf_config_path (session_files_in d)"
  "path_clean (sf_known_hosts_path (session_files_in d)) = sf_known_hosts_path (session_files_in d)"
  "sf_config_path (session_files_in d) \<noteq> sf_known_hosts_path (session_files_in d)"
  "sf_config_path (session_files_in d) \<noteq> []" "sf_known_hosts_path (session_files_in d) \<noteq> []"
  by (simp_all add: session_files_in_def path_join_inject)

lemma write_session_files_steps:
  assumes "write_session_files o1 w = (Inr files, w')"
  obtains w1 w2 where "files = session_files_in (so_dir o1)"
    and "validate_session o1 = Inr ()"
    and "os_mkdir_all (so_dir o1) dir_mode w = (Inr (), w1)"
    and "write_restricted (sf_known_hosts_path files) (known_hosts_line o1) w1 = (Inr (), w2)"
    and "write_restricted (sf_config_path files) (render_config o1 (sf_known_hosts_path files)) w2
           = (Inr (), w')"
  using assms by (auto simp: write_session_files_def io_bind_eq_Inr Let_def)

lemma write_session_files_leaves [frame]:
  "leaves fixed_part (write_session_files o1)"
  unfolding write_session_files_def Let_def by (intro frame)

lemma write_session_files_frame:
  assumes "q \<noteq> sf_config_path (session_files_in (so_dir o1))"
    and "q \<noteq> sf_known_hosts_path (session_files_in (so_dir o1))" and "path_clean q = q"
  shows "leaves (\<lambda>w. file_at w q) (write_session_files o1)"
  unfolding write_session_files_def Let_def
  using assms by (intro frame leaves_file_at write_restricted_leaves) (auto simp: session_files_paths)

section \<open>Properties\<close>

definition demo_options :: session_options where
  "demo_options =
     \<lparr>so_dir = ''/s/ssh'', so_alias = ''dev01'', so_user = ''dev'', so_identity_file = ''/k'',
      so_local_host = ''127.0.0.1'', so_local_port = 55221, so_host_key = ''ssh-ed25519 AAAA'',
      so_alive_interval = 30, so_alive_count_max = 3, so_tcp_keep_alive = True\<rparr>"

definition empty_world :: world where
  "empty_world =
     \<lparr>w_nodes = (\<lambda>_. None), w_umask = 18, w_fault = (\<lambda>_ _ _. False), w_short = (\<lambda>_. 0),
      w_clock = 0, w_procs = []\<rparr>"

lemma calm_empty_world [simp]: "calm empty_world"
  by (simp add: calm_def empty_world_def)

lemma one_line_demo: "one_line demo_options ''/s/ssh/known_hosts''"
  by (simp add: one_line_def demo_options_def)

lemma ssh_lookup_render:
  "one_line o1 kh \<Longrightarrow> ssh_lookup k (render_config o1 kh) = map_of (config_directives o1 kh) k"
  by (simp add: ssh_lookup_def directives_render)

text \<open>
  C13: read back by the rules of OpenSSH, a rendered configuration enforces the pinned host
  key for every choice of options whose fields are single lines: the host is the loopback
  endpoint of the tunnel, \<open>StrictHostKeyChecking\<close> is \<open>yes\<close>, \<open>IdentitiesOnly\<close> is \<open>yes\<close>,
  and the \<open>UserKnownHostsFile\<close> value, unquoted, is the path of the session's known_hosts
  file, whatever characters that path contains.
\<close>

theorem render_config_pins_host_key:
  assumes "one_line o1 kh"
  shows "ssh_lookup ''StrictHostKeyChecking'' (render_config o1 kh) = Some ''yes''
       \<and> ssh_lookup ''IdentitiesOnly'' (render_config o1 kh) = Some ''yes''
       \<and> ssh_lookup ''HostName'' (render_config o1 kh) = Some (so_local_host o1)
       \<and> ssh_lookup ''Port'' (render_config o1 kh) = Some (show_int (so_local_port o1))
       \<and> Option.bind (ssh_lookup ''UserKnownHostsFile'' (render_config o1 kh)) unquote_value = Some kh
       \<and> ssh_lookup ''User'' (render_config o1 kh) = (if so_user o1 = [] then None else Some (so_user o1))"
  unfolding ssh_lookup_render [OF assms]
  by (simp add: config_directives_def unquote_value_def quote_config_value_def Let_def unquote_quoted)

theorem render_config_pins_host_key_witness:
  "one_line demo_options ''/s/ssh/known_hosts''
   \<and> ssh_lookup ''StrictHostKeyChecking'' (render_config demo_options ''/s/ssh/known_hosts'') = Some ''yes''"
  using render_config_pins_host_key [OF one_line_demo] one_line_demo by blast

text \<open>
  The session options are not checked for line breaks. There are options that pass
  \<open>validate\<close> whose rendered configuration, read back by the rules of OpenSSH, turns host key
  checking off: a line break in the user name starts a line of its own, ahead of the
  generated \<open>StrictHostKeyChecking yes\<close>, and the first value of a keyword counts.
\<close>

lemma session_options_admit_injection:
  "\<exists>o1. validate_session o1 = Inr ()
      \<and> ssh_lookup ''StrictHostKeyChecking'' (render_config o1 ''/s/ssh/known_hosts'') = Some ''no''"
proof -
  let ?o = "demo_options\<lparr>so_user := ''dev'' @ [nl] @ ''  StrictHostKeyChecking no''\<rparr>"
  have "validate_session ?o = Inr ()"
    by code_simp
  moreover have "ssh_lookup ''StrictHostKeyChecking'' (render_config ?o ''/s/ssh/known_hosts'') = Some ''no''"
    by code_simp
  ultimately show ?thesis by blast
qed

lemma write_session_files_files:
  assumes "write_session_files o1 w = (Inr files, w')"
  shows "files = session_files_in (so_dir o1)
       \<and> file_at w' (sf_known_hosts_path files) = Some (known_hosts_line o1)
       \<and> file_at w' (sf_config_path files) = Some (render_config o1 (sf_known_hosts_path files))
       \<and> mode_at w' (sf_known_hosts_path files) = Some file_mode
       \<and> mode_at w' (sf_config_path files) = Some file_mode
       \<and> (\<forall>q. path_clean q \<noteq> sf_config_path files \<and> path_clean q \<noteq> sf_known_hosts_path files
              \<longrightarrow> file_at w' (path_clean q) = file_at w (path_clean q))"
proof -
  obtain w1 w2 where files: "files = session_files_in (so_dir o1)"
    and kh: "write_restricted (sf_known_hosts_path files) (known_hosts_line o1) w1 = (Inr (), w2)"
    and cfg: "write_restricted (sf_config_path files) (render_config o1 (sf_known_hosts_path files)) w2
           = (Inr (), w')"
    using assms by (rule write_session_files_steps)
  have "leaves (\<lambda>w. lookup_node w (sf_known_hosts_path files))
          (write_restricted (sf_config_path files) (render_config o1 (sf_known_hosts_path files)))"
    by (rule frame) (simp add: files session_files_paths)
  then have "lookup_node w' (sf_known_hosts_path files) = lookup_node w2 (sf_known_hosts_path files)"
    using cfg by (rule leaves_result)
  then have "file_at w' (sf_known_hosts_path files) = Some (known_hosts_line o1)"
    and "mode_at w' (sf_known_hosts_path files) = Some file_mode"
    using write_restricted_ok [OF kh] by (simp_all add: file_at_def mode_at_def)
  moreover have "file_at w' (path_clean q) = file_at w (path_clean q)"
    if "path_clean q \<noteq> sf_config_path files" "path_clean q \<noteq> sf_known_hosts_path files" for q
    using that by (intro leaves_result [OF write_session_files_frame assms]) (simp_all add: files)
  ultimately show ?thesis using files write_restricted_ok [OF cfg] by blast
qed

text \<open>
  When \<open>WriteSessionFiles\<close> returns without error, the known_hosts file holds exactly the
  pinned key of the tunnel endpoint, the configuration file holds exactly the rendered
  configuration that points to it, and both files have mode 0600, also where they existed
  before with another mode. Every other file is untouched.
\<close>

lemma write_session_files_correct:
  assumes "write_session_files o1 w = (Inr files, w')"
  shows "files = session_files_in (so_dir o1)
       \<and> file_at w' (sf_known_hosts_path files) = Some (known_hosts_line o1)
       \<and> file_at w' (sf_config_path files) = Some (render_config o1 (sf_known_hosts_path files))
       \<and> mode_at w' (sf_known_hosts_path files) = Some file_mode
       \<and> mode_at w' (sf_config_path files) = Some file_mode
       \<and> (\<forall>q. path_clean q \<noteq> sf_config_path files \<and> path_clean q \<noteq> sf_known_hosts_path files
              \<longrightarrow> file_at w' (path_clean q) = file_at w (path_clean q))"
  using write_session_files_files [OF assms] .

theorem write_session_files_correct_witness:
  "file_at (snd (write_session_files demo_options empty_world)) ''/s/ssh/known_hosts''
     = Some (''[127.0.0.1]:55221 ssh-ed25519 AAAA'' @ [nl])
   \<and> mode_at (snd (write_session_files demo_options empty_world)) ''/s/ssh/ssh_config'' = Some 384"
proof -
  have ok: "fst (write_session_files demo_options empty_world) = Inr (session_files_in ''/s/ssh'')"
    by code_simp
  have paths: "session_files_in ''/s/ssh'' =
      \<lparr>sf_config_path = ''/s/ssh/ssh_config'', sf_known_hosts_path = ''/s/ssh/known_hosts''\<rparr>"
    by code_simp
  have line: "known_hosts_line demo_options = ''[127.0.0.1]:55221 ssh-ed25519 AAAA'' @ [nl]"
    by code_simp
  show ?thesis
    using write_session_files_correct [OF prod_eqI [of _ "(Inr (session_files_in ''/s/ssh''), _)"]] ok
    by (simp add: paths line file_mode_def)
qed

text \<open>
  Writing the files of a session and cleaning them up again, with no error reported,
  leaves neither of the two files behind and no other file changed.
\<close>

lemma session_files_lifecycle:
  assumes wr: "write_session_files o1 w = (Inr files, w1)" and cl: "ssh_cleanup files w1 = (Inr (), w2)"
  shows "lookup_node w2 (sf_config_path files) = None
       \<and> lookup_node w2 (sf_known_hosts_path files) = None
       \<and> (\<forall>q. path_clean q \<noteq> sf_config_path files \<and> path_clean q \<noteq> sf_known_hosts_path files
              \<longrightarrow> file_at w2 (path_clean q) = file_at w (path_clean q))"
proof -
  obtain u1 u2 where files: "files = session_files_in (so_dir o1)"
    using wr by (rule write_session_files_steps)
  note gone = cleanup_paths_ok [OF cl [unfolded ssh_cleanup_def]]
  have "file_at w2 (path_clean q) = file_at w (path_clean q)"
    if "path_clean q \<noteq> sf_config_path files" "path_clean q \<noteq> sf_known_hosts_path files" for q
  proof -
    have "file_at w2 (path_clean q) = file_at w1 (path_clean q)"
      using that by (intro leaves_result [OF leaves_file_at [OF ssh_cleanup_leaves(2)] cl])
        (auto simp: files session_files_paths)
    also have "\<dots> = file_at w (path_clean q)"
      using that by (intro leaves_result [OF write_session_files_frame wr]) (simp_all add: files)
    finally show ?thesis .
  qed
  with gone show ?thesis by (simp add: files session_files_paths)
qed

theorem session_files_lifecycle_witness:
  "let w1 = snd (write_session_files demo_options empty_world);
       w2 = snd (ssh_cleanup (session_files_in ''/s/ssh'') w1)
   in file_at w1 ''/s/ssh/ssh_config'' \<noteq> None \<and> lookup_node w2 ''/s/ssh/ssh_config'' = None"
proof -
  let ?w1 = "snd (write_session_files demo_options empty_world)"
  have "fst (write_session_files demo_options empty_world) = Inr (session_files_in ''/s/ssh'')"
    by code_simp
  then have wr: "write_session_files demo_options empty_world = (Inr (session_files_in ''/s/ssh''), ?w1)"
    by (simp add: prod_eq_iff)
  have "fst (ssh_cleanup (session_files_in ''/s/ssh'') ?w1) = Inr ()"
    by code_simp
  then have cl: "ssh_cleanup (session_files_in ''/s/ssh'') ?w1
      = (Inr (), snd (ssh_cleanup (session_files_in ''/s/ssh'') ?w1))"
    by (simp add: prod_eq_iff)
  have path: "sf_config_path (session_files_in ''/s/ssh'') = ''/s/ssh/ssh_config''"
    by code_simp
  have "file_at ?w1 ''/s/ssh/ssh_config'' \<noteq> None"
    by code_simp
  with session_files_lifecycle [OF wr cl] path show ?thesis by (simp add: Let_def)
qed

end
