(* ===== verification/User_Config.thy ===== *)
theory User_Config
  imports Ssh_Config
begin

text \<open>
  \<open>internal/sshconfig/userconfig.go\<close>: the managed block that \<open>dev-connect\<close> keeps at the top
  of the user's own OpenSSH configuration, between a begin and an end marker that carry the
  alias of the target.
\<close>

section \<open>Options and markers\<close>

record user_config_options =
  uc_config_path :: string
  uc_alias :: string
  uc_user :: string
  uc_identity_file :: string
  uc_local_host :: string
  uc_local_port :: int
  uc_known_hosts_path :: string
  uc_alive_interval :: int
  uc_alive_count_max :: int
  uc_tcp_keep_alive :: bool

definition default_user_config_path_for :: "string \<Rightarrow> string \<Rightarrow> string \<Rightarrow> string result" where
  "default_user_config_path_for goos home user_profile =
     (let base = (if goos = ''windows'' then (if user_profile = [] then home else user_profile) else home)
      in if base = [] then Inl (Err ''home directory is required for SSH config path'' [])
         else if goos \<noteq> ''windows'' then Inr (trim_right base ''/'' @ ''/.ssh/config'')
         else Inr (path_join [base, ''.ssh'', ''config'']))"

definition validate_user_config :: "user_config_options \<Rightarrow> unit result" where
  "validate_user_config o1 =
     (if uc_config_path o1 = [] then Inl (Err ''user SSH config path is required'' [])
      else if uc_alias o1 = [] then Inl (Err ''SSH alias is required'' [])
      else if contains_any (uc_alias o1) [CHR 0x0D, CHR 0x0A]
        then Inl (Err ''SSH alias must not contain newlines'' [])
      else if uc_local_host o1 = [] then Inl (Err ''local host is required'' [])
      else if uc_local_port o1 \<le> 0 then Inl (Err ''invalid local port %d'' [show_int (uc_local_port o1)])
      else if uc_known_hosts_path o1 = [] then Inl (Err ''known_hosts path is required'' [])
      else Inr ())"

definition begin_marker :: "string \<Rightarrow> string" where
  "begin_marker alias = ''# BEGIN dev-connect '' @ alias"

definition end_marker :: "string \<Rightarrow> string" where
  "end_marker alias = ''# END dev-connect '' @ alias"

definition line_breaks :: string where
  "line_breaks = [CHR 0x0D, CHR 0x0A]"

section \<open>The block\<close>

definition block_options :: "user_config_options \<Rightarrow> session_options" where
  "block_options o1 =
     \<lparr>so_dir = [], so_alias = uc_alias o1, so_user = uc_user o1, so_identity_file = uc_identity_file o1,
      so_local_host = uc_local_host o1, so_local_port = uc_local_port o1, so_host_key = [],
      so_alive_interval = uc_alive_interval o1, so_alive_count_max = uc_alive_count_max o1,
      so_tcp_keep_alive = uc_tcp_keep_alive o1\<rparr>"

definition render_managed_block :: "user_config_options \<Rightarrow> string" where
  "render_managed_block o1 =
     begin_marker (uc_alias o1) @ [nl] @ render_config (block_options o1) (uc_known_hosts_path o1) @
     end_marker (uc_alias o1) @ [nl]"

definition prepend_managed_block :: "string \<Rightarrow> string \<Rightarrow> string" where
  "prepend_managed_block content block =
     (let content = trim_left content line_breaks
      in if content = [] then block else block @ [nl] @ content)"

lemma length_trim_left: "length (trim_left s cs) \<le> length s"
  by (simp add: trim_left_def length_dropWhile_le)

text \<open>
  The loop of \<open>removeManagedBlock\<close>: it stops where no begin marker is left, or where the
  first one has no end marker after it; each round cuts out the text from the begin marker
  to the end marker and the line breaks that follow.
\<close>

function remove_managed_block :: "string \<Rightarrow> string \<Rightarrow> string" where
  "remove_managed_block content alias =
     (case str_index content (begin_marker alias) of
        None \<Rightarrow> trim_left content line_breaks
      | Some start \<Rightarrow>
          (case str_index (drop start content) (end_marker alias) of
             None \<Rightarrow> content
           | Some stop \<Rightarrow>
               remove_managed_block
                 (take start content @
                  trim_left (drop (start + stop + length (end_marker alias)) content) line_breaks)
                 alias))"
  by pat_completeness auto

termination
proof (relation "measure (\<lambda>(content, alias). length content)", simp)
  fix content al :: string and start stop :: nat
  assume "str_index content (begin_marker al) = Some start"
    and "str_index (drop start content) (end_marker al) = Some stop"
  then have "start + stop + length (end_marker al) \<le> length content"
    by (auto dest!: str_index_bound)
  moreover have "0 < length (end_marker al)" by (simp add: end_marker_def)
  ultimately have "length (take start content) + length (drop (start + stop + length (end_marker al)) content)
      < length content"
    by (simp only: length_take length_drop)
  then show "((take start content @
        trim_left (drop (start + stop + length (end_marker al)) content) line_breaks, al), content, al)
      \<in> measure (\<lambda>(content, al). length content)"
    using length_trim_left [of "drop (start + stop + length (end_marker al)) content" line_breaks]
    by simp
qed

declare remove_managed_block.simps [simp del]

section \<open>The file\<close>

definition read_optional :: "string \<Rightarrow> (string, world) io" where
  "read_optional p =
     io_case (os_read_file p)
       (\<lambda>e. if is_not_exist e then io_return []
            else io_fail (Wrap ''read user SSH config: %w'' [] e))
       io_return"

definition write_user_config :: "string \<Rightarrow> string \<Rightarrow> (unit, world) io" where
  "write_user_config p content =
     io_bind (io_wrap ''create user SSH config directory: %w'' [] (os_mkdir_all (path_dir p) dir_mode)) (\<lambda>_.
     io_bind (io_wrap ''write user SSH config: %w'' [] (os_write_file p content file_mode)) (\<lambda>_.
     os_chmod p file_mode))"

definition upsert_managed_block :: "user_config_options \<Rightarrow> (unit, world) io" where
  "upsert_managed_block o1 =
     io_bind (io_lift (validate_user_config o1)) (\<lambda>_.
     io_bind (read_optional (uc_config_path o1)) (\<lambda>content.
     write_user_config (uc_config_path o1)
       (prepend_managed_block (remove_managed_block content (uc_alias o1)) (render_managed_block o1))))"

definition remove_managed_block_file :: "string \<Rightarrow> string \<Rightarrow> (unit, world) io" where
  "remove_managed_block_file config_path alias =
     (if config_path = [] \<or> alias = [] then io_return ()
      else io_bind (read_optional config_path) (\<lambda>content.
           let updated = remove_managed_block content alias
           in if updated = content then io_return ()
              else write_user_config config_path updated))"

section \<open>What a removal leaves\<close>

lemma remove_no_marker:
  "str_index c (begin_marker a) = None \<Longrightarrow> remove_managed_block c a = trim_left c line_breaks"
  by (simp add: remove_managed_block.simps)

lemma remove_empty [simp]: "remove_managed_block [] a = []"
  by (simp add: remove_no_marker begin_marker_def)

lemma trim_left_suffix: "\<exists>b. s = b @ trim_left s cs"
  unfolding trim_left_def by (metis takeWhile_dropWhile_id)

lemma no_marker_trim: "str_index c m = None \<Longrightarrow> str_index (trim_left c cs) m = None"
  by (metis str_contains_append2 str_contains_def trim_left_suffix)

text \<open>
  The result has no complete block: no begin marker, or a first begin marker with no end
  marker after it.
\<close>

definition no_block :: "string \<Rightarrow> string \<Rightarrow> bool" where
  "no_block a c \<longleftrightarrow>
     (case str_index c (begin_marker a) of
        None \<Rightarrow> trim_left c line_breaks = c
      | Some s \<Rightarrow> str_index (drop s c) (end_marker a) = None)"

lemma remove_no_block: "no_block a (remove_managed_block c a)"
proof (induction c a rule: remove_managed_block.induct)
  case (1 content al)
  show ?case
  proof (cases "str_index content (begin_marker al)")
    case None
    then show ?thesis by (simp add: remove_no_marker no_block_def no_marker_trim)
  next
    case start: (Some start)
    show ?thesis
    proof (cases "str_index (drop start content) (end_marker al)")
      case None
      with start show ?thesis by (simp add: remove_managed_block.simps no_block_def)
    next
      case (Some stop)
      with start "1.IH" show ?thesis
        by (subst remove_managed_block.simps) simp
    qed
  qed
qed

lemma remove_of_no_block: "no_block a c \<Longrightarrow> remove_managed_block c a = c"
  by (subst remove_managed_block.simps) (simp add: no_block_def split: option.splits)

section \<open>A block is removed as a whole\<close>

text \<open>Fields without a hash sign cannot contain a marker.\<close>

definition hash_free :: "user_config_options \<Rightarrow> bool" where
  "hash_free o1 \<longleftrightarrow>
     CHR ''#'' \<notin> set (uc_alias o1) \<and> CHR ''#'' \<notin> set (uc_user o1) \<and>
     CHR ''#'' \<notin> set (uc_identity_file o1) \<and> CHR ''#'' \<notin> set (uc_local_host o1) \<and>
     CHR ''#'' \<notin> set (uc_known_hosts_path o1)"

lemma hash_not_in_int [simp]: "CHR ''#'' \<notin> set (show_int i)"
  by (rule show_int_avoids) (simp_all add: digit_chars_def)

lemma hash_quote [simp]: "CHR ''#'' \<in> set (quote_config_value v) \<longleftrightarrow> CHR ''#'' \<in> set v"
proof -
  have "CHR ''#'' \<in> set (replace_char c [CHR 0x5C, d] s) \<longleftrightarrow> CHR ''#'' \<in> set s"
    if "CHR ''#'' \<noteq> c" "CHR ''#'' \<noteq> d" for c d s
    using that by (induction s) (auto simp: replace_char_Cons)
  then show ?thesis by (simp add: quote_config_value_def)
qed

lemma hash_not_in_render:
  assumes "hash_free o1"
  shows "CHR ''#'' \<notin> set (render_config (block_options o1) (uc_known_hosts_path o1))"
proof -
  have "CHR ''#'' \<notin> set l" if "l \<in> set (config_lines (block_options o1) (uc_known_hosts_path o1))" for l
    using that assms
    by (auto simp: config_lines_eq config_directives_def directive_line_def block_options_def
        hash_free_def split: if_splits)
  then have "CHR ''#'' \<notin> set (str_join [nl] (config_lines (block_options o1) (uc_known_hosts_path o1)))"
    using set_str_join [of "[nl]" "config_lines (block_options o1) (uc_known_hosts_path o1)"] by auto
  then show ?thesis by (simp add: render_config_def)
qed

text \<open>
  Where the marker search of alias \<open>a\<close> finds the end of a block rendered for alias \<open>a @ s\<close>.
\<close>

definition block_body :: "user_config_options \<Rightarrow> string" where
  "block_body o1 =
     begin_marker (uc_alias o1) @ [nl] @ render_config (block_options o1) (uc_known_hosts_path o1)"

lemma render_managed_block_eq:
  "render_managed_block o1 = block_body o1 @ end_marker (uc_alias o1) @ [nl]"
  by (simp add: render_managed_block_def block_body_def)

lemma block_end_index:
  assumes hf: "hash_free o1" and al: "uc_alias o1 = a @ s"
  shows "str_index (block_body o1 @ end_marker (a @ s) @ rest) (end_marker a) = Some (length (block_body o1))"
proof -
  let ?m = "'' END dev-connect '' @ a"
  let ?t = "'' BEGIN dev-connect '' @ uc_alias o1 @ [nl] @ render_config (block_options o1) (uc_known_hosts_path o1)"
  have em: "end_marker a = CHR ''#'' # ?m" by (simp add: end_marker_def)
  have body: "block_body o1 = CHR ''#'' # ?t" by (simp add: block_body_def begin_marker_def)
  have hash: "CHR ''#'' \<notin> set ?t"
    using hf hash_not_in_render [OF hf] by (auto simp: hash_free_def)
  have hit: "str_index (end_marker (a @ s) @ rest) (CHR ''#'' # ?m) = Some 0"
    by (rule str_index_prefix) (simp add: end_marker_def)
  have "\<not> prefix (CHR ''#'' # ?m) (CHR ''#'' # ?t @ end_marker (a @ s) @ rest)" by simp
  then have "str_index (block_body o1 @ end_marker (a @ s) @ rest) (CHR ''#'' # ?m)
      = map_option Suc (str_index (?t @ end_marker (a @ s) @ rest) (CHR ''#'' # ?m))"
    by (simp add: body)
  also have "\<dots> = Some (length (block_body o1))"
    unfolding str_index_skip [OF hash] hit by (simp add: body)
  finally show ?thesis by (simp add: em)
qed

lemma block_begin_index:
  "uc_alias o1 = a @ s \<Longrightarrow> str_index (block_body o1 @ rest) (begin_marker a) = Some 0"
  by (rule str_index_prefix) (simp add: block_body_def begin_marker_def)

text \<open>The search for alias \<open>a\<close> cuts the block of alias \<open>a @ s\<close> short by \<open>s\<close>.\<close>

lemma remove_block_prefix_alias:
  assumes "hash_free o1" and "uc_alias o1 = a @ s"
  shows "remove_managed_block (render_managed_block o1 @ rest) a
       = remove_managed_block (trim_left (s @ [nl] @ rest) line_breaks) a"
proof -
  have shape: "render_managed_block o1 @ rest = block_body o1 @ end_marker (a @ s) @ [nl] @ rest"
    using assms(2) by (simp add: render_managed_block_eq)
  have "end_marker (a @ s) = end_marker a @ s" by (simp add: end_marker_def)
  then have "drop (length (block_body o1) + length (end_marker a)) (block_body o1 @ end_marker (a @ s) @ [nl] @ rest)
      = s @ [nl] @ rest"
    by simp
  then show ?thesis
    unfolding shape
    using block_begin_index [OF assms(2), of "end_marker (a @ s) @ [nl] @ rest"]
      block_end_index [OF assms, of "[nl] @ rest"]
    by (subst remove_managed_block.simps) simp
qed

lemma remove_own_block:
  assumes "hash_free o1"
  shows "remove_managed_block (render_managed_block o1 @ rest) (uc_alias o1)
       = remove_managed_block (trim_left rest line_breaks) (uc_alias o1)"
  using remove_block_prefix_alias [OF assms, of "uc_alias o1" "[]" rest]
  by (simp add: trim_left_def line_breaks_def)

lemma remove_trimmed:
  assumes "no_block a c"
  shows "remove_managed_block (trim_left c line_breaks) a = trim_left c line_breaks"
proof (rule remove_of_no_block)
  let ?m = "'' BEGIN dev-connect '' @ a"
  obtain b where c: "c = b @ trim_left c line_breaks" and b: "set b \<subseteq> set line_breaks"
    unfolding trim_left_def by (metis set_takeWhileD subsetI takeWhile_dropWhile_id)
  have hash: "CHR ''#'' \<notin> set b" using b by (auto simp: line_breaks_def)
  have bm: "begin_marker a = CHR ''#'' # ?m" by (simp add: begin_marker_def)
  have idx: "str_index c (begin_marker a)
      = map_option ((+) (length b)) (str_index (trim_left c line_breaks) (begin_marker a))"
    unfolding bm using str_index_skip [OF hash, of "trim_left c line_breaks" ?m] c by simp
  have drops: "drop (length b + i) c = drop i (trim_left c line_breaks)" for i
    by (subst c) simp
  show "no_block a (trim_left c line_breaks)"
    using assms idx drops unfolding no_block_def by (auto split: option.splits)
qed

lemma remove_prepended:
  assumes hf: "hash_free o1" and nb: "no_block (uc_alias o1) c"
  shows "remove_managed_block (prepend_managed_block c (render_managed_block o1)) (uc_alias o1)
       = trim_left c line_breaks"
proof -
  let ?c = "trim_left c line_breaks"
  have keep: "remove_managed_block ?c (uc_alias o1) = ?c"
    using nb by (rule remove_trimmed)
  show ?thesis
  proof (cases "?c = []")
    case True
    then show ?thesis
      using remove_own_block [OF hf, of "[]"] by (simp add: prepend_managed_block_def)
  next
    case False
    have "trim_left ([nl] @ ?c) line_breaks = ?c"
      by (subst trim_left_append_all) (simp_all add: line_breaks_def)
    with False show ?thesis
      using remove_own_block [OF hf, of "[nl] @ ?c"] by (simp add: prepend_managed_block_def Let_def keep)
  qed
qed

text \<open>The block of an alias that the removed one is not a prefix of is not found.\<close>

lemma prefix_before_break: "prefix a (b @ c # r) \<Longrightarrow> c \<notin> set a \<Longrightarrow> prefix a b"
  by (auto simp: prefix_append prefix_Cons)

lemma other_block_not_found:
  assumes hf: "hash_free o1" and a: "nl \<notin> set a" "\<not> prefix a (uc_alias o1)"
  shows "str_index (render_managed_block o1) (begin_marker a) = None"
proof -
  let ?m = "'' BEGIN dev-connect '' @ a"
  let ?t = "'' BEGIN dev-connect '' @ uc_alias o1 @ [nl] @ render_config (block_options o1) (uc_known_hosts_path o1)"
  let ?u = "'' END dev-connect '' @ uc_alias o1 @ [nl]"
  have hash: "CHR ''#'' \<notin> set ?t" "CHR ''#'' \<notin> set ?u"
    using hf hash_not_in_render [OF hf] by (auto simp: hash_free_def)
  have block: "render_managed_block o1 = CHR ''#'' # ?t @ CHR ''#'' # ?u"
    by (simp add: render_managed_block_def begin_marker_def end_marker_def)
  have bm: "begin_marker a = CHR ''#'' # ?m" by (simp add: begin_marker_def)
  have "\<not> prefix (CHR ''#'' # ?m) (CHR ''#'' # ?t @ CHR ''#'' # ?u)"
    using a prefix_before_break [of a "uc_alias o1" nl] by auto
  then have "str_index (render_managed_block o1) (begin_marker a)
      = map_option Suc (str_index (?t @ CHR ''#'' # ?u) (CHR ''#'' # ?m))"
    by (simp add: block bm)
  also have "str_index (?t @ CHR ''#'' # ?u) (CHR ''#'' # ?m) = None"
    unfolding str_index_skip [OF hash(1)] using str_index_no_head [OF hash(2), of ?m] by simp
  finally show ?thesis by simp
qed

lemma trim_left_block [simp]: "trim_left (render_managed_block o1) line_breaks = render_managed_block o1"
  by (simp add: render_managed_block_def begin_marker_def line_breaks_def trim_left_Cons)

section \<open>The file operations\<close>

lemma read_optional_ok:
  assumes "read_optional p w = (Inr c, w')"
  shows "c = (case file_at w p of None \<Rightarrow> [] | Some d \<Rightarrow> d)" and "w' = bump w"
proof -
  have "c = (case file_at w p of None \<Rightarrow> [] | Some d \<Rightarrow> d) \<and> w' = bump w"
  proof (cases "os_read_file p w")
    case (Pair r w1)
    then have w1: "w1 = bump w" using snd_read_file [of p w] by simp
    show ?thesis
    proof (cases r)
      case (Inl e)
      with Pair assms have "is_not_exist e" and "c = []" and "w' = w1"
        by (simp_all add: read_optional_def io_case_def split: if_splits)
      from read_file_missing [OF Pair [unfolded Inl] this(1)] have "file_at w p = None" by simp
      with \<open>c = []\<close> \<open>w' = w1\<close> w1 show ?thesis by simp
    next
      case (Inr d)
      with Pair assms have "c = d" and "w' = w1"
        by (simp_all add: read_optional_def io_case_def)
      moreover from read_file_ok [OF Pair [unfolded Inr]] have "file_at w p = Some d" by blast
      ultimately show ?thesis using w1 by simp
    qed
  qed
  then show "c = (case file_at w p of None \<Rightarrow> [] | Some d \<Rightarrow> d)" and "w' = bump w" by simp_all
qed

lemma read_optional_leaves [frame]:
  "leaves fixed_part (read_optional p)" "leaves (\<lambda>w. lookup_node w q) (read_optional p)"
  "leaves (\<lambda>w. file_at w q) (read_optional p)"
  unfolding read_optional_def by (intro frame)+

lemma write_user_config_ok:
  "write_user_config p c w = (Inr (), w') \<Longrightarrow> file_at w' p = Some c \<and> mode_at w' p = Some file_mode"
  by (auto simp: write_user_config_def io_bind_eq_Inr dest!: write_file_ok dest: chmod_ok)

lemma write_user_config_leaves [frame]:
  "leaves fixed_part (write_user_config p c)"
  "path_clean p \<noteq> path_clean q \<Longrightarrow> leaves (\<lambda>w. file_at w q) (write_user_config p c)"
  unfolding write_user_config_def by (intro frame; assumption?)+

lemma upsert_leaves [frame]:
  "leaves fixed_part (upsert_managed_block o1)"
  "path_clean (uc_config_path o1) \<noteq> path_clean q \<Longrightarrow> leaves (\<lambda>w. file_at w q) (upsert_managed_block o1)"
  unfolding upsert_managed_block_def by (intro frame; assumption?)+

lemma remove_file_leaves [frame]:
  "leaves fixed_part (remove_managed_block_file p a)"
  "path_clean p \<noteq> path_clean q \<Longrightarrow> leaves (\<lambda>w. file_at w q) (remove_managed_block_file p a)"
  unfolding remove_managed_block_file_def Let_def by (intro frame; assumption?)+

text \<open>The text of the user's file; a missing file counts as empty.\<close>

definition config_text :: "world \<Rightarrow> string \<Rightarrow> string" where
  "config_text w p = (case file_at w p of None \<Rightarrow> [] | Some c \<Rightarrow> c)"

lemma config_text_bump [simp]: "config_text (bump w) p = config_text w p"
  by (simp add: config_text_def)

lemma upsert_ok:
  assumes "upsert_managed_block o1 w = (Inr (), w')"
  shows "validate_user_config o1 = Inr ()"
    and "file_at w' (uc_config_path o1) = Some (prepend_managed_block
           (remove_managed_block (config_text w (uc_config_path o1)) (uc_alias o1)) (render_managed_block o1))"
    and "mode_at w' (uc_config_path o1) = Some file_mode"
proof -
  obtain c w1 where v: "validate_user_config o1 = Inr ()"
    and rd: "read_optional (uc_config_path o1) w = (Inr c, w1)"
    and wr: "write_user_config (uc_config_path o1)
       (prepend_managed_block (remove_managed_block c (uc_alias o1)) (render_managed_block o1)) w1 = (Inr (), w')"
    using assms by (auto simp: upsert_managed_block_def io_bind_eq_Inr)
  from rd have "c = config_text w (uc_config_path o1)"
    by (simp add: read_optional_ok config_text_def)
  with v write_user_config_ok [OF wr]
  show "validate_user_config o1 = Inr ()"
    and "file_at w' (uc_config_path o1) = Some (prepend_managed_block
           (remove_managed_block (config_text w (uc_config_path o1)) (uc_alias o1)) (render_managed_block o1))"
    and "mode_at w' (uc_config_path o1) = Some file_mode"
    by simp_all
qed

lemma remove_file_ok:
  assumes ok: "remove_managed_block_file p a w = (Inr (), w')" and "p \<noteq> []" and "a \<noteq> []"
  shows "config_text w' p = remove_managed_block (config_text w p) a"
proof -
  obtain c w1 where rd: "read_optional p w = (Inr c, w1)"
    and upd: "(if remove_managed_block c a = c then io_return ()
               else write_user_config p (remove_managed_block c a)) w1 = (Inr (), w')"
    using assms by (auto simp: remove_managed_block_file_def io_bind_eq_Inr Let_def)
  from rd have c: "c = config_text w p" and w1: "w1 = bump w"
    by (simp_all add: read_optional_ok config_text_def)
  show ?thesis
  proof (cases "remove_managed_block c a = c")
    case True
    with upd have "w' = w1" by simp
    with True c w1 show ?thesis by (simp only: config_text_bump)
  next
    case False
    with upd have "write_user_config p (remove_managed_block c a) w1 = (Inr (), w')" by simp
    with c show ?thesis by (simp add: write_user_config_ok config_text_def)
  qed
qed

section \<open>Properties\<close>

definition demo_block :: "string \<Rightarrow> user_config_options" where
  "demo_block a =
     \<lparr>uc_config_path = ''/h/.ssh/config'', uc_alias = a, uc_user = ''dev'', uc_identity_file = [],
      uc_local_host = ''127.0.0.1'', uc_local_port = 55221, uc_known_hosts_path = ''/s/kh'',
      uc_alive_interval = 30, uc_alive_count_max = 3, uc_tcp_keep_alive = True\<rparr>"

lemma hash_free_demo: "CHR ''#'' \<notin> set a \<Longrightarrow> hash_free (demo_block a)"
  by (simp add: hash_free_def demo_block_def)

text \<open>A user configuration with an entry of the user's own.\<close>

definition demo_home :: world where
  "demo_home = empty_world\<lparr>w_nodes := (\<lambda>p. if p = ''/h/.ssh/config'' then Some (File (''Host own'' @ [nl]) 420) else None)\<rparr>"



text \<open>
  C26: removing the managed block of an alias is a total operation (the cutting loop ends)
  and idempotent, and what it leaves holds no complete block of the alias: no begin marker
  any more, or a first begin marker without an end marker after it.
\<close>

theorem remove_managed_block_complete:
  "no_block alias (remove_managed_block content alias)
   \<and> remove_managed_block (remove_managed_block content alias) alias = remove_managed_block content alias"
  using remove_no_block remove_of_no_block by blast

text \<open>
  With the blocks of two targets in the file, removing the first leaves the block of the
  second byte for byte, provided the first alias is not a prefix of the second.
\<close>

lemma remove_keeps_other_block:
  assumes "hash_free o1" and "hash_free o2" and "nl \<notin> set (uc_alias o1)"
    and "\<not> prefix (uc_alias o1) (uc_alias o2)"
  shows "remove_managed_block (render_managed_block o1 @ [nl] @ render_managed_block o2) (uc_alias o1)
       = render_managed_block o2"
proof -
  have "trim_left ([nl] @ render_managed_block o2) line_breaks = render_managed_block o2"
    by (subst trim_left_append_all) (simp_all add: line_breaks_def [symmetric], simp add: line_breaks_def)
  then show ?thesis
    using remove_own_block [OF assms(1), of "[nl] @ render_managed_block o2"]
      remove_no_marker [OF other_block_not_found [OF assms(2,3,4)]]
    by simp
qed

theorem remove_keeps_other_block_witness:
  "\<not> prefix ''dev01'' ''dev02''
   \<and> remove_managed_block (render_managed_block (demo_block ''dev01'') @ [nl] @
       render_managed_block (demo_block ''dev02'')) ''dev01'' = render_managed_block (demo_block ''dev02'')"
  using remove_keeps_other_block [OF hash_free_demo hash_free_demo, of "''dev01''" "''dev02''"]
  by (simp add: demo_block_def)

text \<open>
  C27: where an alias is a prefix of another one (\<open>dev1\<close> and \<open>dev10\<close>), removing the block of
  the shorter alias destroys the block of the longer one, since both marker searches match
  it: all that is left of the other target's block is a line with the rest of its alias,
  which OpenSSH does not accept as configuration.
\<close>

theorem remove_damages_longer_alias:
  assumes hf: "hash_free o1" and al: "uc_alias o1 = a @ s" and s: "s \<noteq> []" "hd s \<notin> set line_breaks"
  shows "remove_managed_block (render_managed_block o1) a = s @ [nl]"
proof -
  have "CHR ''#'' \<notin> set (s @ [nl])" using hf al by (simp add: hash_free_def)
  then have "str_index (s @ [nl]) (begin_marker a) = None"
    unfolding begin_marker_def by (simp add: str_index_no_head)
  moreover have "trim_left (s @ [nl]) line_breaks = s @ [nl]"
    using s by (cases s) (simp_all add: trim_left_Cons)
  ultimately show ?thesis
    using remove_block_prefix_alias [OF hf al, of "[]"] by (simp add: remove_no_marker)
qed

theorem remove_damages_longer_alias_witness:
  "remove_managed_block (render_managed_block (demo_block ''dev10'')) ''dev1'' = ''0'' @ [nl]"
  by (rule remove_damages_longer_alias [OF hash_free_demo])
    (simp_all add: demo_block_def line_breaks_def)

end
