(* ===== verification/Proxy_Env.thy ===== *)
theory Proxy_Env
  imports Go_Strings
begin

text \<open>
  \<open>internal/proxy/env.go\<close>, \<open>mergeEnv\<close> of \<open>internal/kubectl/runner.go\<close> and the process
  environment helpers of \<open>cmd/dev-connect/main.go\<close>: process environments as lists of
  \<open>KEY=value\<close> entries, and the process-scoped proxy and kubeconfig overrides.
\<close>

section \<open>Entries and lookups\<close>

abbreviation eqs :: char where
  "eqs \<equiv> CHR ''=''"

definition env_same :: "string \<Rightarrow> string \<Rightarrow> string \<Rightarrow> bool" where
  "env_same goos a b = (if goos = ''windows'' then equal_fold a b else a = b)"

definition has_env_key :: "string \<Rightarrow> string \<Rightarrow> string \<Rightarrow> bool" where
  "has_env_key goos entry key =
     (case str_cut eqs entry of None \<Rightarrow> False | Some (name, v) \<Rightarrow> env_same goos name key)"

text \<open>What a child process sees: \<open>os/exec\<close> passes the last entry of a key on.\<close>

fun env_get :: "string \<Rightarrow> string list \<Rightarrow> string \<Rightarrow> string option" where
  "env_get goos [] k = None"
| "env_get goos (e # es) k =
     (case env_get goos es k of
        Some v \<Rightarrow> Some v
      | None \<Rightarrow> if has_env_key goos e k then map_option snd (str_cut eqs e) else None)"

text \<open>No key occurs twice, as in the environment of a process started by a shell.\<close>

fun env_distinct :: "string \<Rightarrow> string list \<Rightarrow> bool" where
  "env_distinct goos [] = True"
| "env_distinct goos (e # es) =
     ((case str_cut eqs e of None \<Rightarrow> True
       | Some (n, v) \<Rightarrow> list_all (\<lambda>e'. \<not> has_env_key goos e' n) es) \<and> env_distinct goos es)"

section \<open>Setting one key\<close>

definition env_entry :: "string \<Rightarrow> string \<Rightarrow> string" where
  "env_entry key value1 = (key @ ''='') @ value1"

text \<open>\<open>set\<close> of the proxy package: the first entry of the key is replaced, else one is added.\<close>

fun env_set :: "string \<Rightarrow> string list \<Rightarrow> string \<Rightarrow> string \<Rightarrow> string list" where
  "env_set goos [] key value1 = [env_entry key value1]"
| "env_set goos (entry # env) key value1 =
     (if has_env_key goos entry key then env_entry key value1 # env
      else entry # env_set goos env key value1)"

fun set_process_env :: "string \<Rightarrow> string list \<Rightarrow> string \<Rightarrow> string \<Rightarrow> string list" where
  "set_process_env goos [] key value1 = [env_entry key value1]"
| "set_process_env goos (entry # env) key value1 =
     (case str_cut eqs entry of
        None \<Rightarrow> entry # set_process_env goos env key value1
      | Some (name, v) \<Rightarrow>
          if name = key \<or> (goos = ''windows'' \<and> equal_fold name key)
          then env_entry key value1 # env
          else entry # set_process_env goos env key value1)"

text \<open>One override of \<open>mergeEnv\<close>: the first entry with the prefix \<open>KEY=\<close> is replaced.\<close>

fun replace_prefixed :: "string \<Rightarrow> string \<Rightarrow> string list \<Rightarrow> string list" where
  "replace_prefixed pre override [] = [override]"
| "replace_prefixed pre override (e # es) =
     (if prefix pre e then override # es else e # replace_prefixed pre override es)"

definition merge_one :: "string list \<Rightarrow> string \<Rightarrow> string list" where
  "merge_one env override =
     (case str_cut eqs override of
        None \<Rightarrow> env @ [override]
      | Some (key, v) \<Rightarrow> replace_prefixed (key @ ''='') override env)"

definition merge_env :: "string list \<Rightarrow> string list \<Rightarrow> string list" where
  "merge_env base overrides = foldl merge_one base overrides"

definition merge_command_env :: "string list \<Rightarrow> string list \<Rightarrow> string list" where
  "merge_command_env base overrides = base @ overrides"

section \<open>Overrides\<close>

record proxy_config =
  pc_enabled :: bool
  pc_http :: string
  pc_https :: string
  pc_no_proxy :: string

definition build_env_for_os :: "string \<Rightarrow> string list \<Rightarrow> proxy_config \<Rightarrow> string list" where
  "build_env_for_os goos base config =
     (if \<not> pc_enabled config then base
      else
        let env = base;
            env = (if pc_http config \<noteq> [] then
                     (let env = env_set goos env ''HTTP_PROXY'' (pc_http config)
                      in if goos \<noteq> ''windows'' then env_set goos env ''http_proxy'' (pc_http config) else env)
                   else env);
            env = (if pc_https config \<noteq> [] then
                     (let env = env_set goos env ''HTTPS_PROXY'' (pc_https config)
                      in if goos \<noteq> ''windows'' then env_set goos env ''https_proxy'' (pc_https config) else env)
                   else env)
        in if pc_no_proxy config \<noteq> [] then
             (let env = env_set goos env ''NO_PROXY'' (pc_no_proxy config)
              in if goos \<noteq> ''windows'' then env_set goos env ''no_proxy'' (pc_no_proxy config) else env)
           else env)"

definition kubectl_base_env_from :: "string list \<Rightarrow> string \<Rightarrow> proxy_config \<Rightarrow> string \<Rightarrow> string list" where
  "kubectl_base_env_from base goos proxy kubeconfig =
     (let env = build_env_for_os goos base proxy
      in if kubeconfig = [] then env
         else set_process_env goos env ''KUBECONFIG'' kubeconfig)"

section \<open>The contract of an environment\<close>

text \<open>
  What the callers need of an environment: a lookup, a setter, the equality of keys and the
  form of environment for which the setter works. A key that can be set is \<open>ok\<close>.
\<close>

locale env_map =
  fixes get :: "'e \<Rightarrow> 'k \<Rightarrow> 'v option" and put :: "'e \<Rightarrow> 'k \<Rightarrow> 'v \<Rightarrow> 'e"
    and same :: "'k \<Rightarrow> 'k \<Rightarrow> bool" and ok :: "'k \<Rightarrow> bool" and wf :: "'e \<Rightarrow> bool"
  assumes get_put: "wf env \<Longrightarrow> ok k \<Longrightarrow> get (put env k v) k' = (if same k k' then Some v else get env k')"
    and wf_put: "wf env \<Longrightarrow> ok k \<Longrightarrow> wf (put env k v)"
begin

text \<open>A list of settings, applied in order: the last setting of a key counts.\<close>

lemma wf_puts: "wf env \<Longrightarrow> \<forall>(k, v) \<in> set kvs. ok k \<Longrightarrow> wf (foldl (\<lambda>e (k, v). put e k v) env kvs)"
  by (induction kvs arbitrary: env) (auto simp: wf_put)

lemma get_puts:
  "wf env \<Longrightarrow> \<forall>(k, v) \<in> set kvs. ok k \<Longrightarrow>
   get (foldl (\<lambda>e (k, v). put e k v) env kvs) k' =
   (case find (\<lambda>(k, v). same k k') (rev kvs) of Some (k, v) \<Rightarrow> Some v | None \<Rightarrow> get env k')"
proof (induction kvs rule: rev_induct)
  case (snoc kv kvs)
  obtain k v where kv: "kv = (k, v)" by (cases kv)
  have "wf (foldl (\<lambda>e (k, v). put e k v) env kvs)" using snoc.prems by (intro wf_puts) auto
  with snoc kv show ?case by (auto simp: get_put)
qed simp

end

section \<open>The setters meet the contract\<close>

lemma env_same_refl [simp]: "env_same goos a a"
  by (simp add: env_same_def)

lemma env_same_sym: "env_same goos a b \<Longrightarrow> env_same goos b a"
  by (auto simp: env_same_def equal_fold_def split: if_splits)

lemma env_same_trans: "env_same goos a b \<Longrightarrow> env_same goos b c \<Longrightarrow> env_same goos a c"
  by (auto simp: env_same_def equal_fold_def split: if_splits)

lemma cut_env_entry [simp]: "eqs \<notin> set k \<Longrightarrow> str_cut eqs (env_entry k v) = Some (k, v)"
  by (simp add: env_entry_def str_cut_Some)

lemma has_env_key_entry [simp]: "eqs \<notin> set k \<Longrightarrow> has_env_key goos (env_entry k v) k' = env_same goos k k'"
  by (simp add: has_env_key_def)

lemma has_env_key_same:
  "has_env_key goos e k \<Longrightarrow> has_env_key goos e k' = env_same goos k k'"
  by (auto simp: has_env_key_def split: option.splits dest: env_same_sym env_same_trans)

lemma has_env_key_cong: "env_same goos k k' \<Longrightarrow> has_env_key goos e k = has_env_key goos e k'"
  by (auto simp: has_env_key_def split: option.splits dest: env_same_sym env_same_trans)

lemma has_env_key_cut: "has_env_key goos e k \<Longrightarrow> str_cut eqs e \<noteq> None"
  by (auto simp: has_env_key_def split: option.splits)

lemma env_get_none: "env_get goos es k = None \<longleftrightarrow> (\<forall>e \<in> set es. \<not> has_env_key goos e k)"
  by (induction es) (auto split: option.splits dest: has_env_key_cut)

lemma env_distinct_Cons:
  "env_distinct goos (e # es) \<longleftrightarrow>
     (\<forall>k. has_env_key goos e k \<longrightarrow> (\<forall>e' \<in> set es. \<not> has_env_key goos e' k)) \<and> env_distinct goos es"
proof (cases "str_cut eqs e")
  case None
  then show ?thesis by (simp add: has_env_key_def)
next
  case (Some nv)
  obtain n v where nv: "nv = (n, v)" by (cases nv)
  have key: "has_env_key goos e k = env_same goos n k" for k
    using Some nv by (simp add: has_env_key_def)
  have "(\<forall>e' \<in> set es. \<not> has_env_key goos e' n) \<longleftrightarrow>
      (\<forall>k. env_same goos n k \<longrightarrow> (\<forall>e' \<in> set es. \<not> has_env_key goos e' k))"
    using has_env_key_cong by (metis env_same_refl)
  then show ?thesis using Some nv by (simp add: key list_all_iff)
qed

declare env_distinct.simps(2) [simp del]

lemma env_distinct_single [simp]: "env_distinct goos [e]"
  by (simp add: env_distinct_Cons)

lemma set_env_set:
  "e \<in> set (env_set goos env k v) \<Longrightarrow> e = env_entry k v \<or> e \<in> set env"
  by (induction env) (auto split: if_splits)

lemma env_get_set:
  assumes k: "eqs \<notin> set k"
  shows "env_distinct goos env \<Longrightarrow>
    env_get goos (env_set goos env k v) k' = (if env_same goos k k' then Some v else env_get goos env k')"
proof (induction env)
  case Nil
  then show ?case using k by simp
next
  case (Cons e es)
  show ?case
  proof (cases "has_env_key goos e k")
    case True
    then have none: "env_get goos es k'' = None" if "env_same goos k k''" for k''
      using Cons.prems that has_env_key_same [OF True] by (simp add: env_get_none env_distinct_Cons)
    show ?thesis using True k none has_env_key_same [OF True, of k'] by (auto split: option.splits)
  next
    case False
    then have "env_same goos k k' \<Longrightarrow> \<not> has_env_key goos e k'" using has_env_key_cong by blast
    moreover have "env_distinct goos es" using Cons.prems by (simp add: env_distinct_Cons)
    ultimately show ?thesis using False Cons.IH by (auto split: option.splits)
  qed
qed

lemma env_distinct_set:
  assumes k: "eqs \<notin> set k"
  shows "env_distinct goos env \<Longrightarrow> env_distinct goos (env_set goos env k v)"
proof (induction env)
  case Nil
  then show ?case using k by simp
next
  case (Cons e es)
  show ?case
  proof (cases "has_env_key goos e k")
    case True
    then show ?thesis
      using Cons.prems k has_env_key_same [OF True]
      by (simp add: env_distinct_Cons)
  next
    case False
    have sep: "\<forall>e' \<in> set (env_set goos es k v). \<not> has_env_key goos e' k'" if "has_env_key goos e k'" for k'
    proof -
      have "\<not> env_same goos k k'" using False that has_env_key_cong by blast
      then have new: "\<not> has_env_key goos (env_entry k v) k'" using k by simp
      have old: "\<forall>e' \<in> set es. \<not> has_env_key goos e' k'"
        using Cons.prems that by (simp add: env_distinct_Cons)
      show ?thesis
      proof
        fix e' assume "e' \<in> set (env_set goos es k v)"
        then have "e' = env_entry k v \<or> e' \<in> set es" by (rule set_env_set)
        then show "\<not> has_env_key goos e' k'" using new old by auto
      qed
    qed
    have "env_distinct goos es" using Cons.prems by (simp add: env_distinct_Cons)
    then have "env_distinct goos (env_set goos es k v)" by (rule Cons.IH)
    then have "env_distinct goos (e # env_set goos es k v)"
      using sep unfolding env_distinct_Cons by blast
    then show ?thesis using False by simp
  qed
qed

lemma set_process_env_eq: "set_process_env goos env k v = env_set goos env k v"
  by (induction env) (auto simp: has_env_key_def env_same_def split: option.splits)

lemma prefix_key_iff:
  assumes "eqs \<notin> set k"
  shows "prefix (k @ ''='') e \<longleftrightarrow> has_env_key [] e k"
proof
  assume "prefix (k @ ''='') e"
  then obtain r where "e = k @ eqs # r" by (auto simp: prefix_def)
  then have "str_cut eqs e = Some (k, r)" using assms by (simp add: str_cut_Some)
  then show "has_env_key [] e k" by (simp add: has_env_key_def)
next
  assume "has_env_key [] e k"
  then obtain r where "str_cut eqs e = Some (k, r)"
    by (auto simp: has_env_key_def env_same_def split: option.splits)
  then show "prefix (k @ ''='') e" by (auto simp: str_cut_Some)
qed

lemma env_same_not_windows: "goos \<noteq> ''windows'' \<Longrightarrow> env_same goos = env_same []"
  by (auto simp: env_same_def fun_eq_iff)

text \<open>On every system but Windows an override of \<open>mergeEnv\<close> is the setter of the proxy package.\<close>

lemma merge_one_entry:
  assumes "goos \<noteq> ''windows''" and "eqs \<notin> set k"
  shows "merge_one env (env_entry k v) = env_set goos env k v"
proof -
  have "has_env_key goos = has_env_key []"
    unfolding fun_eq_iff has_env_key_def env_same_not_windows [OF assms(1)] by simp
  then have "replace_prefixed (k @ ''='') (env_entry k v) es = env_set goos es k v" for es
    using prefix_key_iff [OF assms(2)] by (induction es) auto
  then show ?thesis using assms(2) by (simp add: merge_one_def)
qed

interpretation proxy: env_map "env_get goos" "env_set goos" "env_same goos" "\<lambda>k. eqs \<notin> set k" "env_distinct goos"
  for goos
  by unfold_locales (simp_all add: env_get_set env_distinct_set)

interpretation process_env: env_map "env_get goos" "set_process_env goos" "env_same goos"
    "\<lambda>k. eqs \<notin> set k" "env_distinct goos"
  for goos
  by unfold_locales (simp_all add: set_process_env_eq env_get_set env_distinct_set)

interpretation merged: env_map "env_get []" "\<lambda>env k v. merge_one env (env_entry k v)" "env_same []"
    "\<lambda>k. eqs \<notin> set k" "env_distinct []"
  by unfold_locales (simp_all add: merge_one_entry [of "[]"] env_get_set env_distinct_set)

section \<open>The overrides of a cluster\<close>

text \<open>The settings that \<open>buildEnvForOS\<close> makes, in its order.\<close>

definition proxy_settings :: "string \<Rightarrow> proxy_config \<Rightarrow> (string \<times> string) list" where
  "proxy_settings goos c =
     (if \<not> pc_enabled c then []
      else
        (if pc_http c = [] then []
         else (''HTTP_PROXY'', pc_http c) # (if goos = ''windows'' then [] else [(''http_proxy'', pc_http c)])) @
        (if pc_https c = [] then []
         else (''HTTPS_PROXY'', pc_https c) # (if goos = ''windows'' then [] else [(''https_proxy'', pc_https c)])) @
        (if pc_no_proxy c = [] then []
         else (''NO_PROXY'', pc_no_proxy c) # (if goos = ''windows'' then [] else [(''no_proxy'', pc_no_proxy c)])))"

lemma build_env_settings:
  "build_env_for_os goos base c = foldl (\<lambda>e (k, v). env_set goos e k v) base (proxy_settings goos c)"
  by (simp add: build_env_for_os_def proxy_settings_def Let_def)

lemma proxy_settings_keys: "\<forall>(k, v) \<in> set (proxy_settings goos c). eqs \<notin> set k"
  by (auto simp: proxy_settings_def)

lemma build_env_distinct: "env_distinct goos base \<Longrightarrow> env_distinct goos (build_env_for_os goos base c)"
  unfolding build_env_settings by (rule proxy.wf_puts [OF _ proxy_settings_keys])

lemma build_env_get:
  "env_distinct goos base \<Longrightarrow>
   env_get goos (build_env_for_os goos base c) k =
     (case find (\<lambda>(k', v). env_same goos k' k) (rev (proxy_settings goos c)) of
        Some (k', v) \<Rightarrow> Some v | None \<Rightarrow> env_get goos base k)"
  unfolding build_env_settings by (rule proxy.get_puts [OF _ proxy_settings_keys])

section \<open>Properties\<close>

text \<open>
  C28: the environment of a \<open>kubectl\<close> process of a cluster, on a system other than Windows and
  with no key twice in the inherited environment: an enabled, non-empty proxy setting is seen
  under its upper- and lower-case name, a configured kubeconfig under \<open>KUBECONFIG\<close>, and every
  other variable is the inherited one.
\<close>

theorem kubectl_env_overrides:
  assumes "env_distinct goos base" and "goos \<noteq> ''windows''"
  shows "env_get goos (kubectl_base_env_from base goos c kubeconfig) k =
     (if kubeconfig \<noteq> [] \<and> k = ''KUBECONFIG'' then Some kubeconfig
      else if pc_enabled c \<and> pc_http c \<noteq> [] \<and> (k = ''HTTP_PROXY'' \<or> k = ''http_proxy'') then Some (pc_http c)
      else if pc_enabled c \<and> pc_https c \<noteq> [] \<and> (k = ''HTTPS_PROXY'' \<or> k = ''https_proxy'') then Some (pc_https c)
      else if pc_enabled c \<and> pc_no_proxy c \<noteq> [] \<and> (k = ''NO_PROXY'' \<or> k = ''no_proxy'') then Some (pc_no_proxy c)
      else env_get goos base k)"
proof -
  have same: "env_same goos a b \<longleftrightarrow> a = b" for a b using assms(2) by (simp add: env_same_def)
  have kube: "env_get goos (kubectl_base_env_from base goos c kubeconfig) k =
      (if kubeconfig \<noteq> [] \<and> k = ''KUBECONFIG'' then Some kubeconfig
       else env_get goos (build_env_for_os goos base c) k)"
    using process_env.get_put [OF build_env_distinct [OF assms(1)], of "''KUBECONFIG''"]
    by (auto simp: kubectl_base_env_from_def same Let_def)
  show ?thesis
    unfolding kube build_env_get [OF assms(1)] using assms(2)
    by (auto simp: proxy_settings_def same)
qed

definition demo_proxy :: proxy_config where
  "demo_proxy = \<lparr>pc_enabled = True, pc_http = ''http://p:1'', pc_https = [], pc_no_proxy = []\<rparr>"

theorem kubectl_env_overrides_witness:
  "env_distinct ''linux'' [''HOME=/h'', ''HTTP_PROXY=old''] \<and>
   env_get ''linux'' (kubectl_base_env_from [''HOME=/h'', ''HTTP_PROXY=old''] ''linux'' demo_proxy ''/kc'') ''HTTP_PROXY''
     = Some ''http://p:1''"
proof -
  have d: "env_distinct ''linux'' [''HOME=/h'', ''HTTP_PROXY=old'']" by code_simp
  show ?thesis using d kubectl_env_overrides [OF d, of demo_proxy "''/kc''" "''HTTP_PROXY''"]
    by (simp add: demo_proxy_def)
qed

text \<open>
  \<open>mergeEnv\<close> with overrides \<open>KEY=value\<close> gives a child process the last override of each
  key and the inherited value of every other key.
\<close>

lemma merge_env_overrides:
  assumes "env_distinct [] base" and "\<forall>(k, v) \<in> set kvs. eqs \<notin> set k"
  shows "env_get [] (merge_env base (map (\<lambda>(k, v). env_entry k v) kvs)) k =
     (case map_of (rev kvs) k of Some v \<Rightarrow> Some v | None \<Rightarrow> env_get [] base k)"
proof -
  have "merge_env base (map (\<lambda>(k, v). env_entry k v) kvs)
      = foldl (\<lambda>e (k, v). merge_one e (env_entry k v)) base kvs"
    unfolding merge_env_def by (induction kvs arbitrary: base) auto
  moreover have "map_of xs k = map_option snd (find (\<lambda>(k', v). k' = k) xs)" for xs :: "(string \<times> string) list"
    by (induction xs) auto
  ultimately show ?thesis
    using merged.get_puts [OF assms, of k] by (auto simp: env_same_def split: option.splits)
qed

theorem merge_env_overrides_witness:
  "env_get [] (merge_env [''A=1'', ''B=2''] (map (\<lambda>(k, v). env_entry k v) [(''B'', ''3''), (''C'', ''4'')])) ''B'' = Some ''3''"
proof -
  have "env_distinct [] [''A=1'', ''B=2'']" by code_simp
  then show ?thesis
    using merge_env_overrides [of "[''A=1'', ''B=2'']" "[(''B'', ''3''), (''C'', ''4'')]" "''B''"] by simp
qed

text \<open>
  The setter replaces the first entry of a key, whereas a child process sees the last one:
  in an inherited environment that lists a proxy variable twice the override has no effect.
\<close>

lemma env_set_needs_distinct_keys:
  "\<exists>env. env_get ''linux'' (env_set ''linux'' env ''HTTP_PROXY'' ''new'') ''HTTP_PROXY'' = Some ''old''"
proof -
  have "env_get ''linux'' (env_set ''linux'' [''HTTP_PROXY=older'', ''HTTP_PROXY=old''] ''HTTP_PROXY'' ''new'') ''HTTP_PROXY''
      = Some ''old''" by code_simp
  then show ?thesis by blast
qed

end
