(* ===== verification/Dev_Config.thy ===== *)
theory Dev_Config
  imports Go_OS Proxy_Env "HOL-Library.Multiset"
begin

text \<open>
  \<open>internal/config/config.go\<close>: the configuration document, its validation, the places it is
  looked for and the defaults of its optional fields.

  A Go map is the list of its entries in the order in which \<open>range\<close> visits them. Go leaves
  that order open, so a statement about all configurations covers every order; keys do not
  repeat (\<open>config_maps_ok\<close>). A Go \<open>int\<close> that is only compared is an \<open>int\<close>, a pointer to an
  optional value an \<open>option\<close>. \<open>yaml.Unmarshal\<close> is a parameter.
\<close>

section \<open>The document\<close>

type_synonym 'a go_map = "(string \<times> 'a) list"

record context_config =
  cx_cluster :: string
  cx_gateway :: string

record cluster =
  cl_kubeconfig :: string
  cl_context :: string
  cl_kubectl_path :: string
  cl_proxy :: proxy_config

record gateway =
  gw_namespace :: string
  gw_service :: string
  gw_port :: int

record target =
  tg_gateway :: string
  tg_user :: string
  tg_identity_file :: string
  tg_host_key_ref :: string

record ssh_settings =
  ssh_manage_user_config :: bool
  ssh_user_config_path :: string
  ssh_alive_interval :: "int option"
  ssh_alive_count_max :: "int option"
  ssh_tcp_keep_alive :: "bool option"

record remote_setup =
  rs_enabled :: bool
  rs_ssh_path :: string
  rs_http_proxy :: string
  rs_https_proxy :: string
  rs_no_proxy :: string
  rs_proxy_support :: string
  rs_batch_mode :: "bool option"

record vscode_settings =
  vs_launcher_path :: string
  vs_isolated :: "bool option"
  vs_remote_setup :: remote_setup

record config =
  cfg_api_version :: string
  cfg_kind :: string
  cfg_contexts :: "context_config go_map"
  cfg_clusters :: "cluster go_map"
  cfg_gateways :: "gateway go_map"
  cfg_targets :: "target go_map"
  cfg_host_keys :: "string go_map"
  cfg_ssh :: ssh_settings
  cfg_vscode :: vscode_settings

definition effective_alive_interval :: "ssh_settings \<Rightarrow> int" where
  "effective_alive_interval s = (case ssh_alive_interval s of None \<Rightarrow> 30 | Some n \<Rightarrow> n)"

definition effective_alive_count_max :: "ssh_settings \<Rightarrow> int" where
  "effective_alive_count_max s = (case ssh_alive_count_max s of None \<Rightarrow> 3 | Some n \<Rightarrow> n)"

definition effective_tcp_keep_alive :: "ssh_settings \<Rightarrow> bool" where
  "effective_tcp_keep_alive s = (case ssh_tcp_keep_alive s of None \<Rightarrow> True | Some b \<Rightarrow> b)"

definition use_batch_mode :: "remote_setup \<Rightarrow> bool" where
  "use_batch_mode r = (case rs_batch_mode r of None \<Rightarrow> True | Some b \<Rightarrow> b)"

definition use_isolated_user_data_dir :: "vscode_settings \<Rightarrow> bool" where
  "use_isolated_user_data_dir v = (case vs_isolated v of None \<Rightarrow> True | Some b \<Rightarrow> b)"

section \<open>Validation\<close>

definition api_version :: string where
  "api_version = ''dev-connect/v1''"

definition config_kind :: string where
  "config_kind = ''DevConnectConfig''"

definition has_key :: "'a go_map \<Rightarrow> string \<Rightarrow> bool" where
  "has_key m k = list_ex (\<lambda>(k', v). k' = k) m"

text \<open>\<open>m[k]\<close> of a map of strings: the empty string where the key is absent.\<close>

definition string_at :: "string go_map \<Rightarrow> string \<Rightarrow> string" where
  "string_at m k = (case map_of m k of None \<Rightarrow> [] | Some v \<Rightarrow> v)"

fun validate_contexts :: "cluster go_map \<Rightarrow> gateway go_map \<Rightarrow> context_config go_map \<Rightarrow> unit result" where
  "validate_contexts clusters gateways [] = Inr ()"
| "validate_contexts clusters gateways ((name, c) # rest) =
     (if cx_cluster c = [] then Inl (Err ''context %q missing cluster'' [name])
      else if clusters \<noteq> [] \<and> \<not> has_key clusters (cx_cluster c)
      then Inl (Err ''context %q references unknown cluster %q'' [name, cx_cluster c])
      else if cx_gateway c = [] then Inl (Err ''context %q missing gateway'' [name])
      else if gateways \<noteq> [] \<and> \<not> has_key gateways (cx_gateway c)
      then Inl (Err ''context %q references unknown gateway %q'' [name, cx_gateway c])
      else validate_contexts clusters gateways rest)"

definition effective_host_key_ref :: "string \<Rightarrow> target \<Rightarrow> string" where
  "effective_host_key_ref name t = (if tg_host_key_ref t = [] then name else tg_host_key_ref t)"

text \<open>\<open>cfg.Targets[name] = target\<close> for a key that is there\<close>

definition set_target :: "string \<Rightarrow> target \<Rightarrow> config \<Rightarrow> config" where
  "set_target name t cfg =
     cfg\<lparr>cfg_targets := map (\<lambda>(n, t'). if n = name then (n, t) else (n, t')) (cfg_targets cfg)\<rparr>"

text \<open>The loop over the targets writes the default host key reference into the map it visits.\<close>

fun validate_targets :: "target go_map \<Rightarrow> (unit, config) io" where
  "validate_targets [] = io_return ()"
| "validate_targets ((name, t) # rest) =
     (\<lambda>cfg.
        if tg_gateway t = [] then (Inl (Err ''target %q missing gateway'' [name]), cfg)
        else if cfg_gateways cfg \<noteq> [] \<and> \<not> has_key (cfg_gateways cfg) (tg_gateway t)
        then (Inl (Err ''target %q references unknown gateway %q'' [name, tg_gateway t]), cfg)
        else
          let ref = effective_host_key_ref name t;
              cfg = (if tg_host_key_ref t = [] then set_target name (t\<lparr>tg_host_key_ref := ref\<rparr>) cfg else cfg)
          in if cfg_host_keys cfg \<noteq> [] \<and> string_at (cfg_host_keys cfg) ref = []
             then (Inl (Err ''target %q references unknown host key %q'' [name, ref]), cfg)
             else validate_targets rest cfg)"

fun validate_gateways :: "gateway go_map \<Rightarrow> unit result" where
  "validate_gateways [] = Inr ()"
| "validate_gateways ((name, g) # rest) =
     (if gw_namespace g = [] then Inl (Err ''gateway %q missing namespace'' [name])
      else if gw_service g = [] then Inl (Err ''gateway %q missing service'' [name])
      else if gw_port g \<le> 0 then Inl (Err ''gateway %q has invalid port %d'' [name, show_int (gw_port g)])
      else validate_gateways rest)"

definition validate_config :: "(unit, config) io" where
  "validate_config cfg =
     (if cfg_api_version cfg \<noteq> api_version
      then (Inl (Err ''unsupported apiVersion %q'' [cfg_api_version cfg]), cfg)
      else if cfg_kind cfg \<noteq> config_kind
      then (Inl (Err ''unsupported kind %q'' [cfg_kind cfg]), cfg)
      else if (case ssh_alive_interval (cfg_ssh cfg) of None \<Rightarrow> False | Some n \<Rightarrow> n < 0)
      then (Inl (Err ''ssh.serverAliveInterval must be >= 0'' []), cfg)
      else if (case ssh_alive_count_max (cfg_ssh cfg) of None \<Rightarrow> False | Some n \<Rightarrow> n < 0)
      then (Inl (Err ''ssh.serverAliveCountMax must be >= 0'' []), cfg)
      else
        io_bind (io_lift (validate_contexts (cfg_clusters cfg) (cfg_gateways cfg) (cfg_contexts cfg)))
          (\<lambda>_. io_bind (validate_targets (cfg_targets cfg))
            (\<lambda>_. io_lift (validate_gateways (cfg_gateways cfg)))) cfg)"

definition parse_config :: "(string \<Rightarrow> config result) \<Rightarrow> string \<Rightarrow> config result" where
  "parse_config unmarshal data =
     (case unmarshal data of
        Inl e \<Rightarrow> Inl (Wrap ''parse config YAML: %w'' [] e)
      | Inr cfg \<Rightarrow> (case validate_config cfg of (Inl e, cfg') \<Rightarrow> Inl e | (Inr u, cfg') \<Rightarrow> Inr cfg'))"

section \<open>Where the document is found\<close>

record loader =
  ld_explicit_path :: string
  ld_env_config :: string
  ld_default_dir :: string
  ld_development_dir :: string

record loaded =
  lo_config :: config
  lo_path :: string

definition default_file_name :: string where
  "default_file_name = ''config.yaml''"

definition default_dir_for :: "string \<Rightarrow> string \<Rightarrow> string \<Rightarrow> string result" where
  "default_dir_for goos home app_data =
     (if goos = ''windows'' then
        (if app_data = [] then Inl (Err ''APPDATA is required on Windows'' [])
         else Inr (trim_right app_data [CHR 0x5C, CHR ''/''] @ [CHR 0x5C] @ ''dev-connect''))
      else if goos = ''darwin'' then
        (if home = [] then Inl (Err ''HOME is required on macOS'' [])
         else Inr (trim_right home ''/'' @ ''/Library/Application Support/dev-connect''))
      else
        (if home = [] then Inl (Err ''HOME is required'' [])
         else Inr (trim_right home ''/'' @ ''/.config/dev-connect'')))"

text \<open>The arguments \<open>goos\<close>, \<open>home\<close> and \<open>app_data\<close> are what \<open>DefaultDir\<close> reads from the machine.\<close>

definition candidates :: "string \<Rightarrow> string \<Rightarrow> string \<Rightarrow> loader \<Rightarrow> string list result" where
  "candidates goos home app_data l =
     (case (if ld_default_dir l = [] then default_dir_for goos home app_data else Inr (ld_default_dir l)) of
        Inl e \<Rightarrow> Inl e
      | Inr default_dir \<Rightarrow>
          let development_dir = (if ld_development_dir l = [] then ''.'' else ld_development_dir l)
          in Inr [ld_explicit_path l, ld_env_config l, path_join [default_dir, default_file_name],
                  path_join [development_dir, default_file_name]])"

fun load_first :: "(string \<Rightarrow> config result) \<Rightarrow> string list \<Rightarrow> (loaded, world) io" where
  "load_first unmarshal [] = io_fail (Err ''dev-connect config not found'' [])"
| "load_first unmarshal (candidate # rest) =
     (if candidate = [] then load_first unmarshal rest
      else io_case (os_read_file candidate)
        (\<lambda>e. if is_not_exist e then load_first unmarshal rest
              else io_fail (Wrap ''read config %q: %w'' [candidate] e))
        (\<lambda>data. case parse_config unmarshal data of
            Inl e \<Rightarrow> io_fail (Wrap ''load config %q: %w'' [candidate] e)
          | Inr cfg \<Rightarrow> io_return \<lparr>lo_config = cfg, lo_path = candidate\<rparr>))"

definition load_config :: "(string \<Rightarrow> config result) \<Rightarrow> string \<Rightarrow> string \<Rightarrow> string \<Rightarrow> loader \<Rightarrow> (loaded, world) io" where
  "load_config unmarshal goos home app_data l =
     io_bind (io_lift (candidates goos home app_data l)) (load_first unmarshal)"

section \<open>What a valid configuration is\<close>

text \<open>
  The specification, over lookups only: every reference that can be resolved is resolved. A
  configuration without clusters, gateways or host keys leaves the references to them open.
\<close>

definition config_maps_ok :: "config \<Rightarrow> bool" where
  "config_maps_ok cfg \<longleftrightarrow> distinct (map fst (cfg_contexts cfg)) \<and> distinct (map fst (cfg_clusters cfg)) \<and>
     distinct (map fst (cfg_gateways cfg)) \<and> distinct (map fst (cfg_targets cfg)) \<and>
     distinct (map fst (cfg_host_keys cfg))"

definition context_ok :: "config \<Rightarrow> context_config \<Rightarrow> bool" where
  "context_ok cfg c \<longleftrightarrow> cx_cluster c \<noteq> [] \<and> cx_gateway c \<noteq> [] \<and>
     (cfg_clusters cfg = [] \<or> map_of (cfg_clusters cfg) (cx_cluster c) \<noteq> None) \<and>
     (cfg_gateways cfg = [] \<or> map_of (cfg_gateways cfg) (cx_gateway c) \<noteq> None)"

definition target_ok :: "config \<Rightarrow> string \<Rightarrow> target \<Rightarrow> bool" where
  "target_ok cfg name t \<longleftrightarrow> tg_gateway t \<noteq> [] \<and>
     (cfg_gateways cfg = [] \<or> map_of (cfg_gateways cfg) (tg_gateway t) \<noteq> None) \<and>
     (cfg_host_keys cfg = [] \<or> string_at (cfg_host_keys cfg) (effective_host_key_ref name t) \<noteq> [])"

definition gateway_ok :: "gateway \<Rightarrow> bool" where
  "gateway_ok g \<longleftrightarrow> gw_namespace g \<noteq> [] \<and> gw_service g \<noteq> [] \<and> 0 < gw_port g"

definition config_ok :: "config \<Rightarrow> bool" where
  "config_ok cfg \<longleftrightarrow> cfg_api_version cfg = api_version \<and> cfg_kind cfg = config_kind \<and>
     0 \<le> effective_alive_interval (cfg_ssh cfg) \<and> 0 \<le> effective_alive_count_max (cfg_ssh cfg) \<and>
     (\<forall>name c. map_of (cfg_contexts cfg) name = Some c \<longrightarrow> context_ok cfg c) \<and>
     (\<forall>name t. map_of (cfg_targets cfg) name = Some t \<longrightarrow> target_ok cfg name t) \<and>
     (\<forall>name g. map_of (cfg_gateways cfg) name = Some g \<longrightarrow> gateway_ok g)"

definition with_ref :: "string \<Rightarrow> target \<Rightarrow> target" where
  "with_ref name t = t\<lparr>tg_host_key_ref := effective_host_key_ref name t\<rparr>"

definition fill_refs :: "config \<Rightarrow> config" where
  "fill_refs cfg = cfg\<lparr>cfg_targets := map (\<lambda>(n, t). (n, with_ref n t)) (cfg_targets cfg)\<rparr>"

lemma has_key_iff: "has_key m k \<longleftrightarrow> map_of m k \<noteq> None"
  by (induction m) (auto simp: has_key_def)

lemma validate_contexts_iff:
  "validate_contexts cs gs xs = Inr () \<longleftrightarrow>
     (\<forall>(n, c) \<in> set xs. cx_cluster c \<noteq> [] \<and> cx_gateway c \<noteq> [] \<and>
        (cs = [] \<or> map_of cs (cx_cluster c) \<noteq> None) \<and> (gs = [] \<or> map_of gs (cx_gateway c) \<noteq> None))"
  by (induction xs rule: validate_contexts.induct) (simp_all add: has_key_iff del: not_None_eq, blast)

lemma validate_gateways_iff: "validate_gateways xs = Inr () \<longleftrightarrow> (\<forall>(n, g) \<in> set xs. gateway_ok g)"
  by (induction xs rule: validate_gateways.induct) (simp_all add: gateway_ok_def not_le)

lemma set_target_fields [simp]:
  "cfg_gateways (set_target n t cfg) = cfg_gateways cfg" "cfg_host_keys (set_target n t cfg) = cfg_host_keys cfg"
  "cfg_targets (set_target n t cfg) = map (\<lambda>(n', t'). if n' = n then (n', t) else (n', t')) (cfg_targets cfg)"
  by (simp_all add: set_target_def)

text \<open>The loop with the part of the map it has visited already filled in.\<close>

lemma validate_targets_run:
  assumes "cfg_targets cfg = done1 @ xs" and "distinct (map fst (done1 @ xs))"
  shows "validate_targets xs cfg =
      (if \<forall>(n, t) \<in> set xs. target_ok cfg n t
       then (Inr (), cfg\<lparr>cfg_targets := done1 @ map (\<lambda>(n, t). (n, with_ref n t)) xs\<rparr>)
       else validate_targets xs cfg) \<and>
     (fst (validate_targets xs cfg) = Inr () \<longrightarrow> (\<forall>(n, t) \<in> set xs. target_ok cfg n t))"
  using assms
proof (induction xs arbitrary: cfg done1)
  case Nil
  then show ?case by simp
next
  case (Cons nt xs)
  obtain n t where nt: "nt = (n, t)" by (cases nt)
  define cfg' where "cfg' = (if tg_host_key_ref t = [] then set_target n (with_ref n t) cfg else cfg)"
  have notin: "n \<notin> fst ` set done1" "n \<notin> fst ` set xs" using Cons.prems(2) nt by auto
  have other: "map (\<lambda>(n', t'). if n' = n then (n', s) else (n', t')) ys = ys" if "n \<notin> fst ` set ys" for s and ys :: "target go_map"
    using that by (induction ys) auto
  have targets: "cfg_targets cfg' = (done1 @ [(n, with_ref n t)]) @ xs"
    using Cons.prems(1) nt other notin
    by (auto simp: cfg'_def with_ref_def effective_host_key_ref_def)
  have ok: "target_ok cfg' = target_ok cfg" by (auto simp: cfg'_def target_ok_def fun_eq_iff)
  have fields: "cfg'\<lparr>cfg_targets := ts\<rparr> = cfg\<lparr>cfg_targets := ts\<rparr>" for ts
    by (simp add: cfg'_def set_target_def)
  have step: "validate_targets (nt # xs) cfg = validate_targets xs cfg'" if "target_ok cfg n t"
    using that by (auto simp: nt cfg'_def target_ok_def has_key_iff with_ref_def Let_def)
  have bad: "fst (validate_targets (nt # xs) cfg) \<noteq> Inr ()" if "\<not> target_ok cfg n t"
    using that by (auto simp: nt target_ok_def has_key_iff with_ref_def Let_def)
  have dist: "distinct (map fst ((done1 @ [(n, with_ref n t)]) @ xs))" using Cons.prems(2) nt by auto
  note IH = Cons.IH [OF targets dist, unfolded ok fields]
  show ?case
  proof (cases "target_ok cfg n t")
    case True
    with IH step [OF True] nt show ?thesis by auto
  next
    case False
    with bad nt show ?thesis by auto
  qed
qed

lemma validate_targets_ok:
  assumes "distinct (map fst (cfg_targets cfg))"
  shows "fst (validate_targets (cfg_targets cfg) cfg) = Inr () \<longleftrightarrow> (\<forall>(n, t) \<in> set (cfg_targets cfg). target_ok cfg n t)"
    and "fst (validate_targets (cfg_targets cfg) cfg) = Inr () \<Longrightarrow> snd (validate_targets (cfg_targets cfg) cfg) = fill_refs cfg"
  using validate_targets_run [of cfg "[]" "cfg_targets cfg"] assms
  by (auto simp: fill_refs_def split: if_splits)

lemma entry_iff: "distinct (map fst m) \<Longrightarrow> (\<forall>(k, v) \<in> set m. P k v) \<longleftrightarrow> (\<forall>k v. map_of m k = Some v \<longrightarrow> P k v)"
  by (auto simp: map_of_eq_Some_iff)

lemma validate_config_ok:
  assumes "config_maps_ok cfg"
  shows "validate_config cfg = (Inr (), cfg') \<longleftrightarrow> config_ok cfg \<and> cfg' = fill_refs cfg"
proof -
  have d: "distinct (map fst (cfg_contexts cfg))" "distinct (map fst (cfg_gateways cfg))" "distinct (map fst (cfg_targets cfg))"
    using assms by (simp_all add: config_maps_ok_def)
  obtain r c where run: "validate_targets (cfg_targets cfg) cfg = (r, c)" by fastforce
  have t: "r = Inr () \<longleftrightarrow> (\<forall>(n, t) \<in> set (cfg_targets cfg). target_ok cfg n t)" "r = Inr () \<Longrightarrow> c = fill_refs cfg"
    using validate_targets_ok [OF d(3)] run by auto
  have head: "(case ssh_alive_interval (cfg_ssh cfg) of None \<Rightarrow> False | Some n \<Rightarrow> n < 0)
        \<longleftrightarrow> \<not> 0 \<le> effective_alive_interval (cfg_ssh cfg)"
      "(case ssh_alive_count_max (cfg_ssh cfg) of None \<Rightarrow> False | Some n \<Rightarrow> n < 0)
        \<longleftrightarrow> \<not> 0 \<le> effective_alive_count_max (cfg_ssh cfg)"
    by (auto simp: effective_alive_interval_def effective_alive_count_max_def split: option.splits)
  have ctx: "validate_contexts (cfg_clusters cfg) (cfg_gateways cfg) (cfg_contexts cfg) = Inr () \<longleftrightarrow>
      (\<forall>name c. map_of (cfg_contexts cfg) name = Some c \<longrightarrow> context_ok cfg c)"
    unfolding validate_contexts_iff entry_iff [OF d(1)] by (simp add: context_ok_def)
  have gws: "validate_gateways (cfg_gateways cfg) = Inr () \<longleftrightarrow>
      (\<forall>name g. map_of (cfg_gateways cfg) name = Some g \<longrightarrow> gateway_ok g)"
    unfolding validate_gateways_iff entry_iff [OF d(2)] by simp
  have unfold: "validate_config cfg = (Inr (), cfg') \<longleftrightarrow>
      cfg_api_version cfg = api_version \<and> cfg_kind cfg = config_kind \<and>
      0 \<le> effective_alive_interval (cfg_ssh cfg) \<and> 0 \<le> effective_alive_count_max (cfg_ssh cfg) \<and>
      validate_contexts (cfg_clusters cfg) (cfg_gateways cfg) (cfg_contexts cfg) = Inr () \<and>
      r = Inr () \<and> c = cfg' \<and> validate_gateways (cfg_gateways cfg) = Inr ()"
    unfolding validate_config_def head by (auto simp: io_bind_eq_Inr run)
  have tgs: "r = Inr () \<longleftrightarrow> (\<forall>name t. map_of (cfg_targets cfg) name = Some t \<longrightarrow> target_ok cfg name t)"
    unfolding t(1) by (rule entry_iff [OF d(3)])
  show ?thesis unfolding unfold ctx gws config_ok_def using tgs t(2) by blast
qed

lemma parse_config_ok:
  "parse_config unmarshal data = Inr cfg' \<Longrightarrow> \<exists>cfg. unmarshal data = Inr cfg \<and> validate_config cfg = (Inr (), cfg')"
  by (auto simp: parse_config_def split: sum.splits prod.splits)

text \<open>Valid configurations and the filled-in targets depend on lookups only.\<close>

definition same_map :: "'a go_map \<Rightarrow> 'a go_map \<Rightarrow> bool" where
  "same_map m m' \<longleftrightarrow> mset m = mset m' \<and> distinct (map fst m)"

lemma distinct_fst_mset: "mset m = mset m' \<Longrightarrow> distinct (map fst m) \<Longrightarrow> distinct (map fst m')"
  by (metis mset_eq_imp_distinct_iff mset_map)

lemma same_map_lookup: "same_map m m' \<Longrightarrow> map_of m' = map_of m"
  by (metis same_map_def distinct_fst_mset map_of_inject_set mset_eq_setD)

lemma same_map_Nil: "same_map m m' \<Longrightarrow> m' = [] \<longleftrightarrow> m = []"
  by (auto simp: same_map_def)

text \<open>\<open>reordered cfg cfg'\<close>: the same document, its maps visited in another order.\<close>

definition reordered :: "config \<Rightarrow> config \<Rightarrow> bool" where
  "reordered cfg cfg' \<longleftrightarrow> same_map (cfg_contexts cfg) (cfg_contexts cfg') \<and> same_map (cfg_clusters cfg) (cfg_clusters cfg') \<and>
     same_map (cfg_gateways cfg) (cfg_gateways cfg') \<and> same_map (cfg_targets cfg) (cfg_targets cfg') \<and>
     same_map (cfg_host_keys cfg) (cfg_host_keys cfg') \<and> cfg_api_version cfg' = cfg_api_version cfg \<and>
     cfg_kind cfg' = cfg_kind cfg \<and> cfg_ssh cfg' = cfg_ssh cfg \<and> cfg_vscode cfg' = cfg_vscode cfg"

lemma reordered_ok: "reordered cfg cfg' \<Longrightarrow> config_ok cfg' = config_ok cfg"
proof -
  assume a: "reordered cfg cfg'"
  note eqs = a [unfolded reordered_def]
  have "map_of (cfg_contexts cfg') = map_of (cfg_contexts cfg)" "map_of (cfg_clusters cfg') = map_of (cfg_clusters cfg)"
    "map_of (cfg_gateways cfg') = map_of (cfg_gateways cfg)" "map_of (cfg_targets cfg') = map_of (cfg_targets cfg)"
    "map_of (cfg_host_keys cfg') = map_of (cfg_host_keys cfg)"
    using eqs by (blast intro: same_map_lookup)+
  moreover have "cfg_clusters cfg' = [] \<longleftrightarrow> cfg_clusters cfg = []" "cfg_gateways cfg' = [] \<longleftrightarrow> cfg_gateways cfg = []"
    "cfg_host_keys cfg' = [] \<longleftrightarrow> cfg_host_keys cfg = []"
    using eqs by (auto dest: same_map_Nil)
  ultimately show ?thesis
    using eqs by (simp add: config_ok_def context_ok_def target_ok_def string_at_def)
qed

lemma reordered_maps_ok: "reordered cfg cfg' \<Longrightarrow> config_maps_ok cfg \<and> config_maps_ok cfg'"
  by (auto simp: reordered_def config_maps_ok_def same_map_def intro: distinct_fst_mset)

lemma fill_refs_lookup:
  "map_of (cfg_targets (fill_refs cfg)) name = map_option (with_ref name) (map_of (cfg_targets cfg) name)"
  by (simp add: fill_refs_def map_of_map_keys)

section \<open>Loading\<close>

text \<open>Looking for a configuration reads only.\<close>

lemma load_first_leaves [frame]:
  "leaves w_nodes (load_first unmarshal cs)" "leaves fixed_part (load_first unmarshal cs)"
proof -
  have one: "leaves w_nodes (os_read_file p)" for p by (simp add: leaves_def)
  show "leaves w_nodes (load_first unmarshal cs)"
    by (induction cs) (auto intro!: frame one split: sum.split)
  show "leaves fixed_part (load_first unmarshal cs)"
    by (induction cs) (auto intro!: frame split: sum.split)
qed

lemma load_config_leaves [frame]:
  "leaves w_nodes (load_config unmarshal goos home app_data l)"
  "leaves fixed_part (load_config unmarshal goos home app_data l)"
  unfolding load_config_def by (intro frame)+

lemma load_first_ok:
  "load_first unmarshal cs w = (Inr lo, w') \<Longrightarrow>
   w_nodes w' = w_nodes w \<and>
   (\<exists>pre data post. cs = pre @ lo_path lo # post \<and> (\<forall>p \<in> set pre. lookup_node w p = None) \<and>
      file_at w (lo_path lo) = Some data \<and> parse_config unmarshal data = Inr (lo_config lo))"
proof (induction cs arbitrary: w)
  case Nil
  then show ?case by simp
next
  case (Cons c cs)
  have skip: ?case if "load_first unmarshal cs v = (Inr lo, w')" and "w_nodes v = w_nodes w" and "lookup_node w c = None" for v
  proof -
    have same: "lookup_node v p = lookup_node w p" "file_at v p = file_at w p" for p
      using that(2) by (simp_all add: lookup_node_def file_at_def)
    note hyp = Cons.IH [OF that(1), unfolded same]
    obtain pre data post where ih: "cs = pre @ lo_path lo # post" "\<forall>p \<in> set pre. lookup_node w p = None"
        "file_at w (lo_path lo) = Some data" "parse_config unmarshal data = Inr (lo_config lo)"
      using hyp by blast
    have "c # cs = (c # pre) @ lo_path lo # post" "\<forall>p \<in> set (c # pre). lookup_node w p = None"
      using ih that(3) by auto
    with ih(3,4) hyp that(2) show ?thesis by metis
  qed
  show ?case
  proof (cases "c = []")
    case True
    then show ?thesis using skip [of w] Cons.prems by simp
  next
    case False
    obtain r where read: "os_read_file c w = (r, bump w)" using snd_read_file by (metis prod.collapse)
    show ?thesis
    proof (cases r)
      case (Inl e)
      then have "is_not_exist e" and "load_first unmarshal cs (bump w) = (Inr lo, w')"
        using Cons.prems False read by (auto simp: io_case_def split: if_splits)
      moreover from this(1) have "lookup_node w c = None" using read_file_missing [OF read [unfolded Inl]] by simp
      ultimately show ?thesis using skip [of "bump w"] by simp
    next
      case (Inr data)
      then have "parse_config unmarshal data = Inr (lo_config lo)" "lo_path lo = c" "w' = bump w"
        using Cons.prems False read by (auto simp: io_case_def split: sum.splits)
      moreover have "file_at w c = Some data" using read_file_ok [OF read [unfolded Inr]] by simp
      ultimately show ?thesis by (intro conjI exI [of _ "[]"] exI [of _ data] exI [of _ cs]) auto
    qed
  qed
qed

text \<open>What \<open>Load\<close> returns on a machine without failures of its own.\<close>

definition load_spec :: "(string \<Rightarrow> config result) \<Rightarrow> world \<Rightarrow> string list \<Rightarrow> loaded result" where
  "load_spec unmarshal w cs =
     (case find (\<lambda>c. lookup_node w c \<noteq> None) cs of
        None \<Rightarrow> Inl (Err ''dev-connect config not found'' [])
      | Some c \<Rightarrow> (case file_at w c of
          None \<Rightarrow> Inl (Wrap ''read config %q: %w'' [c] (Errno EISDIR))
        | Some data \<Rightarrow> (case parse_config unmarshal data of
            Inl e \<Rightarrow> Inl (Wrap ''load config %q: %w'' [c] e)
          | Inr cfg \<Rightarrow> Inr \<lparr>lo_config = cfg, lo_path = c\<rparr>)))"

lemma load_spec_bump [simp]: "load_spec unmarshal (bump w) cs = load_spec unmarshal w cs"
  by (simp add: load_spec_def cong: option.case_cong)

lemma load_first_calm: "calm w \<Longrightarrow> fst (load_first unmarshal cs w) = load_spec unmarshal w cs"
proof (induction cs arbitrary: w)
  case Nil
  then show ?case by (simp add: load_spec_def)
next
  case (Cons c cs)
  have ih: "fst (load_first unmarshal cs w) = load_spec unmarshal w cs"
    "fst (load_first unmarshal cs (bump w)) = load_spec unmarshal w cs"
    using Cons.IH [of w] Cons.IH [of "bump w"] Cons.prems by simp_all
  show ?case
  proof (cases "lookup_node w c")
    case None
    then have "load_spec unmarshal w (c # cs) = load_spec unmarshal w cs" by (simp add: load_spec_def)
    with None ih read_file_none [OF Cons.prems None] show ?thesis by (simp add: io_case_def)
  next
    case (Some n)
    then have "c \<noteq> []" by auto
    with Some Cons.prems show ?thesis
      by (cases n) (auto simp: load_spec_def io_case_def os_read_file_def file_at_def split: sum.splits)
  qed
qed

section \<open>Properties\<close>


definition demo_proxy_off :: proxy_config where
  "demo_proxy_off = \<lparr>pc_enabled = False, pc_http = [], pc_https = [], pc_no_proxy = []\<rparr>"

definition demo_config :: config where
  "demo_config = \<lparr>cfg_api_version = ''dev-connect/v1'', cfg_kind = ''DevConnectConfig'',
     cfg_contexts = [(''prod'', \<lparr>cx_cluster = ''c1'', cx_gateway = ''g1''\<rparr>)],
     cfg_clusters = [(''c1'', \<lparr>cl_kubeconfig = [], cl_context = ''kc'', cl_kubectl_path = [], cl_proxy = demo_proxy_off\<rparr>)],
     cfg_gateways = [(''g1'', \<lparr>gw_namespace = ''ns'', gw_service = ''svc'', gw_port = 22\<rparr>)],
     cfg_targets = [(''dev'', \<lparr>tg_gateway = ''g1'', tg_user = ''me'', tg_identity_file = [], tg_host_key_ref = []\<rparr>),
                    (''dev2'', \<lparr>tg_gateway = ''g1'', tg_user = ''me'', tg_identity_file = [], tg_host_key_ref = ''dev''\<rparr>)],
     cfg_host_keys = [(''dev'', ''ssh-ed25519 AAAA'')],
     cfg_ssh = \<lparr>ssh_manage_user_config = False, ssh_user_config_path = [], ssh_alive_interval = None,
                 ssh_alive_count_max = Some 0, ssh_tcp_keep_alive = None\<rparr>,
     cfg_vscode = \<lparr>vs_launcher_path = [], vs_isolated = None,
        vs_remote_setup = \<lparr>rs_enabled = False, rs_ssh_path = [], rs_http_proxy = [], rs_https_proxy = [],
          rs_no_proxy = [], rs_proxy_support = [], rs_batch_mode = None\<rparr>\<rparr>\<rparr>"

lemma demo_config_maps_ok: "config_maps_ok demo_config"
  by code_simp

lemma demo_config_validates: "validate_config demo_config = (Inr (), fill_refs demo_config)"
  by code_simp

lemma demo_config_ok: "config_ok demo_config"
  using validate_config_ok [OF demo_config_maps_ok] demo_config_validates by blast


text \<open>What a caller of \<open>Validate\<close> sees: acceptance, and the targets by name.\<close>

definition accepted_targets :: "config \<Rightarrow> (string \<Rightarrow> target option) option" where
  "accepted_targets cfg =
     (case validate_config cfg of (Inl e, v) \<Rightarrow> None | (Inr u, v) \<Rightarrow> Some (map_of (cfg_targets v)))"

lemma accepted_targets_ok:
  assumes "config_maps_ok cfg"
  shows "accepted_targets cfg = (if config_ok cfg then Some (map_of (cfg_targets (fill_refs cfg))) else None)"
proof (cases "config_ok cfg")
  case True
  then show ?thesis using validate_config_ok [OF assms, of "fill_refs cfg"] by (simp add: accepted_targets_def)
next
  case False
  then show ?thesis using validate_config_ok [OF assms]
    by (auto simp: accepted_targets_def split: prod.splits sum.splits)
qed

text \<open>
  C29: the random order of Go's map iteration does not show: two runs that visit the maps of one
  document in different orders agree on whether it is valid, and on every target they return.
\<close>

theorem validation_order_free:
  assumes "reordered cfg cfg'"
  shows "accepted_targets cfg' = accepted_targets cfg"
proof -
  note ok = reordered_maps_ok [OF assms, THEN conjunct1] reordered_maps_ok [OF assms, THEN conjunct2]
  have "map_of (cfg_targets cfg') = map_of (cfg_targets cfg)"
    using assms same_map_lookup unfolding reordered_def by blast
  then have "map_of (cfg_targets (fill_refs cfg')) = map_of (cfg_targets (fill_refs cfg))"
    by (simp add: fun_eq_iff fill_refs_lookup)
  then show ?thesis
    unfolding accepted_targets_ok [OF ok(1)] accepted_targets_ok [OF ok(2)] by (simp add: reordered_ok [OF assms])
qed

theorem validation_order_free_witness:
  "accepted_targets (demo_config\<lparr>cfg_targets := rev (cfg_targets demo_config)\<rparr>) =
     Some (map_of (cfg_targets (fill_refs demo_config)))"
proof -
  have "reordered demo_config (demo_config\<lparr>cfg_targets := rev (cfg_targets demo_config)\<rparr>)"
    using demo_config_maps_ok by (simp add: reordered_def same_map_def config_maps_ok_def)
  from validation_order_free [OF this] show ?thesis
    by (simp add: accepted_targets_def [of demo_config] demo_config_validates)
qed

text \<open>
  C30: whatever the machine does, a configuration that is returned comes from a candidate whose
  predecessors in the order of precedence (explicit path, environment, default directory,
  development directory) do not exist, it is the parsed content of that file, and looking for
  it changed no file.
\<close>

theorem load_config_precedence:
  assumes "load_config unmarshal goos home app_data l w = (Inr lo, w')"
  shows "w_nodes w' = w_nodes w \<and>
     (\<exists>pre data post. candidates goos home app_data l = Inr (pre @ lo_path lo # post) \<and>
        (\<forall>p \<in> set pre. lookup_node w p = None) \<and> file_at w (lo_path lo) = Some data \<and>
        parse_config unmarshal data = Inr (lo_config lo))"
proof -
  obtain cs where cs: "candidates goos home app_data l = Inr cs" and run: "load_first unmarshal cs w = (Inr lo, w')"
    using assms by (auto simp: load_config_def io_bind_eq_Inr)
  show ?thesis using load_first_ok [OF run] cs by auto
qed

definition demo_loader :: loader where
  "demo_loader = \<lparr>ld_explicit_path = [], ld_env_config = ''/none'', ld_default_dir = ''/c'', ld_development_dir = []\<rparr>"

definition demo_config_world :: world where
  "demo_config_world = \<lparr>w_nodes = [''/c'' \<mapsto> Dir 493, ''/c/config.yaml'' \<mapsto> File ''doc'' 384], w_umask = 18,
     w_fault = (\<lambda>t op p. False), w_short = (\<lambda>t. 0), w_clock = 0, w_procs = []\<rparr>"

theorem load_config_precedence_witness:
  "\<exists>lo w'. load_config (\<lambda>_. Inr demo_config) ''linux'' ''/home'' [] demo_loader demo_config_world = (Inr lo, w') \<and>
     lo_path lo = ''/c/config.yaml'' \<and> w_nodes w' = w_nodes demo_config_world"
proof -
  have "fst (load_config (\<lambda>_. Inr demo_config) ''linux'' ''/home'' [] demo_loader demo_config_world) =
      Inr \<lparr>lo_config = fill_refs demo_config, lo_path = ''/c/config.yaml''\<rparr>"
    by code_simp
  then obtain lo w' where run: "load_config (\<lambda>_. Inr demo_config) ''linux'' ''/home'' [] demo_loader demo_config_world = (Inr lo, w')"
    and path: "lo_path lo = ''/c/config.yaml''"
    by (metis loaded.select_convs(2) prod.collapse)
  from load_config_precedence [OF run] run path show ?thesis by blast
qed

text \<open>
  On a machine without failures of its own, \<open>Load\<close> returns what its specification says:
  the first candidate that exists decides, also when it cannot be read or is invalid, and
  without one the configuration is reported as not found.
\<close>

lemma load_config_functional:
  assumes "calm w"
  shows "fst (load_config unmarshal goos home app_data l w) =
     (case candidates goos home app_data l of Inl e \<Rightarrow> Inl e | Inr cs \<Rightarrow> load_spec unmarshal w cs)"
  using load_first_calm [OF assms] by (simp add: load_config_def io_bind_def split: sum.splits)

theorem load_config_functional_witness:
  "fst (load_config (\<lambda>_. Inl (Err ''bad'' [])) ''linux'' ''/home'' [] demo_loader demo_config_world) =
     Inl (Wrap ''load config %q: %w'' [''/c/config.yaml''] (Wrap ''parse config YAML: %w'' [] (Err ''bad'' [])))"
proof -
  have "calm demo_config_world" by (simp add: calm_def demo_config_world_def)
  moreover have "(case candidates ''linux'' ''/home'' [] demo_loader of
        Inl e \<Rightarrow> Inl e | Inr cs \<Rightarrow> load_spec (\<lambda>_. Inl (Err ''bad'' [])) demo_config_world cs) =
      Inl (Wrap ''load config %q: %w'' [''/c/config.yaml''] (Wrap ''parse config YAML: %w'' [] (Err ''bad'' [])))"
    by code_simp
  ultimately show ?thesis
    using load_config_functional [of demo_config_world "\<lambda>_. Inl (Err ''bad'' [])" "''linux''" "''/home''" "[]" demo_loader]
    by simp
qed

end
