(* ===== verification/Kubectl_Command.thy ===== *)
theory Kubectl_Command
  imports Go_Strings
begin

text \<open>
  \<open>internal/kubectl/command.go\<close>: the \<open>kubectl\<close> invocations of the program and the results of
  running them.
\<close>

section \<open>Commands and results\<close>

record command =
  cmd_args :: "string list"
  cmd_env :: "string list"

record run_result =
  rr_stdout :: string
  rr_stderr :: string
  rr_exit :: int

record started_process =
  sp_pid :: int
  sp_stdout :: string
  sp_stderr :: string

record port_forward_options =
  pf_namespace :: string
  pf_service :: string
  pf_local_port :: int
  pf_remote_port :: int
  pf_context :: string
  pf_kubeconfig :: string

record auth_options =
  au_namespace :: string
  au_verb :: string
  au_resource :: string
  au_context :: string
  au_kubeconfig :: string

record version_options =
  ve_context :: string
  ve_kubeconfig :: string

definition base_args :: "string \<Rightarrow> string \<Rightarrow> string \<Rightarrow> string list" where
  "base_args kubeconfig context_name namespace =
     (let args = [];
          args = (if kubeconfig \<noteq> [] then args @ [''--kubeconfig'', kubeconfig] else args);
          args = (if context_name \<noteq> [] then args @ [''--context'', context_name] else args)
      in if namespace \<noteq> [] then args @ [''-n'', namespace] else args)"

definition port_forward_command :: "port_forward_options \<Rightarrow> command" where
  "port_forward_command o1 =
     \<lparr>cmd_args = base_args (pf_kubeconfig o1) (pf_context o1) (pf_namespace o1) @
        [''port-forward'', ''service/'' @ pf_service o1,
         show_int (pf_local_port o1) @ '':'' @ show_int (pf_remote_port o1)],
      cmd_env = []\<rparr>"

definition auth_can_i_command :: "auth_options \<Rightarrow> command" where
  "auth_can_i_command o1 =
     \<lparr>cmd_args = base_args (au_kubeconfig o1) (au_context o1) (au_namespace o1) @
        [''auth'', ''can-i'', au_verb o1, au_resource o1],
      cmd_env = []\<rparr>"

definition version_command :: "version_options \<Rightarrow> command" where
  "version_command o1 =
     \<lparr>cmd_args = base_args (ve_kubeconfig o1) (ve_context o1) [] @ [''version''], cmd_env = []\<rparr>"

section \<open>How kubectl reads its arguments\<close>

text \<open>
  The global flags in front of the verb, each with its value in the next argument, as
  \<open>kubectl\<close> parses them: the argument after a flag is its value whatever it looks like.
\<close>

record kubectl_view =
  kv_kubeconfig :: string
  kv_context :: string
  kv_namespace :: string
  kv_rest :: "string list"

fun view_args :: "kubectl_view \<Rightarrow> string list \<Rightarrow> kubectl_view" where
  "view_args v (f # x # rest) =
     (if f = ''--kubeconfig'' then view_args (v\<lparr>kv_kubeconfig := x\<rparr>) rest
      else if f = ''--context'' then view_args (v\<lparr>kv_context := x\<rparr>) rest
      else if f = ''-n'' then view_args (v\<lparr>kv_namespace := x\<rparr>) rest
      else v\<lparr>kv_rest := f # x # rest\<rparr>)"
| "view_args v rest = v\<lparr>kv_rest := rest\<rparr>"

definition kubectl_reads :: "command \<Rightarrow> kubectl_view" where
  "kubectl_reads c = view_args \<lparr>kv_kubeconfig = [], kv_context = [], kv_namespace = [], kv_rest = []\<rparr> (cmd_args c)"

lemma view_base_args:
  assumes "rest = v # vs" and "v \<notin> {''--kubeconfig'', ''--context'', ''-n''}"
  shows "view_args \<lparr>kv_kubeconfig = [], kv_context = [], kv_namespace = [], kv_rest = []\<rparr> (base_args k c n @ rest) =
    \<lparr>kv_kubeconfig = k, kv_context = c, kv_namespace = n, kv_rest = rest\<rparr>"
proof -
  have stop: "view_args u rest = u\<lparr>kv_rest := rest\<rparr>" for u
    using assms by (cases vs) simp_all
  show ?thesis
    by (cases "k = []"; cases "c = []"; cases "n = []") (simp_all add: base_args_def stop)
qed

lemma port_pair_inject:
  "show_int a @ '':'' @ show_int b = show_int a' @ '':'' @ show_int b' \<Longrightarrow> a = a' \<and> b = b'"
proof -
  assume eq: "show_int a @ '':'' @ show_int b = show_int a' @ '':'' @ show_int b'"
  have no: "CHR '':'' \<notin> set (show_int i)" for i by (rule show_int_avoids) (simp_all add: digit_chars_def)
  have cut: "str_cut (CHR '':'') (show_int i @ '':'' @ show_int j) = Some (show_int i, show_int j)" for i j
    using no by (simp add: str_cut_Some)
  have "Some (show_int a, show_int b) = Some (show_int a', show_int b')"
    using cut [of a b] cut [of a' b'] unfolding eq by (rule subst)
  then show ?thesis by simp
qed

section \<open>Properties\<close>

text \<open>
  C31: \<open>kubectl\<close> reads the port-forward command of the program as the kubeconfig, context and
  namespace that were configured, unset ones left to its defaults, and as a forward of the
  gateway's service; different requests give different commands.
\<close>

theorem port_forward_command_faithful:
  "kubectl_reads (port_forward_command o1) =
     \<lparr>kv_kubeconfig = pf_kubeconfig o1, kv_context = pf_context o1, kv_namespace = pf_namespace o1,
      kv_rest = [''port-forward'', ''service/'' @ pf_service o1,
                 show_int (pf_local_port o1) @ '':'' @ show_int (pf_remote_port o1)]\<rparr> \<and>
   (port_forward_command o1 = port_forward_command o2 \<longleftrightarrow> o1 = o2)"
proof -
  have view: "kubectl_reads (port_forward_command x) =
     \<lparr>kv_kubeconfig = pf_kubeconfig x, kv_context = pf_context x, kv_namespace = pf_namespace x,
      kv_rest = [''port-forward'', ''service/'' @ pf_service x,
                 show_int (pf_local_port x) @ '':'' @ show_int (pf_remote_port x)]\<rparr>" for x
    unfolding kubectl_reads_def port_forward_command_def command.simps by (rule view_base_args) auto
  have "o1 = o2" if "port_forward_command o1 = port_forward_command o2"
    using view [of o1] view [of o2] that
      port_pair_inject [of "pf_local_port o2" "pf_remote_port o2" "pf_local_port o1" "pf_remote_port o1"]
    by (auto intro!: port_forward_options.equality)
  then show ?thesis using view by blast
qed

end
