(* ===== verification/Kubectl_Runner.thy ===== *)
theory Kubectl_Runner
  imports Base_Prelude Kubectl_Command Proxy_Env
begin

text \<open>
  The runners of \<open>kubectl\<close>: \<open>ExecutableRunner\<close> of \<open>internal/kubectl/runner.go\<close>, the fake runner
  of \<open>internal/kubectl/fake_test_harness.go\<close> and the interface they share.

  The operating system and the child process are parameters: \<open>ch_run\<close> is \<open>cmd.Run\<close>,
  \<open>ch_select\<close> what the \<open>select\<close> of \<open>RunUntilReady\<close> receives from a started process in the
  order in which it receives it, \<open>ch_poll\<close> the same for \<open>StartUntilReady\<close>. Such a run is
  finite: it ends when the process or the context ends. \<open>Kubectl_Ready\<close> takes the first of
  the two loops apart into its goroutines.
\<close>

section \<open>Results of child processes\<close>

text \<open>
  The error of \<open>Run\<close> and \<open>Wait\<close>: an \<open>*exec.ExitError\<close> with its exit code, which is -1 for a
  process that was killed and never 0, or any other error.
\<close>

datatype exec_error = Process_Exit int go_error | Exec_Failed go_error

fun exec_cause :: "exec_error \<Rightarrow> go_error" where
  "exec_cause (Process_Exit c e) = e"
| "exec_cause (Exec_Failed e) = e"

fun exit_code :: "exec_error option \<Rightarrow> int" where
  "exit_code None = 0"
| "exit_code (Some (Process_Exit c e)) = c"
| "exit_code (Some (Exec_Failed e)) = -1"

type_synonym run_outcome = "run_result \<times> go_error option"
type_synonym ready_func = "string \<Rightarrow> bool"

definition no_result :: run_result where
  "no_result = \<lparr>rr_stdout = [], rr_stderr = [], rr_exit = 0\<rparr>"

text \<open>The end of \<open>Run\<close> and the \<open>waitCh\<close> branch of \<open>RunUntilReady\<close>\<close>

definition ended_outcome :: "string \<Rightarrow> string \<Rightarrow> string \<Rightarrow> exec_error option \<Rightarrow> run_outcome" where
  "ended_outcome message out err e =
     (let result = \<lparr>rr_stdout = out, rr_stderr = err, rr_exit = exit_code e\<rparr>
      in case e of
           None \<Rightarrow> (result, None)
         | Some x \<Rightarrow>
             if 0 \<le> rr_exit result then (result, Some (Exit_Error (rr_exit result) (rr_stderr result)))
             else (result, Some (Wrap message [] (exec_cause x))))"

section \<open>Waiting for readiness\<close>

datatype stream = Std_Out | Std_Err

datatype select_run =
    Got stream string select_run
  | Scan_Failed select_run
  | Process_Ended "exec_error option"
  | Context_Done go_error

abbreviation newline :: char where
  "newline \<equiv> CHR 0x0A"

fun until_ready :: "ready_func \<Rightarrow> string \<Rightarrow> string \<Rightarrow> select_run \<Rightarrow> run_outcome" where
  "until_ready ready out err (Got stream line k) =
     (let out = (if stream = Std_Out then out @ line @ [newline] else out);
          err = (if stream = Std_Err then err @ line @ [newline] else err)
      in if ready line then (\<lparr>rr_stdout = out, rr_stderr = err, rr_exit = 0\<rparr>, None)
         else until_ready ready out err k)"
| "until_ready ready out err (Scan_Failed k) = until_ready ready out err k"
| "until_ready ready out err (Process_Ended e) = ended_outcome ''run kubectl until ready: %w'' out err e"
| "until_ready ready out err (Context_Done e) = (\<lparr>rr_stdout = out, rr_stderr = err, rr_exit = -1\<rparr>, Some e)"

definition ready_output :: "string \<Rightarrow> ready_func \<Rightarrow> bool" where
  "ready_output output ready = list_ex ready (str_split newline output)"

text \<open>What the ticker and \<open>waitCh\<close> branches of \<open>StartUntilReady\<close> read from the two log files.\<close>

datatype poll_run =
    Tick string string poll_run
  | Poll_Ended string string "exec_error option"
  | Poll_Context_Done go_error

fun start_loop :: "ready_func \<Rightarrow> int \<Rightarrow> poll_run \<Rightarrow> started_process result" where
  "start_loop ready pid (Tick out err k) =
     (if ready_output out ready \<or> ready_output err ready
      then Inr \<lparr>sp_pid = pid, sp_stdout = out, sp_stderr = err\<rparr>
      else start_loop ready pid k)"
| "start_loop ready pid (Poll_Ended out err e) =
     (if ready_output out ready \<or> ready_output err ready
      then Inr \<lparr>sp_pid = pid, sp_stdout = out, sp_stderr = err\<rparr>
      else case e of
             Some x \<Rightarrow> if 0 \<le> exit_code e then Inl (Exit_Error (exit_code e) err)
                        else Inl (Wrap ''start kubectl until ready: %w'' [] (exec_cause x))
           | None \<Rightarrow> Inl (Err ''kubectl exited before readiness'' []))"
| "start_loop ready pid (Poll_Context_Done e) = Inl e"

section \<open>The executable runner\<close>

record executable_runner =
  er_path :: string
  er_base_env :: "string list option"

text \<open>
  \<open>Inl (message, e)\<close> of \<open>ch_select\<close> and \<open>ch_poll\<close> stands for a pipe, log file or process that
  could not be opened or started, with the message of the step that failed.
\<close>

record 's child =
  ch_environ :: "string list"
  ch_run :: "string \<Rightarrow> string list \<Rightarrow> string list \<Rightarrow> 's \<Rightarrow> (string \<times> string \<times> exec_error option) \<times> 's"
  ch_select :: "string \<Rightarrow> string list \<Rightarrow> string list \<Rightarrow> 's \<Rightarrow> ((string \<times> go_error) + select_run) \<times> 's"
  ch_poll :: "string \<Rightarrow> string list \<Rightarrow> string list \<Rightarrow> 's \<Rightarrow> ((string \<times> go_error) + (int \<times> poll_run)) \<times> 's"

text \<open>The state of the machine with a record of the commands that were executed.\<close>

record 's machine =
  mc_started :: "(string \<times> string list \<times> string list) list"
  mc_state :: 's

definition base_env :: "'s child \<Rightarrow> executable_runner \<Rightarrow> string list" where
  "base_env ch runner = (case er_base_env runner of Some env \<Rightarrow> env | None \<Rightarrow> ch_environ ch)"

definition invocation :: "'s child \<Rightarrow> executable_runner \<Rightarrow> command \<Rightarrow> string \<times> string list \<times> string list" where
  "invocation ch runner c = (er_path runner, cmd_args c, merge_env (base_env ch runner) (cmd_env c))"

text \<open>Runs one of the three operations of the child on the state, and records the invocation.\<close>

definition execute ::
  "'s child \<Rightarrow> executable_runner \<Rightarrow> command \<Rightarrow>
   (string \<Rightarrow> string list \<Rightarrow> string list \<Rightarrow> 's \<Rightarrow> 'a \<times> 's) \<Rightarrow> 's machine \<Rightarrow> 'a \<times> 's machine" where
  "execute ch runner c op m =
     (case invocation ch runner c of (path, args, env) \<Rightarrow>
      case op path args env (mc_state m) of (x, s) \<Rightarrow>
        (x, \<lparr>mc_started = mc_started m @ [(path, args, env)], mc_state = s\<rparr>))"

definition executable_run :: "'s child \<Rightarrow> executable_runner \<Rightarrow> command \<Rightarrow> 's machine \<Rightarrow> run_outcome \<times> 's machine" where
  "executable_run ch runner c m =
     (if er_path runner = [] then ((no_result, Some (Err ''kubectl path is required'' [])), m)
      else case execute ch runner c (ch_run ch) m of ((out, err, e), m') \<Rightarrow>
             (ended_outcome ''run kubectl: %w'' out err e, m'))"

definition executable_run_until_ready ::
  "'s child \<Rightarrow> executable_runner \<Rightarrow> command \<Rightarrow> ready_func option \<Rightarrow> 's machine \<Rightarrow> run_outcome \<times> 's machine" where
  "executable_run_until_ready ch runner c ready m =
     (case ready of
        None \<Rightarrow> ((no_result, Some (Err ''ready function is required'' [])), m)
      | Some ready \<Rightarrow>
          if er_path runner = [] then ((no_result, Some (Err ''kubectl path is required'' [])), m)
          else case execute ch runner c (ch_select ch) m of
                 (Inl (message, e), m') \<Rightarrow> ((no_result, Some (Wrap message [] e)), m')
               | (Inr run, m') \<Rightarrow> (until_ready ready [] [] run, m'))"

definition executable_start_until_ready ::
  "'s child \<Rightarrow> executable_runner \<Rightarrow> command \<Rightarrow> ready_func option \<Rightarrow> 's machine \<Rightarrow> started_process result \<times> 's machine" where
  "executable_start_until_ready ch runner c ready m =
     (case ready of
        None \<Rightarrow> (Inl (Err ''ready function is required'' []), m)
      | Some ready \<Rightarrow>
          if er_path runner = [] then (Inl (Err ''kubectl path is required'' []), m)
          else case execute ch runner c (ch_poll ch) m of
                 (Inl (message, e), m') \<Rightarrow> (Inl (Wrap message [] e), m')
               | (Inr (pid, run), m') \<Rightarrow> (start_loop ready pid run, m'))"

section \<open>The interface\<close>

text \<open>
  A value of type \<open>kubectl.Runner\<close>: its \<open>Run\<close>, and the methods that a type assertion to
  \<open>ReadyRunner\<close> or \<open>BackgroundRunner\<close> finds, if any.
\<close>

record 's runner =
  r_run :: "command \<Rightarrow> 's \<Rightarrow> run_outcome \<times> 's"
  r_until_ready :: "(command \<Rightarrow> ready_func option \<Rightarrow> 's \<Rightarrow> run_outcome \<times> 's) option"
  r_start :: "(command \<Rightarrow> ready_func option \<Rightarrow> 's \<Rightarrow> started_process result \<times> 's) option"

definition executable_as_runner :: "'s child \<Rightarrow> executable_runner \<Rightarrow> 's machine runner" where
  "executable_as_runner ch runner =
     \<lparr>r_run = executable_run ch runner,
      r_until_ready = Some (executable_run_until_ready ch runner),
      r_start = Some (executable_start_until_ready ch runner)\<rparr>"

record fake_state =
  fk_results :: "run_result list"
  fk_commands :: "command list"

definition fake_run :: "command \<Rightarrow> fake_state \<Rightarrow> run_outcome \<times> fake_state" where
  "fake_run c s =
     (let s = s\<lparr>fk_commands := fk_commands s @ [c]\<rparr>;
          (result, s) = (case fk_results s of
              [] \<Rightarrow> (no_result, s)
            | r # rs \<Rightarrow> (r, s\<lparr>fk_results := rs\<rparr>))
      in if rr_exit result \<noteq> 0
         then ((result, Some (Exit_Error (rr_exit result) (rr_stderr result))), s)
         else ((result, None), s))"

definition new_fake_runner :: "run_result list \<Rightarrow> fake_state" where
  "new_fake_runner results = \<lparr>fk_results = results, fk_commands = []\<rparr>"

definition fake_as_runner :: "fake_state runner" where
  "fake_as_runner = \<lparr>r_run = fake_run, r_until_ready = None, r_start = None\<rparr>"

text \<open>
  What the callers rely on: every call makes exactly one invocation, and a call without an
  error reports exit code 0; a readiness call without an error saw a ready line on its way
  or the process end well.
\<close>

locale kubectl_runner =
  fixes R :: "'s runner" and entry :: "command \<Rightarrow> 'l" and log :: "'s \<Rightarrow> 'l list"
  assumes run_log: "log (snd (r_run R c s)) = log s @ [entry c]"
    and ready_log: "r_until_ready R = Some f \<Longrightarrow> log (snd (f c (Some p) s)) = log s @ [entry c]"
    and start_log: "r_start R = Some g \<Longrightarrow> log (snd (g c (Some p) s)) = log s @ [entry c]"
    and run_exit: "fst (r_run R c s) = (r, None) \<Longrightarrow> rr_exit r = 0"
    and ready_exit: "r_until_ready R = Some f \<Longrightarrow> fst (f c (Some p) s) = (r, None) \<Longrightarrow> rr_exit r = 0"
    and start_ready: "r_start R = Some g \<Longrightarrow> fst (g c (Some p) s) = Inr sp \<Longrightarrow>
      ready_output (sp_stdout sp) p \<or> ready_output (sp_stderr sp) p"

section \<open>Both runners meet it\<close>

lemma ended_outcome_None: "ended_outcome m out err e = (r, None) \<Longrightarrow> e = None \<and> rr_exit r = 0 \<and> rr_stdout r = out \<and> rr_stderr r = err"
  by (cases e) (auto simp: ended_outcome_def Let_def split: if_splits)

lemma until_ready_exit: "until_ready ready out err run = (r, None) \<Longrightarrow> rr_exit r = 0"
  by (induction ready out err run rule: until_ready.induct)
    (auto simp: Let_def dest: ended_outcome_None split: if_splits)

lemma start_loop_ready:
  "start_loop ready pid run = Inr sp \<Longrightarrow>
   sp_pid sp = pid \<and> (ready_output (sp_stdout sp) ready \<or> ready_output (sp_stderr sp) ready)"
  by (induction ready pid run rule: start_loop.induct) (auto split: if_splits option.splits)

lemma execute_started:
  "execute ch runner c op m = (x, m') \<Longrightarrow> mc_started m' = mc_started m @ [invocation ch runner c]"
  by (auto simp: execute_def split: prod.splits)

interpretation fake: kubectl_runner fake_as_runner "\<lambda>c. c" fk_commands
  by unfold_locales
    (auto simp: fake_as_runner_def fake_run_def Let_def no_result_def split: list.splits if_splits)

interpretation executable: kubectl_runner "executable_as_runner ch \<lparr>er_path = x # xs, er_base_env = env\<rparr>"
    "invocation ch \<lparr>er_path = x # xs, er_base_env = env\<rparr>" mc_started
  for ch x xs env
proof unfold_locales
  let ?r = "\<lparr>er_path = x # xs, er_base_env = env\<rparr>"
  fix c p s r sp f g
  obtain out err e m where run: "execute ch ?r c (ch_run ch) s = ((out, err, e), m)"
    using prod_cases4 by (metis prod.collapse)
  show "mc_started (snd (r_run (executable_as_runner ch ?r) c s)) = mc_started s @ [invocation ch ?r c]"
    using execute_started [OF run] by (simp add: executable_as_runner_def executable_run_def run)
  show "rr_exit r = 0" if "fst (r_run (executable_as_runner ch ?r) c s) = (r, None)"
    using that ended_outcome_None by (simp add: executable_as_runner_def executable_run_def run)
  obtain y m2 where sel: "execute ch ?r c (ch_select ch) s = (y, m2)" by fastforce
  show "mc_started (snd (f c (Some p) s)) = mc_started s @ [invocation ch ?r c]"
    if "r_until_ready (executable_as_runner ch ?r) = Some f"
    using that execute_started [OF sel]
    by (auto simp: executable_as_runner_def executable_run_until_ready_def sel split: sum.splits)
  show "rr_exit r = 0"
    if "r_until_ready (executable_as_runner ch ?r) = Some f" and "fst (f c (Some p) s) = (r, None)"
    using that until_ready_exit
    by (auto simp: executable_as_runner_def executable_run_until_ready_def sel split: sum.splits)
  obtain z m3 where poll: "execute ch ?r c (ch_poll ch) s = (z, m3)" by fastforce
  show "mc_started (snd (g c (Some p) s)) = mc_started s @ [invocation ch ?r c]"
    if "r_start (executable_as_runner ch ?r) = Some g"
    using that execute_started [OF poll]
    by (auto simp: executable_as_runner_def executable_start_until_ready_def poll split: sum.splits)
  show "ready_output (sp_stdout sp) p \<or> ready_output (sp_stderr sp) p"
    if "r_start (executable_as_runner ch ?r) = Some g" and "fst (g c (Some p) s) = Inr sp"
    using that
    by (auto simp: executable_as_runner_def executable_start_until_ready_def poll
        dest!: start_loop_ready split: sum.splits)
qed


section \<open>Properties\<close>

text \<open>What the loop of \<open>StartUntilReady\<close> reads, poll by poll, and the error it ends with.\<close>

fun polled :: "poll_run \<Rightarrow> (string \<times> string) list" where
  "polled (Tick out err k) = (out, err) # polled k"
| "polled (Poll_Ended out err e) = [(out, err)]"
| "polled (Poll_Context_Done e) = []"

fun poll_error :: "poll_run \<Rightarrow> go_error" where
  "poll_error (Tick out err k) = poll_error k"
| "poll_error (Poll_Ended out err None) = Err ''kubectl exited before readiness'' []"
| "poll_error (Poll_Ended out err (Some x)) =
     (if 0 \<le> exit_code (Some x) then Exit_Error (exit_code (Some x)) err
      else Wrap ''start kubectl until ready: %w'' [] (exec_cause x))"
| "poll_error (Poll_Context_Done e) = e"

text \<open>
  \<open>StartUntilReady\<close> reports the process as started with the first output it reads that has
  a ready line, also when it reads it only after the process has ended; without such an output
  it returns an error that tells why, never a process.
\<close>

lemma start_until_ready_outcome:
  "start_loop ready pid run =
     (case find (\<lambda>(out, err). ready_output out ready \<or> ready_output err ready) (polled run) of
        Some (out, err) \<Rightarrow> Inr \<lparr>sp_pid = pid, sp_stdout = out, sp_stderr = err\<rparr>
      | None \<Rightarrow> Inl (poll_error run))"
proof (induction ready pid run rule: start_loop.induct)
  case (2 ready pid out err e)
  then show ?case by (cases e) simp_all
qed (simp_all cong: option.case_cong)

text \<open>
  C33: a run with a path executes exactly one process, the configured \<open>kubectl\<close> with the
  arguments of the command and the merged environment; it reports an error exactly if the
  process did not end well, and a failure with an exit code carries that code and the
  process's own error output.
\<close>

theorem executable_run_faithful:
  assumes "er_path runner \<noteq> []" and "ch_run ch (er_path runner) (cmd_args c) (merge_env (base_env ch runner) (cmd_env c)) (mc_state m) = ((out, err, e), s')"
    and "executable_run ch runner c m = ((r, failure), m')"
    and exit_codes: "\<forall>code x. e = Some (Process_Exit code x) \<longrightarrow> code \<noteq> 0"
  shows "mc_started m' = mc_started m @ [(er_path runner, cmd_args c, merge_env (base_env ch runner) (cmd_env c))] \<and>
     mc_state m' = s' \<and> rr_stdout r = out \<and> rr_stderr r = err \<and>
     (failure = None \<longleftrightarrow> e = None) \<and>
     (\<forall>code msg. failure = Some (Exit_Error code msg) \<longrightarrow> 0 < code \<and> rr_exit r = code \<and> msg = err)"
proof -
  have run: "(r, failure) = ended_outcome ''run kubectl: %w'' out err e" "m' = \<lparr>mc_started = mc_started m @
      [(er_path runner, cmd_args c, merge_env (base_env ch runner) (cmd_env c))], mc_state = s'\<rparr>"
    using assms(1-3) by (auto simp: executable_run_def execute_def invocation_def)
  have code: "exit_code e \<noteq> 0" if "e = Some x" for x using that exit_codes by (cases x) auto
  show ?thesis
  proof (cases e)
    case None
    then show ?thesis using run by (simp add: ended_outcome_def Let_def)
  next
    case (Some x)
    then show ?thesis using run code [OF Some]
      by (cases "0 \<le> exit_code (Some x)") (auto simp: ended_outcome_def Let_def)
  qed
qed

definition demo_child :: "nat child" where
  "demo_child = \<lparr>ch_environ = [''HOME=/h''],
     ch_run = (\<lambda>path args env n. ((''out'', ''denied'', Some (Process_Exit 1 (Err ''exit status 1'' []))), Suc n)),
     ch_select = (\<lambda>path args env n. (Inr (Process_Ended None), n)),
     ch_poll = (\<lambda>path args env n. (Inr (7, Tick ''Forwarding from 127.0.0.1'' [] (Poll_Context_Done (Err ''deadline'' []))), n))\<rparr>"

theorem executable_run_faithful_witness:
  "\<exists>r m'. executable_run demo_child \<lparr>er_path = ''/k'', er_base_env = None\<rparr> \<lparr>cmd_args = [''version''], cmd_env = [''A=1'']\<rparr>
      \<lparr>mc_started = [], mc_state = 0\<rparr> = ((r, Some (Exit_Error 1 ''denied'')), m') \<and>
    mc_started m' = [(''/k'', [''version''], [''HOME=/h'', ''A=1''])] \<and> rr_exit r = 1"
proof -
  let ?r = "\<lparr>er_path = ''/k'', er_base_env = None\<rparr>" and ?c = "\<lparr>cmd_args = [''version''], cmd_env = [''A=1'']\<rparr>"
  let ?m = "\<lparr>mc_started = [], mc_state = 0\<rparr> :: nat machine"
  have env: "merge_env (base_env demo_child ?r) (cmd_env ?c) = [''HOME=/h'', ''A=1'']" by code_simp
  have "snd (fst (executable_run demo_child ?r ?c ?m)) = Some (Exit_Error 1 ''denied'')" by code_simp
  then obtain r m' where run: "executable_run demo_child ?r ?c ?m = ((r, Some (Exit_Error 1 ''denied'')), m')"
    by (metis prod.collapse)
  have path: "er_path ?r \<noteq> []" by simp
  have child: "ch_run demo_child (er_path ?r) (cmd_args ?c) (merge_env (base_env demo_child ?r) (cmd_env ?c)) (mc_state ?m) =
      ((''out'', ''denied'', Some (Process_Exit 1 (Err ''exit status 1'' []))), 1)"
    by (simp add: demo_child_def)
  have "mc_started m' = mc_started ?m @ [(er_path ?r, cmd_args ?c, merge_env (base_env demo_child ?r) (cmd_env ?c))]"
      and "rr_exit r = 1"
    using executable_run_faithful [OF path child run] by auto
  then show ?thesis using run unfolding env by auto
qed

end
