(* ===== verification/Kubectl_Ready.thy ===== *)
theory Kubectl_Ready
  imports Kubectl_Runner
begin

text \<open>
  \<open>RunUntilReady\<close> of \<open>internal/kubectl/runner.go\<close> as the system of goroutines it is: the child
  process, the two goroutines of \<open>scanOutput\<close> with the pipes they read, the channel \<open>events\<close> of
  capacity 2, the goroutine that waits for the process, and the \<open>select\<close> loop. Every goroutine
  can take its next step at any time; \<open>select\<close> may take any branch that is ready.

  \<open>Wait\<close> closes the reading ends of the pipes when the process has ended, so that what the
  scanners have not read by then is lost; this is the documented behaviour of
  \<open>StdoutPipe\<close> and \<open>Wait\<close>.
\<close>

section \<open>The goroutines\<close>

datatype phase = Selecting | Stopping run_outcome | Returned run_outcome

text \<open>
  \<open>rd_written\<close> is all that the process has printed, \<open>rd_pipe\<close> what is still in the pipes,
  \<open>rd_chan\<close> the channel (\<open>None\<close> is a scanner error), \<open>rd_exit\<close> the end of the process and
  \<open>rd_wait\<close> the content of \<open>waitCh\<close>. \<open>rd_seen\<close> records what the loop has received.
\<close>

record ready_state =
  rd_written :: "stream \<Rightarrow> string list"
  rd_pipe :: "stream \<Rightarrow> string list"
  rd_scanning :: "stream \<Rightarrow> bool"
  rd_chan :: "(stream \<times> string option) list"
  rd_exit :: "exec_error option option"
  rd_wait :: "exec_error option option"
  rd_ctx :: "go_error option"
  rd_buf :: "stream \<Rightarrow> string"
  rd_phase :: phase
  rd_seen :: "(stream \<times> string option) list"

definition ready_init :: ready_state where
  "ready_init = \<lparr>rd_written = (\<lambda>_. []), rd_pipe = (\<lambda>_. []), rd_scanning = (\<lambda>_. True), rd_chan = [],
     rd_exit = None, rd_wait = None, rd_ctx = None, rd_buf = (\<lambda>_. []), rd_phase = Selecting, rd_seen = []\<rparr>"

definition result_of :: "ready_state \<Rightarrow> int \<Rightarrow> run_result" where
  "result_of s code = \<lparr>rr_stdout = rd_buf s Std_Out, rr_stderr = rd_buf s Std_Err, rr_exit = code\<rparr>"

text \<open>The branch of the loop that receives a line.\<close>

definition receive_line :: "ready_func \<Rightarrow> stream \<Rightarrow> string \<Rightarrow> ready_state \<Rightarrow> ready_state" where
  "receive_line ready st l s =
     (let s = s\<lparr>rd_buf := (rd_buf s)(st := rd_buf s st @ l @ [newline]), rd_chan := tl (rd_chan s),
                rd_seen := rd_seen s @ [(st, Some l)]\<rparr>
      in if ready l then s\<lparr>rd_phase := Stopping (result_of s 0, None)\<rparr> else s)"

inductive ready_step :: "ready_func \<Rightarrow> ready_state \<Rightarrow> ready_state \<Rightarrow> bool" for ready :: ready_func where
  Process_Writes: "rd_exit s = None \<Longrightarrow>
    ready_step ready s (s\<lparr>rd_written := (rd_written s)(st := rd_written s st @ [l]),
                          rd_pipe := (rd_pipe s)(st := rd_pipe s st @ [l])\<rparr>)"
| Process_Ends: "rd_exit s = None \<Longrightarrow> ready_step ready s (s\<lparr>rd_exit := Some e\<rparr>)"
| Wait_Returns: "rd_exit s = Some e \<Longrightarrow> rd_wait s = None \<Longrightarrow> \<forall>st. prefix (p st) (rd_pipe s st) \<Longrightarrow>
    ready_step ready s (s\<lparr>rd_wait := Some e, rd_pipe := p\<rparr>)"
| Scan_Line: "rd_scanning s st \<Longrightarrow> rd_pipe s st = l # rest \<Longrightarrow> length (rd_chan s) < 2 \<Longrightarrow>
    ready_step ready s (s\<lparr>rd_pipe := (rd_pipe s)(st := rest), rd_chan := rd_chan s @ [(st, Some l)]\<rparr>)"
| Scan_Error: "rd_scanning s st \<Longrightarrow> length (rd_chan s) < 2 \<Longrightarrow>
    ready_step ready s (s\<lparr>rd_scanning := (rd_scanning s)(st := False), rd_chan := rd_chan s @ [(st, None)]\<rparr>)"
| Context_Ends: "rd_ctx s = None \<Longrightarrow> ready_step ready s (s\<lparr>rd_ctx := Some e\<rparr>)"
| Select_Line: "rd_phase s = Selecting \<Longrightarrow> rd_chan s = (st, Some l) # rest \<Longrightarrow>
    ready_step ready s (receive_line ready st l s)"
| Select_Error: "rd_phase s = Selecting \<Longrightarrow> rd_chan s = (st, None) # rest \<Longrightarrow>
    ready_step ready s (s\<lparr>rd_chan := rest, rd_seen := rd_seen s @ [(st, None)]\<rparr>)"
| Select_Wait: "rd_phase s = Selecting \<Longrightarrow> rd_wait s = Some e \<Longrightarrow>
    ready_step ready s (s\<lparr>rd_phase := Returned
      (ended_outcome ''run kubectl until ready: %w'' (rd_buf s Std_Out) (rd_buf s Std_Err) e)\<rparr>)"
| Select_Context: "rd_phase s = Selecting \<Longrightarrow> rd_ctx s = Some e \<Longrightarrow>
    ready_step ready s (s\<lparr>rd_phase := Stopping (result_of s (-1), Some e)\<rparr>)"
| Stopped: "rd_phase s = Stopping r \<Longrightarrow> rd_wait s = Some e \<Longrightarrow> ready_step ready s (s\<lparr>rd_phase := Returned r\<rparr>)"

definition ready_reachable :: "ready_func \<Rightarrow> ready_state \<Rightarrow> bool" where
  "ready_reachable ready s \<longleftrightarrow> (ready_step ready)\<^sup>*\<^sup>* ready_init s"

section \<open>Invariants\<close>

definition lines_of :: "stream \<Rightarrow> (stream \<times> string option) list \<Rightarrow> string list" where
  "lines_of st evs = concat (map (\<lambda>(st', l). if st' = st then (case l of Some x \<Rightarrow> [x] | None \<Rightarrow> []) else []) evs)"

definition line_text :: "string list \<Rightarrow> string" where
  "line_text ls = concat (map (\<lambda>l. l @ [newline]) ls)"

lemma lines_of_simps [simp]:
  "lines_of st [] = []"
  "lines_of st (xs @ ys) = lines_of st xs @ lines_of st ys"
  "lines_of st ((st', Some l) # xs) = (if st' = st then [l] else []) @ lines_of st xs"
  "lines_of st ((st', None) # xs) = lines_of st xs"
  by (simp_all add: lines_of_def)

lemma line_text_simps [simp]: "line_text [] = []" "line_text (xs @ ys) = line_text xs @ line_text ys"
    "line_text (l # ls) = l @ newline # line_text ls"
  by (simp_all add: line_text_def)

text \<open>
  What is captured, in flight and in the pipe is what was printed, in its order; once \<open>Wait\<close>
  has closed the pipes it is a prefix of it.
\<close>

definition in_order :: "ready_state \<Rightarrow> stream \<Rightarrow> string list" where
  "in_order s st = lines_of st (rd_seen s @ rd_chan s) @ rd_pipe s st"

definition no_invention :: "ready_state \<Rightarrow> bool" where
  "no_invention s \<longleftrightarrow>
     (\<forall>st. if rd_wait s = None then in_order s st = rd_written s st else prefix (in_order s st) (rd_written s st)) \<and>
     (\<forall>e. rd_wait s = Some e \<longrightarrow> rd_exit s = Some e)"

definition buffers_ok :: "ready_state \<Rightarrow> bool" where
  "buffers_ok s \<longleftrightarrow> (\<forall>st. rd_buf s st = line_text (lines_of st (rd_seen s)))"

definition seen_ready :: "ready_func \<Rightarrow> ready_state \<Rightarrow> bool" where
  "seen_ready ready s \<longleftrightarrow> (\<exists>st. \<exists>l \<in> set (lines_of st (rd_seen s)). ready l)"

text \<open>Why the loop has decided on an outcome.\<close>

definition decided :: "ready_func \<Rightarrow> ready_state \<Rightarrow> run_outcome \<Rightarrow> bool" where
  "decided ready s r \<longleftrightarrow>
     r = (result_of s 0, None) \<and> seen_ready ready s \<or>
     (\<exists>e. rd_ctx s = Some e \<and> r = (result_of s (-1), Some e)) \<or>
     (\<exists>e. rd_wait s = Some e \<and>
        r = ended_outcome ''run kubectl until ready: %w'' (rd_buf s Std_Out) (rd_buf s Std_Err) e)"

definition phase_ok :: "ready_func \<Rightarrow> ready_state \<Rightarrow> bool" where
  "phase_ok ready s \<longleftrightarrow>
     (case rd_phase s of Selecting \<Rightarrow> \<not> seen_ready ready s | Stopping r \<Rightarrow> decided ready s r | Returned r \<Rightarrow> decided ready s r)"

lemma no_invention_step: "ready_step ready s s' \<Longrightarrow> no_invention s \<Longrightarrow> no_invention s'"
proof (induction rule: ready_step.induct)
  case (Process_Writes s st l)
  then have "rd_wait s = None" by (cases "rd_wait s") (auto simp: no_invention_def)
  with Process_Writes show ?case by (auto simp: no_invention_def in_order_def)
next
  case (Wait_Returns s e p)
  then have "in_order s st = rd_written s st" for st by (simp add: no_invention_def)
  moreover have "prefix (in_order (s\<lparr>rd_wait := Some e, rd_pipe := p\<rparr>) st) (in_order s st)" for st
    using Wait_Returns by (simp add: in_order_def)
  ultimately show ?case using Wait_Returns(1) by (simp add: no_invention_def)
next
  case (Select_Line s st l rest)
  then have "in_order (receive_line ready st l s) = in_order s"
    by (simp add: fun_eq_iff in_order_def receive_line_def Let_def)
  moreover have "rd_wait (receive_line ready st l s) = rd_wait s" "rd_exit (receive_line ready st l s) = rd_exit s"
      "rd_written (receive_line ready st l s) = rd_written s"
    by (simp_all add: receive_line_def Let_def)
  ultimately show ?case using Select_Line(3) by (simp add: no_invention_def)
next
  case (Scan_Line s st l rest)
  then have "in_order (s\<lparr>rd_pipe := (rd_pipe s)(st := rest), rd_chan := rd_chan s @ [(st, Some l)]\<rparr>) = in_order s"
    by (simp add: fun_eq_iff in_order_def)
  then show ?case using Scan_Line by (simp add: no_invention_def)
qed (auto simp: no_invention_def in_order_def)

lemma buffers_step: "ready_step ready s s' \<Longrightarrow> buffers_ok s \<Longrightarrow> buffers_ok s'"
  by (induction rule: ready_step.induct) (auto simp: buffers_ok_def receive_line_def Let_def)

lemma phase_step: "ready_step ready s s' \<Longrightarrow> phase_ok ready s \<Longrightarrow> phase_ok ready s'"
proof (induction rule: ready_step.induct)
  case (Select_Line s st l rest)
  then show ?case
    by (auto simp: phase_ok_def decided_def receive_line_def Let_def seen_ready_def result_of_def)
qed (auto simp: phase_ok_def decided_def seen_ready_def result_of_def split: phase.splits)

lemma ready_invariant: "ready_reachable ready s \<Longrightarrow> no_invention s \<and> buffers_ok s \<and> phase_ok ready s"
proof -
  have init: "no_invention ready_init" "buffers_ok ready_init" "phase_ok ready ready_init"
    by (simp_all add: ready_init_def no_invention_def in_order_def buffers_ok_def phase_ok_def seen_ready_def)
  assume "ready_reachable ready s"
  then have "(ready_step ready)\<^sup>*\<^sup>* ready_init s" by (simp add: ready_reachable_def)
  then show ?thesis
    by (induction rule: rtranclp_induct) (use init in \<open>blast intro: no_invention_step buffers_step phase_step\<close>)+
qed


text \<open>The run, in the sense of \<open>Kubectl_Runner\<close>, that the loop has followed so far.\<close>

fun run_of :: "(stream \<times> string option) list \<Rightarrow> select_run \<Rightarrow> select_run" where
  "run_of [] k = k"
| "run_of ((st, Some l) # evs) k = Got st l (run_of evs k)"
| "run_of ((st, None) # evs) k = Scan_Failed (run_of evs k)"

lemma run_of_append: "run_of (xs @ ys) k = run_of xs (run_of ys k)"
  by (induction xs k rule: run_of.induct) auto

definition simulated :: "ready_func \<Rightarrow> ready_state \<Rightarrow> bool" where
  "simulated ready s \<longleftrightarrow>
     (case rd_phase s of
        Selecting \<Rightarrow> \<forall>k. until_ready ready [] [] (run_of (rd_seen s) k) =
                       until_ready ready (rd_buf s Std_Out) (rd_buf s Std_Err) k
      | Stopping r \<Rightarrow> \<exists>k. r = until_ready ready [] [] (run_of (rd_seen s) k)
      | Returned r \<Rightarrow> \<exists>k. r = until_ready ready [] [] (run_of (rd_seen s) k))"

lemma simulated_step: "ready_step ready s s' \<Longrightarrow> simulated ready s \<Longrightarrow> simulated ready s'"
proof (induction rule: ready_step.induct)
  case (Select_Line s st l rest)
  let ?out = "if st = Std_Out then rd_buf s Std_Out @ l @ [newline] else rd_buf s Std_Out"
  let ?err = "if st = Std_Err then rd_buf s Std_Err @ l @ [newline] else rd_buf s Std_Err"
  have run: "until_ready ready [] [] (run_of (rd_seen s @ [(st, Some l)]) k) =
      until_ready ready (rd_buf s Std_Out) (rd_buf s Std_Err) (Got st l k)" for k
    using Select_Line by (simp add: simulated_def run_of_append)
  have "until_ready ready (rd_buf s Std_Out) (rd_buf s Std_Err) (Got st l k) =
      (if ready l then (\<lparr>rr_stdout = ?out, rr_stderr = ?err, rr_exit = 0\<rparr>, None)
       else until_ready ready ?out ?err k)" for k
    by (simp add: Let_def)
  with run show ?case
    using Select_Line(1)
    by (cases st) (auto simp: simulated_def receive_line_def Let_def result_of_def)
next
  case (Select_Error s st rest)
  then show ?case by (simp add: simulated_def run_of_append)
next
  case (Select_Wait s e)
  then have "ended_outcome ''run kubectl until ready: %w'' (rd_buf s Std_Out) (rd_buf s Std_Err) e =
      until_ready ready [] [] (run_of (rd_seen s) (Process_Ended e))"
    by (simp add: simulated_def)
  then show ?case by (auto simp: simulated_def)
next
  case (Select_Context s e)
  then have "(result_of s (-1), Some e) = until_ready ready [] [] (run_of (rd_seen s) (Context_Done e))"
    by (simp add: simulated_def result_of_def)
  then show ?case by (auto simp: simulated_def)
next
  case (Stopped s r e)
  then show ?case by (simp add: simulated_def)
qed (simp_all add: simulated_def cong: phase.case_cong)

lemma ready_simulated: "ready_reachable ready s \<Longrightarrow> simulated ready s"
proof -
  have init: "simulated ready ready_init" by (simp add: ready_init_def simulated_def)
  assume "ready_reachable ready s"
  then have "(ready_step ready)\<^sup>*\<^sup>* ready_init s" by (simp add: ready_reachable_def)
  then show ?thesis
    by (induction rule: rtranclp_induct) (use init in \<open>blast intro: simulated_step\<close>)+
qed

section \<open>Concrete executions\<close>

lemma reachable_init: "ready_reachable ready ready_init"
  by (simp add: ready_reachable_def)

lemma reachable_step: "ready_reachable ready s \<Longrightarrow> ready_step ready s s' \<Longrightarrow> ready_reachable ready s'"
  unfolding ready_reachable_def by (rule rtranclp.rtrancl_into_rtrancl)

text \<open>The process prints one line and then ends well, and \<open>Wait\<close> closes the pipes.\<close>

definition after_print :: "string \<Rightarrow> ready_state" where
  "after_print l = ready_init\<lparr>rd_written := (\<lambda>_. [])(Std_Out := [l]), rd_pipe := (\<lambda>_. [])(Std_Out := [l])\<rparr>"

definition after_exit :: "string \<Rightarrow> ready_state" where
  "after_exit l = (after_print l)\<lparr>rd_exit := Some None\<rparr>"

definition after_wait :: "string \<Rightarrow> ready_state" where
  "after_wait l = (after_exit l)\<lparr>rd_wait := Some None, rd_pipe := (\<lambda>_. [])\<rparr>"

lemma after_print_reachable: "ready_reachable ready (after_print l)"
  using reachable_step [OF reachable_init Process_Writes [of ready_init ready Std_Out l]]
  by (simp add: after_print_def ready_init_def)

lemma after_wait_reachable: "ready_reachable ready (after_wait l)"
proof -
  have "ready_reachable ready (after_exit l)"
    unfolding after_exit_def
    by (rule reachable_step [OF after_print_reachable Process_Ends]) (simp add: after_print_def ready_init_def)
  moreover have "ready_step ready (after_exit l) (after_wait l)"
    unfolding after_wait_def by (rule Wait_Returns) (simp_all add: after_exit_def after_print_def ready_init_def)
  ultimately show ?thesis by (rule reachable_step)
qed

definition after_return :: "string \<Rightarrow> ready_state" where
  "after_return l = (after_wait l)\<lparr>rd_phase := Returned (no_result, None)\<rparr>"

lemma after_return_reachable: "ready_reachable ready (after_return l)"
  using reachable_step [OF after_wait_reachable Select_Wait [of "after_wait l" None ready]]
  by (simp add: after_return_def after_wait_def after_exit_def after_print_def ready_init_def
      ended_outcome_def no_result_def Let_def)

lemma after_return_fields:
  "rd_written (after_return l) Std_Out = [l]" "rd_exit (after_return l) = Some None"
  "rd_phase (after_return l) = Returned (no_result, None)"
  by (simp_all add: after_return_def after_wait_def after_exit_def after_print_def)

section \<open>Properties\<close>





text \<open>
  Because the loop waits for the process while the pipes are still being read, the ready
  line can be lost: for every line there is an execution in which the process prints it and
  ends well, and \<open>RunUntilReady\<close> returns successfully without any output.
\<close>

lemma ready_line_can_be_lost:
  "\<exists>s. ready_reachable ready s \<and> rd_written s Std_Out = [l] \<and> rd_exit s = Some None \<and>
     rd_phase s = Returned (no_result, None)"
  using after_return_reachable after_return_fields by blast

end
