(* ===== verification/Kubectl_Resolve.thy ===== *)
theory Kubectl_Resolve
  imports Go_OS
begin

text \<open>
  The discovery of the \<open>kubectl\<close> executable in \<open>internal/kubectl/runner.go\<close>. Paths are Unix
  paths also where \<open>goos\<close> selects the naming rules of another system, as in the program's own
  tests; \<open>runtime.GOOS\<close> is an argument.
\<close>

section \<open>Candidates\<close>

record resolve_options =
  ro_explicit_path :: string
  ro_env_path :: string
  ro_configured_path :: string
  ro_dev_connect_path :: string
  ro_path_env :: string
  ro_goos :: string
  ro_additional_default :: "string list"

definition executable_bits :: mode where
  "executable_bits = 73"

definition executable_path_for_os :: "string \<Rightarrow> string \<Rightarrow> (string, world) io" where
  "executable_path_for_os goos p =
     io_bind (os_stat p) (\<lambda>info.
       case info of
         Dir m \<Rightarrow> io_fail (Err ''%s is a directory'' [p])
       | File c m \<Rightarrow>
           if goos = ''windows'' then
             (if List.member [''.exe'', ''.cmd'', ''.bat'', ''.com''] (to_lower (path_ext p)) then io_return p
              else io_fail (Err ''%s is not a Windows executable'' [p]))
           else if m AND executable_bits = 0 then io_fail (Err ''%s is not executable'' [p])
           else io_return p)"

definition executable_name_for_os :: "string \<Rightarrow> string \<Rightarrow> string" where
  "executable_name_for_os name goos = (if goos = ''windows'' \<and> path_ext name = [] then name @ ''.exe'' else name)"

definition default_kubectl_paths :: "string \<Rightarrow> string list" where
  "default_kubectl_paths goos =
     (let bs = [CHR 0x5C] in
      if goos = ''windows'' then
        [''C:'' @ bs @ ''Program Files'' @ bs @ ''dev-connect'' @ bs @ ''kubectl.exe'',
         ''C:'' @ bs @ ''Program Files'' @ bs @ ''Kubernetes'' @ bs @ ''kubectl.exe'',
         ''C:'' @ bs @ ''Windows'' @ bs @ ''System32'' @ bs @ ''kubectl.exe'']
      else if goos = ''darwin'' then
        [''/opt/homebrew/bin/kubectl'', ''/usr/local/bin/kubectl'', ''/usr/bin/kubectl'']
      else [''/usr/local/bin/kubectl'', ''/usr/bin/kubectl'', ''/snap/bin/kubectl''])"

section \<open>Search\<close>

text \<open>The first candidate that is an executable, else the given error.\<close>

fun first_executable :: "string \<Rightarrow> go_error \<Rightarrow> string list \<Rightarrow> (string, world) io" where
  "first_executable goos err [] = io_fail err"
| "first_executable goos err (candidate # rest) =
     io_case (executable_path_for_os goos candidate) (\<lambda>e. first_executable goos err rest) io_return"

definition resolve_executable_for_os :: "string \<Rightarrow> string \<Rightarrow> string list \<Rightarrow> (string, world) io" where
  "resolve_executable_for_os goos name search_paths =
     (if name = [] then io_fail (Err ''executable name is required'' [])
      else if is_abs name then executable_path_for_os goos name
      else first_executable goos (Err ''%s executable not found'' [name])
             (map (\<lambda>dir. path_join [dir, executable_name_for_os name goos]) (filter (\<lambda>dir. dir \<noteq> []) search_paths)))"

definition kubectl_not_found :: go_error where
  "kubectl_not_found =
     Err ''kubectl executable not found; set --kubectl-path, DEV_CONNECT_KUBECTL_PATH, clusters.<name>.kubectlPath, install kubectl in PATH, or place kubectl next to dev-connect'' []"

definition resolve_local_executable :: "string \<Rightarrow> resolve_options \<Rightarrow> (string, world) io" where
  "resolve_local_executable runtime_goos o1 =
     (let goos = (if ro_goos o1 = [] then runtime_goos else ro_goos o1)
      in case filter (\<lambda>p. p \<noteq> []) [ro_explicit_path o1, ro_env_path o1, ro_configured_path o1] of
           p # ps \<Rightarrow> resolve_executable_for_os goos p []
         | [] \<Rightarrow>
             io_case
               (if ro_dev_connect_path o1 \<noteq> [] then
                  executable_path_for_os goos
                    (path_join [path_dir (ro_dev_connect_path o1), executable_name_for_os ''kubectl'' goos])
                else io_fail kubectl_not_found)
               (\<lambda>e. io_case (resolve_executable_for_os goos ''kubectl'' (split_list (ro_path_env o1)))
                 (\<lambda>e. first_executable goos kubectl_not_found
                   (default_kubectl_paths goos @ ro_additional_default o1))
                 io_return)
               io_return)"

section \<open>What a search returns\<close>

text \<open>A file the system would execute.\<close>

definition executable_at :: "string \<Rightarrow> world \<Rightarrow> string \<Rightarrow> bool" where
  "executable_at goos w p =
     (case lookup_node w p of
        Some (File c m) \<Rightarrow>
          if goos = ''windows'' then List.member [''.exe'', ''.cmd'', ''.bat'', ''.com''] (to_lower (path_ext p))
          else m AND executable_bits \<noteq> 0
      | _ \<Rightarrow> False)"

lemma executable_path_ok:
  "executable_path_for_os goos p w = (Inr q, w') \<Longrightarrow> q = p \<and> executable_at goos w p"
  by (auto simp: executable_path_for_os_def io_bind_eq_Inr os_stat_def executable_at_def
      split: if_splits option.splits node.splits)

lemma executable_path_calm:
  "calm w \<Longrightarrow> executable_at goos w p \<Longrightarrow> executable_path_for_os goos p w = (Inr p, bump w)"
  by (auto simp: executable_path_for_os_def io_bind_def os_stat_def executable_at_def
      split: if_splits option.splits node.splits)

lemma snd_executable_path [simp]: "snd (executable_path_for_os goos p w) = bump w"
  by (auto simp: executable_path_for_os_def io_bind_def os_stat_def split: option.splits node.splits)

lemma executable_at_bump [simp]: "executable_at goos (bump w) p = executable_at goos w p"
  by (simp add: executable_at_def)

lemma first_executable_ok:
  "first_executable goos err cs w = (Inr q, w') \<Longrightarrow> q \<in> set cs \<and> executable_at goos w q"
proof (induction cs arbitrary: w)
  case (Cons c cs)
  obtain r where r: "executable_path_for_os goos c w = (r, bump w)"
    using snd_executable_path by (metis prod.collapse)
  show ?case
  proof (cases r)
    case (Inl e)
    then have "first_executable goos err cs (bump w) = (Inr q, w')" using Cons.prems r by (simp add: io_case_def)
    from Cons.IH [OF this] show ?thesis by simp
  next
    case (Inr p)
    then show ?thesis using Cons.prems r executable_path_ok [OF r [unfolded Inr]] by (simp add: io_case_def)
  qed
qed simp

lemma first_executable_calm:
  "calm w \<Longrightarrow> fst (first_executable goos err cs w) =
     (case find (executable_at goos w) cs of None \<Rightarrow> Inl err | Some c \<Rightarrow> Inr c)"
proof (induction cs arbitrary: w)
  case (Cons c cs)
  obtain r where r: "executable_path_for_os goos c w = (r, bump w)"
    using snd_executable_path by (metis prod.collapse)
  show ?case
  proof (cases "executable_at goos w c")
    case True
    then show ?thesis using executable_path_calm [OF Cons.prems True] by (simp add: io_case_def)
  next
    case False
    then obtain e where "r = Inl e" using executable_path_ok r by (cases r) blast+
    then show ?thesis using False Cons.IH [of "bump w"] Cons.prems r
      by (simp add: io_case_def executable_at_def cong: option.case_cong)
  qed
qed simp

lemma resolve_executable_ok:
  "resolve_executable_for_os goos n ps w = (Inr q, w') \<Longrightarrow> executable_at goos w q"
  by (auto simp: resolve_executable_for_os_def dest: executable_path_ok first_executable_ok split: if_splits)


lemma nodes_executable_path: "leaves w_nodes (executable_path_for_os goos p)"
  by (simp add: leaves_def)

lemma nodes_first_executable: "leaves w_nodes (first_executable goos err cs)"
proof (induction cs)
  case (Cons c cs)
  then show ?case
    unfolding first_executable.simps by (intro leaves_case nodes_executable_path leaves_return)
qed (simp only: first_executable.simps leaves_fail)

lemma nodes_resolve_executable: "leaves w_nodes (resolve_executable_for_os goos n ps)"
  unfolding resolve_executable_for_os_def
  by (intro leaves_if leaves_fail nodes_executable_path nodes_first_executable)

lemma nodes_resolve_local: "leaves w_nodes (resolve_local_executable goos o1)"
  unfolding resolve_local_executable_def Let_def
  by (auto split: list.split
      intro!: leaves_case leaves_if leaves_fail leaves_return nodes_executable_path nodes_first_executable
        nodes_resolve_executable)

text \<open>The system whose naming rules apply, the paths that were set, and the paths searched for.\<close>

definition effective_goos :: "string \<Rightarrow> resolve_options \<Rightarrow> string" where
  "effective_goos runtime_goos o1 = (if ro_goos o1 = [] then runtime_goos else ro_goos o1)"

definition set_paths :: "resolve_options \<Rightarrow> string list" where
  "set_paths o1 = filter (\<lambda>p. p \<noteq> []) [ro_explicit_path o1, ro_env_path o1, ro_configured_path o1]"

definition search_order :: "string \<Rightarrow> resolve_options \<Rightarrow> string list" where
  "search_order goos o1 =
     (if ro_dev_connect_path o1 = [] then []
      else [path_join [path_dir (ro_dev_connect_path o1), executable_name_for_os ''kubectl'' goos]]) @
     map (\<lambda>dir. path_join [dir, executable_name_for_os ''kubectl'' goos])
       (filter (\<lambda>dir. dir \<noteq> []) (split_list (ro_path_env o1))) @
     default_kubectl_paths goos @ ro_additional_default o1"

lemma resolve_local_set:
  "set_paths o1 = p # ps \<Longrightarrow>
   resolve_local_executable g o1 = resolve_executable_for_os (effective_goos g o1) p []"
  by (simp add: resolve_local_executable_def set_paths_def effective_goos_def)

lemma resolve_local_search:
  "set_paths o1 = [] \<Longrightarrow>
   resolve_local_executable g o1 =
     (let goos = effective_goos g o1 in
      io_case
        (if ro_dev_connect_path o1 \<noteq> [] then
           executable_path_for_os goos (path_join [path_dir (ro_dev_connect_path o1), executable_name_for_os ''kubectl'' goos])
         else io_fail kubectl_not_found)
        (\<lambda>e. io_case (resolve_executable_for_os goos ''kubectl'' (split_list (ro_path_env o1)))
          (\<lambda>e. first_executable goos kubectl_not_found (default_kubectl_paths goos @ ro_additional_default o1)) io_return)
        io_return)"
  by (simp add: resolve_local_executable_def set_paths_def effective_goos_def)

lemma find_append: "find P (xs @ ys) = (case find P xs of None \<Rightarrow> find P ys | Some x \<Rightarrow> Some x)"
  by (induction xs) auto

text \<open>Trying one list of candidates after another is trying the lists' concatenation.\<close>

lemma case_search_calm:
  assumes "calm w" and "fst (m w) = (case find P xs of None \<Rightarrow> Inl err | Some c \<Rightarrow> Inr c)"
    and "\<And>w' e. calm w' \<Longrightarrow> w_nodes w' = w_nodes w \<Longrightarrow>
      fst (k e w') = (case find P ys of None \<Rightarrow> Inl err' | Some c \<Rightarrow> Inr c)"
    and "leaves calm m" and "leaves w_nodes m"
  shows "fst (io_case m k io_return w) = (case find P (xs @ ys) of None \<Rightarrow> Inl err' | Some c \<Rightarrow> Inr c)"
proof -
  obtain r w' where run: "m w = (r, w')" by fastforce
  have "calm w'" "w_nodes w' = w_nodes w"
    using leaves_result [OF assms(4) run] leaves_result [OF assms(5) run] assms(1) by simp_all
  with assms(2,3) run show ?thesis
    by (cases "find P xs") (auto simp: io_case_def find_append)
qed

lemma executable_at_nodes: "w_nodes w' = w_nodes w \<Longrightarrow> executable_at goos w' = executable_at goos w"
  by (simp add: fun_eq_iff executable_at_def lookup_node_def)

lemma calm_executable_path: "leaves calm (executable_path_for_os goos p)"
  by (simp add: leaves_def)

lemma calm_first_executable: "leaves calm (first_executable goos err cs)"
proof (induction cs)
  case (Cons c cs)
  then show ?case unfolding first_executable.simps by (intro leaves_case calm_executable_path leaves_return)
qed (simp only: first_executable.simps leaves_fail)

lemma single_executable_calm:
  "calm w \<Longrightarrow> (\<exists>err. fst (executable_path_for_os goos p w) =
     (case find (executable_at goos w) [p] of None \<Rightarrow> Inl err | Some c \<Rightarrow> Inr c))"
proof -
  assume calm: "calm w"
  obtain r where r: "executable_path_for_os goos p w = (r, bump w)"
    using snd_executable_path by (metis prod.collapse)
  show ?thesis
  proof (cases r)
    case (Inl e)
    then have "\<not> executable_at goos w p" using executable_path_calm [OF calm] r by auto
    then show ?thesis using r Inl by simp
  next
    case (Inr q)
    then show ?thesis using executable_path_ok [OF r [unfolded Inr]] r by simp
  qed
qed

section \<open>Properties\<close>

lemma resolve_local_ok:
  assumes "resolve_local_executable g o1 w = (Inr q, w')"
  shows "executable_at (effective_goos g o1) w q \<and> w_nodes w' = w_nodes w \<and>
     (case set_paths o1 of [] \<Rightarrow> True | p # ps \<Rightarrow> q = p)"
proof (intro conjI)
  show nodes: "w_nodes w' = w_nodes w" using leaves_result [OF nodes_resolve_local assms] .
  show "executable_at (effective_goos g o1) w q"
  proof (cases "set_paths o1")
    case (Cons p ps)
    then show ?thesis using assms by (simp add: resolve_local_set resolve_executable_ok)
  next
    case Nil
    have via: "executable_at (effective_goos g o1) w q"
      if "executable_at (effective_goos g o1) v q" and "w_nodes v = w_nodes w" for v
      using that executable_at_nodes by metis
    note [simp del] = resolve_executable_for_os_def
    let ?goos = "effective_goos g o1"
    let ?sib = "if ro_dev_connect_path o1 \<noteq> [] then
           executable_path_for_os ?goos (path_join [path_dir (ro_dev_connect_path o1), executable_name_for_os ''kubectl'' ?goos])
         else io_fail kubectl_not_found"
    let ?path = "resolve_executable_for_os ?goos ''kubectl'' (split_list (ro_path_env o1))"
    obtain r1 w1 where one: "?sib w = (r1, w1)" by fastforce
    obtain r2 w2 where two: "?path w1 = (r2, w2)" by fastforce
    have n1: "w_nodes w1 = w_nodes w"
      using one by (auto split: if_splits dest: leaves_result [OF nodes_executable_path])
    have n2: "w_nodes w2 = w_nodes w" using leaves_result [OF nodes_resolve_executable two] n1 by simp
    have run: "(case r1 of Inr x \<Rightarrow> (Inr x, w1) | Inl e \<Rightarrow>
        (case r2 of Inr x \<Rightarrow> (Inr x, w2) | Inl e \<Rightarrow>
          first_executable ?goos kubectl_not_found (default_kubectl_paths ?goos @ ro_additional_default o1) w2)) = (Inr q, w')"
      using assms unfolding resolve_local_search [OF Nil] Let_def io_case_def one
      by (cases r1) (simp_all add: two io_case_def split: sum.splits)
    show ?thesis
    proof (cases r1)
      case (Inr x)
      then show ?thesis using run one by (auto split: if_splits dest: executable_path_ok)
    next
      case (Inl e)
      then show ?thesis
        using run two n1 n2 by (auto split: sum.splits dest!: resolve_executable_ok first_executable_ok intro: via)
    qed
  qed
  show "case set_paths o1 of [] \<Rightarrow> True | p # ps \<Rightarrow> q = p"
  proof (cases "set_paths o1")
    case (Cons p ps)
    then show ?thesis
      using assms
      by (auto simp: resolve_local_set resolve_executable_for_os_def dest: executable_path_ok split: if_splits)
  qed simp
qed

lemma resolved_path_ne: "resolve_local_executable g o1 w = (Inr q, w') \<Longrightarrow> q \<noteq> []"
  using resolve_local_ok by (fastforce simp: executable_at_def)

text \<open>
  C32: whatever fails on the machine, a resolved \<open>kubectl\<close> is an existing file the system would
  execute; where a path was set by flag, environment or configuration it is the first of
  these; and resolving changes no file.
\<close>

theorem resolve_local_executable_safe:
  assumes "resolve_local_executable g o1 w = (Inr q, w')"
  shows "executable_at (effective_goos g o1) w q \<and> w_nodes w' = w_nodes w \<and>
     (case set_paths o1 of [] \<Rightarrow> True | p # ps \<Rightarrow> q = p)"
  using resolve_local_ok [OF assms] .

definition demo_resolve :: resolve_options where
  "demo_resolve = \<lparr>ro_explicit_path = [], ro_env_path = [], ro_configured_path = [], ro_dev_connect_path = ''/opt/dc/dev-connect'',
     ro_path_env = ''/nope:/usr/bin'', ro_goos = [], ro_additional_default = []\<rparr>"

definition demo_bin_world :: world where
  "demo_bin_world = \<lparr>w_nodes = [''/opt/dc/kubectl'' \<mapsto> File [] 420, ''/usr/bin/kubectl'' \<mapsto> File [] 493], w_umask = 18,
     w_fault = (\<lambda>t op p. False), w_short = (\<lambda>t. 0), w_clock = 0, w_procs = []\<rparr>"

theorem resolve_local_executable_safe_witness:
  "\<exists>w'. resolve_local_executable ''linux'' demo_resolve demo_bin_world = (Inr ''/usr/bin/kubectl'', w') \<and>
     executable_at (effective_goos ''linux'' demo_resolve) demo_bin_world ''/usr/bin/kubectl''"
proof -
  have "fst (resolve_local_executable ''linux'' demo_resolve demo_bin_world) = Inr ''/usr/bin/kubectl''" by code_simp
  then obtain w' where run: "resolve_local_executable ''linux'' demo_resolve demo_bin_world = (Inr ''/usr/bin/kubectl'', w')"
    by (metis prod.collapse)
  from resolve_local_executable_safe [OF run] run show ?thesis by blast
qed

text \<open>
  On a machine without failures of its own, and with no path set, the search returns the
  first executable among the neighbour of the program, the directories of \<open>PATH\<close>, the default
  places of the system and the additional ones, and reports \<open>kubectl\<close> as not found only if
  none of them is executable.
\<close>

lemma resolve_local_executable_search:
  assumes "calm w" and "set_paths o1 = []"
  shows "fst (resolve_local_executable g o1 w) =
     (case find (executable_at (effective_goos g o1) w) (search_order (effective_goos g o1) o1) of
        None \<Rightarrow> Inl kubectl_not_found | Some c \<Rightarrow> Inr c)"
proof -
  let ?goos = "effective_goos g o1"
  let ?P = "executable_at ?goos w"
  let ?path = "map (\<lambda>dir. path_join [dir, executable_name_for_os ''kubectl'' ?goos])
       (filter (\<lambda>dir. dir \<noteq> []) (split_list (ro_path_env o1)))"
  let ?dflt = "default_kubectl_paths ?goos @ ro_additional_default o1"
  let ?sib = "path_join [path_dir (ro_dev_connect_path o1), executable_name_for_os ''kubectl'' ?goos]"
  have first: "fst (first_executable ?goos err cs v) = (case find ?P cs of None \<Rightarrow> Inl err | Some c \<Rightarrow> Inr c)"
    if "calm v" "w_nodes v = w_nodes w" for err cs v
    unfolding first_executable_calm [OF that(1)] executable_at_nodes [OF that(2)] ..
  have path: "resolve_executable_for_os ?goos ''kubectl'' (split_list (ro_path_env o1)) =
      first_executable ?goos (Err ''%s executable not found'' [''kubectl'']) ?path"
    by (simp add: resolve_executable_for_os_def)
  have later: "fst (io_case (first_executable ?goos (Err ''%s executable not found'' [''kubectl'']) ?path)
      (\<lambda>e. first_executable ?goos kubectl_not_found ?dflt) io_return v) =
      (case find ?P (?path @ ?dflt) of None \<Rightarrow> Inl kubectl_not_found | Some c \<Rightarrow> Inr c)"
    if "calm v" "w_nodes v = w_nodes w" for v
    using that by (intro case_search_calm first calm_first_executable nodes_first_executable) (auto simp: first)
  show ?thesis
  proof (cases "ro_dev_connect_path o1 = []")
    case True
    then show ?thesis
      using later [OF assms(1) refl]
      by (simp add: resolve_local_search [OF assms(2)] search_order_def path Let_def io_case_def [of "io_fail kubectl_not_found"])
  next
    case False
    obtain err where single: "fst (executable_path_for_os ?goos ?sib w) =
        (case find ?P [?sib] of None \<Rightarrow> Inl err | Some c \<Rightarrow> Inr c)"
      using single_executable_calm [OF assms(1)] by blast
    have "fst (io_case (executable_path_for_os ?goos ?sib)
        (\<lambda>e. io_case (first_executable ?goos (Err ''%s executable not found'' [''kubectl'']) ?path)
          (\<lambda>e. first_executable ?goos kubectl_not_found ?dflt) io_return) io_return w) =
        (case find ?P ([?sib] @ ?path @ ?dflt) of None \<Rightarrow> Inl kubectl_not_found | Some c \<Rightarrow> Inr c)"
      by (rule case_search_calm [OF assms(1) single later calm_executable_path nodes_executable_path])
    then show ?thesis using False by (simp add: resolve_local_search [OF assms(2)] search_order_def path Let_def)
  qed
qed

theorem resolve_local_executable_search_witness:
  "fst (resolve_local_executable ''linux'' demo_resolve demo_bin_world) = Inr ''/usr/bin/kubectl''"
proof -
  have "calm demo_bin_world" by (simp add: calm_def demo_bin_world_def)
  moreover have "set_paths demo_resolve = []" by code_simp
  ultimately have "fst (resolve_local_executable ''linux'' demo_resolve demo_bin_world) =
     (case find (executable_at (effective_goos ''linux'' demo_resolve) demo_bin_world)
        (search_order (effective_goos ''linux'' demo_resolve) demo_resolve) of
        None \<Rightarrow> Inl kubectl_not_found | Some c \<Rightarrow> Inr c)"
    by (rule resolve_local_executable_search)
  moreover have "find (executable_at (effective_goos ''linux'' demo_resolve) demo_bin_world)
      (search_order (effective_goos ''linux'' demo_resolve) demo_resolve) = Some ''/usr/bin/kubectl''" by code_simp
  ultimately show ?thesis by (simp only: option.case)
qed

text \<open>
  A path set by flag, environment or configuration that is not absolute is never found,
  wherever it points: \<open>./kubectl\<close> and \<open>kubectl\<close> are rejected even when the file is there.
\<close>

lemma relative_kubectl_path_rejected:
  assumes "set_paths o1 = p # ps" and "\<not> is_abs p"
  shows "resolve_local_executable g o1 w = (Inl (Err ''%s executable not found'' [p]), w)"
proof -
  have "p \<in> set (set_paths o1)" unfolding assms(1) by (rule list.set_intros)
  then have "p \<noteq> []" unfolding set_paths_def set_filter by blast
  then show ?thesis using assms(2) by (simp add: resolve_local_set [OF assms(1)] resolve_executable_for_os_def)
qed

theorem relative_kubectl_path_rejected_witness:
  "resolve_local_executable ''linux'' (demo_resolve\<lparr>ro_explicit_path := ''bin/kubectl''\<rparr>)
     (demo_bin_world\<lparr>w_nodes := [''bin/kubectl'' \<mapsto> File [] 493]\<rparr>)
   = (Inl (Err ''%s executable not found'' [''bin/kubectl'']), demo_bin_world\<lparr>w_nodes := [''bin/kubectl'' \<mapsto> File [] 493]\<rparr>)"
proof -
  have "set_paths (demo_resolve\<lparr>ro_explicit_path := ''bin/kubectl''\<rparr>) = [''bin/kubectl'']" by code_simp
  then show ?thesis by (rule relative_kubectl_path_rejected) (simp add: is_abs_def)
qed

end
