(* ===== verification/Tunnel_Start.thy ===== *)
theory Tunnel_Start
  imports Kubectl_Runner "HOL-Library.Word"
begin

text \<open>
  \<open>internal/tunnel/tunnel.go\<close>: starting \<open>kubectl port-forward\<close> with a bounded number of attempts.
  A Go \<open>int\<close> that is counted with is a 64-bit word read with \<open>sint\<close>, as on the supported
  systems, so that the sum of attempts wraps as it does there. The loop is a partial function:
  \<open>None\<close> is a loop that never returns. Deadlines of the context reach the runner only.
\<close>

section \<open>The supervisor\<close>

record start_options =
  ts_namespace :: string
  ts_service :: string
  ts_local_port :: int
  ts_remote_port :: int
  ts_context :: string
  ts_kubeconfig :: string
  ts_reconnect :: bool

record tunnel_result =
  tr_ready :: bool
  tr_attempts :: "64 word"
  tr_pid :: int

record 's supervisor =
  sv_runner :: "'s runner option"
  sv_max_reconnects :: "64 word"

definition is_ready_output :: "string \<Rightarrow> bool" where
  "is_ready_output output = str_contains output ''Forwarding from ''"

definition attempts_allowed :: "bool \<Rightarrow> 64 word \<Rightarrow> 64 word" where
  "attempts_allowed reconnect max_reconnects =
     (let allowed = 1;
          allowed = (if reconnect then allowed + max_reconnects else allowed)
      in if sint allowed < 1 then 1 else allowed)"

definition start_command :: "start_options \<Rightarrow> command" where
  "start_command o1 = port_forward_command
     \<lparr>pf_namespace = ts_namespace o1, pf_service = ts_service o1, pf_local_port = ts_local_port o1,
      pf_remote_port = ts_remote_port o1, pf_context = ts_context o1, pf_kubeconfig = ts_kubeconfig o1\<rparr>"

partial_function (option) attempt_loop ::
  "'s runner \<Rightarrow> command \<Rightarrow> 64 word \<Rightarrow> 64 word \<Rightarrow> go_error option \<Rightarrow> 's \<Rightarrow>
   ((tunnel_result \<times> go_error option) \<times> 's) option" where
  "attempt_loop R c allowed attempt last_err s =
     (if sint attempt \<le> sint allowed then
        (case r_start R of
           Some start \<Rightarrow>
             (case start c (Some is_ready_output) s of
                (Inr started, s') \<Rightarrow>
                  Some ((\<lparr>tr_ready = True, tr_attempts = attempt, tr_pid = sp_pid started\<rparr>, None), s')
              | (Inl e, s') \<Rightarrow> attempt_loop R c allowed (attempt + 1) (Some e) s')
         | None \<Rightarrow>
             (case r_run R c s of
                ((result, None), s') \<Rightarrow>
                  Some ((\<lparr>tr_ready = is_ready_output (rr_stdout result), tr_attempts = attempt, tr_pid = 0\<rparr>, None), s')
              | ((result, Some e), s') \<Rightarrow> attempt_loop R c allowed (attempt + 1) (Some e) s'))
      else Some ((\<lparr>tr_ready = False, tr_attempts = allowed, tr_pid = 0\<rparr>, last_err), s))"

definition tunnel_start ::
  "'s supervisor \<Rightarrow> start_options \<Rightarrow> 's \<Rightarrow> ((tunnel_result \<times> go_error option) \<times> 's) option" where
  "tunnel_start sv o1 s =
     (case sv_runner sv of
        None \<Rightarrow> Some ((\<lparr>tr_ready = False, tr_attempts = 0, tr_pid = 0\<rparr>, Some (Err ''kubectl runner is required'' [])), s)
      | Some R \<Rightarrow>
          attempt_loop R (start_command o1) (attempts_allowed (ts_reconnect o1) (sv_max_reconnects sv)) 1 None s)"

section \<open>Counting attempts\<close>

lemma sint_one [simp]: "sint (1 :: 64 word) = 1"
  by simp

lemma sint_upper: "sint (w :: 64 word) \<le> 9223372036854775807"
  using sint_lt [of w] by simp

lemma sint_succ:
  fixes w :: "64 word"
  assumes "sint w < 9223372036854775807"
  shows "sint (w + 1) = sint w + 1"
proof -
  have "- 9223372036854775808 \<le> sint w" using sint_ge [of w] by simp
  then show ?thesis
    using assms by (simp add: sint_word_ariths signed_take_bit_int_eq_self)
qed

lemma attempts_allowed_pos: "1 \<le> sint (attempts_allowed reconnect m)"
  by (auto simp: attempts_allowed_def Let_def)

text \<open>The largest \<open>int\<close> is reached from one value of \<open>MaxReconnects\<close> only; larger ones wrap below 1.\<close>

lemma attempts_allowed_bound:
  assumes "m \<noteq> 9223372036854775806 \<or> \<not> reconnect"
  shows "sint (attempts_allowed reconnect m) < 9223372036854775807"
proof (rule ccontr)
  assume "\<not> ?thesis"
  then have "sint (attempts_allowed reconnect m) = sint (9223372036854775807 :: 64 word)"
    using sint_upper [of "attempts_allowed reconnect m"] by simp
  then have eq: "attempts_allowed reconnect m = 9223372036854775807" by (simp only: signed_word_eqI)
  then have r: "reconnect" by (auto simp: attempts_allowed_def split: if_splits)
  with eq have "1 + m = 9223372036854775807"
    by (auto simp: attempts_allowed_def Let_def split: if_splits)
  then have "m = 9223372036854775807 - 1" by (metis add_diff_cancel_left')
  with assms r show False by simp
qed

section \<open>The loop against the runner's contract\<close>

text \<open>What one attempt does, whichever method of the runner it uses.\<close>

definition attempt_once :: "'s runner \<Rightarrow> command \<Rightarrow> 's \<Rightarrow> (bool \<times> int) result \<times> 's" where
  "attempt_once R c s =
     (case r_start R of
        Some start \<Rightarrow> (case start c (Some is_ready_output) s of
            (Inr started, s') \<Rightarrow> (Inr (True, sp_pid started), s') | (Inl e, s') \<Rightarrow> (Inl e, s'))
      | None \<Rightarrow> (case r_run R c s of
            ((result, None), s') \<Rightarrow> (Inr (is_ready_output (rr_stdout result), 0), s')
          | ((result, Some e), s') \<Rightarrow> (Inl e, s')))"

lemma attempt_loop_once:
  "attempt_loop R c allowed attempt last_err s =
     (if sint attempt \<le> sint allowed then
        (case attempt_once R c s of
           (Inr (ready, pid), s') \<Rightarrow> Some ((\<lparr>tr_ready = ready, tr_attempts = attempt, tr_pid = pid\<rparr>, None), s')
         | (Inl e, s') \<Rightarrow> attempt_loop R c allowed (attempt + 1) (Some e) s')
      else Some ((\<lparr>tr_ready = False, tr_attempts = allowed, tr_pid = 0\<rparr>, last_err), s))"
proof (cases "r_start R")
  case None
  obtain r f s' where "r_run R c s = ((r, f), s')" by (metis prod.collapse)
  with None show ?thesis by (subst attempt_loop.simps) (simp add: attempt_once_def split: option.split)
next
  case (Some start)
  obtain r s' where "start c (Some is_ready_output) s = (r, s')" by fastforce
  with Some show ?thesis by (subst attempt_loop.simps) (simp add: attempt_once_def split: sum.split)
qed

text \<open>
  \<open>attempted k\<close>: what a loop that starts at \<open>attempt\<close> returns after \<open>k\<close> more attempts: a success
  in the last of them, or the failure of all that were allowed.
\<close>

definition attempted :: "nat \<Rightarrow> 64 word \<Rightarrow> 64 word \<Rightarrow> bool \<Rightarrow> tunnel_result \<Rightarrow> go_error option \<Rightarrow> bool" where
  "attempted k allowed attempt background r e \<longleftrightarrow>
     (e = None \<and> 0 < k \<and> sint (tr_attempts r) = sint attempt + int k - 1 \<and> sint (tr_attempts r) \<le> sint allowed \<and>
        (background \<longrightarrow> tr_ready r)) \<or>
     (e \<noteq> None \<and> int k = sint allowed + 1 - sint attempt \<and> \<not> tr_ready r \<and> tr_attempts r = allowed)"

context kubectl_runner
begin

lemma attempt_once_log: "log (snd (attempt_once R c s)) = log s @ [entry c]"
proof (cases "r_start R")
  case None
  then show ?thesis using run_log [of c s]
    by (auto simp: attempt_once_def split: prod.splits option.splits)
next
  case (Some start)
  then show ?thesis using start_log [OF Some, of c is_ready_output s]
    by (auto simp: attempt_once_def split: prod.splits sum.splits)
qed

lemma attempt_once_background:
  "attempt_once R c s = (Inr (ready, pid), s') \<Longrightarrow> r_start R \<noteq> None \<Longrightarrow> ready"
  by (auto simp: attempt_once_def split: prod.splits sum.splits)

lemma attempt_loop_bounded:
  assumes "1 \<le> sint attempt" and "sint attempt \<le> sint allowed + 1" and "sint allowed < 9223372036854775807"
    and "sint attempt = sint allowed + 1 \<Longrightarrow> last_err \<noteq> None"
  shows "\<exists>r e s' k. attempt_loop R c allowed attempt last_err s = Some ((r, e), s') \<and>
     log s' = log s @ replicate k (entry c) \<and> attempted k allowed attempt (r_start R \<noteq> None) r e"
  using assms
proof (induction "nat (sint allowed + 1 - sint attempt)" arbitrary: attempt last_err s)
  case 0
  then have "sint attempt = sint allowed + 1" "last_err \<noteq> None" by simp_all
  then show ?case
    by (subst attempt_loop_once) (auto simp: attempted_def intro!: exI [of _ "0::nat"])
next
  case (Suc n)
  obtain x s1 where once: "attempt_once R c s = (x, s1)" by fastforce
  have log1: "log s1 = log s @ [entry c]" using attempt_once_log [of c s] once by simp
  have le: "sint attempt \<le> sint allowed" using Suc.hyps(2) by simp
  show ?case
  proof (cases x)
    case (Inr y)
    obtain ready pid where y: "y = (ready, pid)" by (cases y)
    have "attempted 1 allowed attempt (r_start R \<noteq> None) \<lparr>tr_ready = ready, tr_attempts = attempt, tr_pid = pid\<rparr> None"
      using le attempt_once_background [OF once [unfolded Inr y]] by (simp add: attempted_def)
    then show ?thesis
      using le once Inr y log1
      by (subst attempt_loop_once) (auto intro!: exI [of _ "Suc 0"])
  next
    case (Inl e)
    have succ: "sint (attempt + 1) = sint attempt + 1" using le Suc.prems(3) by (intro sint_succ) simp
    have "\<exists>r f s' k. attempt_loop R c allowed (attempt + 1) (Some e) s1 = Some ((r, f), s') \<and>
        log s' = log s1 @ replicate k (entry c) \<and> attempted k allowed (attempt + 1) (r_start R \<noteq> None) r f"
      using Suc.hyps(2) Suc.prems le by (intro Suc.hyps(1)) (simp_all add: succ)
    then obtain r f s' k where rest: "attempt_loop R c allowed (attempt + 1) (Some e) s1 = Some ((r, f), s')"
        "log s' = log s1 @ replicate k (entry c)" "attempted k allowed (attempt + 1) (r_start R \<noteq> None) r f"
      by blast
    have "attempt_loop R c allowed attempt last_err s = Some ((r, f), s')"
      using le once Inl rest(1) by (subst attempt_loop_once) simp
    moreover have "log s' = log s @ replicate (Suc k) (entry c)" using rest(2) log1 by simp
    moreover have "attempted (Suc k) allowed attempt (r_start R \<noteq> None) r f"
      using rest(3) by (auto simp: attempted_def succ)
    ultimately show ?thesis by blast
  qed
qed

lemma start_bounded:
  assumes "m \<noteq> 9223372036854775806 \<or> \<not> ts_reconnect o1"
  shows "\<exists>r e s' k. tunnel_start \<lparr>sv_runner = Some R, sv_max_reconnects = m\<rparr> o1 s = Some ((r, e), s') \<and>
     log s' = log s @ replicate k (entry (start_command o1)) \<and>
     attempted k (attempts_allowed (ts_reconnect o1) m) 1 (r_start R \<noteq> None) r e"
  using attempt_loop_bounded [of 1 "attempts_allowed (ts_reconnect o1) m" None "start_command o1" s]
    attempts_allowed_pos [of "ts_reconnect o1" m] attempts_allowed_bound [OF assms]
  by (simp add: tunnel_start_def)

end

section \<open>Properties\<close>

text \<open>
  C15: starting a tunnel with the executable runner terminates for every setting but one, makes at
  least one and at most the allowed number of \<open>kubectl port-forward\<close> invocations, all of them
  the same, and nothing else; it succeeds, with the tunnel ready, in the last attempt it
  makes, or fails when all allowed attempts have failed.
\<close>

theorem tunnel_start_bounded:
  assumes "m \<noteq> 9223372036854775806 \<or> \<not> ts_reconnect o1"
  shows "\<exists>r e s' k.
     tunnel_start \<lparr>sv_runner = Some (executable_as_runner ch \<lparr>er_path = x # xs, er_base_env = env\<rparr>),
                   sv_max_reconnects = m\<rparr> o1 s = Some ((r, e), s') \<and>
     mc_started s' = mc_started s @
       replicate k (invocation ch \<lparr>er_path = x # xs, er_base_env = env\<rparr> (start_command o1)) \<and>
     0 < k \<and> int k \<le> sint (attempts_allowed (ts_reconnect o1) m) \<and>
     (e = None \<longleftrightarrow> tr_ready r) \<and>
     sint (tr_attempts r) = int k \<and> (e \<noteq> None \<longrightarrow> int k = sint (attempts_allowed (ts_reconnect o1) m))"
proof -
  have background: "r_start (executable_as_runner ch \<lparr>er_path = x # xs, er_base_env = env\<rparr>) \<noteq> None"
    by (simp add: executable_as_runner_def)
  obtain r e s' k where run: "tunnel_start \<lparr>sv_runner = Some (executable_as_runner ch \<lparr>er_path = x # xs, er_base_env = env\<rparr>),
        sv_max_reconnects = m\<rparr> o1 s = Some ((r, e), s')"
      "mc_started s' = mc_started s @
         replicate k (invocation ch \<lparr>er_path = x # xs, er_base_env = env\<rparr> (start_command o1))"
      "attempted k (attempts_allowed (ts_reconnect o1) m) 1 True r e"
    using executable.start_bounded [OF assms, of ch x xs env s] background by auto
  have "0 < k \<and> int k \<le> sint (attempts_allowed (ts_reconnect o1) m) \<and> (e = None \<longleftrightarrow> tr_ready r) \<and>
     sint (tr_attempts r) = int k \<and> (e \<noteq> None \<longrightarrow> int k = sint (attempts_allowed (ts_reconnect o1) m))"
    using run(3) attempts_allowed_pos [of "ts_reconnect o1" m] unfolding attempted_def sint_one by auto
  with run(1,2) show ?thesis by blast
qed

definition demo_start :: start_options where
  "demo_start = \<lparr>ts_namespace = ''ns'', ts_service = ''gw'', ts_local_port = 2222, ts_remote_port = 22,
     ts_context = [], ts_kubeconfig = [], ts_reconnect = True\<rparr>"

theorem tunnel_start_bounded_witness:
  "\<exists>r e s' k.
     tunnel_start \<lparr>sv_runner = Some (executable_as_runner demo_child \<lparr>er_path = ''/k'', er_base_env = None\<rparr>),
                   sv_max_reconnects = 3\<rparr> demo_start \<lparr>mc_started = [], mc_state = 0\<rparr> = Some ((r, e), s') \<and>
     0 < k \<and> int k \<le> 4 \<and> length (mc_started s') = k"
proof -
  have "sint (attempts_allowed (ts_reconnect demo_start) 3) = 4"
    by (simp add: attempts_allowed_def demo_start_def)
  then show ?thesis
    using tunnel_start_bounded [of 3 demo_start demo_child "CHR ''/''" "''k''" None "\<lparr>mc_started = [], mc_state = 0\<rparr>"]
    by fastforce
qed

text \<open>The largest \<open>int\<close> bounds nothing: the loop returns only after a success.\<close>

lemma attempt_loop_never_fails_out:
  "attempt_loop R c allowed attempt le s = Some y \<Longrightarrow>
   \<not> (allowed = 9223372036854775807 \<and> (\<forall>c s. \<exists>e s'. attempt_once R c s = (Inl e, s')))"
proof (erule attempt_loop.raw_induct [where P = "\<lambda>R c allowed attempt le s y.
      \<not> (allowed = 9223372036854775807 \<and> (\<forall>c s. \<exists>e s'. attempt_once R c s = (Inl e, s')))", rotated], goal_cases)
  case (1 loop R c allowed attempt le s y)
  show ?case
  proof (rule notI, elim conjE)
    assume a: "allowed = 9223372036854775807" and always: "\<forall>c s. \<exists>e s'. attempt_once R c s = (Inl e, s')"
    obtain e s' where once: "attempt_once R c s = (Inl e, s')" using always by blast
    have "sint attempt \<le> sint allowed" using sint_upper [of attempt] by (simp add: a)
    then have "loop R c allowed (attempt + 1) (Some e) s' = Some y"
      using 1(2) once by (auto simp: attempt_once_def split: option.splits prod.splits sum.splits)
    from 1(1) [OF this] a always show False by simp
  qed
qed

text \<open>
  With the one setting that makes the number of attempts the largest \<open>int\<close>, the counter
  wraps around and a tunnel that never starts is retried for ever.
\<close>

lemma tunnel_start_may_not_return:
  assumes "ts_reconnect o1" and fails: "\<forall>c s. \<exists>e s'. attempt_once R c s = (Inl e, s')"
  shows "tunnel_start \<lparr>sv_runner = Some R, sv_max_reconnects = 9223372036854775806\<rparr> o1 s = None"
proof -
  have allowed: "attempts_allowed True 9223372036854775806 = 9223372036854775807"
    by (simp add: attempts_allowed_def)
  have "attempt_loop R c 9223372036854775807 attempt le s \<noteq> Some y" for c attempt le s y
  proof
    assume "attempt_loop R c 9223372036854775807 attempt le s = Some y"
    from attempt_loop_never_fails_out [OF this] fails show False by simp
  qed
  then have "attempt_loop R c 9223372036854775807 attempt le s = None" for c attempt le s by (cases "attempt_loop R c 9223372036854775807 attempt le s") auto
  then show ?thesis using assms(1) by (simp add: tunnel_start_def allowed)
qed

theorem tunnel_start_may_not_return_witness:
  "tunnel_start \<lparr>sv_runner = Some \<lparr>r_run = (\<lambda>c s. ((no_result, Some (Err ''down'' [])), s)), r_until_ready = None, r_start = None\<rparr>,
     sv_max_reconnects = 9223372036854775806\<rparr> demo_start (0 :: nat) = None"
  by (rule tunnel_start_may_not_return) (simp_all add: demo_start_def attempt_once_def)

end
