(* ===== verification/Preflight.thy ===== *)
theory Preflight
  imports Tunnel_Start
begin

text \<open>
  \<open>internal/preflight/preflight.go\<close>: the three checks made before a tunnel is started, over any
  runner of \<open>kubectl\<close>. A Go call that returns both a value and an error is a pair of the two.
\<close>

section \<open>The checks\<close>

record 's preflight_options =
  po_runner :: "'s runner option"
  po_namespace :: string
  po_service :: string
  po_local_port :: int
  po_remote_port :: int
  po_context :: string
  po_kubeconfig :: string

record preflight_result =
  pr_connectivity :: bool
  pr_rbac :: bool
  pr_functional :: bool

definition err_permission_denied :: go_error where
  "err_permission_denied = Err ''kubectl port-forward permission denied'' []"

definition err_port_forward_not_ready :: go_error where
  "err_port_forward_not_ready = Err ''kubectl port-forward validation did not become ready'' []"

definition run_port_forward_probe :: "'s runner \<Rightarrow> command \<Rightarrow> 's \<Rightarrow> run_outcome \<times> 's" where
  "run_port_forward_probe R c s =
     (case r_until_ready R of
        Some run_until \<Rightarrow> run_until c (Some is_ready_output) s
      | None \<Rightarrow> r_run R c s)"

definition connectivity_command :: "'s preflight_options \<Rightarrow> command" where
  "connectivity_command o1 = version_command \<lparr>ve_context = po_context o1, ve_kubeconfig = po_kubeconfig o1\<rparr>"

definition rbac_command :: "'s preflight_options \<Rightarrow> command" where
  "rbac_command o1 = auth_can_i_command
     \<lparr>au_namespace = po_namespace o1, au_verb = ''create'', au_resource = ''pods/portforward'',
      au_context = po_context o1, au_kubeconfig = po_kubeconfig o1\<rparr>"

definition probe_command :: "'s preflight_options \<Rightarrow> command" where
  "probe_command o1 = port_forward_command
     \<lparr>pf_namespace = po_namespace o1, pf_service = po_service o1, pf_local_port = po_local_port o1,
      pf_remote_port = po_remote_port o1, pf_context = po_context o1, pf_kubeconfig = po_kubeconfig o1\<rparr>"

definition preflight_validate :: "'s preflight_options \<Rightarrow> 's \<Rightarrow> (preflight_result \<times> go_error option) \<times> 's" where
  "preflight_validate o1 s =
     (case po_runner o1 of
        None \<Rightarrow> ((\<lparr>pr_connectivity = False, pr_rbac = False, pr_functional = False\<rparr>,
                   Some (Err ''kubectl runner is required'' [])), s)
      | Some R \<Rightarrow>
      (case r_run R (connectivity_command o1) s of
         ((version, Some e), s) \<Rightarrow>
           ((\<lparr>pr_connectivity = False, pr_rbac = False, pr_functional = False\<rparr>,
             Some (Wrap ''verify kubectl connectivity: %w'' [] e)), s)
       | ((version, None), s) \<Rightarrow>
      (case r_run R (rbac_command o1) s of
         ((rbac, Some e), s) \<Rightarrow>
           ((\<lparr>pr_connectivity = True, pr_rbac = False, pr_functional = False\<rparr>,
             Some (Wrap ''verify kubectl port-forward RBAC: %w'' [] e)), s)
       | ((rbac, None), s) \<Rightarrow>
           if trim_space (rr_stdout rbac) \<noteq> ''yes''
           then ((\<lparr>pr_connectivity = True, pr_rbac = False, pr_functional = False\<rparr>, Some err_permission_denied), s)
           else
      (case run_port_forward_probe R (probe_command o1) s of
         ((functional, Some e), s) \<Rightarrow>
           ((\<lparr>pr_connectivity = True, pr_rbac = True, pr_functional = False\<rparr>,
             Some (Wrap ''verify kubectl port-forward functionally: %w'' [] e)), s)
       | ((functional, None), s) \<Rightarrow>
           if \<not> is_ready_output (rr_stdout functional)
           then ((\<lparr>pr_connectivity = True, pr_rbac = True, pr_functional = False\<rparr>,
                  Some err_port_forward_not_ready), s)
           else ((\<lparr>pr_connectivity = True, pr_rbac = True, pr_functional = True\<rparr>, None), s)))))"

section \<open>The checks against the runner's contract\<close>

text \<open>The commands a validation has issued, told from its result.\<close>

definition preflight_commands :: "'s preflight_options \<Rightarrow> preflight_result \<Rightarrow> command list" where
  "preflight_commands o1 r =
     connectivity_command o1 #
     (if pr_connectivity r then rbac_command o1 # (if pr_rbac r then [probe_command o1] else []) else [])"

text \<open>A later check counts only after the earlier ones, and success is all three.\<close>

definition preflight_consistent :: "preflight_result \<Rightarrow> go_error option \<Rightarrow> bool" where
  "preflight_consistent r e \<longleftrightarrow>
     (pr_functional r \<longrightarrow> pr_rbac r) \<and> (pr_rbac r \<longrightarrow> pr_connectivity r) \<and> (e = None \<longleftrightarrow> pr_functional r)"

context kubectl_runner
begin

lemma probe_log: "log (snd (run_port_forward_probe R c s)) = log s @ [entry c]"
  by (cases "r_until_ready R") (simp_all add: run_port_forward_probe_def run_log ready_log)

lemma preflight_issues:
  assumes "po_runner o1 = Some R" and "preflight_validate o1 s = ((r, e), s')"
  shows "log s' = log s @ map entry (preflight_commands o1 r) \<and> preflight_consistent r e"
proof -
  note logged = preflight_commands_def preflight_consistent_def
  obtain r1 e1 s1 where one: "r_run R (connectivity_command o1) s = ((r1, e1), s1)" by (metis prod.collapse)
  then have l1: "log s1 = log s @ [entry (connectivity_command o1)]"
    using run_log [of "connectivity_command o1" s] by simp
  obtain r2 e2 s2 where two: "r_run R (rbac_command o1) s1 = ((r2, e2), s2)" by (metis prod.collapse)
  then have l2: "log s2 = log s1 @ [entry (rbac_command o1)]"
    using run_log [of "rbac_command o1" s1] by simp
  obtain r3 e3 s3 where three: "run_port_forward_probe R (probe_command o1) s2 = ((r3, e3), s3)" by (metis prod.collapse)
  then have l3: "log s3 = log s2 @ [entry (probe_command o1)]"
    using probe_log [of "probe_command o1" s2] by simp
  show ?thesis
  proof (cases e1)
    case (Some x)
    then show ?thesis using assms one l1 by (auto simp: preflight_validate_def logged)
  next
    case e1: None
    show ?thesis
    proof (cases "e2 = None \<and> trim_space (rr_stdout r2) = ''yes''")
      case False
      then show ?thesis using assms one two e1 l1 l2
        by (cases e2) (auto simp: preflight_validate_def logged)
    next
      case True
      then show ?thesis using assms one two three e1 l1 l2 l3
        by (cases e3) (auto simp: preflight_validate_def logged split: if_splits)
    qed
  qed
qed

end

section \<open>Properties\<close>


definition demo_preflight :: "nat machine preflight_options" where
  "demo_preflight = \<lparr>po_runner = Some (executable_as_runner demo_child \<lparr>er_path = ''/k'', er_base_env = None\<rparr>),
     po_namespace = ''ns'', po_service = ''gw'', po_local_port = 2222, po_remote_port = 22,
     po_context = ''prod'', po_kubeconfig = []\<rparr>"


text \<open>
  The validation on every branch, for scripted answers \<open>v\<close>, \<open>a\<close> and \<open>p\<close> of the API check, the
  permission check and the probe.
\<close>

lemma preflight_branches:
  assumes "po_runner o1 = Some fake_as_runner"
  shows "fst (preflight_validate o1 (new_fake_runner [v, a, p])) =
     (if rr_exit v \<noteq> 0 then
        (\<lparr>pr_connectivity = False, pr_rbac = False, pr_functional = False\<rparr>,
         Some (Wrap ''verify kubectl connectivity: %w'' [] (Exit_Error (rr_exit v) (rr_stderr v))))
      else if rr_exit a \<noteq> 0 then
        (\<lparr>pr_connectivity = True, pr_rbac = False, pr_functional = False\<rparr>,
         Some (Wrap ''verify kubectl port-forward RBAC: %w'' [] (Exit_Error (rr_exit a) (rr_stderr a))))
      else if trim_space (rr_stdout a) \<noteq> ''yes'' then
        (\<lparr>pr_connectivity = True, pr_rbac = False, pr_functional = False\<rparr>, Some err_permission_denied)
      else if rr_exit p \<noteq> 0 then
        (\<lparr>pr_connectivity = True, pr_rbac = True, pr_functional = False\<rparr>,
         Some (Wrap ''verify kubectl port-forward functionally: %w'' [] (Exit_Error (rr_exit p) (rr_stderr p))))
      else if \<not> is_ready_output (rr_stdout p) then
        (\<lparr>pr_connectivity = True, pr_rbac = True, pr_functional = False\<rparr>, Some err_port_forward_not_ready)
      else (\<lparr>pr_connectivity = True, pr_rbac = True, pr_functional = True\<rparr>, None))"
  using assms
  by (simp add: preflight_validate_def fake_as_runner_def fake_run_def new_fake_runner_def run_port_forward_probe_def)

definition demo_answer :: "string \<Rightarrow> run_result" where
  "demo_answer out = \<lparr>rr_stdout = out, rr_stderr = [], rr_exit = 0\<rparr>"

definition demo_fake_preflight :: "fake_state preflight_options" where
  "demo_fake_preflight = \<lparr>po_runner = Some fake_as_runner,
     po_namespace = ''ns'', po_service = ''gw'', po_local_port = 2222, po_remote_port = 22,
     po_context = ''prod'', po_kubeconfig = []\<rparr>"

theorem preflight_branches_witness:
  "snd (fst (preflight_validate demo_fake_preflight
     (new_fake_runner [demo_answer [], demo_answer ''no'', demo_answer []]))) = Some err_permission_denied"
proof -
  have "po_runner demo_fake_preflight = Some fake_as_runner" by (simp add: demo_fake_preflight_def)
  moreover have "trim_space ''no'' \<noteq> ''yes''" by code_simp
  ultimately show ?thesis by (simp add: preflight_branches demo_answer_def)
qed

end
