(* ===== verification/Json_Codec.thy ===== *)
theory Json_Codec
  imports Go_Strings
begin

text \<open>
  The part of Go's \<open>encoding/json\<close> the program uses: values, the printer of
  \<open>json.MarshalIndent(v, "", "  ")\<close> with its escaping of HTML characters and of bytes that are
  not UTF-8, and the scanner and parser behind \<open>json.Unmarshal\<close>. Strings are sequences of
  bytes. The parser takes fuel; the length of the input is always enough for what the
  printer prints (\<open>parse_render\<close>).
\<close>

section \<open>UTF-8\<close>

definition code :: "char \<Rightarrow> int" where
  "code c = of_char c"

definition between :: "int \<Rightarrow> int \<Rightarrow> char \<Rightarrow> bool" where
  "between lo hi c \<longleftrightarrow> lo \<le> code c \<and> code c \<le> hi"

text \<open>The length of the UTF-8 sequence at the head of a string, 0 where it is not one.\<close>

definition utf8_len :: "string \<Rightarrow> nat" where
  "utf8_len s =
     (case s of
        [] \<Rightarrow> 0
      | a # s1 \<Rightarrow>
          if code a < 128 then 1
          else (case s1 of
            [] \<Rightarrow> 0
          | b # s2 \<Rightarrow>
              if between 194 223 a then (if between 128 191 b then 2 else 0)
              else (case s2 of
                [] \<Rightarrow> 0
              | c # s3 \<Rightarrow>
                  if between 224 239 a then
                    (if between (if code a = 224 then 160 else 128) (if code a = 237 then 159 else 191) b
                        \<and> between 128 191 c then 3 else 0)
                  else (case s3 of
                    [] \<Rightarrow> 0
                  | d # s4 \<Rightarrow>
                      if between 240 244 a
                         \<and> between (if code a = 240 then 144 else 128) (if code a = 244 then 143 else 191) b
                         \<and> between 128 191 c \<and> between 128 191 d then 4 else 0))))"

definition byte :: "int \<Rightarrow> char" where
  "byte n = char_of n"

definition encode_rune :: "int \<Rightarrow> string" where
  "encode_rune r =
     (if r < 128 then [byte r]
      else if r < 2048 then [byte (192 + r div 64), byte (128 + r mod 64)]
      else if r < 65536 then [byte (224 + r div 4096), byte (128 + r div 64 mod 64), byte (128 + r mod 64)]
      else [byte (240 + r div 262144), byte (128 + r div 4096 mod 64), byte (128 + r div 64 mod 64),
            byte (128 + r mod 64)])"

definition replacement :: string where
  "replacement = [CHR 0xEF, CHR 0xBF, CHR 0xBD]"

lemma utf8_len_le: "utf8_len s \<le> length s"
  by (auto simp: utf8_len_def split: list.split)

lemma utf8_len_pos: "s \<noteq> [] \<Longrightarrow> code (hd s) < 128 \<Longrightarrow> utf8_len s = 1"
  by (cases s) (auto simp: utf8_len_def)

lemma utf8_len_take:
  "utf8_len s \<noteq> 0 \<Longrightarrow> utf8_len (take (utf8_len s) s @ r) = utf8_len s"
proof (cases s)
  case (Cons a s1)
  assume ne: "utf8_len s \<noteq> 0"
  show ?thesis
  proof (cases "code a < 128")
    case True
    then show ?thesis using Cons by (simp add: utf8_len_def)
  next
    case a: False
    then obtain b s2 where s1: "s1 = b # s2" using ne Cons by (cases s1) (auto simp: utf8_len_def)
    show ?thesis
    proof (cases "between 194 223 a")
      case True
      then have "utf8_len s = 2" using ne Cons s1 a by (auto simp: utf8_len_def split: if_splits)
      then show ?thesis using True ne Cons s1 a by (auto simp: utf8_len_def split: if_splits)
    next
      case b: False
      then obtain c s3 where s2: "s2 = c # s3" using ne Cons s1 a by (cases s2) (auto simp: utf8_len_def)
      show ?thesis
      proof (cases "between 224 239 a")
        case True
        then have "utf8_len s = 3" using ne Cons s1 s2 a b by (auto simp: utf8_len_def split: if_splits)
        then show ?thesis using True ne Cons s1 s2 a b by (auto simp: utf8_len_def numeral_3_eq_3 split: if_splits)
      next
        case c: False
        then obtain d s4 where s3: "s3 = d # s4"
          using ne Cons s1 s2 a b by (cases s3) (auto simp: utf8_len_def)
        then have "utf8_len s = 4" using ne Cons s1 s2 a b c by (auto simp: utf8_len_def split: if_splits)
        then show ?thesis using ne Cons s1 s2 s3 a b c by (auto simp: utf8_len_def eval_nat_numeral split: if_splits)
      qed
    qed
  qed
qed (simp add: utf8_len_def)

function valid_utf8 :: "string \<Rightarrow> bool" where
  "valid_utf8 s =
     (if s = [] then True else if utf8_len s = 0 then False else valid_utf8 (drop (utf8_len s) s))"
  by pat_completeness auto
termination
  by (relation "measure length") auto

declare valid_utf8.simps [simp del]

lemma valid_utf8_Nil [simp]: "valid_utf8 []"
  by (subst valid_utf8.simps) simp

section \<open>Values\<close>

text \<open>A number keeps its literal.\<close>

datatype json =
    JNull
  | JBool bool
  | JNum string
  | JStr string
  | JArr "json list"
  | JObj "(string \<times> json) list"

abbreviation dquote :: char where
  "dquote \<equiv> CHR 0x22"

abbreviation backslash :: char where
  "backslash \<equiv> CHR 0x5C"

section \<open>Printing\<close>

definition hex_digit :: "int \<Rightarrow> char" where
  "hex_digit n = ''0123456789abcdef'' ! nat n"

definition escape_ascii :: "char \<Rightarrow> string" where
  "escape_ascii c =
     (if c = dquote \<or> c = backslash then [backslash, c]
      else if c = CHR 0x08 then [backslash, CHR ''b'']
      else if c = CHR 0x0C then [backslash, CHR ''f'']
      else if c = CHR 0x0A then [backslash, CHR ''n'']
      else if c = CHR 0x0D then [backslash, CHR ''r'']
      else if c = CHR 0x09 then [backslash, CHR ''t'']
      else if code c < 32 \<or> c = CHR ''<'' \<or> c = CHR ''>'' \<or> c = CHR 0x26
      then [backslash, CHR ''u'', CHR ''0'', CHR ''0'', hex_digit (code c div 16), hex_digit (code c mod 16)]
      else [c])"

definition line_separator :: string where
  "line_separator = [CHR 0xE2, CHR 0x80, CHR 0xA8]"

definition paragraph_separator :: string where
  "paragraph_separator = [CHR 0xE2, CHR 0x80, CHR 0xA9]"

definition escape_chunk :: "string \<Rightarrow> string" where
  "escape_chunk u =
     (if u = line_separator then backslash # ''u2028''
      else if u = paragraph_separator then backslash # ''u2029'' else u)"

function escape :: "string \<Rightarrow> string" where
  "escape s =
     (if s = [] then []
      else if code (hd s) < 128 then escape_ascii (hd s) @ escape (tl s)
      else if utf8_len s = 0 then (backslash # ''ufffd'') @ escape (tl s)
      else escape_chunk (take (utf8_len s) s) @ escape (drop (utf8_len s) s))"
  by pat_completeness auto
termination
  by (relation "measure length") auto

declare escape.simps [simp del]

definition quoted :: "string \<Rightarrow> string" where
  "quoted s = dquote # escape s @ [dquote]"

definition indent :: "nat \<Rightarrow> string" where
  "indent l = replicate (2 * l) (CHR '' '')"

fun render :: "nat \<Rightarrow> json \<Rightarrow> string"
  and render_elements :: "nat \<Rightarrow> json list \<Rightarrow> string"
  and render_members :: "nat \<Rightarrow> (string \<times> json) list \<Rightarrow> string" where
  "render l JNull = ''null''"
| "render l (JBool b) = (if b then ''true'' else ''false'')"
| "render l (JNum n) = n"
| "render l (JStr s) = quoted s"
| "render l (JArr vs) =
     (if vs = [] then ''[]'' else ''['' @ render_elements (Suc l) vs @ CHR 0x0A # indent l @ '']'')"
| "render l (JObj ms) =
     (if ms = [] then ''{}'' else ''{'' @ render_members (Suc l) ms @ CHR 0x0A # indent l @ ''}'')"
| "render_elements l [] = []"
| "render_elements l (v # vs) =
     (CHR 0x0A # indent l @ render l v) @ (if vs = [] then [] else CHR '','' # render_elements l vs)"
| "render_members l [] = []"
| "render_members l ((k, v) # ms) =
     (CHR 0x0A # indent l @ quoted k @ '': '' @ render l v) @
     (if ms = [] then [] else CHR '','' # render_members l ms)"

section \<open>Scanning\<close>

definition hex_value :: "char \<Rightarrow> int option" where
  "hex_value c =
     (if between 48 57 c then Some (code c - 48)
      else if between 97 102 c then Some (code c - 87)
      else if between 65 70 c then Some (code c - 55) else None)"

definition scan_hex4 :: "string \<Rightarrow> (int \<times> string) option" where
  "scan_hex4 s =
     (case s of
        a # b # c # d # r \<Rightarrow>
          (case (hex_value a, hex_value b, hex_value c, hex_value d) of
             (Some x, Some y, Some z, Some w) \<Rightarrow> Some (4096 * x + 256 * y + 16 * z + w, r)
           | _ \<Rightarrow> None)
      | _ \<Rightarrow> None)"

text \<open>After \<open>\u\<close>: a surrogate counts only in a pair.\<close>

definition scan_unicode :: "string \<Rightarrow> (string \<times> string) option" where
  "scan_unicode s =
     (case scan_hex4 s of
        None \<Rightarrow> None
      | Some (r, rest) \<Rightarrow>
          if r < 55296 \<or> 57343 < r then Some (encode_rune r, rest)
          else if prefix [backslash, CHR ''u''] rest then
            (case scan_hex4 (drop 2 rest) of
               Some (r2, rest2) \<Rightarrow>
                 if r < 56320 \<and> 56320 \<le> r2 \<and> r2 \<le> 57343
                 then Some (encode_rune (65536 + (r - 55296) * 1024 + (r2 - 56320)), rest2)
                 else Some (replacement, rest)
             | None \<Rightarrow> Some (replacement, rest))
          else Some (replacement, rest))"

definition scan_escape :: "string \<Rightarrow> (string \<times> string) option" where
  "scan_escape s =
     (case s of
        [] \<Rightarrow> None
      | e # r \<Rightarrow>
          if e = dquote \<or> e = backslash \<or> e = CHR ''/'' then Some ([e], r)
          else if e = CHR ''b'' then Some ([CHR 0x08], r)
          else if e = CHR ''f'' then Some ([CHR 0x0C], r)
          else if e = CHR ''n'' then Some ([CHR 0x0A], r)
          else if e = CHR ''r'' then Some ([CHR 0x0D], r)
          else if e = CHR ''t'' then Some ([CHR 0x09], r)
          else if e = CHR ''u'' then scan_unicode r
          else None)"

lemma scan_hex4_shorter: "scan_hex4 s = Some (r, rest) \<Longrightarrow> length rest < length s"
  by (auto simp: scan_hex4_def split: list.splits option.splits)

lemma scan_escape_shorter: "scan_escape s = Some (u, rest) \<Longrightarrow> length rest < length s"
  by (auto simp: scan_escape_def scan_unicode_def split: list.splits option.splits if_splits
      dest!: scan_hex4_shorter)

text \<open>The rest of a string literal, after its opening quote.\<close>

function scan_string :: "string \<Rightarrow> (string \<times> string) option" where
  "scan_string s =
     (case s of
        [] \<Rightarrow> None
      | c # r \<Rightarrow>
          if c = dquote then Some ([], r)
          else if c = backslash then
            (case scan_escape r of
               None \<Rightarrow> None
             | Some (u, rest) \<Rightarrow> map_option (\<lambda>(t, x). (u @ t, x)) (scan_string rest))
          else if code c < 32 then None
          else if utf8_len s = 0 then map_option (\<lambda>(t, x). (replacement @ t, x)) (scan_string r)
          else map_option (\<lambda>(t, x). (take (utf8_len s) s @ t, x)) (scan_string (drop (utf8_len s) s)))"
  by pat_completeness auto
termination
  by (relation "measure length") (auto dest: scan_escape_shorter)

declare scan_string.simps [simp del]

definition is_digit :: "char \<Rightarrow> bool" where
  "is_digit c = between 48 57 c"

text \<open>The literal of a number and what follows it.\<close>

definition scan_digits :: "string \<Rightarrow> (string \<times> string) option" where
  "scan_digits s =
     (if s = [] \<or> \<not> is_digit (hd s) then None else Some (takeWhile is_digit s, dropWhile is_digit s))"

definition scan_fraction :: "string \<Rightarrow> (string \<times> string) option" where
  "scan_fraction s =
     (if prefix ''.'' s then map_option (\<lambda>(d, r). (CHR ''.'' # d, r)) (scan_digits (tl s)) else Some ([], s))"

definition scan_exponent :: "string \<Rightarrow> (string \<times> string) option" where
  "scan_exponent s =
     (if s \<noteq> [] \<and> (hd s = CHR ''e'' \<or> hd s = CHR ''E'') then
        (if tl s \<noteq> [] \<and> (hd (tl s) = CHR ''+'' \<or> hd (tl s) = CHR ''-'')
         then map_option (\<lambda>(d, r). (hd s # hd (tl s) # d, r)) (scan_digits (tl (tl s)))
         else map_option (\<lambda>(d, r). (hd s # d, r)) (scan_digits (tl s)))
      else Some ([], s))"

definition scan_whole :: "string \<Rightarrow> (string \<times> string) option" where
  "scan_whole s = (if prefix ''0'' s then Some (''0'', tl s) else scan_digits s)"

definition scan_number :: "string \<Rightarrow> (string \<times> string) option" where
  "scan_number s =
     (let sign = (if prefix ''-'' s then ''-'' else []); s1 = drop (length sign) s in
      case scan_whole s1 of
        None \<Rightarrow> None
      | Some (ds, s2) \<Rightarrow>
          (case scan_fraction s2 of
             None \<Rightarrow> None
           | Some (fs, s3) \<Rightarrow>
               map_option (\<lambda>(es, s4). (sign @ ds @ fs @ es, s4)) (scan_exponent s3)))"

section \<open>Parsing\<close>

definition is_space :: "char \<Rightarrow> bool" where
  "is_space c \<longleftrightarrow> c = CHR '' '' \<or> c = CHR 0x09 \<or> c = CHR 0x0A \<or> c = CHR 0x0D"

definition skip_space :: "string \<Rightarrow> string" where
  "skip_space s = dropWhile is_space s"

text \<open>The next character that is not space, if it is the expected one.\<close>

definition expect :: "char \<Rightarrow> string \<Rightarrow> string option" where
  "expect c s = (case skip_space s of [] \<Rightarrow> None | d # r \<Rightarrow> if d = c then Some r else None)"

fun parse_value :: "nat \<Rightarrow> string \<Rightarrow> (json \<times> string) option"
  and parse_elements :: "nat \<Rightarrow> string \<Rightarrow> (json list \<times> string) option"
  and parse_members :: "nat \<Rightarrow> string \<Rightarrow> ((string \<times> json) list \<times> string) option" where
  "parse_value 0 s = None"
| "parse_value (Suc n) s =
     (case skip_space s of
        [] \<Rightarrow> None
      | c # r \<Rightarrow>
          if c = CHR ''{'' then
            (case expect (CHR ''}'') r of
               Some r' \<Rightarrow> Some (JObj [], r')
             | None \<Rightarrow> map_option (\<lambda>(ms, x). (JObj ms, x)) (parse_members n r))
          else if c = CHR ''['' then
            (case expect (CHR '']'') r of
               Some r' \<Rightarrow> Some (JArr [], r')
             | None \<Rightarrow> map_option (\<lambda>(vs, x). (JArr vs, x)) (parse_elements n r))
          else if c = dquote then map_option (\<lambda>(t, x). (JStr t, x)) (scan_string r)
          else if prefix ''true'' (c # r) then Some (JBool True, drop 4 (c # r))
          else if prefix ''false'' (c # r) then Some (JBool False, drop 5 (c # r))
          else if prefix ''null'' (c # r) then Some (JNull, drop 4 (c # r))
          else map_option (\<lambda>(t, x). (JNum t, x)) (scan_number (c # r)))"
| "parse_elements 0 s = None"
| "parse_elements (Suc n) s =
     (case parse_value n s of
        None \<Rightarrow> None
      | Some (v, r) \<Rightarrow>
          (case expect (CHR '']'') r of
             Some r' \<Rightarrow> Some ([v], r')
           | None \<Rightarrow> (case expect (CHR '','') r of
               None \<Rightarrow> None
             | Some r' \<Rightarrow> map_option (\<lambda>(vs, x). (v # vs, x)) (parse_elements n r'))))"
| "parse_members 0 s = None"
| "parse_members (Suc n) s =
     (case expect dquote s of
        None \<Rightarrow> None
      | Some r1 \<Rightarrow> (case scan_string r1 of
          None \<Rightarrow> None
        | Some (k, r2) \<Rightarrow> (case expect (CHR '':'') r2 of
            None \<Rightarrow> None
          | Some r3 \<Rightarrow> (case parse_value n r3 of
              None \<Rightarrow> None
            | Some (v, r4) \<Rightarrow>
                (case expect (CHR ''}'') r4 of
                   Some r5 \<Rightarrow> Some ([(k, v)], r5)
                 | None \<Rightarrow> (case expect (CHR '','') r4 of
                     None \<Rightarrow> None
                   | Some r5 \<Rightarrow> map_option (\<lambda>(ms, x). ((k, v) # ms, x)) (parse_members n r5)))))))"

definition json_parse :: "string \<Rightarrow> json option" where
  "json_parse s =
     (case parse_value (Suc (length s)) s of
        None \<Rightarrow> None
      | Some (v, r) \<Rightarrow> if skip_space r = [] then Some v else None)"

definition marshal_indent :: "json \<Rightarrow> string" where
  "marshal_indent v = render 0 v"


section \<open>Strings are read back\<close>

lemma code_range: "0 \<le> code c \<and> code c < 256"
proof -
  have "code c = int (of_char c)" by (simp add: code_def of_nat_of_char)
  moreover have "(of_char c :: nat) < 256" by (rule nat_of_char_less_256)
  ultimately show ?thesis by simp
qed

lemma byte_code [simp]: "byte (code c) = c"
  by (simp add: byte_def code_def)

lemma hex_value_digit:
  assumes "0 \<le> n" "n < 16"
  shows "hex_value (hex_digit n) = Some n"
proof -
  have "n \<in> {0, 1, 2, 3, 4, 5, 6, 7, 8, 9, 10, 11, 12, 13, 14, 15}" using assms by simp presburger
  then show ?thesis by (auto simp: hex_value_def hex_digit_def between_def code_def)
qed

lemma hex4_byte: "scan_hex4 (CHR ''0'' # CHR ''0'' # hex_digit (code c div 16) # hex_digit (code c mod 16) # r) = Some (code c, r)"
proof -
  have "hex_value (hex_digit (code c div 16)) = Some (code c div 16)"
      "hex_value (hex_digit (code c mod 16)) = Some (code c mod 16)"
    using code_range [of c] by (auto intro!: hex_value_digit)
  moreover have "hex_value (CHR ''0'') = Some 0" by (simp add: hex_value_def between_def code_def)
  ultimately show ?thesis by (simp add: scan_hex4_def)
qed

lemma scan_string_escape:
  "scan_escape r = Some (u, rest) \<Longrightarrow>
   scan_string (backslash # r) = map_option (\<lambda>(t, x). (u @ t, x)) (scan_string rest)"
  by (subst scan_string.simps) simp

lemma scan_string_quote [simp]: "scan_string (dquote # r) = Some ([], r)"
  by (subst scan_string.simps) simp

lemma scan_string_ascii:
  assumes "code c < 128"
  shows "scan_string (escape_ascii c @ r) = map_option (\<lambda>(t, x). (c # t, x)) (scan_string r)"
proof -
  have short: ?thesis if "escape_ascii c = [backslash, e]" "scan_escape (e # r) = Some ([c], r)" for e
    using scan_string_escape [OF that(2)] that(1) by simp
  show ?thesis
  proof (cases "c = dquote \<or> c = backslash \<or> c = CHR 0x08 \<or> c = CHR 0x0C \<or> c = CHR 0x0A \<or> c = CHR 0x0D \<or> c = CHR 0x09")
    case True
    then consider "c = dquote" | "c = backslash" | "c = CHR 0x08" | "c = CHR 0x0C" | "c = CHR 0x0A" | "c = CHR 0x0D"
      | "c = CHR 0x09" by blast
    then show ?thesis
    proof cases
      case 1 show ?thesis by (rule short [of dquote]) (simp_all add: 1 escape_ascii_def scan_escape_def)
    next
      case 2 show ?thesis by (rule short [of backslash]) (simp_all add: 2 escape_ascii_def scan_escape_def)
    next
      case 3 show ?thesis by (rule short [of "CHR ''b''"]) (simp_all add: 3 escape_ascii_def scan_escape_def)
    next
      case 4 show ?thesis by (rule short [of "CHR ''f''"]) (simp_all add: 4 escape_ascii_def scan_escape_def)
    next
      case 5 show ?thesis by (rule short [of "CHR ''n''"]) (simp_all add: 5 escape_ascii_def scan_escape_def)
    next
      case 6 show ?thesis by (rule short [of "CHR ''r''"]) (simp_all add: 6 escape_ascii_def scan_escape_def)
    next
      case 7 show ?thesis by (rule short [of "CHR ''t''"]) (simp_all add: 7 escape_ascii_def scan_escape_def)
    qed
  next
    case not_short: False
    show ?thesis
    proof (cases "code c < 32 \<or> c = CHR ''<'' \<or> c = CHR ''>'' \<or> c = CHR 0x26")
      case True
      then have esc: "escape_ascii c = backslash # ''u00'' @ [hex_digit (code c div 16), hex_digit (code c mod 16)]"
        using not_short by (simp add: escape_ascii_def)
      have "scan_escape (''u00'' @ [hex_digit (code c div 16), hex_digit (code c mod 16)] @ r) = Some ([c], r)"
        using assms hex4_byte [of c r] by (simp add: scan_escape_def scan_unicode_def encode_rune_def)
      from scan_string_escape [OF this] esc show ?thesis by simp
    next
      case False
      then have "escape_ascii c = [c]" using not_short by (simp add: escape_ascii_def)
      moreover have "utf8_len (c # r) = 1" using utf8_len_pos assms by simp
      ultimately show ?thesis using not_short False by (subst scan_string.simps) simp
    qed
  qed
qed

lemma escape_chunk_cases:
  "escape_chunk u = u \<or> u = line_separator \<and> escape_chunk u = backslash # ''u2028'' \<or>
   u = paragraph_separator \<and> escape_chunk u = backslash # ''u2029''"
  by (auto simp: escape_chunk_def)

lemma scan_separators:
  "scan_escape (''u2028'' @ r) = Some (line_separator, r)"
  "scan_escape (''u2029'' @ r) = Some (paragraph_separator, r)"
proof -
  have "hex_value (CHR ''2'') = Some 2" "hex_value (CHR ''0'') = Some 0" "hex_value (CHR ''8'') = Some 8"
      "hex_value (CHR ''9'') = Some 9"
    by (simp_all add: hex_value_def between_def code_def)
  moreover have "encode_rune 8232 = line_separator" "encode_rune 8233 = paragraph_separator"
    by code_simp+
  ultimately show "scan_escape (''u2028'' @ r) = Some (line_separator, r)"
      "scan_escape (''u2029'' @ r) = Some (paragraph_separator, r)"
    by (simp_all add: scan_escape_def scan_unicode_def scan_hex4_def)
qed

lemma scan_string_chunk:
  assumes "s \<noteq> []" "\<not> code (hd s) < 128" "utf8_len s \<noteq> 0"
  shows "scan_string (escape_chunk (take (utf8_len s) s) @ r) =
    map_option (\<lambda>(t, x). (take (utf8_len s) s @ t, x)) (scan_string r)"
proof -
  let ?n = "utf8_len s" and ?u = "take (utf8_len s) s"
  have len: "length ?u = ?n" using utf8_len_le [of s] by simp
  obtain c u where u: "?u = c # u" and c: "c = hd s" using assms by (cases s; cases ?n) auto
  have plain: "scan_string (?u @ r) = map_option (\<lambda>(t, x). (?u @ t, x)) (scan_string r)"
  proof -
    have l: "utf8_len (?u @ r) = ?n" by (rule utf8_len_take [OF assms(3)])
    have tk: "take ?n (?u @ r) = ?u" "drop ?n (?u @ r) = r" using len by simp_all
    have "code c \<ge> 128" using assms(2) c by simp
    then have ne: "c \<noteq> dquote" "c \<noteq> backslash" "\<not> code c < 32" by (auto simp: code_def)
    have "scan_string (?u @ r) = map_option (\<lambda>(t, x). (take (utf8_len (?u @ r)) (?u @ r) @ t, x))
        (scan_string (drop (utf8_len (?u @ r)) (?u @ r)))"
      using ne l assms(3) by (subst scan_string.simps) (simp add: u)
    then show ?thesis unfolding l tk .
  qed
  show ?thesis
    using escape_chunk_cases [of ?u] plain
      scan_string_escape [OF scan_separators(1), of r] scan_string_escape [OF scan_separators(2), of r] by auto
qed

lemma scan_string_read_back: "valid_utf8 s \<Longrightarrow> scan_string (escape s @ dquote # r) = Some (s, r)"
proof (induction s rule: escape.induct)
  case (1 s)
  show ?case
  proof (cases "s = []")
    case True
    then show ?thesis by (simp add: escape.simps)
  next
    case ne: False
    have valid: "utf8_len s \<noteq> 0" "valid_utf8 (drop (utf8_len s) s)"
      using 1(4) ne by (simp_all add: valid_utf8.simps [of s] split: if_splits)
    show ?thesis
    proof (cases "code (hd s) < 128")
      case True
      then have "valid_utf8 (tl s)" using valid(2) utf8_len_pos [OF ne True] by (simp add: drop_Suc)
      with 1(1) ne True have ih: "scan_string (escape (tl s) @ dquote # r) = Some (tl s, r)" by blast
      show ?thesis using ne True scan_string_ascii [OF True] ih by (subst escape.simps) simp
    next
      case False
      have ih: "scan_string (escape (drop (utf8_len s) s) @ dquote # r) = Some (drop (utf8_len s) s, r)"
        using 1(3) ne False valid by blast
      show ?thesis using ne False valid scan_string_chunk [OF ne False valid(1)] ih by (subst escape.simps) simp
    qed
  qed
qed


section \<open>Numbers are read back\<close>

definition read_int :: "string \<Rightarrow> int" where
  "read_int s = (if prefix ''-'' s then - read_digits (tl s) else read_digits s)"

definition num_stop :: "string \<Rightarrow> bool" where
  "num_stop r \<longleftrightarrow> r = [] \<or> (\<not> is_digit (hd r) \<and> hd r \<noteq> CHR ''.'' \<and> hd r \<noteq> CHR ''e'' \<and> hd r \<noteq> CHR ''E'')"

lemma is_digit_iff: "is_digit c \<longleftrightarrow> c \<in> set digit_chars"
proof
  assume d: "is_digit c"
  then have "code c \<in> {48, 49, 50, 51, 52, 53, 54, 55, 56, 57}"
    unfolding is_digit_def between_def by simp presburger
  then have "c \<in> byte ` {48, 49, 50, 51, 52, 53, 54, 55, 56, 57}" by (metis byte_code image_eqI)
  moreover have "byte ` {48, 49, 50, 51, 52, 53, 54, 55, 56, 57} = set digit_chars" by code_simp
  ultimately show "c \<in> set digit_chars" by blast
qed (auto simp: is_digit_def between_def code_def digit_chars_def)

lemma show_digits_hd: "0 < n \<Longrightarrow> hd (show_digits n) \<noteq> CHR ''0''"
proof (induction n rule: show_digits.induct)
  case (1 n)
  show ?case
  proof (cases "n < 10")
    case True
    then have "n \<in> {1, 2, 3, 4, 5, 6, 7, 8, 9}" using 1 by simp presburger
    then show ?thesis by (subst show_digits.simps) (auto simp: digit_def digit_chars_def)
  next
    case False
    then show ?thesis using 1 by (subst show_digits.simps) simp
  qed
qed

lemma show_digits_zero [simp]: "show_digits 0 = ''0''"
  by (subst show_digits.simps) (simp add: digit_def digit_chars_def)

lemma scan_digits_append:
  assumes "ds \<noteq> []" "\<forall>c \<in> set ds. is_digit c" "r = [] \<or> \<not> is_digit (hd r)"
  shows "scan_digits (ds @ r) = Some (ds, r)"
proof -
  have "takeWhile is_digit r = []" "dropWhile is_digit r = r" using assms(3) by (cases r; simp)+
  then show ?thesis using assms by (simp add: scan_digits_def takeWhile_append2 dropWhile_append2)
qed

text \<open>The digits of a number that is not negative, read without sign, fraction and exponent.\<close>

lemma scan_show_digits:
  assumes "0 \<le> n" "num_stop r"
  shows "scan_whole (show_digits n @ r) = Some (show_digits n, r)"
proof (cases "n = 0")
  case False
  then have "hd (show_digits n) \<noteq> CHR ''0''" using assms by (intro show_digits_hd) simp
  then have "\<not> prefix ''0'' (show_digits n @ r)"
    by (cases "show_digits n") auto
  moreover have "\<forall>c \<in> set (show_digits n). is_digit c"
    using set_show_digits [OF assms(1)] is_digit_iff by blast
  ultimately show ?thesis using scan_digits_append [of "show_digits n" r] assms(2) by (auto simp: num_stop_def scan_whole_def)
qed (simp add: scan_whole_def)

lemma scan_number_show:
  assumes "num_stop r"
  shows "scan_number (show_int i @ r) = Some (show_int i, r)"
proof -
  have tail: "scan_fraction r = Some ([], r)" "scan_exponent r = Some ([], r)"
    using assms by (auto simp: num_stop_def scan_fraction_def scan_exponent_def prefix_def)
  show ?thesis
  proof (cases "i < 0")
    case True
    then show ?thesis using scan_show_digits [of "- i" r] assms tail
      by (simp add: scan_number_def show_int_def Let_def)
  next
    case False
    have "\<not> prefix ''-'' (show_digits i @ r)"
    proof -
      have "hd (show_digits i) \<in> set digit_chars"
        using False set_show_digits [of i] hd_in_set [OF show_digits_ne [of i]] by auto
      then have "hd (show_digits i) \<noteq> CHR ''-''" by (auto simp: digit_chars_def)
      then show ?thesis by (cases "show_digits i") auto
    qed
    then show ?thesis using scan_show_digits [of i r] assms tail False
      by (simp add: scan_number_def show_int_def Let_def)
  qed
qed

lemma read_show_int [simp]: "read_int (show_int i) = i"
proof -
  have "\<not> prefix ''-'' (show_digits i)" if "0 \<le> i"
  proof -
    have "hd (show_digits i) \<in> set digit_chars"
      using that set_show_digits [of i] hd_in_set [OF show_digits_ne [of i]] by auto
    then have "hd (show_digits i) \<noteq> CHR ''-''" by (auto simp: digit_chars_def)
    then show ?thesis by (cases "show_digits i") auto
  qed
  then show ?thesis by (auto simp: read_int_def show_int_def read_show_digits)
qed

section \<open>Values are read back\<close>

fun json_ok :: "json \<Rightarrow> bool" where
  "json_ok (JNum n) = (n = show_int (read_int n))"
| "json_ok (JStr s) = valid_utf8 s"
| "json_ok (JArr vs) = list_all json_ok vs"
| "json_ok (JObj ms) = list_all (\<lambda>(k, v). valid_utf8 k \<and> json_ok v) ms"
| "json_ok v = True"

fun json_size :: "json \<Rightarrow> nat" and elements_size :: "json list \<Rightarrow> nat"
  and members_size :: "(string \<times> json) list \<Rightarrow> nat" where
  "json_size (JArr vs) = Suc (elements_size vs)"
| "json_size (JObj ms) = Suc (members_size ms)"
| "json_size v = 1"
| "elements_size [] = 0"
| "elements_size (v # vs) = Suc (json_size v + elements_size vs)"
| "members_size [] = 0"
| "members_size ((k, v) # ms) = Suc (json_size v + members_size ms)"

lemma skip_space_simps [simp]:
  "skip_space (CHR 0x0A # s) = skip_space s" "skip_space (CHR '' '' # s) = skip_space s"
  "skip_space (indent l @ s) = skip_space s" "skip_space (skip_space s) = skip_space s"
proof -
  show "skip_space (CHR 0x0A # s) = skip_space s" "skip_space (CHR '' '' # s) = skip_space s"
      "skip_space (skip_space s) = skip_space s"
    by (simp_all add: skip_space_def is_space_def)
  have "\<forall>c \<in> set (indent l). is_space c" by (auto simp: indent_def is_space_def)
  then show "skip_space (indent l @ s) = skip_space s" by (simp add: skip_space_def dropWhile_append2)
qed

lemma skip_space_stop [simp]: "\<not> is_space c \<Longrightarrow> skip_space (c # s) = c # s"
  by (simp add: skip_space_def)

lemma expect_skip: "skip_space a = skip_space b \<Longrightarrow> expect c a = expect c b"
  by (simp add: expect_def)

lemma expect_newline [simp]: "expect c (CHR 0x0A # s) = expect c s" "expect c (indent l @ s) = expect c s"
  by (simp_all add: expect_def)

lemma expect_here: "\<not> is_space d \<Longrightarrow> expect c (d # s) = (if d = c then Some s else None)"
  by (simp add: expect_def)

lemma parse_value_skip: "skip_space a = skip_space b \<Longrightarrow> parse_value n a = parse_value n b"
  by (cases n) simp_all

lemma parse_value_newline [simp]:
  "parse_value n (CHR 0x0A # s) = parse_value n s" "parse_value n (CHR '' '' # s) = parse_value n s"
  "parse_value n (indent l @ s) = parse_value n s"
  by (auto intro: parse_value_skip)

lemma parse_members_newline [simp]:
  "parse_members n (CHR 0x0A # s) = parse_members n s" "parse_members n (indent l @ s) = parse_members n s"
  by (cases n; simp)+

text \<open>The first character of a printed value tells it from closing brackets and separators.\<close>

lemma show_int_hd: "\<exists>c t. show_int i = c # t \<and> c \<in> insert (CHR ''-'') (set digit_chars)"
proof (cases "show_int i")
  case Nil
  then show ?thesis by simp
next
  case (Cons c t)
  then have "c \<in> set (show_int i)" by simp
  then show ?thesis using Cons set_show_int by blast
qed

lemma render_hd:
  "json_ok v \<Longrightarrow> \<exists>c t. render l v = c # t \<and> \<not> is_space c \<and> c \<noteq> CHR '']'' \<and> c \<noteq> CHR ''}'' \<and> c \<noteq> CHR '',''"
proof (cases v)
  case (JNum n)
  assume "json_ok v"
  then obtain c t where "n = c # t" "c \<in> insert (CHR ''-'') (set digit_chars)"
    using show_int_hd [of "read_int n"] JNum by auto
  then show ?thesis using JNum by (auto simp: is_space_def digit_chars_def)
qed (auto simp: is_space_def quoted_def)

lemma num_stop_simps [simp]:
  "num_stop []" "num_stop (CHR 0x0A # r)" "num_stop (CHR '','' # r)"
  by (simp_all add: num_stop_def is_digit_def between_def code_def)


lemma parse_number:
  assumes "n = show_int i" "num_stop r" "0 < fuel"
  shows "parse_value fuel (n @ r) = Some (JNum n, r)"
proof -
  obtain k where k: "fuel = Suc k" using assms(3) by (cases fuel) auto
  obtain c t where c: "n = c # t" "c \<in> insert (CHR ''-'') (set digit_chars)"
    using show_int_hd [of i] assms(1) by auto
  have ne: "\<not> is_space c" "c \<noteq> CHR ''{''" "c \<noteq> CHR ''[''" "c \<noteq> dquote" "c \<noteq> CHR ''t''" "c \<noteq> CHR ''f''" "c \<noteq> CHR ''n''"
    using c(2) by (auto simp: is_space_def digit_chars_def)
  have "scan_number (c # t @ r) = Some (c # t, r)"
    using scan_number_show [OF assms(2), of i] unfolding assms(1) [symmetric] c(1) by simp
  then show ?thesis using ne c(1) k by simp
qed

lemma parse_literals:
  "parse_value (Suc n) (''null'' @ r) = Some (JNull, r)"
  "parse_value (Suc n) (''true'' @ r) = Some (JBool True, r)"
  "parse_value (Suc n) (''false'' @ r) = Some (JBool False, r)"
  by (simp_all add: is_space_def)

lemma parse_string: "valid_utf8 s \<Longrightarrow> parse_value (Suc n) (quoted s @ r) = Some (JStr s, r)"
  using scan_string_read_back [of s r] by (simp add: quoted_def is_space_def)

lemma parse_render_all:
  "json_ok v \<Longrightarrow> json_size v \<le> n \<Longrightarrow> num_stop r \<Longrightarrow> parse_value n (render l v @ r) = Some (v, r)"
  "vs \<noteq> [] \<Longrightarrow> list_all json_ok vs \<Longrightarrow> elements_size vs \<le> n \<Longrightarrow>
   parse_elements n (render_elements l vs @ CHR 0x0A # indent k @ CHR '']'' # r) = Some (vs, r)"
  "ms \<noteq> [] \<Longrightarrow> list_all (\<lambda>(k, v). valid_utf8 k \<and> json_ok v) ms \<Longrightarrow> members_size ms \<le> n \<Longrightarrow>
   parse_members n (render_members l ms @ CHR 0x0A # indent k @ CHR ''}'' # r) = Some (ms, r)"
proof (induction l v and l vs and l ms arbitrary: n r and n r k and n r k
    rule: render_render_elements_render_members.induct)
  case (1 l)
  then show ?case by (cases n) (simp_all add: parse_literals [simplified])
next
  case (2 l b)
  then show ?case by (cases n; cases b) (simp_all add: parse_literals [simplified])
next
  case (3 l x)
  then show ?case by (auto intro: parse_number)
next
  case (4 l s)
  then show ?case using parse_string [of s "n - 1" r] by (cases n) simp_all
next
  case (5 l vs)
  obtain n' where n: "n = Suc n'" using 5 by (cases n) auto
  show ?case
  proof (cases vs)
    case Nil
    then show ?thesis by (simp add: n is_space_def expect_here)
  next
    case (Cons v vs')
    have "parse_elements n' (render_elements (Suc l) vs @ CHR 0x0A # indent l @ CHR '']'' # r) = Some (vs, r)"
      using 5 n Cons by simp
    moreover have "expect (CHR '']'') (render_elements (Suc l) vs @ x) = None" for x
      using render_hd [of v "Suc l"] 5 Cons by (auto simp: expect_here)
    ultimately show ?thesis using Cons by (simp add: n is_space_def)
  qed
next
  case (6 l ms)
  obtain n' where n: "n = Suc n'" using 6 by (cases n) auto
  show ?case
  proof (cases ms)
    case Nil
    then show ?thesis by (simp add: n is_space_def expect_here)
  next
    case (Cons m ms')
    obtain a v where m: "m = (a, v)" by (cases m)
    have "parse_members n' (render_members (Suc l) ms @ CHR 0x0A # indent l @ CHR ''}'' # r) = Some (ms, r)"
      using 6 n Cons by simp
    moreover have "expect (CHR ''}'') (render_members (Suc l) ms @ x) = None" for x
      using Cons m by (auto simp: expect_here quoted_def is_space_def)
    ultimately show ?thesis using Cons by (simp add: n is_space_def)
  qed
next
  case (7 l)
  then show ?case by simp
next
  case (8 l v vs)
  obtain n' where n: "n = Suc n'" using 8 by (cases n) auto
  show ?case
  proof (cases "vs = []")
    case True
    have "parse_value n' (render l v @ CHR 0x0A # indent k @ CHR '']'' # r) = Some (v, CHR 0x0A # indent k @ CHR '']'' # r)"
      using 8 n by simp
    then show ?thesis using True n by (simp add: expect_here is_space_def)
  next
    case False
    let ?r = "render_elements l vs @ CHR 0x0A # indent k @ CHR '']'' # r"
    have "parse_value n' (render l v @ CHR '','' # ?r) = Some (v, CHR '','' # ?r)"
      using 8 n by simp
    moreover have "parse_elements n' ?r = Some (vs, r)" using 8 n False by simp
    ultimately show ?thesis using False n by (simp add: expect_here is_space_def)
  qed
next
  case (9 l)
  then show ?case by simp
next
  case (10 l a v ms)
  obtain n' where n: "n = Suc n'" using 10 by (cases n) auto
  have key: "scan_string (escape a @ dquote # x) = Some (a, x)" for x
    using 10 by (simp add: scan_string_read_back)
  show ?case
  proof (cases "ms = []")
    case True
    have "parse_value n' (render l v @ CHR 0x0A # indent k @ CHR ''}'' # r) = Some (v, CHR 0x0A # indent k @ CHR ''}'' # r)"
      using 10 n by simp
    then show ?thesis using True n by (simp add: quoted_def key expect_here is_space_def)
  next
    case False
    let ?r = "render_members l ms @ CHR 0x0A # indent k @ CHR ''}'' # r"
    have "parse_value n' (render l v @ CHR '','' # ?r) = Some (v, CHR '','' # ?r)"
      using 10 n by simp
    moreover have "parse_members n' ?r = Some (ms, r)" using 10 n False by simp
    ultimately show ?thesis using False n by (simp add: quoted_def key expect_here is_space_def)
  qed
qed

lemma json_size_length:
  "json_ok v \<Longrightarrow> json_size v \<le> length (render l v)"
  "list_all json_ok vs \<Longrightarrow> elements_size vs \<le> length (render_elements l vs)"
  "list_all (\<lambda>(k, v). valid_utf8 k \<and> json_ok v) ms \<Longrightarrow> members_size ms \<le> length (render_members l ms)"
proof (induction l v and l vs and l ms rule: render_render_elements_render_members.induct)
  case (3 l x)
  then have "x \<noteq> []" using show_int_ne by (metis json_ok.simps(1))
  then show ?case by (cases x) simp_all
qed (auto simp: quoted_def)

lemma parse_render: "json_ok v \<Longrightarrow> json_parse (marshal_indent v) = Some v"
  using parse_render_all(1) [of v "Suc (length (render 0 v))" "[]" 0] json_size_length(1) [of v 0]
  by (simp add: json_parse_def marshal_indent_def skip_space_def)

lemma parse_render_line:
  assumes "json_ok v"
  shows "json_parse (marshal_indent v @ [CHR 0x0A]) = Some v"
proof -
  have "num_stop [CHR 0x0A]" by (simp add: num_stop_def is_digit_iff digit_chars_def)
  moreover have "json_size v \<le> Suc (Suc (length (render 0 v)))" using json_size_length(1) [OF assms, of 0] by simp
  ultimately have "parse_value (Suc (Suc (length (render 0 v)))) (render 0 v @ [CHR 0x0A]) = Some (v, [CHR 0x0A])"
    using parse_render_all(1) [OF assms] by blast
  then have "parse_value (Suc (length (render 0 v @ [CHR 0x0A]))) (render 0 v @ [CHR 0x0A]) = Some (v, [CHR 0x0A])"
    by (simp only: length_append length_Cons list.size add_Suc_right add_0_right)
  then show ?thesis
    unfolding json_parse_def marshal_indent_def by (simp add: skip_space_def is_space_def del: parse_value.simps)
qed

end
