(* ===== verification/Session_State.thy ===== *)
theory Session_State
  imports Go_OS Json_Codec
begin

text \<open>
  \<open>internal/session/session.go\<close> and \<open>internal/session/process_unix.go\<close>: the state of the managed
  session, its file, the session lock and the process that carries the session.

  The start time is kept as its RFC 3339 text, the form in which \<open>encoding/json\<close> writes and
  reads a \<open>time.Time\<close>; a time whose year that form cannot express has no such text, and
  marshalling it fails.
\<close>

section \<open>The state\<close>

record session_state =
  st_session_id :: string
  st_target :: string
  st_gateway :: string
  st_namespace :: string
  st_context :: string
  st_local_port :: int
  st_pid :: int
  st_ssh_config :: string
  st_known_hosts :: string
  st_user_ssh_config :: string
  st_vscode_dir :: string
  st_started_at :: string
  st_reconnect :: bool
  st_private_key :: string
  st_password :: string
  st_token :: string

definition zero_time :: string where
  "zero_time = ''0001-01-01T00:00:00Z''"

definition zero_state :: session_state where
  "zero_state = \<lparr>st_session_id = [], st_target = [], st_gateway = [], st_namespace = [], st_context = [],
     st_local_port = 0, st_pid = 0, st_ssh_config = [], st_known_hosts = [], st_user_ssh_config = [],
     st_vscode_dir = [], st_started_at = zero_time, st_reconnect = False,
     st_private_key = [], st_password = [], st_token = []\<rparr>"

definition err_not_found :: go_error where
  "err_not_found = Err ''session state not found'' []"

definition err_locked :: go_error where
  "err_locked = Err ''session lock already held'' []"

definition validate_state :: "session_state \<Rightarrow> unit result" where
  "validate_state s =
     (if st_private_key s \<noteq> [] then Inl (Err ''session state must not contain SSH private keys'' [])
      else if st_password s \<noteq> [] then Inl (Err ''session state must not contain passwords'' [])
      else if st_token s \<noteq> [] then Inl (Err ''session state must not contain Kubernetes tokens'' [])
      else Inr ())"

section \<open>Its JSON form\<close>

text \<open>The texts \<open>time.Time\<close> accepts: a date and a time of day, a fraction and a zone.\<close>

definition days_in_month :: "int \<Rightarrow> int \<Rightarrow> int" where
  "days_in_month y m =
     (if m = 2 then (if y mod 4 = 0 \<and> (y mod 100 \<noteq> 0 \<or> y mod 400 = 0) then 29 else 28)
      else if m = 4 \<or> m = 6 \<or> m = 9 \<or> m = 11 then 30 else 31)"

definition zone_ok :: "string \<Rightarrow> bool" where
  "zone_ok z \<longleftrightarrow> z = ''Z'' \<or>
     (length z = 6 \<and> (z ! 0 = CHR ''+'' \<or> z ! 0 = CHR ''-'') \<and> z ! 3 = CHR '':'' \<and>
      list_all (\<lambda>i. is_digit (z ! i)) [1, 2, 4, 5] \<and>
      read_digits (take 2 (drop 1 z)) < 24 \<and> read_digits (take 2 (drop 4 z)) < 60)"

definition rfc3339 :: "string \<Rightarrow> bool" where
  "rfc3339 s \<longleftrightarrow>
     20 \<le> length s \<and>
     list_all (\<lambda>i. is_digit (s ! i)) [0, 1, 2, 3, 5, 6, 8, 9, 11, 12, 14, 15, 17, 18] \<and>
     s ! 4 = CHR ''-'' \<and> s ! 7 = CHR ''-'' \<and> s ! 10 = CHR ''T'' \<and> s ! 13 = CHR '':'' \<and> s ! 16 = CHR '':'' \<and>
     (let y = read_digits (take 4 s); m = read_digits (take 2 (drop 5 s)); d = read_digits (take 2 (drop 8 s));
          rest = drop 19 s
      in 1 \<le> m \<and> m \<le> 12 \<and> 1 \<le> d \<and> d \<le> days_in_month y m \<and>
         read_digits (take 2 (drop 11 s)) < 24 \<and> read_digits (take 2 (drop 14 s)) < 60 \<and>
         read_digits (take 2 (drop 17 s)) < 60 \<and>
         (if prefix ''.'' rest
          then takeWhile is_digit (tl rest) \<noteq> [] \<and> zone_ok (dropWhile is_digit (tl rest))
          else zone_ok rest))"

definition opt_string :: "string \<Rightarrow> string \<Rightarrow> (string \<times> json) list" where
  "opt_string k v = (if v = [] then [] else [(k, JStr v)])"

definition opt_int :: "string \<Rightarrow> int \<Rightarrow> (string \<times> json) list" where
  "opt_int k i = (if i = 0 then [] else [(k, JNum (show_int i))])"

text \<open>The members \<open>encoding/json\<close> writes, after the tags of the struct: \<open>omitempty\<close> leaves out empty
  strings and zeros, never a struct such as the time; the fields tagged \<open>-\<close> are not written.\<close>

definition state_members :: "session_state \<Rightarrow> (string \<times> json) list" where
  "state_members s =
     [(''sessionId'', JStr (st_session_id s)), (''target'', JStr (st_target s))] @
     opt_string ''gateway'' (st_gateway s) @
     opt_string ''namespace'' (st_namespace s) @
     opt_string ''kubernetesContext'' (st_context s) @
     opt_int ''localPort'' (st_local_port s) @
     opt_int ''portForwardPid'' (st_pid s) @
     opt_string ''sshConfigPath'' (st_ssh_config s) @
     opt_string ''knownHostsPath'' (st_known_hosts s) @
     opt_string ''userSshConfigPath'' (st_user_ssh_config s) @
     opt_string ''vscodeUserDataDir'' (st_vscode_dir s) @
     [(''startedAt'', JStr (st_started_at s)), (''reconnect'', JBool (st_reconnect s))]"

definition marshal_state :: "session_state \<Rightarrow> string result" where
  "marshal_state s =
     (if \<not> rfc3339 (st_started_at s) then Inl (Err ''Time.MarshalJSON: year outside of range [0,9999]'' [])
      else Inr (marshal_indent (JObj (state_members s))))"

text \<open>
  Decoding a member: \<open>null\<close> leaves a field as it is, a value of the wrong type is an error.
\<close>

definition as_string :: "json \<Rightarrow> string \<Rightarrow> string option" where
  "as_string v old = (case v of JStr s \<Rightarrow> Some s | JNull \<Rightarrow> Some old | _ \<Rightarrow> None)"

definition int_literal :: "string \<Rightarrow> bool" where
  "int_literal n = (let d = (if prefix ''-'' n then tl n else n) in d \<noteq> [] \<and> list_all is_digit d)"

definition int64 :: "int \<Rightarrow> bool" where
  "int64 i \<longleftrightarrow> - 9223372036854775808 \<le> i \<and> i \<le> 9223372036854775807"

definition as_int :: "json \<Rightarrow> int \<Rightarrow> int option" where
  "as_int v old =
     (case v of JNum n \<Rightarrow> if int_literal n \<and> int64 (read_int n) then Some (read_int n) else None
      | JNull \<Rightarrow> Some old | _ \<Rightarrow> None)"

definition as_bool :: "json \<Rightarrow> bool \<Rightarrow> bool option" where
  "as_bool v old = (case v of JBool b \<Rightarrow> Some b | JNull \<Rightarrow> Some old | _ \<Rightarrow> None)"

definition as_time :: "json \<Rightarrow> string \<Rightarrow> string option" where
  "as_time v old = (case v of JStr t \<Rightarrow> if rfc3339 t then Some t else None | JNull \<Rightarrow> Some old | _ \<Rightarrow> None)"

definition state_fields :: "string list" where
  "state_fields = [''sessionId'', ''target'', ''gateway'', ''namespace'', ''kubernetesContext'', ''localPort'',
     ''portForwardPid'', ''sshConfigPath'', ''knownHostsPath'', ''userSshConfigPath'', ''vscodeUserDataDir'',
     ''startedAt'', ''reconnect'']"

text \<open>The field of a key: the exact name, else one that is equal up to letter case.\<close>

definition field_of :: "string \<Rightarrow> string option" where
  "field_of k = (if List.member state_fields k then Some k else find (equal_fold k) state_fields)"

definition decode_field :: "string \<Rightarrow> json \<Rightarrow> session_state \<Rightarrow> session_state option" where
  "decode_field f v s =
     (if f = ''sessionId'' then map_option (\<lambda>x. s\<lparr>st_session_id := x\<rparr>) (as_string v (st_session_id s))
      else if f = ''target'' then map_option (\<lambda>x. s\<lparr>st_target := x\<rparr>) (as_string v (st_target s))
      else if f = ''gateway'' then map_option (\<lambda>x. s\<lparr>st_gateway := x\<rparr>) (as_string v (st_gateway s))
      else if f = ''namespace'' then map_option (\<lambda>x. s\<lparr>st_namespace := x\<rparr>) (as_string v (st_namespace s))
      else if f = ''kubernetesContext'' then map_option (\<lambda>x. s\<lparr>st_context := x\<rparr>) (as_string v (st_context s))
      else if f = ''localPort'' then map_option (\<lambda>x. s\<lparr>st_local_port := x\<rparr>) (as_int v (st_local_port s))
      else if f = ''portForwardPid'' then map_option (\<lambda>x. s\<lparr>st_pid := x\<rparr>) (as_int v (st_pid s))
      else if f = ''sshConfigPath'' then map_option (\<lambda>x. s\<lparr>st_ssh_config := x\<rparr>) (as_string v (st_ssh_config s))
      else if f = ''knownHostsPath'' then map_option (\<lambda>x. s\<lparr>st_known_hosts := x\<rparr>) (as_string v (st_known_hosts s))
      else if f = ''userSshConfigPath'' then map_option (\<lambda>x. s\<lparr>st_user_ssh_config := x\<rparr>) (as_string v (st_user_ssh_config s))
      else if f = ''vscodeUserDataDir'' then map_option (\<lambda>x. s\<lparr>st_vscode_dir := x\<rparr>) (as_string v (st_vscode_dir s))
      else if f = ''startedAt'' then map_option (\<lambda>x. s\<lparr>st_started_at := x\<rparr>) (as_time v (st_started_at s))
      else map_option (\<lambda>x. s\<lparr>st_reconnect := x\<rparr>) (as_bool v (st_reconnect s)))"

definition decode_member :: "string \<times> json \<Rightarrow> session_state \<Rightarrow> session_state option" where
  "decode_member m s = (case m of (k, v) \<Rightarrow> (case field_of k of None \<Rightarrow> Some s | Some f \<Rightarrow> decode_field f v s))"

fun decode_members :: "(string \<times> json) list \<Rightarrow> session_state \<Rightarrow> session_state option" where
  "decode_members [] s = Some s"
| "decode_members (m # ms) s = (case decode_member m s of None \<Rightarrow> None | Some s' \<Rightarrow> decode_members ms s')"

definition unmarshal_state :: "string \<Rightarrow> session_state result" where
  "unmarshal_state data =
     (case json_parse data of
        None \<Rightarrow> Inl (Wrap ''parse session state: %w'' [] (Err ''invalid JSON'' []))
      | Some v \<Rightarrow>
          (case (case v of JObj ms \<Rightarrow> decode_members ms zero_state | JNull \<Rightarrow> Some zero_state | _ \<Rightarrow> None) of
             None \<Rightarrow> Inl (Wrap ''parse session state: %w'' [] (Err ''cannot unmarshal'' []))
           | Some s \<Rightarrow> Inr s))"

section \<open>The store\<close>

definition session_path :: "string \<Rightarrow> string" where
  "session_path dir = path_join [dir, ''session.json'']"

definition session_save :: "string \<Rightarrow> session_state \<Rightarrow> (unit, world) io" where
  "session_save dir s =
     io_bind (io_lift (validate_state s)) (\<lambda>_.
     io_bind (io_wrap ''create session directory: %w'' [] (os_mkdir_all dir 448)) (\<lambda>_.
     io_bind (io_wrap ''marshal session state: %w'' [] (io_lift (marshal_state s))) (\<lambda>data.
     io_bind (io_wrap ''write session state: %w'' [] (os_write_file (session_path dir) data 384)) (\<lambda>_.
     os_chmod (session_path dir) 384))))"

definition session_load :: "string \<Rightarrow> (session_state, world) io" where
  "session_load dir =
     io_case (os_read_file (session_path dir))
       (\<lambda>e. if is_not_exist e then io_fail err_not_found else io_fail (Wrap ''read session state: %w'' [] e))
       (\<lambda>data. io_lift (unmarshal_state data))"

definition session_clear :: "string \<Rightarrow> (unit, world) io" where
  "session_clear dir =
     io_case (os_remove (session_path dir))
       (\<lambda>e. if is_not_exist e then io_return () else io_fail (Wrap ''remove session state: %w'' [] e))
       io_return"

section \<open>The lock\<close>

record session_lock =
  lk_path :: string
  lk_open :: bool

definition acquire_lock :: "string \<Rightarrow> (session_lock, world) io" where
  "acquire_lock p =
     io_case (os_create_excl p 384)
       (\<lambda>e. if is_exist e then io_fail err_locked else io_fail (Wrap ''acquire session lock: %w'' [] e))
       (\<lambda>_. io_return \<lparr>lk_path = p, lk_open = True\<rparr>)"

text \<open>\<open>Release\<close> changes the lock it is called on: the file is dropped once it is closed.\<close>

definition release_lock :: "session_lock \<Rightarrow> world \<Rightarrow> (unit result \<times> session_lock) \<times> world" where
  "release_lock l w =
     (if \<not> lk_open l then ((Inr (), l), w)
      else case os_close (lk_path l) w of
             (Inl e, w) \<Rightarrow> ((Inl (Wrap ''close session lock: %w'' [] e), l), w)
           | (Inr _, w) \<Rightarrow>
               let l = l\<lparr>lk_open := False\<rparr>
               in case os_remove (lk_path l) w of
                    (Inl e, w) \<Rightarrow>
                      ((if is_not_exist e then Inr () else Inl (Wrap ''remove session lock: %w'' [] e), l), w)
                  | (Inr _, w) \<Rightarrow> ((Inr (), l), w))"

section \<open>The process\<close>

definition process_exists :: "int \<Rightarrow> world \<Rightarrow> bool" where
  "process_exists pid w =
     (if pid \<le> 0 then False
      else case fst (sys_kill pid False w) of Inr _ \<Rightarrow> True | Inl e \<Rightarrow> \<not> errors_is e (Errno ESRCH))"

definition is_stale :: "session_state \<Rightarrow> (int \<Rightarrow> bool) \<Rightarrow> bool" where
  "is_stale s running = (if st_pid s \<le> 0 then False else \<not> running (st_pid s))"

definition kill_process :: "int \<Rightarrow> (unit, world) io" where
  "kill_process pid = io_case (sys_kill (- pid) True) (\<lambda>_. sys_kill pid True) io_return"

definition terminate_process :: "int \<Rightarrow> (unit, world) io" where
  "terminate_process pid =
     (if pid \<le> 0 then io_return ()
      else io_wrap ''terminate process %d: %w'' [show_int pid] (kill_process pid))"


section \<open>The state is read back from its JSON form\<close>

text \<open>The states the program works with: texts in UTF-8, 64-bit numbers, a time, no credentials.\<close>

definition state_ok :: "session_state \<Rightarrow> bool" where
  "state_ok s \<longleftrightarrow>
     list_all valid_utf8 [st_session_id s, st_target s, st_gateway s, st_namespace s, st_context s,
       st_ssh_config s, st_known_hosts s, st_user_ssh_config s, st_vscode_dir s, st_started_at s] \<and>
     int64 (st_local_port s) \<and> int64 (st_pid s) \<and> rfc3339 (st_started_at s)"

lemma int_literal_show: "int_literal (show_int i)"
proof -
  have digits: "list_all is_digit (show_digits n) \<and> \<not> prefix ''-'' (show_digits n)" if "0 \<le> n" for n
  proof -
    have all: "\<forall>c \<in> set (show_digits n). is_digit c" using set_show_digits [OF that] is_digit_iff by blast
    have "\<not> is_digit (CHR ''-'')" by (simp add: is_digit_def between_def code_def)
    then have "hd (show_digits n) \<noteq> CHR ''-''" using all hd_in_set [OF show_digits_ne [of n]] by metis
    then have "\<not> prefix ''-'' (show_digits n)" by (cases "show_digits n") auto
    with all show ?thesis by (simp add: list_all_iff)
  qed
  show ?thesis using digits [of i] digits [of "- i"] by (auto simp: int_literal_def show_int_def Let_def)
qed

lemma as_int_show: "int64 i \<Longrightarrow> as_int (JNum (show_int i)) old = Some i"
  by (simp add: as_int_def int_literal_show)

lemma field_of_names:
  "field_of ''sessionId'' = Some ''sessionId''" "field_of ''target'' = Some ''target''"
  "field_of ''gateway'' = Some ''gateway''" "field_of ''namespace'' = Some ''namespace''"
  "field_of ''kubernetesContext'' = Some ''kubernetesContext''" "field_of ''localPort'' = Some ''localPort''"
  "field_of ''portForwardPid'' = Some ''portForwardPid''" "field_of ''sshConfigPath'' = Some ''sshConfigPath''"
  "field_of ''knownHostsPath'' = Some ''knownHostsPath''"
  "field_of ''userSshConfigPath'' = Some ''userSshConfigPath''"
  "field_of ''vscodeUserDataDir'' = Some ''vscodeUserDataDir''" "field_of ''startedAt'' = Some ''startedAt''"
  "field_of ''reconnect'' = Some ''reconnect''"
  by code_simp+

lemma decode_members_append:
  "decode_members (ms @ ns) s = (case decode_members ms s of None \<Rightarrow> None | Some s' \<Rightarrow> decode_members ns s')"
  by (induction ms arbitrary: s) (auto split: option.split)

lemma decode_opt_string:
  assumes "field_of f = Some f" and "decode_field f (JStr v) s = Some s'" and "v = [] \<Longrightarrow> s' = s"
  shows "decode_members (opt_string f v @ ms) s = decode_members ms s'"
  using assms by (auto simp: opt_string_def decode_member_def)

lemma decode_opt_int:
  assumes "field_of f = Some f" and "decode_field f (JNum (show_int i)) s = Some s'" and "i = 0 \<Longrightarrow> s' = s"
  shows "decode_members (opt_int f i @ ms) s = decode_members ms s'"
  using assms by (auto simp: opt_int_def decode_member_def)

lemma decode_state:
  assumes "state_ok s" and "validate_state s = Inr ()"
  shows "decode_members (state_members s) zero_state = Some s"
proof -
  have none: "st_private_key s = []" "st_password s = []" "st_token s = []"
    using assms(2) by (auto simp: validate_state_def split: if_splits)
  have ok: "int64 (st_local_port s)" "int64 (st_pid s)" "rfc3339 (st_started_at s)"
    using assms(1) by (simp_all add: state_ok_def)
  define s1 where "s1 = zero_state\<lparr>st_session_id := st_session_id s, st_target := st_target s\<rparr>"
  define s2 where "s2 = s1\<lparr>st_gateway := st_gateway s\<rparr>"
  define s3 where "s3 = s2\<lparr>st_namespace := st_namespace s\<rparr>"
  define s4 where "s4 = s3\<lparr>st_context := st_context s\<rparr>"
  define s5 where "s5 = s4\<lparr>st_local_port := st_local_port s\<rparr>"
  define s6 where "s6 = s5\<lparr>st_pid := st_pid s\<rparr>"
  define s7 where "s7 = s6\<lparr>st_ssh_config := st_ssh_config s\<rparr>"
  define s8 where "s8 = s7\<lparr>st_known_hosts := st_known_hosts s\<rparr>"
  define s9 where "s9 = s8\<lparr>st_user_ssh_config := st_user_ssh_config s\<rparr>"
  define s10 where "s10 = s9\<lparr>st_vscode_dir := st_vscode_dir s\<rparr>"
  note st = s1_def s2_def s3_def s4_def s5_def s6_def s7_def s8_def s9_def s10_def zero_state_def
  have head: "decode_members ([(''sessionId'', JStr (st_session_id s)), (''target'', JStr (st_target s))] @ ms) zero_state
      = decode_members ms s1" for ms
    by (simp add: decode_member_def field_of_names decode_field_def as_string_def s1_def)
  have tail: "decode_members [(''startedAt'', JStr (st_started_at s)), (''reconnect'', JBool (st_reconnect s))] s10 = Some s"
    using ok(3) none by (simp add: decode_member_def field_of_names decode_field_def as_time_def as_bool_def st)
  have "decode_members (state_members s) zero_state =
      decode_members (opt_string ''gateway'' (st_gateway s) @ opt_string ''namespace'' (st_namespace s) @
        opt_string ''kubernetesContext'' (st_context s) @ opt_int ''localPort'' (st_local_port s) @
        opt_int ''portForwardPid'' (st_pid s) @ opt_string ''sshConfigPath'' (st_ssh_config s) @
        opt_string ''knownHostsPath'' (st_known_hosts s) @ opt_string ''userSshConfigPath'' (st_user_ssh_config s) @
        opt_string ''vscodeUserDataDir'' (st_vscode_dir s) @
        [(''startedAt'', JStr (st_started_at s)), (''reconnect'', JBool (st_reconnect s))]) s1"
    unfolding state_members_def by (rule head)
  also have "\<dots> = Some s"
    apply (subst decode_opt_string [OF field_of_names(3), where s' = s2])
      apply (simp_all add: decode_field_def as_string_def st)[2]
    apply (subst decode_opt_string [OF field_of_names(4), where s' = s3])
      apply (simp_all add: decode_field_def as_string_def st)[2]
    apply (subst decode_opt_string [OF field_of_names(5), where s' = s4])
      apply (simp_all add: decode_field_def as_string_def st)[2]
    apply (subst decode_opt_int [OF field_of_names(6), where s' = s5])
      apply (simp_all add: decode_field_def as_int_show ok st)[2]
    apply (subst decode_opt_int [OF field_of_names(7), where s' = s6])
      apply (simp_all add: decode_field_def as_int_show ok st)[2]
    apply (subst decode_opt_string [OF field_of_names(8), where s' = s7])
      apply (simp_all add: decode_field_def as_string_def st)[2]
    apply (subst decode_opt_string [OF field_of_names(9), where s' = s8])
      apply (simp_all add: decode_field_def as_string_def st)[2]
    apply (subst decode_opt_string [OF field_of_names(10), where s' = s9])
      apply (simp_all add: decode_field_def as_string_def st)[2]
    apply (subst decode_opt_string [OF field_of_names(11), where s' = s10])
      apply (simp_all add: decode_field_def as_string_def st)[2]
    by (rule tail)
  finally show ?thesis .
qed


lemma state_members_ok:
  assumes "state_ok s"
  shows "json_ok (JObj (state_members s))"
proof -
  have keys: "valid_utf8 ''sessionId''" "valid_utf8 ''target''" "valid_utf8 ''gateway''" "valid_utf8 ''namespace''"
      "valid_utf8 ''kubernetesContext''" "valid_utf8 ''localPort''" "valid_utf8 ''portForwardPid''"
      "valid_utf8 ''sshConfigPath''" "valid_utf8 ''knownHostsPath''" "valid_utf8 ''userSshConfigPath''"
      "valid_utf8 ''vscodeUserDataDir''" "valid_utf8 ''startedAt''" "valid_utf8 ''reconnect''"
    by code_simp+
  show ?thesis
    using assms by (simp add: state_members_def opt_string_def opt_int_def state_ok_def keys)
qed

lemma unmarshal_marshal:
  assumes "state_ok s" and "validate_state s = Inr ()"
  shows "\<exists>data. marshal_state s = Inr data \<and> unmarshal_state data = Inr s"
proof -
  have "rfc3339 (st_started_at s)" using assms(1) by (simp add: state_ok_def)
  then have "marshal_state s = Inr (marshal_indent (JObj (state_members s)))" by (simp add: marshal_state_def)
  moreover have "unmarshal_state (marshal_indent (JObj (state_members s))) = Inr s"
    using parse_render [OF state_members_ok [OF assms(1)]] decode_state [OF assms] by (simp add: unmarshal_state_def)
  ultimately show ?thesis by blast
qed

section \<open>The contract of a session store\<close>

text \<open>
  What the commands rely on: a saved state is the one that is loaded, after clearing there is
  none, and none of the operations touches a file outside the store or the processes.
\<close>

locale session_store =
  fixes save :: "session_state \<Rightarrow> (unit, world) io" and load :: "(session_state, world) io"
    and clear :: "(unit, world) io" and ok :: "session_state \<Rightarrow> bool" and absent :: go_error and own :: "string \<Rightarrow> bool"
  assumes load_saved: "save s w = (Inr (), w') \<Longrightarrow> ok s \<Longrightarrow> calm w' \<Longrightarrow> fst (load w') = Inr s"
    and load_cleared: "clear w = (Inr (), w') \<Longrightarrow> calm w' \<Longrightarrow> fst (load w') = Inl absent"
    and save_fixed: "leaves fixed_part (save s)" and load_fixed: "leaves fixed_part load"
    and clear_fixed: "leaves fixed_part clear"
    and save_files: "\<not> own p \<Longrightarrow> leaves (\<lambda>w. file_at w p) (save s)"
    and load_files: "leaves (\<lambda>w. file_at w p) load"
    and clear_files: "\<not> own p \<Longrightarrow> leaves (\<lambda>w. file_at w p) clear"
begin

text \<open>A sequence of saves that all succeed leaves the last state.\<close>

fun save_all :: "session_state list \<Rightarrow> (unit, world) io" where
  "save_all [] = io_return ()"
| "save_all (s # ss) = io_bind (save s) (\<lambda>_. save_all ss)"

lemma save_all_fixed: "leaves fixed_part (save_all ss)"
  by (induction ss) (auto intro: leaves_bind save_fixed simp del: io_return_apply)

lemma last_save_counts:
  "save_all (ss @ [s]) w = (Inr (), w') \<Longrightarrow> ok s \<Longrightarrow> calm w \<Longrightarrow> fst (load w') = Inr s"
proof (induction ss arbitrary: w)
  case Nil
  then have run: "save s w = (Inr (), w')" by (auto simp: io_bind_eq_Inr)
  then have "calm w'" using leaves_result [OF leaves_calm [OF save_fixed] run] Nil by simp
  with run Nil show ?case by (intro load_saved)
next
  case (Cons t ss)
  then obtain w1 where run: "save t w = (Inr (), w1)" and rest: "save_all (ss @ [s]) w1 = (Inr (), w')"
    by (auto simp: io_bind_eq_Inr)
  have "calm w1" using leaves_result [OF leaves_calm [OF save_fixed] run] Cons by simp
  with rest Cons show ?case by blast
qed

lemma save_then_clear:
  assumes "save s w = (Inr (), w1)" "clear w1 = (Inr (), w2)" "calm w"
  shows "fst (load w2) = Inl absent \<and> (\<not> own p \<longrightarrow> file_at w2 p = file_at w p) \<and> w_procs w2 = w_procs w"
proof -
  have "calm w1" using leaves_result [OF leaves_calm [OF save_fixed] assms(1)] assms(3) by simp
  then have "calm w2" using leaves_result [OF leaves_calm [OF clear_fixed] assms(2)] by simp
  moreover have "w_procs w2 = w_procs w"
    using leaves_result [OF leaves_procs [OF save_fixed] assms(1)]
      leaves_result [OF leaves_procs [OF clear_fixed] assms(2)] by simp
  moreover have "file_at w2 p = file_at w p" if "\<not> own p"
    using leaves_result [OF save_files [OF that] assms(1)] leaves_result [OF clear_files [OF that] assms(2)] by simp
  ultimately show ?thesis using load_cleared [OF assms(2)] by blast
qed

end

section \<open>The store meets it\<close>

lemma plain_session_json [simp]: "plain_name ''session.json''"
  by (simp add: plain_name_def)

lemma session_path_clean [simp]: "path_clean (session_path d) = session_path d"
  by (simp add: session_path_def)

lemma session_save_leaves [frame]:
  "leaves fixed_part (session_save d s)"
  "path_clean p \<noteq> session_path d \<Longrightarrow> leaves (\<lambda>w. file_at w p) (session_save d s)"
  unfolding session_save_def by ((intro frame; simp?)+)

lemma session_load_leaves [frame]:
  "leaves fixed_part (session_load d)" "leaves (\<lambda>w. file_at w p) (session_load d)"
  unfolding session_load_def by ((intro frame; simp?)+)

lemma session_clear_leaves [frame]:
  "leaves fixed_part (session_clear d)"
  "path_clean p \<noteq> session_path d \<Longrightarrow> leaves (\<lambda>w. file_at w p) (session_clear d)"
  unfolding session_clear_def by ((intro frame; simp?)+)

lemma session_save_ok:
  assumes "session_save d s w = (Inr (), w')"
  shows "validate_state s = Inr () \<and>
    (\<exists>data. marshal_state s = Inr data \<and> file_at w' (session_path d) = Some data \<and>
            mode_at w' (session_path d) = Some 384)"
proof -
  obtain w1 w2 data where valid: "validate_state s = Inr ()" and data: "marshal_state s = Inr data"
    and wr: "os_write_file (session_path d) data 384 w1 = (Inr (), w2)"
    and chmod: "os_chmod (session_path d) 384 w2 = (Inr (), w')"
    using assms by (auto simp: session_save_def io_bind_eq_Inr)
  have "file_at w2 (session_path d) = Some data" using write_file_ok [OF wr] by simp
  then show ?thesis using chmod_ok [OF chmod] valid data by blast
qed

lemma session_load_file:
  "calm w \<Longrightarrow> file_at w (session_path d) = Some data \<Longrightarrow> fst (session_load d w) = unmarshal_state data"
  by (simp add: session_load_def io_case_def read_file_calm)

lemma session_load_none:
  "calm w \<Longrightarrow> lookup_node w (session_path d) = None \<Longrightarrow> fst (session_load d w) = Inl err_not_found"
  by (simp add: session_load_def io_case_def read_file_none)

lemma session_clear_ok: "session_clear d w = (Inr (), w') \<Longrightarrow> lookup_node w' (session_path d) = None"
proof -
  assume ok: "session_clear d w = (Inr (), w')"
  obtain r w1 where rm: "os_remove (session_path d) w = (r, w1)" by fastforce
  show ?thesis
  proof (cases r)
    case (Inl e)
    then have "is_not_exist e" "w1 = w'" using ok rm by (auto simp: session_clear_def io_case_def split: if_splits)
    then show ?thesis using remove_missing [OF rm [unfolded Inl]] by simp
  next
    case (Inr u)
    then have "w1 = w'" using ok rm by (simp add: session_clear_def io_case_def)
    then show ?thesis using remove_ok rm Inr by simp
  qed
qed

interpretation store: session_store "session_save d" "session_load d" "session_clear d" state_ok err_not_found
    "\<lambda>p. path_clean p = session_path d"
  for d
proof unfold_locales
  fix s w w' p
  show "fst (session_load d w') = Inr s" if "session_save d s w = (Inr (), w')" "state_ok s" "calm w'"
    using session_save_ok [OF that(1)] unmarshal_marshal [OF that(2)] session_load_file [OF that(3)] by auto
  show "fst (session_load d w') = Inl err_not_found" if "session_clear d w = (Inr (), w')" "calm w'"
    using session_load_none [OF that(2) session_clear_ok [OF that(1)]] .
qed (simp_all add: session_save_leaves session_load_leaves session_clear_leaves)


section \<open>Processes\<close>

lemma process_exists_calm: "calm w \<Longrightarrow> process_exists pid w \<longleftrightarrow> 0 < pid \<and> alive w pid"
  by (force simp: process_exists_def sys_kill_def alive_def list_ex_iff Let_def)

text \<open>\<open>group_leader w pid\<close>: a process that runs as \<open>pid\<close> is in a group of its own, as the program
  starts its background processes.\<close>

definition group_leader :: "world \<Rightarrow> int \<Rightarrow> bool" where
  "group_leader w pid \<longleftrightarrow> list_all (\<lambda>(q, g). q = pid \<longrightarrow> g = pid) (w_procs w)"

lemma kill_group:
  "calm w \<Longrightarrow> 1 < pid \<Longrightarrow> list_ex (\<lambda>(q, g). g = pid) (w_procs w) \<Longrightarrow>
   kill_process pid w = (Inr (), bump (w\<lparr>w_procs := filter (\<lambda>(q, g). g \<noteq> pid) (w_procs w)\<rparr>))"
  by (simp add: kill_process_def io_case_def sys_kill_def Let_def case_prod_unfold)

lemma kill_nothing:
  assumes "1 < pid" and "\<not> list_ex (\<lambda>(q, g). g = pid) (w_procs w)" and "group_leader w pid"
  shows "kill_process pid w = (Inl (Errno ESRCH), bump (bump w))"
proof -
  have "\<not> list_ex (\<lambda>(q, g). q = pid) (w_procs w)"
    using assms(2,3) by (auto simp: list_ex_iff list_all_iff group_leader_def)
  then show ?thesis
    using assms(1,2) by (simp add: kill_process_def io_case_def sys_kill_def Let_def case_prod_unfold)
qed

section \<open>Properties\<close>

text \<open>
  C11: a session state that was saved successfully is on disk with mode 0600, and loading it gives
  back exactly the state that was saved, every field included.
\<close>

theorem session_save_load:
  assumes "session_save d s w = (Inr (), w')" and "state_ok s" and "calm w'"
  shows "fst (session_load d w') = Inr s \<and> mode_at w' (session_path d) = Some 384"
  using store.load_saved [OF assms] session_save_ok [OF assms(1)] by blast

definition demo_state :: session_state where
  "demo_state = zero_state\<lparr>st_session_id := ''0a1b'', st_target := [CHR 0xC3, CHR 0xA9, CHR ''<''], st_gateway := ''g1'',
     st_local_port := 55221, st_pid := 4711, st_started_at := ''2026-02-28T10:11:12.5Z'', st_reconnect := True\<rparr>"

definition demo_session_world :: world where
  "demo_session_world = \<lparr>w_nodes = [''/s'' \<mapsto> Dir 448], w_umask = 18, w_fault = (\<lambda>t op p. False),
     w_short = (\<lambda>t. 0), w_clock = 0, w_procs = [(4711, 4711), (4712, 4711), (9, 9)]\<rparr>"

lemma demo_session_world_calm: "calm demo_session_world"
  by (simp add: calm_def demo_session_world_def)

lemma demo_state_ok: "state_ok demo_state"
  by code_simp

theorem session_save_load_witness:
  "\<exists>w'. session_save ''/s'' demo_state demo_session_world = (Inr (), w') \<and> fst (session_load ''/s'' w') = Inr demo_state"
proof -
  have "fst (session_save ''/s'' demo_state demo_session_world) = Inr ()" by code_simp
  then obtain w' where run: "session_save ''/s'' demo_state demo_session_world = (Inr (), w')" by (metis prod.collapse)
  have "calm w'" using leaves_result [OF leaves_calm [OF store.save_fixed] run] demo_session_world_calm by simp
  from session_save_load [OF run demo_state_ok this] run show ?thesis by blast
qed

text \<open>
  A state with a private key, a password or a token is rejected before anything is done: not
  even the session directory is created.
\<close>

lemma credentials_never_saved:
  assumes "st_private_key s \<noteq> [] \<or> st_password s \<noteq> [] \<or> st_token s \<noteq> []"
  shows "\<exists>message. session_save d s w = (Inl (Err message []), w)"
  using assms by (auto simp: session_save_def io_bind_def validate_state_def)

theorem credentials_never_saved_witness:
  "\<exists>message. session_save ''/s'' (demo_state\<lparr>st_password := ''pw''\<rparr>) demo_session_world = (Inl (Err message []), demo_session_world)"
  by (rule credentials_never_saved) simp

text \<open>
  Saving and clearing a session leaves no session behind, no other file changed and every
  process running.
\<close>

lemma session_save_clear:
  assumes "session_save d s w = (Inr (), w1)" and "session_clear d w1 = (Inr (), w2)" and "calm w"
  shows "fst (session_load d w2) = Inl err_not_found \<and>
     (path_clean p \<noteq> session_path d \<longrightarrow> file_at w2 p = file_at w p) \<and> w_procs w2 = w_procs w"
  using store.save_then_clear [OF assms] .

theorem session_save_clear_witness:
  "\<exists>w1 w2. session_save ''/s'' demo_state demo_session_world = (Inr (), w1) \<and> session_clear ''/s'' w1 = (Inr (), w2) \<and>
     fst (session_load ''/s'' w2) = Inl err_not_found"
proof -
  have "fst (session_save ''/s'' demo_state demo_session_world) = Inr ()"
      and "fst (session_clear ''/s'' (snd (session_save ''/s'' demo_state demo_session_world))) = Inr ()"
    by code_simp+
  then obtain w1 w2 where run: "session_save ''/s'' demo_state demo_session_world = (Inr (), w1)"
      "session_clear ''/s'' w1 = (Inr (), w2)"
    by (metis prod.collapse snd_conv)
  from session_save_clear [OF run demo_session_world_calm] run show ?thesis by blast
qed

text \<open>
  The session lock is exclusive: while it is held nobody acquires it, and after its release it
  can be acquired again.
\<close>

lemma session_lock_exclusive:
  assumes "acquire_lock p w = (Inr l, w1)" and "calm w" and "ordinary p" and "path_clean (path_dir p) \<noteq> path_clean p"
  shows "fst (acquire_lock p w1) = Inl err_locked \<and>
     (\<exists>l' w2. release_lock l w1 = ((Inr (), l'), w2) \<and> fst (acquire_lock p w2) = Inr l)"
proof -
  have free: "lookup_node w p = None" "p \<noteq> []" "is_dir w (path_dir p)"
    and w1: "w1 = bump (put_node w p (Some (File [] (384 AND NOT (w_umask w)))))"
    and l: "l = \<lparr>lk_path = p, lk_open = True\<rparr>"
    using assms(1,2) by (auto simp: acquire_lock_def io_case_def os_create_excl_def split: if_splits)
  have calm1: "calm w1" using assms(2) w1 by simp
  have there: "lookup_node w1 p = Some (File [] (384 AND NOT (w_umask w)))" using assms(3) w1 by simp
  have "fst (acquire_lock p w1) = Inl err_locked"
    using calm1 there by (simp add: acquire_lock_def io_case_def os_create_excl_def)
  moreover define w2 where "w2 = bump (put_node (bump w1) p None)"
  have "os_remove p (bump w1) = (Inr (), w2)"
    using calm1 there by (simp add: os_remove_def w2_def)
  then have "release_lock l w1 = ((Inr (), l\<lparr>lk_open := False\<rparr>), w2)"
    using calm1 by (simp add: release_lock_def l os_close_def Let_def)
  moreover have "fst (acquire_lock p w2) = Inr l"
  proof -
    have gone: "lookup_node w2 p = None" using assms(3) by (simp add: w2_def)
    have "is_dir w2 (path_dir p)"
      using free(3) assms(4) by (simp add: is_dir_def w2_def w1)
    then show ?thesis
      using gone free(2) calm1 by (simp add: acquire_lock_def io_case_def os_create_excl_def l w2_def)
  qed
  ultimately show ?thesis by blast
qed

theorem session_lock_exclusive_witness:
  "\<exists>l w1. acquire_lock ''/s/lock'' demo_session_world = (Inr l, w1) \<and> fst (acquire_lock ''/s/lock'' w1) = Inl err_locked"
proof -
  have "lk_path (projr (fst (acquire_lock ''/s/lock'' demo_session_world))) = ''/s/lock'' \<and>
      isl (fst (acquire_lock ''/s/lock'' demo_session_world)) = False" by code_simp
  then obtain l w1 where run: "acquire_lock ''/s/lock'' demo_session_world = (Inr l, w1)"
    by (metis isl_def prod.collapse sum.exhaust)
  have "ordinary ''/s/lock''" "path_clean (path_dir ''/s/lock'') \<noteq> path_clean ''/s/lock''" by code_simp+
  from session_lock_exclusive [OF run demo_session_world_calm this] run show ?thesis by blast
qed

text \<open>
  C34: terminating a recorded background process ends it together with its whole process group, and
  nothing else; where there is no such process the call reports it and changes nothing.
\<close>

theorem terminate_process_ends_group:
  assumes "calm w" and "1 < pid" and "group_leader w pid"
  shows "terminate_process pid w =
     (if list_ex (\<lambda>(q, g). g = pid) (w_procs w)
      then (Inr (), bump (w\<lparr>w_procs := filter (\<lambda>(q, g). g \<noteq> pid) (w_procs w)\<rparr>))
      else (Inl (Wrap ''terminate process %d: %w'' [show_int pid] (Errno ESRCH)), bump (bump w)))"
  using assms kill_group [OF assms(1,2)] kill_nothing [OF assms(2) _ assms(3)]
  by (simp add: terminate_process_def io_wrap_def)

theorem terminate_process_ends_group_witness:
  "w_procs (snd (terminate_process 4711 demo_session_world)) = [(9, 9)]"
proof -
  have "group_leader demo_session_world 4711" by code_simp
  from terminate_process_ends_group [OF demo_session_world_calm _ this]
  show ?thesis by (simp add: demo_session_world_def)
qed

text \<open>
  With the process id 1, which a damaged session file can hold, the group that is signalled is
  every process of the user.
\<close>

lemma terminate_process_one_kills_all:
  assumes "calm w" and "w_procs w \<noteq> []"
  shows "terminate_process 1 w = (Inr (), bump (w\<lparr>w_procs := []\<rparr>))"
proof -
  have "list_ex (\<lambda>(q, g). True) (w_procs w)" using assms(2) by (cases "w_procs w") auto
  then have "sys_kill (- 1) True w = (Inr (), bump (w\<lparr>w_procs := []\<rparr>))"
    using assms(1) by (simp add: sys_kill_def Let_def case_prod_unfold)
  then show ?thesis by (simp add: terminate_process_def io_wrap_def kill_process_def io_case_def)
qed

theorem terminate_process_one_kills_all_witness:
  "w_procs (snd (terminate_process 1 demo_session_world)) = []"
proof -
  have "w_procs demo_session_world \<noteq> []" by (simp add: demo_session_world_def)
  from terminate_process_one_kills_all [OF demo_session_world_calm this] show ?thesis by simp
qed

end
