(* ===== verification/Connect_Prepare.thy ===== *)
theory Connect_Prepare
  imports Dev_Config Ssh_Config Session_State
begin

text \<open>
  \<open>internal/port/port.go\<close> and \<open>internal/connect/connect.go\<close>: the allocation of a local port and the
  preparation of a session, which resolves the configuration and writes the SSH files and the
  session state.

  The port probe, the current time (as its RFC 3339 text in UTC) and the random bytes of a
  session id come from outside and are arguments.
\<close>

section \<open>Local ports\<close>

record allocation =
  al_host :: string
  al_port :: int

definition allocate_loopback :: "(int, 'w) io \<Rightarrow> (allocation, 'w) io" where
  "allocate_loopback probe =
     io_bind probe (\<lambda>port. io_return \<lparr>al_host = ''127.0.0.1'', al_port = port\<rparr>)"

section \<open>Resolving the configuration\<close>

record connect_options =
  co_config :: config
  co_target :: string
  co_context :: string
  co_gateway :: string
  co_session_dir :: string
  co_ssh_dir :: string
  co_allocate :: "(allocation, world) io"
  co_now :: string
  co_session_id :: string
  co_reconnect :: bool

record connect_result =
  cr_target_name :: string
  cr_target :: target
  cr_gateway_name :: string
  cr_gateway :: gateway
  cr_local_host :: string
  cr_local_port :: int
  cr_ssh_files :: session_files
  cr_session_dir :: string
  cr_state :: session_state

record resolved =
  re_target :: target
  re_gateway_name :: string
  re_gateway :: gateway
  re_host_key :: string

definition resolve_target :: "config \<Rightarrow> string \<Rightarrow> string \<Rightarrow> resolved result" where
  "resolve_target cfg name gateway_name =
     (case map_of (cfg_targets cfg) name of
        None \<Rightarrow> Inl (Err ''unknown target %q'' [name])
      | Some t \<Rightarrow>
          let gateway_name = (if gateway_name = [] then tg_gateway t else gateway_name)
          in case map_of (cfg_gateways cfg) gateway_name of
               None \<Rightarrow> Inl (Err ''unknown gateway %q'' [gateway_name])
             | Some g \<Rightarrow>
                 let ref = (if tg_host_key_ref t = [] then name else tg_host_key_ref t);
                     host_key = string_at (cfg_host_keys cfg) ref
                 in if host_key = [] then Inl (Err ''missing pinned SSH host key %q'' [ref])
                    else Inr \<lparr>re_target = t, re_gateway_name = gateway_name, re_gateway = g, re_host_key = host_key\<rparr>)"

definition kubernetes_context :: "config \<Rightarrow> string \<Rightarrow> string" where
  "kubernetes_context cfg context_name =
     (if context_name = [] then []
      else case map_of (cfg_contexts cfg) context_name of
             None \<Rightarrow> []
           | Some c \<Rightarrow> (case map_of (cfg_clusters cfg) (cx_cluster c) of None \<Rightarrow> [] | Some cl \<Rightarrow> cl_context cl))"

text \<open>The argument \<open>random\<close> is what \<open>rand.Read\<close> yields, \<open>nano\<close> the clock in nanoseconds.\<close>

definition hex_bytes :: "int list \<Rightarrow> string" where
  "hex_bytes bs = concat (map (\<lambda>b. [hex_digit (b div 16), hex_digit (b mod 16)]) bs)"

definition new_session_id :: "string option \<Rightarrow> (int list) result \<Rightarrow> int \<Rightarrow> string" where
  "new_session_id fn random nano =
     (case fn of
        Some s \<Rightarrow> s
      | None \<Rightarrow> (case random of Inl e \<Rightarrow> ''session-'' @ show_int nano | Inr bytes \<Rightarrow> hex_bytes bytes))"

section \<open>Preparing a session\<close>

definition session_options_for :: "connect_options \<Rightarrow> resolved \<Rightarrow> allocation \<Rightarrow> string \<Rightarrow> session_options" where
  "session_options_for o1 re al ssh_dir =
     \<lparr>so_dir = ssh_dir, so_alias = co_target o1, so_user = tg_user (re_target re),
      so_identity_file = tg_identity_file (re_target re), so_local_host = al_host al, so_local_port = al_port al,
      so_host_key = re_host_key re,
      so_alive_interval = effective_alive_interval (cfg_ssh (co_config o1)),
      so_alive_count_max = effective_alive_count_max (cfg_ssh (co_config o1)),
      so_tcp_keep_alive = effective_tcp_keep_alive (cfg_ssh (co_config o1))\<rparr>"

definition state_for :: "connect_options \<Rightarrow> resolved \<Rightarrow> allocation \<Rightarrow> session_files \<Rightarrow> session_state" where
  "state_for o1 re al files = zero_state
     \<lparr>st_session_id := co_session_id o1, st_target := co_target o1, st_gateway := re_gateway_name re,
      st_namespace := gw_namespace (re_gateway re),
      st_context := kubernetes_context (co_config o1) (co_context o1), st_local_port := al_port al,
      st_ssh_config := sf_config_path files, st_known_hosts := sf_known_hosts_path files,
      st_started_at := co_now o1, st_reconnect := co_reconnect o1\<rparr>"

definition effective_ssh_dir :: "connect_options \<Rightarrow> string" where
  "effective_ssh_dir o1 =
     (if co_ssh_dir o1 = [] then path_join [co_session_dir o1, ''ssh''] else co_ssh_dir o1)"

definition prepare_session :: "connect_options \<Rightarrow> (connect_result, world) io" where
  "prepare_session o1 =
     io_bind (io_lift (resolve_target (co_config o1) (co_target o1) (co_gateway o1))) (\<lambda>re.
     io_bind (io_wrap ''allocate local TCP port: %w'' [] (co_allocate o1)) (\<lambda>al.
     let ssh_dir = effective_ssh_dir o1 in
     if ssh_dir = [] then io_fail (Err ''session directory or SSH directory is required'' [])
     else
     io_bind (write_session_files (session_options_for o1 re al ssh_dir)) (\<lambda>files.
     let state = state_for o1 re al files in
     io_bind (session_save (co_session_dir o1) state) (\<lambda>_.
     io_return
       \<lparr>cr_target_name = co_target o1, cr_target = re_target re, cr_gateway_name = re_gateway_name re,
        cr_gateway = re_gateway re, cr_local_host = al_host al, cr_local_port = al_port al,
        cr_ssh_files = files, cr_session_dir = co_session_dir o1, cr_state = state\<rparr>))))"


section \<open>What a preparation does\<close>

text \<open>The allocation of a port changes neither files nor processes.\<close>

definition port_only :: "(allocation, world) io \<Rightarrow> bool" where
  "port_only m \<longleftrightarrow> leaves w_nodes m \<and> leaves fixed_part m"

lemma port_only_files: "port_only m \<Longrightarrow> leaves (\<lambda>w. file_at w q) m"
  by (simp add: port_only_def leaves_def file_at_def lookup_node_def)

lemma prepare_steps:
  assumes "prepare_session o1 w = (Inr r, w')"
  obtains re al w1 w2 files where
    "resolve_target (co_config o1) (co_target o1) (co_gateway o1) = Inr re"
    and "co_allocate o1 w = (Inr al, w1)"
    and "write_session_files (session_options_for o1 re al (effective_ssh_dir o1)) w1 = (Inr files, w2)"
    and "session_save (co_session_dir o1) (state_for o1 re al files) w2 = (Inr (), w')"
    and "r = \<lparr>cr_target_name = co_target o1, cr_target = re_target re, cr_gateway_name = re_gateway_name re,
        cr_gateway = re_gateway re, cr_local_host = al_host al, cr_local_port = al_port al,
        cr_ssh_files = files, cr_session_dir = co_session_dir o1, cr_state = state_for o1 re al files\<rparr>"
  using assms by (auto simp: prepare_session_def io_bind_eq_Inr Let_def split: if_splits)

lemma session_options_dir [simp]: "so_dir (session_options_for o1 re al d) = d"
  by (simp add: session_options_for_def)

lemma ssh_files_not_session:
  "sf_config_path (session_files_in d) \<noteq> session_path e" "sf_known_hosts_path (session_files_in d) \<noteq> session_path e"
  unfolding session_files_in_def session_files.simps session_path_def by (rule path_join_names_differ; simp)+

section \<open>Properties\<close>



definition demo_connect :: connect_options where
  "demo_connect = \<lparr>co_config = fill_refs demo_config, co_target = ''dev'', co_context = ''prod'', co_gateway = [],
     co_session_dir = ''/s'', co_ssh_dir = [], co_allocate = io_return \<lparr>al_host = ''127.0.0.1'', al_port = 55221\<rparr>,
     co_now = ''2026-02-28T10:11:12Z'', co_session_id = ''0a1b'', co_reconnect = True\<rparr>"


text \<open>
  C35: for every target of a validated configuration that lists gateways and host keys, the
  preparation finds the target, its gateway and its pinned key: it cannot fail for a reason
  that validation should have found.
\<close>

theorem validated_target_resolves:
  assumes "parse_config unmarshal data = Inr cfg" and "unmarshal data = Inr raw" and "config_maps_ok raw"
    and "map_of (cfg_targets cfg) name = Some t" and "cfg_gateways cfg \<noteq> []" and "cfg_host_keys cfg \<noteq> []"
  shows "\<exists>re. resolve_target cfg name [] = Inr re \<and> re_target re = t \<and> re_gateway_name re = tg_gateway t \<and>
     gateway_ok (re_gateway re) \<and> re_host_key re \<noteq> []"
proof -
  have ok: "config_ok raw" "cfg = fill_refs raw"
    using parse_config_ok [OF assms(1)] assms(2) validate_config_ok [OF assms(3)] by auto
  obtain t0 where t0: "map_of (cfg_targets raw) name = Some t0" "t = with_ref name t0"
    using assms(4) ok(2) by (auto simp: fill_refs_lookup)
  have same: "cfg_gateways cfg = cfg_gateways raw" "cfg_host_keys cfg = cfg_host_keys raw"
    using ok(2) by (simp_all add: fill_refs_def)
  have "target_ok raw name t0" using ok(1) t0(1) by (simp add: config_ok_def)
  then obtain g where g: "map_of (cfg_gateways raw) (tg_gateway t0) = Some g" "tg_gateway t0 \<noteq> []"
    and key: "string_at (cfg_host_keys raw) (effective_host_key_ref name t0) \<noteq> []"
    using assms(5,6) same by (auto simp: target_ok_def)
  have "gateway_ok g" using ok(1) g(1) by (auto simp: config_ok_def)
  moreover have "tg_gateway t = tg_gateway t0"
      "(if tg_host_key_ref t = [] then name else tg_host_key_ref t) = effective_host_key_ref name t0"
    using t0(2) by (auto simp: with_ref_def effective_host_key_ref_def)
  ultimately show ?thesis using assms(4) g key same by (simp add: resolve_target_def Let_def)
qed

theorem validated_target_resolves_witness:
  "\<exists>re. resolve_target (fill_refs demo_config) ''dev'' [] = Inr re \<and> re_gateway_name re = ''g1''"
proof -
  have parse: "parse_config (\<lambda>_. Inr demo_config) [] = Inr (fill_refs demo_config)"
    by (simp add: parse_config_def demo_config_validates)
  have t: "map_of (cfg_targets (fill_refs demo_config)) ''dev'' =
     Some \<lparr>tg_gateway = ''g1'', tg_user = ''me'', tg_identity_file = [], tg_host_key_ref = ''dev''\<rparr>" by code_simp
  have ne: "cfg_gateways (fill_refs demo_config) \<noteq> []" "cfg_host_keys (fill_refs demo_config) \<noteq> []"
    by (simp_all add: fill_refs_def demo_config_def)
  from validated_target_resolves [OF parse refl demo_config_maps_ok t ne] show ?thesis by auto
qed

text \<open>
  The gateway a context names plays no part in a preparation, although the configuration
  requires it and the program lists it as the default gateway: changing it changes nothing.
\<close>

lemma context_gateway_ignored:
  "prepare_session (o1\<lparr>co_config := cfg\<lparr>cfg_contexts := map (\<lambda>(n, c). (n, c\<lparr>cx_gateway := f n c\<rparr>)) (cfg_contexts cfg)\<rparr>\<rparr>) =
   prepare_session (o1\<lparr>co_config := cfg\<rparr>)"
proof -
  let ?cfg = "cfg\<lparr>cfg_contexts := map (\<lambda>(n, c). (n, c\<lparr>cx_gateway := f n c\<rparr>)) (cfg_contexts cfg)\<rparr>"
  have "kubernetes_context ?cfg = kubernetes_context cfg"
    by (auto simp: kubernetes_context_def fun_eq_iff map_of_map_keys split: option.split)
  then have "state_for (o1\<lparr>co_config := ?cfg\<rparr>) = state_for (o1\<lparr>co_config := cfg\<rparr>)"
    by (simp add: state_for_def fun_eq_iff)
  moreover have "session_options_for (o1\<lparr>co_config := ?cfg\<rparr>) = session_options_for (o1\<lparr>co_config := cfg\<rparr>)"
    by (simp add: session_options_for_def fun_eq_iff)
  moreover have "effective_ssh_dir (o1\<lparr>co_config := ?cfg\<rparr>) = effective_ssh_dir (o1\<lparr>co_config := cfg\<rparr>)"
    by (simp add: effective_ssh_dir_def)
  moreover have "resolve_target ?cfg = resolve_target cfg"
    by (simp add: resolve_target_def fun_eq_iff Let_def cong: option.case_cong if_cong)
  ultimately show ?thesis unfolding prepare_session_def by (simp cong: if_cong)
qed

text \<open>
  The check for a missing session directory comes too late and never fires: without a session
  and an SSH directory the SSH files are written below the working directory before saving the
  state fails, and they stay there.
\<close>

lemma missing_session_dir_leaves_files:
  "\<exists>o1 w. co_session_dir o1 = [] \<and> co_ssh_dir o1 = [] \<and> lookup_node w ''ssh/ssh_config'' = None \<and>
     (\<exists>e. fst (prepare_session o1 w) = Inl (Wrap ''create session directory: %w'' [] e)) \<and>
     file_at (snd (prepare_session o1 w)) ''ssh/ssh_config'' \<noteq> None"
proof -
  let ?o = "demo_connect\<lparr>co_session_dir := []\<rparr>"
  have "fst (prepare_session ?o demo_session_world) = Inl (Wrap ''create session directory: %w'' [] (Errno ENOENT))"
    by code_simp
  moreover have "lookup_node demo_session_world ''ssh/ssh_config'' = None"
      "file_at (snd (prepare_session ?o demo_session_world)) ''ssh/ssh_config'' \<noteq> None"
    by code_simp+
  moreover have "co_session_dir ?o = []" "co_ssh_dir ?o = []" by (simp_all add: demo_connect_def)
  ultimately show ?thesis by blast
qed

end
