(* ===== verification/Cli_Select.thy ===== *)
theory Cli_Select
  imports Dev_Config "HOL-Library.List_Lexorder" "HOL-Library.Char_ord"
begin

text \<open>
  The selections of \<open>cmd/dev-connect/main.go\<close>: the checked options, the cluster of a command, the
  directories and paths, the summaries of \<open>list\<close> and the arguments handed to the supervisor
  process. Environment variables are read through \<open>getenv\<close>, which gives the empty string for a
  variable that is not set.
\<close>

section \<open>Options\<close>

record cli_options =
  op_config_path :: string
  op_context :: string
  op_cluster :: string
  op_gateway :: string
  op_log_level :: string
  op_log_format :: string
  op_output :: string
  op_no_code :: bool
  op_no_reconnect :: bool
  op_kubectl_path :: string
  op_timeout :: int

fun one_of :: "string \<Rightarrow> string list \<Rightarrow> bool" where
  "one_of value1 [] = False"
| "one_of value1 (candidate # rest) = (value1 = candidate \<or> one_of value1 rest)"

definition validate_options :: "cli_options \<Rightarrow> unit result" where
  "validate_options o1 =
     (if \<not> one_of (op_output o1) [''text'', ''json'']
      then Inl (Err ''invalid argument %q for --output: expected text or json'' [op_output o1])
      else if \<not> one_of (op_log_format o1) [''text'', ''json'']
      then Inl (Err ''invalid argument %q for --log-format: expected text or json'' [op_log_format o1])
      else if \<not> one_of (op_log_level o1) [''error'', ''warn'', ''info'', ''debug'']
      then Inl (Err ''invalid argument %q for --log-level: expected error, warn, info, or debug'' [op_log_level o1])
      else Inr ())"

text \<open>The defaults of the flags.\<close>

definition default_options :: cli_options where
  "default_options = \<lparr>op_config_path = [], op_context = [], op_cluster = [], op_gateway = [],
     op_log_level = ''info'', op_log_format = ''text'', op_output = ''text'', op_no_code = False,
     op_no_reconnect = False, op_kubectl_path = [], op_timeout = 30000000000\<rparr>"

section \<open>The cluster of a command\<close>

definition no_cluster :: cluster where
  "no_cluster = \<lparr>cl_kubeconfig = [], cl_context = [], cl_kubectl_path = [],
     cl_proxy = \<lparr>pc_enabled = False, pc_http = [], pc_https = [], pc_no_proxy = []\<rparr>\<rparr>"

definition cluster_of_context :: "config \<Rightarrow> string \<Rightarrow> cluster result" where
  "cluster_of_context cfg context_name =
     (case map_of (cfg_contexts cfg) context_name of
        None \<Rightarrow> Inl (Err ''unknown context %q'' [context_name])
      | Some c \<Rightarrow> (case map_of (cfg_clusters cfg) (cx_cluster c) of
          None \<Rightarrow> Inl (Err ''context %q references unknown cluster %q'' [context_name, cx_cluster c])
        | Some cl \<Rightarrow> Inr cl))"

definition selected_cluster :: "config \<Rightarrow> cli_options \<Rightarrow> cluster result" where
  "selected_cluster cfg o1 =
     (if op_cluster o1 \<noteq> [] then
        (case map_of (cfg_clusters cfg) (op_cluster o1) of
           None \<Rightarrow> Inl (Err ''unknown cluster %q'' [op_cluster o1])
         | Some cl \<Rightarrow> Inr cl)
      else if op_context o1 = [] then
        (case cfg_contexts cfg of
           [] \<Rightarrow> Inr no_cluster
         | [(name, c)] \<Rightarrow> cluster_of_context cfg name
         | _ \<Rightarrow> Inl (Err ''context is required when multiple contexts are configured'' []))
      else cluster_of_context cfg (op_context o1))"

section \<open>Directories and paths\<close>

definition session_dir_for :: "(string \<Rightarrow> string) \<Rightarrow> string \<Rightarrow> string result" where
  "session_dir_for getenv goos =
     (if getenv ''DEV_CONNECT_SESSION_DIR'' \<noteq> [] then Inr (getenv ''DEV_CONNECT_SESSION_DIR'')
      else case default_dir_for goos (getenv ''HOME'') (getenv ''APPDATA'') of
             Inl e \<Rightarrow> Inl e
           | Inr dir \<Rightarrow> Inr (path_join [dir, ''session'']))"

definition ssh_dir_for :: "(string \<Rightarrow> string) \<Rightarrow> string \<Rightarrow> string result" where
  "ssh_dir_for getenv session_dir =
     (if getenv ''DEV_CONNECT_SSH_DIR'' \<noteq> [] then Inr (getenv ''DEV_CONNECT_SSH_DIR'')
      else if session_dir = [] then Inl (Err ''session directory is required'' [])
      else Inr (path_join [session_dir, ''ssh'']))"

definition cli_loader :: "(string \<Rightarrow> string) \<Rightarrow> cli_options \<Rightarrow> loader" where
  "cli_loader getenv o1 =
     \<lparr>ld_explicit_path = op_config_path o1, ld_env_config = getenv ''DEV_CONNECT_CONFIG'',
      ld_default_dir = [], ld_development_dir = []\<rparr>"

definition cli_load_config ::
  "(string \<Rightarrow> config result) \<Rightarrow> (string \<Rightarrow> string) \<Rightarrow> string \<Rightarrow> cli_options \<Rightarrow> (loaded, world) io" where
  "cli_load_config unmarshal getenv goos o1 =
     load_config unmarshal goos (getenv ''HOME'') (getenv ''APPDATA'') (cli_loader getenv o1)"

definition config_location :: "(string \<Rightarrow> string) \<Rightarrow> string \<Rightarrow> cli_options \<Rightarrow> (string, world) io" where
  "config_location getenv goos o1 =
     (if op_config_path o1 \<noteq> [] then io_return (op_config_path o1)
      else if getenv ''DEV_CONNECT_CONFIG'' \<noteq> [] then io_return (getenv ''DEV_CONNECT_CONFIG'')
      else io_bind (io_lift (default_dir_for goos (getenv ''HOME'') (getenv ''APPDATA''))) (\<lambda>default_dir.
        let default_path = path_join [default_dir, default_file_name];
            development_path = path_join [''.'', default_file_name]
        in io_case (os_stat default_path)
             (\<lambda>e. if \<not> is_not_exist e then io_fail e
                   else io_case (os_stat development_path)
                     (\<lambda>e. if \<not> is_not_exist e then io_fail e else io_return default_path)
                     (\<lambda>_. io_return development_path))
             (\<lambda>_. io_return default_path)))"

section \<open>Summaries\<close>

text \<open>Go collects the keys of the map and sorts them; strings compare byte by byte.\<close>

record target_summary =
  ts_name :: string
  ts_gateway_name :: string
  ts_user :: string

record cluster_summary =
  cs_name :: string
  cs_context :: string

record gateway_summary =
  gs_name :: string
  gs_namespace :: string
  gs_service :: string
  gs_port :: int

definition sorted_names :: "'a go_map \<Rightarrow> string list" where
  "sorted_names m = sort (map fst m)"

definition target_summaries :: "config \<Rightarrow> target_summary list" where
  "target_summaries cfg = map (\<lambda>name.
     let t = the (map_of (cfg_targets cfg) name)
     in \<lparr>ts_name = name, ts_gateway_name = tg_gateway t, ts_user = tg_user t\<rparr>) (sorted_names (cfg_targets cfg))"

definition cluster_summaries :: "config \<Rightarrow> cluster_summary list" where
  "cluster_summaries cfg = map (\<lambda>name.
     \<lparr>cs_name = name, cs_context = cl_context (the (map_of (cfg_clusters cfg) name))\<rparr>)
     (sorted_names (cfg_clusters cfg))"

definition gateway_summaries :: "config \<Rightarrow> gateway_summary list" where
  "gateway_summaries cfg = map (\<lambda>name.
     let g = the (map_of (cfg_gateways cfg) name)
     in \<lparr>gs_name = name, gs_namespace = gw_namespace g, gs_service = gw_service g, gs_port = gw_port g\<rparr>)
     (sorted_names (cfg_gateways cfg))"

definition default_context_name :: "config \<Rightarrow> string \<Rightarrow> string" where
  "default_context_name cfg selected =
     (if selected \<noteq> [] then selected
      else case cfg_contexts cfg of [(name, c)] \<Rightarrow> name | _ \<Rightarrow> [])"

text \<open>The lookup of an unknown context gives the zero context.\<close>

definition default_gateway_name :: "config \<Rightarrow> string \<Rightarrow> string \<Rightarrow> string" where
  "default_gateway_name cfg selected_context selected_gateway =
     (if selected_gateway \<noteq> [] then selected_gateway
      else let context_name = default_context_name cfg selected_context
           in if context_name = [] then []
              else case map_of (cfg_contexts cfg) context_name of None \<Rightarrow> [] | Some c \<Rightarrow> cx_gateway c)"

section \<open>The supervisor's arguments\<close>

definition supervisor_args :: "cli_options \<Rightarrow> string \<Rightarrow> string \<Rightarrow> string \<Rightarrow> string \<Rightarrow> string list" where
  "supervisor_args o1 config_path target session_dir ready_file =
     (let args = [];
          args = (if config_path \<noteq> [] then args @ [''--config'', config_path] else args);
          args = (if op_context o1 \<noteq> [] then args @ [''--context'', op_context o1] else args);
          args = (if op_cluster o1 \<noteq> [] then args @ [''--cluster'', op_cluster o1] else args);
          args = (if op_gateway o1 \<noteq> [] then args @ [''--gateway'', op_gateway o1] else args);
          args = (if op_kubectl_path o1 \<noteq> [] then args @ [''--kubectl-path'', op_kubectl_path o1] else args);
          args = (if op_log_level o1 \<noteq> [] then args @ [''--log-level'', op_log_level o1] else args);
          args = (if op_log_format o1 \<noteq> [] then args @ [''--log-format'', op_log_format o1] else args);
          args = (if op_no_reconnect o1 then args @ [''--no-reconnect''] else args)
      in args @ [''tunnel-supervisor'', target, ''--session-dir'', session_dir, ''--ready-file'', ready_file])"

text \<open>
  How the flag parser of the command line reads them: a flag takes the next argument as its
  value whatever it is, a boolean flag takes none, everything else is positional.
\<close>

record supervisor_view =
  sw_options :: cli_options
  sw_session_dir :: string
  sw_ready_file :: string
  sw_positional :: "string list"

fun read_args :: "supervisor_view \<Rightarrow> string list \<Rightarrow> supervisor_view option" where
  "read_args v [] = Some v"
| "read_args v (a # rest) =
     (if a = ''--no-reconnect'' then read_args (v\<lparr>sw_options := (sw_options v)\<lparr>op_no_reconnect := True\<rparr>\<rparr>) rest
      else if prefix ''-'' a then
        (case rest of
           [] \<Rightarrow> None
         | x # rest' \<Rightarrow>
             if a = ''--config'' then read_args (v\<lparr>sw_options := (sw_options v)\<lparr>op_config_path := x\<rparr>\<rparr>) rest'
             else if a = ''--context'' then read_args (v\<lparr>sw_options := (sw_options v)\<lparr>op_context := x\<rparr>\<rparr>) rest'
             else if a = ''--cluster'' then read_args (v\<lparr>sw_options := (sw_options v)\<lparr>op_cluster := x\<rparr>\<rparr>) rest'
             else if a = ''--gateway'' then read_args (v\<lparr>sw_options := (sw_options v)\<lparr>op_gateway := x\<rparr>\<rparr>) rest'
             else if a = ''--kubectl-path'' then read_args (v\<lparr>sw_options := (sw_options v)\<lparr>op_kubectl_path := x\<rparr>\<rparr>) rest'
             else if a = ''--log-level'' then read_args (v\<lparr>sw_options := (sw_options v)\<lparr>op_log_level := x\<rparr>\<rparr>) rest'
             else if a = ''--log-format'' then read_args (v\<lparr>sw_options := (sw_options v)\<lparr>op_log_format := x\<rparr>\<rparr>) rest'
             else if a = ''--session-dir'' then read_args (v\<lparr>sw_session_dir := x\<rparr>) rest'
             else if a = ''--ready-file'' then read_args (v\<lparr>sw_ready_file := x\<rparr>) rest'
             else None)
      else read_args (v\<lparr>sw_positional := sw_positional v @ [a]\<rparr>) rest)"

definition empty_view :: supervisor_view where
  "empty_view = \<lparr>sw_options = default_options, sw_session_dir = [], sw_ready_file = [], sw_positional = []\<rparr>"

section \<open>Reading the arguments back\<close>

lemma options_update_same:
  "op_config_path o1 = [] \<Longrightarrow> o1\<lparr>op_config_path := []\<rparr> = o1"
  "op_context o1 = [] \<Longrightarrow> o1\<lparr>op_context := []\<rparr> = o1"
  "op_cluster o1 = [] \<Longrightarrow> o1\<lparr>op_cluster := []\<rparr> = o1"
  "op_gateway o1 = [] \<Longrightarrow> o1\<lparr>op_gateway := []\<rparr> = o1"
  "op_kubectl_path o1 = [] \<Longrightarrow> o1\<lparr>op_kubectl_path := []\<rparr> = o1"
  "\<not> op_no_reconnect o1 \<Longrightarrow> o1\<lparr>op_no_reconnect := False\<rparr> = o1"
  by (cases o1; simp)+

lemma view_update_same: "v\<lparr>sw_options := sw_options v\<rparr> = v"
  by (cases v) simp

lemma read_value_flag:
  "op_config_path (sw_options v) = [] \<Longrightarrow> read_args v ((if x \<noteq> [] then [''--config'', x] else []) @ rest) =
     read_args (v\<lparr>sw_options := (sw_options v)\<lparr>op_config_path := x\<rparr>\<rparr>) rest"
  "op_context (sw_options v) = [] \<Longrightarrow> read_args v ((if x \<noteq> [] then [''--context'', x] else []) @ rest) =
     read_args (v\<lparr>sw_options := (sw_options v)\<lparr>op_context := x\<rparr>\<rparr>) rest"
  "op_cluster (sw_options v) = [] \<Longrightarrow> read_args v ((if x \<noteq> [] then [''--cluster'', x] else []) @ rest) =
     read_args (v\<lparr>sw_options := (sw_options v)\<lparr>op_cluster := x\<rparr>\<rparr>) rest"
  "op_gateway (sw_options v) = [] \<Longrightarrow> read_args v ((if x \<noteq> [] then [''--gateway'', x] else []) @ rest) =
     read_args (v\<lparr>sw_options := (sw_options v)\<lparr>op_gateway := x\<rparr>\<rparr>) rest"
  "op_kubectl_path (sw_options v) = [] \<Longrightarrow> read_args v ((if x \<noteq> [] then [''--kubectl-path'', x] else []) @ rest) =
     read_args (v\<lparr>sw_options := (sw_options v)\<lparr>op_kubectl_path := x\<rparr>\<rparr>) rest"
  "x \<noteq> [] \<Longrightarrow> read_args v ((if x \<noteq> [] then [''--log-level'', x] else []) @ rest) =
     read_args (v\<lparr>sw_options := (sw_options v)\<lparr>op_log_level := x\<rparr>\<rparr>) rest"
  "x \<noteq> [] \<Longrightarrow> read_args v ((if x \<noteq> [] then [''--log-format'', x] else []) @ rest) =
     read_args (v\<lparr>sw_options := (sw_options v)\<lparr>op_log_format := x\<rparr>\<rparr>) rest"
  "\<not> op_no_reconnect (sw_options v) \<Longrightarrow> read_args v ((if b then [''--no-reconnect''] else []) @ rest) =
     read_args (v\<lparr>sw_options := (sw_options v)\<lparr>op_no_reconnect := b\<rparr>\<rparr>) rest"
  by (simp_all add: options_update_same view_update_same)

lemma if_append: "(if b then xs @ ys else xs) = xs @ (if b then ys else [])"
  by simp

lemma supervisor_args_eq:
  "supervisor_args o1 c t d r =
     (if c \<noteq> [] then [''--config'', c] else []) @
     (if op_context o1 \<noteq> [] then [''--context'', op_context o1] else []) @
     (if op_cluster o1 \<noteq> [] then [''--cluster'', op_cluster o1] else []) @
     (if op_gateway o1 \<noteq> [] then [''--gateway'', op_gateway o1] else []) @
     (if op_kubectl_path o1 \<noteq> [] then [''--kubectl-path'', op_kubectl_path o1] else []) @
     (if op_log_level o1 \<noteq> [] then [''--log-level'', op_log_level o1] else []) @
     (if op_log_format o1 \<noteq> [] then [''--log-format'', op_log_format o1] else []) @
     (if op_no_reconnect o1 then [''--no-reconnect''] else []) @
     [''tunnel-supervisor'', t, ''--session-dir'', d, ''--ready-file'', r]"
  unfolding supervisor_args_def if_append Let_def append_Nil append_assoc ..


lemma validate_options_levels: "validate_options o1 = Inr () \<Longrightarrow> op_log_level o1 \<noteq> [] \<and> op_log_format o1 \<noteq> []"
  by (auto simp: validate_options_def split: if_splits)

lemma selected_cluster_cong:
  "op_cluster a = op_cluster b \<Longrightarrow> op_context a = op_context b \<Longrightarrow> selected_cluster cfg a = selected_cluster cfg b"
  by (simp add: selected_cluster_def cong: option.case_cong)

section \<open>Summaries do not depend on the order of the maps\<close>

lemma sorted_names_same: "same_map m m' \<Longrightarrow> sorted_names m' = sorted_names m"
proof -
  assume "same_map m m'"
  then have "mset (map fst m') = mset (map fst m)" by (metis same_map_def mset_map)
  then show ?thesis unfolding sorted_names_def by (intro properties_for_sort) simp_all
qed

lemma same_map_single: "same_map m [(k, v)] \<Longrightarrow> m = [(k, v)]"
  by (simp add: same_map_def)

lemma same_map_single': "same_map [(k, v)] m \<Longrightarrow> m = [(k, v)]"
proof -
  assume "same_map [(k, v)] m"
  then have "mset m = {#(k, v)#}" by (simp add: same_map_def)
  then show ?thesis by simp
qed

lemma default_context_same:
  assumes "same_map (cfg_contexts cfg) (cfg_contexts cfg')"
  shows "default_context_name cfg' sel = default_context_name cfg sel"
proof (cases "\<exists>k v. cfg_contexts cfg = [(k, v)]")
  case True
  then obtain k v where one: "cfg_contexts cfg = [(k, v)]" by blast
  then have "cfg_contexts cfg' = [(k, v)]" using assms same_map_single' by metis
  with one show ?thesis by (simp add: default_context_name_def)
next
  case False
  have "\<nexists>k v. cfg_contexts cfg' = [(k, v)]"
  proof
    assume "\<exists>k v. cfg_contexts cfg' = [(k, v)]"
    then obtain k v where "cfg_contexts cfg' = [(k, v)]" by blast
    then have "cfg_contexts cfg = [(k, v)]" using assms same_map_single by metis
    with False show False by blast
  qed
  with False have "\<And>X Y. (case cfg_contexts cfg of [(name, c)] \<Rightarrow> name | _ \<Rightarrow> []) = ([] :: string)"
      "(case cfg_contexts cfg' of [(name, c)] \<Rightarrow> name | _ \<Rightarrow> []) = ([] :: string)"
    by (auto split: list.splits)
  then show ?thesis by (simp add: default_context_name_def)
qed

text \<open>The options the supervisor works with.\<close>

definition supervisor_options :: "cli_options \<Rightarrow> string \<Rightarrow> cli_options" where
  "supervisor_options o1 config_path =
     o1\<lparr>op_config_path := config_path, op_output := ''text'', op_no_code := False, op_timeout := 30000000000\<rparr>"

lemma read_supervisor_args:
  assumes "validate_options o1 = Inr ()" and "\<not> prefix ''-'' target"
  shows "read_args empty_view (supervisor_args o1 config_path target dir ready_file) =
     Some \<lparr>sw_options = supervisor_options o1 config_path, sw_session_dir = dir, sw_ready_file = ready_file,
           sw_positional = [''tunnel-supervisor'', target]\<rparr>"
proof -
  note ne = validate_options_levels [OF assms(1)]
  have tail: "read_args v [''tunnel-supervisor'', target, ''--session-dir'', dir, ''--ready-file'', ready_file] =
      Some (v\<lparr>sw_session_dir := dir, sw_ready_file := ready_file,
              sw_positional := sw_positional v @ [''tunnel-supervisor'', target]\<rparr>)" for v
    using assms(2) by (cases "target = ''--no-reconnect''") simp_all
  show ?thesis
    unfolding supervisor_args_eq
    apply (subst read_value_flag(1), simp add: empty_view_def default_options_def ne)
    apply (subst read_value_flag(2), simp add: empty_view_def default_options_def ne)
    apply (subst read_value_flag(3), simp add: empty_view_def default_options_def ne)
    apply (subst read_value_flag(4), simp add: empty_view_def default_options_def ne)
    apply (subst read_value_flag(5), simp add: empty_view_def default_options_def ne)
    apply (subst read_value_flag(6), simp add: empty_view_def default_options_def ne)
    apply (subst read_value_flag(7), simp add: empty_view_def default_options_def ne)
    apply (subst read_value_flag(8), simp add: empty_view_def default_options_def ne)
    apply (subst tail)
    by (cases o1) (simp add: supervisor_options_def empty_view_def default_options_def)
qed

lemma supervisor_selects_same:
  "selected_cluster cfg (supervisor_options o1 config_path) = selected_cluster cfg o1"
  by (rule selected_cluster_cong) (simp_all add: supervisor_options_def)

section \<open>Properties\<close>

text \<open>
  The supervisor process reads the arguments it is started with as the options of the command
  that starts it: the same context, cluster, gateway, \<open>kubectl\<close>, log settings and reconnect
  policy, the configuration file that was loaded, and the session it belongs to; so it
  selects the same cluster.
\<close>

lemma supervisor_args_read_back:
  assumes "validate_options o1 = Inr ()" and "\<not> prefix ''-'' target"
  shows "\<exists>v. read_args empty_view (supervisor_args o1 config_path target dir ready_file) = Some v \<and>
     sw_options v = o1\<lparr>op_config_path := config_path, op_output := ''text'', op_no_code := False,
                        op_timeout := 30000000000\<rparr> \<and>
     sw_session_dir v = dir \<and> sw_ready_file v = ready_file \<and>
     sw_positional v = [''tunnel-supervisor'', target] \<and>
     selected_cluster cfg (sw_options v) = selected_cluster cfg o1"
  unfolding read_supervisor_args [OF assms] using supervisor_selects_same by (simp add: supervisor_options_def)

theorem supervisor_args_read_back_witness:
  "\<exists>v. read_args empty_view (supervisor_args (default_options\<lparr>op_context := ''prod''\<rparr>) ''/c.yaml'' ''dev'' ''/s'' ''/s/r'') = Some v \<and>
     sw_positional v = [''tunnel-supervisor'', ''dev'']"
proof -
  have "validate_options (default_options\<lparr>op_context := ''prod''\<rparr>) = Inr ()" by code_simp
  moreover have "\<not> prefix ''-'' ''dev''" by simp
  ultimately show ?thesis using supervisor_args_read_back by blast
qed

text \<open>
  C36: with a validated configuration that lists clusters, a context that exists, or the only one
  where none is given, always selects one of the configured clusters; the selection fails only
  for an unknown name or when several contexts leave the choice open.
\<close>

theorem selected_cluster_resolves:
  assumes "config_ok cfg" and "cfg_clusters cfg \<noteq> []" and "op_cluster o1 = []"
  shows "(case selected_cluster cfg o1 of
       Inr cl \<Rightarrow> cl = no_cluster \<and> cfg_contexts cfg = [] \<and> op_context o1 = [] \<or>
                 (\<exists>name c. map_of (cfg_contexts cfg) name = Some c \<and>
                   map_of (cfg_clusters cfg) (cx_cluster c) = Some cl \<and>
                   name = (if op_context o1 = [] then fst (hd (cfg_contexts cfg)) else op_context o1))
     | Inl e \<Rightarrow> op_context o1 \<noteq> [] \<and> map_of (cfg_contexts cfg) (op_context o1) = None \<or>
                 op_context o1 = [] \<and> 1 < length (cfg_contexts cfg))"
proof -
  have known: "\<exists>cl. cluster_of_context cfg name = Inr cl \<and> map_of (cfg_clusters cfg) (cx_cluster c) = Some cl"
    if "map_of (cfg_contexts cfg) name = Some c" for name c
  proof -
    from assms(1,2) that have "map_of (cfg_clusters cfg) (cx_cluster c) \<noteq> None"
      by (auto simp: config_ok_def context_ok_def)
    then show ?thesis using that by (auto simp: cluster_of_context_def)
  qed
  show ?thesis
  proof (cases "op_context o1 = []")
    case False
    then show ?thesis using assms(3) known [of "op_context o1"]
      by (cases "map_of (cfg_contexts cfg) (op_context o1)")
        (auto simp: selected_cluster_def cluster_of_context_def)
  next
    case True
    consider "cfg_contexts cfg = []" | (one) name c where "cfg_contexts cfg = [(name, c)]"
      | (many) a b rest where "cfg_contexts cfg = a # b # rest"
      by (metis list.exhaust surj_pair)
    then show ?thesis
    proof cases
      case 1
      then show ?thesis using True assms(3) by (simp add: selected_cluster_def)
    next
      case one
      then show ?thesis using True assms(3) known [of name c] by (auto simp: selected_cluster_def)
    next
      case many
      then show ?thesis using True assms(3) by (simp add: selected_cluster_def)
    qed
  qed
qed

theorem selected_cluster_resolves_witness:
  "\<exists>cl c. selected_cluster demo_config default_options = Inr cl \<and>
     map_of (cfg_contexts demo_config) ''prod'' = Some c \<and> map_of (cfg_clusters demo_config) (cx_cluster c) = Some cl"
proof -
  have none: "cfg_clusters demo_config \<noteq> []" "op_cluster default_options = []" "cfg_contexts demo_config \<noteq> []"
    and names: "op_context default_options = []" "fst (hd (cfg_contexts demo_config)) = ''prod''"
    by (simp_all add: demo_config_def default_options_def)
  have "\<not> isl (selected_cluster demo_config default_options)" by code_simp
  then obtain cl where cl: "selected_cluster demo_config default_options = Inr cl"
    by (cases "selected_cluster demo_config default_options") auto
  from selected_cluster_resolves [OF demo_config_ok none(1,2)] cl none(3) names show ?thesis
    by simp
qed

text \<open>
  What \<open>list\<close> reports does not depend on the order in which Go visits the maps: the names are
  sorted and are exactly the configured ones, and the defaults are the same.
\<close>

lemma list_summaries_order_free:
  assumes "reordered cfg cfg'"
  shows "target_summaries cfg' = target_summaries cfg \<and> cluster_summaries cfg' = cluster_summaries cfg \<and>
     gateway_summaries cfg' = gateway_summaries cfg \<and>
     default_context_name cfg' sel = default_context_name cfg sel \<and>
     default_gateway_name cfg' sel gw = default_gateway_name cfg sel gw \<and>
     sorted (map ts_name (target_summaries cfg)) \<and>
     set (map ts_name (target_summaries cfg)) = dom (map_of (cfg_targets cfg))"
proof -
  have t: "same_map (cfg_targets cfg) (cfg_targets cfg')" and c: "same_map (cfg_clusters cfg) (cfg_clusters cfg')"
    and g: "same_map (cfg_gateways cfg) (cfg_gateways cfg')" and x: "same_map (cfg_contexts cfg) (cfg_contexts cfg')"
    using assms by (simp_all add: reordered_def)
  have names: "map ts_name (target_summaries cfg) = sorted_names (cfg_targets cfg)"
    by (simp add: target_summaries_def comp_def Let_def)
  have "sorted (sorted_names (cfg_targets cfg))" "set (sorted_names (cfg_targets cfg)) = dom (map_of (cfg_targets cfg))"
    by (simp_all add: sorted_names_def dom_map_of_conv_image_fst)
  then show ?thesis
    using names
    by (simp add: target_summaries_def cluster_summaries_def gateway_summaries_def default_gateway_name_def Let_def
        sorted_names_same [OF t] sorted_names_same [OF c] sorted_names_same [OF g]
        same_map_lookup [OF t] same_map_lookup [OF c] same_map_lookup [OF g] same_map_lookup [OF x]
        default_context_same [OF x] cong: if_cong option.case_cong)
qed

theorem list_summaries_order_free_witness:
  "target_summaries (demo_config\<lparr>cfg_targets := rev (cfg_targets demo_config)\<rparr>) = target_summaries demo_config"
proof -
  have "reordered demo_config (demo_config\<lparr>cfg_targets := rev (cfg_targets demo_config)\<rparr>)"
    using demo_config_maps_ok by (simp add: reordered_def same_map_def config_maps_ok_def)
  from list_summaries_order_free [OF this] show ?thesis by blast
qed

end
