(* ===== verification/Cli_Process.thy ===== *)
theory Cli_Process
  imports Cli_Select Kubectl_Resolve Preflight Connect_Prepare User_Config
begin

text \<open>
  The process of \<open>cmd/dev-connect/main.go\<close> and what it makes of the packages: its environment, the
  \<open>kubectl\<close> of a cluster, the local port, the preflight and the inline tunnel.

  The state is \<open>world machine\<close>: the files and processes of \<open>Go_OS\<close> with the list of the commands
  that were executed. A child process may change the world; what it does is the \<open>world child\<close>
  of \<open>Kubectl_Runner\<close>. A timeout of the command line reaches the children only.
\<close>

section \<open>The process\<close>

text \<open>
  \<open>os.Getenv\<close>, \<open>os.Environ\<close>, \<open>os.Executable\<close>, \<open>runtime.GOOS\<close>, the YAML decoder, the port probe, the
  clock (as text and in nanoseconds), the random source and the time since a start time as
  \<open>time.Duration\<close> prints it.
\<close>

record cli_process =
  cp_getenv :: "string \<Rightarrow> string"
  cp_environ :: "string list"
  cp_executable :: "string result"
  cp_goos :: string
  cp_unmarshal :: "string \<Rightarrow> config result"
  cp_probe :: "(int, world) io"
  cp_now :: string
  cp_random :: "int list result"
  cp_nano :: int
  cp_uptime :: "string \<Rightarrow> string"

definition on_world :: "('a, world) io \<Rightarrow> ('a, world machine) io" where
  "on_world m = (\<lambda>mc. case m (mc_state mc) of (r, w) \<Rightarrow> (r, mc\<lparr>mc_state := w\<rparr>))"

definition kubectl_path_for :: "cli_process \<Rightarrow> cli_options \<Rightarrow> cluster \<Rightarrow> (string, world) io" where
  "kubectl_path_for cp o1 cl =
     (let dev_connect_path = (case cp_executable cp of Inl e \<Rightarrow> [] | Inr p \<Rightarrow> p)
      in resolve_local_executable (cp_goos cp)
           \<lparr>ro_explicit_path = op_kubectl_path o1, ro_env_path = cp_getenv cp ''DEV_CONNECT_KUBECTL_PATH'',
            ro_configured_path = cl_kubectl_path cl, ro_dev_connect_path = dev_connect_path,
            ro_path_env = cp_getenv cp ''PATH'', ro_goos = [], ro_additional_default = []\<rparr>)"

definition kubectl_base_env :: "cli_process \<Rightarrow> cluster \<Rightarrow> string list" where
  "kubectl_base_env cp cl = kubectl_base_env_from (cp_environ cp) (cp_goos cp) (cl_proxy cl) (cl_kubeconfig cl)"

definition user_ssh_config_path :: "cli_process \<Rightarrow> string \<Rightarrow> string result" where
  "user_ssh_config_path cp configured_path =
     (if configured_path \<noteq> [] then Inr configured_path
      else default_user_config_path_for (cp_goos cp) (cp_getenv cp ''HOME'') (cp_getenv cp ''USERPROFILE''))"

text \<open>\<open>strconv.Atoi\<close>: an optional sign and decimal digits, within 64 bits.\<close>

definition go_atoi :: "string \<Rightarrow> int result" where
  "go_atoi s =
     (let digits = (if prefix ''-'' s \<or> prefix ''+'' s then tl s else s);
          n = (if prefix ''-'' s then - read_digits digits else read_digits digits)
      in if digits = [] \<or> \<not> list_all is_digit digits
         then Inl (Wrap ''strconv.Atoi: parsing %q: %w'' [s] (Err ''invalid syntax'' []))
         else if \<not> int64 n
         then Inl (Wrap ''strconv.Atoi: parsing %q: %w'' [s] (Err ''value out of range'' []))
         else Inr n)"

definition cli_allocate_port :: "cli_process \<Rightarrow> (allocation, world) io" where
  "cli_allocate_port cp =
     (let value1 = cp_getenv cp ''DEV_CONNECT_TEST_LOCAL_PORT''
      in if value1 \<noteq> [] then
           io_bind (io_wrap ''parse DEV_CONNECT_TEST_LOCAL_PORT: %w'' [] (io_lift (go_atoi value1)))
             (\<lambda>port. io_return \<lparr>al_host = ''127.0.0.1'', al_port = port\<rparr>)
         else allocate_loopback (cp_probe cp))"

section \<open>Preflight and the inline tunnel\<close>

definition cluster_runner :: "world child \<Rightarrow> cli_process \<Rightarrow> cluster \<Rightarrow> string \<Rightarrow> world machine runner" where
  "cluster_runner ch cp cl path =
     executable_as_runner ch \<lparr>er_path = path, er_base_env = Some (kubectl_base_env cp cl)\<rparr>"

definition cluster_preflight ::
  "world child \<Rightarrow> cli_process \<Rightarrow> cluster \<Rightarrow> connect_result \<Rightarrow> string \<Rightarrow> world machine preflight_options" where
  "cluster_preflight ch cp cl r path =
     \<lparr>po_runner = Some (cluster_runner ch cp cl path), po_namespace = gw_namespace (cr_gateway r),
      po_service = gw_service (cr_gateway r), po_local_port = cr_local_port r,
      po_remote_port = gw_port (cr_gateway r), po_context = cl_context cl, po_kubeconfig = cl_kubeconfig cl\<rparr>"

definition run_preflight ::
  "world child \<Rightarrow> cli_process \<Rightarrow> cli_options \<Rightarrow> cluster \<Rightarrow> connect_result \<Rightarrow> (unit, world machine) io" where
  "run_preflight ch cp o1 cl r =
     io_bind (on_world (kubectl_path_for cp o1 cl)) (\<lambda>path mc.
       case preflight_validate (cluster_preflight ch cp cl r path) mc of
         ((_, None), mc) \<Rightarrow> (Inr (), mc)
       | ((_, Some e), mc) \<Rightarrow> (Inl e, mc))"

text \<open>\<open>startTunnel\<close> gives a \<open>tunnel.Result\<close> beside its error; \<open>None\<close> is a start that never returns.\<close>

definition no_tunnel :: tunnel_result where
  "no_tunnel = \<lparr>tr_ready = False, tr_attempts = 0, tr_pid = 0\<rparr>"

definition inline_start_options :: "cli_options \<Rightarrow> cluster \<Rightarrow> connect_result \<Rightarrow> start_options" where
  "inline_start_options o1 cl r =
     \<lparr>ts_namespace = gw_namespace (cr_gateway r), ts_service = gw_service (cr_gateway r),
      ts_local_port = cr_local_port r, ts_remote_port = gw_port (cr_gateway r),
      ts_context = cl_context cl, ts_kubeconfig = cl_kubeconfig cl, ts_reconnect = (\<not> op_no_reconnect o1)\<rparr>"

definition start_tunnel ::
  "world child \<Rightarrow> cli_process \<Rightarrow> cli_options \<Rightarrow> cluster \<Rightarrow> connect_result \<Rightarrow> world machine \<Rightarrow>
   ((tunnel_result \<times> go_error option) \<times> world machine) option" where
  "start_tunnel ch cp o1 cl r mc =
     (case on_world (kubectl_path_for cp o1 cl) mc of
        (Inl e, mc) \<Rightarrow> Some ((no_tunnel, Some e), mc)
      | (Inr path, mc) \<Rightarrow>
          tunnel_start \<lparr>sv_runner = Some (cluster_runner ch cp cl path), sv_max_reconnects = 3\<rparr>
            (inline_start_options o1 cl r) mc)"

section \<open>Facts\<close>

lemma on_world_apply: "on_world m mc = (fst (m (mc_state mc)), mc\<lparr>mc_state := snd (m (mc_state mc))\<rparr>)"
  by (simp add: on_world_def split_beta)

lemma on_world_eq: "on_world m mc = (r, mc') \<longleftrightarrow> (\<exists>w. m (mc_state mc) = (r, w) \<and> mc' = mc\<lparr>mc_state := w\<rparr>)"
  by (auto simp: on_world_def split: prod.splits)

lemma on_world_started [simp]: "mc_started (snd (on_world m mc)) = mc_started mc"
  by (simp add: on_world_apply)

lemma leaves_on_world: "leaves f m \<Longrightarrow> leaves (\<lambda>mc. f (mc_state mc)) (on_world m)"
  by (simp add: leaves_def on_world_apply)

text \<open>The probe of preflight and the tunnel of the supervisor and of \<open>startTunnel\<close> are the same command.\<close>

definition session_forward :: "cluster \<Rightarrow> gateway \<Rightarrow> int \<Rightarrow> command" where
  "session_forward cl g port = port_forward_command
     \<lparr>pf_namespace = gw_namespace g, pf_service = gw_service g, pf_local_port = port,
      pf_remote_port = gw_port g, pf_context = cl_context cl, pf_kubeconfig = cl_kubeconfig cl\<rparr>"

lemma probe_is_session_forward:
  "probe_command (cluster_preflight ch cp cl r path) = session_forward cl (cr_gateway r) (cr_local_port r)"
  by (simp add: probe_command_def cluster_preflight_def session_forward_def)

lemma inline_is_session_forward:
  "start_command (inline_start_options o1 cl r) = session_forward cl (cr_gateway r) (cr_local_port r)"
  by (simp add: start_command_def inline_start_options_def session_forward_def)

text \<open>The inline tunnel always returns: three reconnects are far from the largest \<open>int\<close>.\<close>

lemma kubectl_path_ne: "kubectl_path_for cp o1 cl w = (Inr path, w') \<Longrightarrow> path \<noteq> []"
  unfolding kubectl_path_for_def Let_def by (rule resolved_path_ne)

lemma kubectl_path_leaves [frame]: "leaves w_nodes (kubectl_path_for cp o1 cl)"
  unfolding kubectl_path_for_def Let_def by (rule nodes_resolve_local)

lemma start_tunnel_returns:
  "\<exists>res e mc'. start_tunnel ch cp o1 cl r mc = Some ((res, e), mc')"
proof (cases "on_world (kubectl_path_for cp o1 cl) mc")
  case (Pair y mc1)
  show ?thesis
  proof (cases y)
    case (Inl e)
    with Pair show ?thesis by (simp add: start_tunnel_def)
  next
    case (Inr path)
    with Pair obtain w where "kubectl_path_for cp o1 cl (mc_state mc) = (Inr path, w)"
      by (auto simp: on_world_eq)
    from kubectl_path_ne [OF this] obtain x xs where "path = x # xs" by (cases path) auto
    then have "cluster_runner ch cp cl path =
        executable_as_runner ch \<lparr>er_path = x # xs, er_base_env = Some (kubectl_base_env cp cl)\<rparr>"
      by (simp add: cluster_runner_def)
    then show ?thesis
      using Pair Inr executable.start_bounded [of 3 "inline_start_options o1 cl r" ch x xs "Some (kubectl_base_env cp cl)" mc1]
      by (auto simp: start_tunnel_def)
  qed
qed

end
