(* ===== verification/Cli_Supervisor.thy ===== *)
theory Cli_Supervisor
  imports Cli_Process
begin

text \<open>
  The two sides of the tunnel supervisor of \<open>cmd/dev-connect/main.go\<close>: \<open>connect\<close> starts it as a
  detached process and waits for its ready file; the supervisor process runs
  \<open>kubectl port-forward\<close> for the recorded session and starts it again when it ends.
\<close>

section \<open>Waiting for the supervisor\<close>

text \<open>
  What the \<open>select\<close> of \<open>startTunnelSupervisor\<close> receives, each event with what happened to the
  machine since the one before: the ticker, the end of the process, the end of the context.
\<close>

datatype wait_run =
    Wait_Tick "world \<Rightarrow> world" wait_run
  | Wait_Exited "world \<Rightarrow> world" "go_error option"
  | Wait_Deadline "world \<Rightarrow> world" go_error

text \<open>\<open>cmd.Start\<close> of the detached process, and what follows.\<close>

record supervisor_child =
  sc_start :: "string \<Rightarrow> string list \<Rightarrow> world \<Rightarrow> int result \<times> world"
  sc_wait :: "string \<Rightarrow> string list \<Rightarrow> wait_run"

fun await_supervisor :: "string \<Rightarrow> int \<Rightarrow> wait_run \<Rightarrow> (tunnel_result, world) io" where
  "await_supervisor ready_file pid (Wait_Tick change rest) w =
     (case os_stat ready_file (change w) of
        (Inr info, w) \<Rightarrow> (Inr \<lparr>tr_ready = True, tr_attempts = 1, tr_pid = pid\<rparr>, w)
      | (Inl e, w) \<Rightarrow> await_supervisor ready_file pid rest w)"
| "await_supervisor ready_file pid (Wait_Exited change (Some e)) w =
     (Inl (Wrap ''tunnel supervisor exited before readiness: %w'' [] e), change w)"
| "await_supervisor ready_file pid (Wait_Exited change None) w =
     (Inl (Err ''tunnel supervisor exited before readiness'' []), change w)"
| "await_supervisor ready_file pid (Wait_Deadline change e) w =
     (Inl e, snd (terminate_process pid (change w)))"

definition supervisor_ready_file :: "string \<Rightarrow> string" where
  "supervisor_ready_file session_dir = path_join [session_dir, ''supervisor.ready'']"

definition supervisor_log_file :: "string \<Rightarrow> string" where
  "supervisor_log_file session_dir = path_join [session_dir, ''supervisor.log'']"

definition spawn_supervisor ::
  "supervisor_child \<Rightarrow> cli_process \<Rightarrow> cli_options \<Rightarrow> string \<Rightarrow> connect_result \<Rightarrow> (tunnel_result, world) io" where
  "spawn_supervisor sc cp o1 config_path r =
     io_bind (io_wrap ''resolve dev-connect executable: %w'' [] (io_lift (cp_executable cp))) (\<lambda>executable.
     let ready_file = supervisor_ready_file (cr_session_dir r);
         log_file = supervisor_log_file (cr_session_dir r);
         args = supervisor_args o1 config_path (cr_target_name r) (cr_session_dir r) ready_file
     in io_bind (io_wrap ''create session directory: %w'' [] (os_mkdir_all (cr_session_dir r) 448)) (\<lambda>_.
        io_bind (io_wrap ''open supervisor log: %w'' [] (os_open_append log_file 384)) (\<lambda>_.
        io_bind (io_wrap ''start tunnel supervisor: %w'' [] (sc_start sc executable args)) (\<lambda>pid.
        await_supervisor ready_file pid (sc_wait sc executable args)))))"

text \<open>The test switch runs the tunnel in the process itself; \<open>None\<close> does not occur (\<open>start_tunnel_returns\<close>).\<close>

definition start_tunnel_supervisor ::
  "world child \<Rightarrow> supervisor_child \<Rightarrow> cli_process \<Rightarrow> cli_options \<Rightarrow> string \<Rightarrow> cluster \<Rightarrow> connect_result \<Rightarrow>
   (tunnel_result, world machine) io" where
  "start_tunnel_supervisor ch sc cp o1 config_path cl r =
     (if cp_getenv cp ''DEV_CONNECT_TEST_INLINE_TUNNEL'' = ''1''
      then (\<lambda>mc. case start_tunnel ch cp o1 cl r mc of
              Some ((res, None), mc') \<Rightarrow> (Inr res, mc')
            | Some ((res, Some e), mc') \<Rightarrow> (Inl e, mc')
            | None \<Rightarrow> (Inl (Err ''no return'' []), mc))
      else on_world (spawn_supervisor sc cp o1 config_path r))"

section \<open>The supervisor process\<close>

text \<open>
  One run of \<open>kubectl port-forward\<close>: a pipe that cannot be opened or a process that does not
  start, or the lines the two scanners read, in the order they read them, and the result of
  \<open>Wait\<close>. \<open>rd_ended\<close> is \<open>ctx.Err()\<close> after the run, \<open>rd_interrupted\<close> the end of the context while
  the loop waits to reconnect.
\<close>

datatype forward_run =
    Forward_Failed string go_error
  | Forwarded "string list" "go_error option"

record supervised_round =
  rd_run :: forward_run
  rd_ended :: "go_error option"
  rd_interrupted :: "go_error option"

record supervisor_run =
  su_world :: world
  su_started :: "(string \<times> string list \<times> string list) list"
  su_printed :: "string list"
  su_waits :: "int list"

text \<open>The two scanners share \<open>readyOnce\<close>; the ready file is written once per run.\<close>

fun scan_supervisor_output :: "string \<Rightarrow> bool \<Rightarrow> string list \<Rightarrow> supervisor_run \<Rightarrow> supervisor_run" where
  "scan_supervisor_output ready_file once [] s = s"
| "scan_supervisor_output ready_file once (line # rest) s =
     (let s = s\<lparr>su_printed := su_printed s @ [line]\<rparr>
      in if is_ready_output line \<and> \<not> once
         then scan_supervisor_output ready_file True rest
                (s\<lparr>su_world := snd (os_write_file ready_file (''ready'' @ [newline]) 384 (su_world s))\<rparr>)
         else scan_supervisor_output ready_file once rest s)"

definition run_supervised_port_forward ::
  "string \<Rightarrow> string list \<Rightarrow> command \<Rightarrow> string \<Rightarrow> forward_run \<Rightarrow> supervisor_run \<Rightarrow> unit result \<times> supervisor_run" where
  "run_supervised_port_forward path env c ready_file run s =
     (let s = s\<lparr>su_started := su_started s @ [(path, cmd_args c, merge_command_env env (cmd_env c))]\<rparr>
      in case run of
           Forward_Failed message e \<Rightarrow> (Inl (Wrap message [] e), s)
         | Forwarded lines e \<Rightarrow>
             ((case e of Some e \<Rightarrow> Inl e | None \<Rightarrow> Inr ()), scan_supervisor_output ready_file False lines s))"

text \<open>Durations in nanoseconds.\<close>

definition backoff_limit :: int where
  "backoff_limit = 30000000000"

definition next_backoff :: "int \<Rightarrow> int" where
  "next_backoff backoff =
     (if backoff < backoff_limit then
        (let backoff = backoff * 2 in if backoff_limit < backoff then backoff_limit else backoff)
      else backoff)"

partial_function (option) supervise_loop ::
  "(forward_run \<Rightarrow> supervisor_run \<Rightarrow> unit result \<times> supervisor_run) \<Rightarrow> bool \<Rightarrow> (nat \<Rightarrow> supervised_round) \<Rightarrow>
   nat \<Rightarrow> int \<Rightarrow> supervisor_run \<Rightarrow> (unit result \<times> supervisor_run) option" where
  "supervise_loop forward reconnect rounds attempt backoff s =
     (case forward (rd_run (rounds attempt)) s of (r, s) \<Rightarrow>
      case rd_ended (rounds attempt) of
        Some e \<Rightarrow> Some (Inl e, s)
      | None \<Rightarrow>
          if \<not> reconnect then Some (r, s)
          else case rd_interrupted (rounds attempt) of
                 Some e \<Rightarrow> Some (Inl e, s\<lparr>su_waits := su_waits s @ [backoff]\<rparr>)
               | None \<Rightarrow> supervise_loop forward reconnect rounds (Suc attempt) (next_backoff backoff)
                           (s\<lparr>su_waits := su_waits s @ [backoff]\<rparr>))"

record forward_plan =
  fp_state :: session_state
  fp_cluster :: cluster
  fp_gateway :: gateway
  fp_path :: string

definition supervisor_setup :: "cli_process \<Rightarrow> cli_options \<Rightarrow> string \<Rightarrow> string \<Rightarrow> (forward_plan, world) io" where
  "supervisor_setup cp o1 session_dir target_name =
     io_bind (cli_load_config (cp_unmarshal cp) (cp_getenv cp) (cp_goos cp) o1) (\<lambda>loaded.
     io_bind (io_lift (selected_cluster (lo_config loaded) o1)) (\<lambda>cl.
     io_bind (session_load session_dir) (\<lambda>state.
     if st_target state \<noteq> target_name
     then io_fail (Err ''session target %q does not match supervisor target %q'' [st_target state, target_name])
     else case map_of (cfg_gateways (lo_config loaded)) (st_gateway state) of
            None \<Rightarrow> io_fail (Err ''unknown gateway %q'' [st_gateway state])
          | Some g \<Rightarrow>
              io_bind (kubectl_path_for cp o1 cl) (\<lambda>path.
              io_return \<lparr>fp_state = state, fp_cluster = cl, fp_gateway = g, fp_path = path\<rparr>))))"

definition supervisor_command :: "forward_plan \<Rightarrow> command" where
  "supervisor_command p = port_forward_command
     \<lparr>pf_namespace = st_namespace (fp_state p), pf_service = gw_service (fp_gateway p),
      pf_local_port = st_local_port (fp_state p), pf_remote_port = gw_port (fp_gateway p),
      pf_context = cl_context (fp_cluster p), pf_kubeconfig = cl_kubeconfig (fp_cluster p)\<rparr>"

definition run_tunnel_supervisor ::
  "cli_process \<Rightarrow> cli_options \<Rightarrow> string \<Rightarrow> string \<Rightarrow> string \<Rightarrow> (nat \<Rightarrow> supervised_round) \<Rightarrow> supervisor_run \<Rightarrow>
   (unit result \<times> supervisor_run) option" where
  "run_tunnel_supervisor cp o1 session_dir ready_file target_name rounds s =
     (if session_dir = [] then Some (Inl (Err ''supervisor session directory is required'' []), s)
      else if ready_file = [] then Some (Inl (Err ''supervisor ready file is required'' []), s)
      else case supervisor_setup cp o1 session_dir target_name (su_world s) of
             (Inl e, w) \<Rightarrow> Some (Inl e, s\<lparr>su_world := w\<rparr>)
           | (Inr p, w) \<Rightarrow>
               supervise_loop
                 (run_supervised_port_forward (fp_path p) (kubectl_base_env cp (fp_cluster p)) (supervisor_command p) ready_file)
                 (st_reconnect (fp_state p) \<and> \<not> op_no_reconnect o1) rounds 1 1000000000 (s\<lparr>su_world := w\<rparr>))"

section \<open>The waits between two runs\<close>

definition nth_backoff :: "nat \<Rightarrow> int" where
  "nth_backoff i = min 30000000000 (2 ^ i * 1000000000)"

lemma nth_backoff_0: "nth_backoff 0 = 1000000000"
  by (simp add: nth_backoff_def)

lemma nth_backoff_Suc: "next_backoff (nth_backoff i) = nth_backoff (Suc i)"
  by (auto simp: nth_backoff_def next_backoff_def backoff_limit_def min_def Let_def)

lemma nth_backoff_bounds: "1000000000 \<le> nth_backoff i \<and> nth_backoff i \<le> 30000000000"
  by (simp add: nth_backoff_def)

section \<open>The loop\<close>

definition round_end :: "supervised_round \<Rightarrow> go_error option" where
  "round_end d = (case rd_ended d of Some e \<Rightarrow> Some e | None \<Rightarrow> rd_interrupted d)"

text \<open>The state after the runs \<open>i, ..., i + n - 1\<close> with a wait after each.\<close>

fun after_rounds ::
  "(forward_run \<Rightarrow> supervisor_run \<Rightarrow> unit result \<times> supervisor_run) \<Rightarrow> (nat \<Rightarrow> supervised_round) \<Rightarrow> nat \<Rightarrow> nat \<Rightarrow> nat \<Rightarrow>
   supervisor_run \<Rightarrow> supervisor_run" where
  "after_rounds forward rounds i k 0 s = s"
| "after_rounds forward rounds i k (Suc n) s =
     (let s = snd (forward (rd_run (rounds i)) s)
      in after_rounds forward rounds (Suc i) (Suc k) n (s\<lparr>su_waits := su_waits s @ [nth_backoff k]\<rparr>))"

lemma supervise_loop_goes_on:
  assumes "\<forall>j. i \<le> j \<and> j < i + n \<longrightarrow> round_end (rounds j) = None"
  shows "supervise_loop forward True rounds i (nth_backoff k) s =
     supervise_loop forward True rounds (i + n) (nth_backoff (k + n)) (after_rounds forward rounds i k n s)"
  using assms
proof (induction n arbitrary: i k s)
  case 0
  then show ?case by simp
next
  case (Suc n)
  obtain r s1 where f: "forward (rd_run (rounds i)) s = (r, s1)" by fastforce
  have "rd_ended (rounds i) = None" "rd_interrupted (rounds i) = None"
    using Suc.prems by (auto simp: round_end_def split: option.splits)
  then have "supervise_loop forward True rounds i (nth_backoff k) s =
      supervise_loop forward True rounds (Suc i) (nth_backoff (Suc k)) (s1\<lparr>su_waits := su_waits s1 @ [nth_backoff k]\<rparr>)"
    using f by (subst supervise_loop.simps) (simp add: nth_backoff_Suc)
  also have "\<dots> = supervise_loop forward True rounds (Suc i + n) (nth_backoff (Suc k + n))
      (after_rounds forward rounds (Suc i) (Suc k) n (s1\<lparr>su_waits := su_waits s1 @ [nth_backoff k]\<rparr>))"
    using Suc.prems by (intro Suc.IH) simp
  finally show ?case using f by simp
qed

lemma supervise_loop_never_stops:
  "supervise_loop forward reconnect rounds i b s = Some y \<Longrightarrow>
   reconnect \<longrightarrow> (\<exists>j \<ge> i. round_end (rounds j) \<noteq> None)"
proof (erule supervise_loop.raw_induct [where P = "\<lambda>forward reconnect rounds i b s y.
      reconnect \<longrightarrow> (\<exists>j \<ge> i. round_end (rounds j) \<noteq> None)", rotated], goal_cases)
  case (1 loop forward reconnect rounds i b s y)
  obtain r s1 where f: "forward (rd_run (rounds i)) s = (r, s1)" by fastforce
  show ?case
  proof
    assume reconnect
    show "\<exists>j \<ge> i. round_end (rounds j) \<noteq> None"
    proof (cases "round_end (rounds i)")
      case None
      then have "rd_ended (rounds i) = None" "rd_interrupted (rounds i) = None"
        by (auto simp: round_end_def split: option.splits)
      then have "loop forward reconnect rounds (Suc i) (next_backoff b) (s1\<lparr>su_waits := su_waits s1 @ [b]\<rparr>) = Some y"
        using 1(2) f \<open>reconnect\<close> by simp
      from 1(1) [OF this] \<open>reconnect\<close> show ?thesis by (meson Suc_leD)
    qed auto
  qed
qed

section \<open>What a run does\<close>

lemma scan_keeps [simp]:
  "su_started (scan_supervisor_output ready_file once lines s) = su_started s"
  "su_waits (scan_supervisor_output ready_file once lines s) = su_waits s"
  by (induction ready_file once lines s rule: scan_supervisor_output.induct) (simp_all add: Let_def)

lemma scan_printed [simp]: "su_printed (scan_supervisor_output ready_file once lines s) = su_printed s @ lines"
  by (induction ready_file once lines s rule: scan_supervisor_output.induct) (simp_all add: Let_def)

text \<open>The ready file is written at the first ready line, and only then.\<close>

lemma scan_world:
  "su_world (scan_supervisor_output ready_file once lines s) =
     (if \<not> once \<and> list_ex is_ready_output lines
      then snd (os_write_file ready_file (''ready'' @ [newline]) 384 (su_world s)) else su_world s)"
  by (induction ready_file once lines s rule: scan_supervisor_output.induct) (auto simp: Let_def)

lemma forward_started [simp]:
  "su_started (snd (run_supervised_port_forward path env c ready_file run s)) =
     su_started s @ [(path, cmd_args c, merge_command_env env (cmd_env c))]"
  by (simp add: run_supervised_port_forward_def Let_def split: forward_run.split)

lemma forward_waits [simp]:
  "su_waits (snd (run_supervised_port_forward path env c ready_file run s)) = su_waits s"
  by (simp add: run_supervised_port_forward_def Let_def split: forward_run.split)

lemma forward_world:
  "su_world (snd (run_supervised_port_forward path env c ready_file run s)) =
     (case run of Forwarded lines e \<Rightarrow>
        (if list_ex is_ready_output lines
         then snd (os_write_file ready_file (''ready'' @ [newline]) 384 (su_world s)) else su_world s)
      | _ \<Rightarrow> su_world s)"
  by (simp add: run_supervised_port_forward_def Let_def scan_world split: forward_run.split)

lemma after_rounds_trace:
  assumes "forward = run_supervised_port_forward path env c ready_file"
  shows "su_started (after_rounds forward rounds i k n s) =
       su_started s @ replicate n (path, cmd_args c, merge_command_env env (cmd_env c)) \<and>
     su_waits (after_rounds forward rounds i k n s) = su_waits s @ map nth_backoff [k..<k + n]"
proof (induction n arbitrary: i k s)
  case 0
  then show ?case by simp
next
  case (Suc n)
  have "[k..<k + Suc n] = k # [Suc k..<Suc k + n]" by (simp add: upt_conv_Cons)
  then show ?case
    using Suc.IH [of "Suc i" "Suc k" "snd (forward (rd_run (rounds i)) s)\<lparr>su_waits :=
        su_waits (snd (forward (rd_run (rounds i)) s)) @ [nth_backoff k]\<rparr>"]
    by (simp del: upt_Suc add: assms Let_def)
qed

lemma run_supervisor_eq:
  assumes "supervisor_setup cp o1 d t (su_world s) = (Inr p, w)" and "d \<noteq> []" and "ready_file \<noteq> []"
  shows "run_tunnel_supervisor cp o1 d ready_file t rounds s =
     supervise_loop
       (run_supervised_port_forward (fp_path p) (kubectl_base_env cp (fp_cluster p)) (supervisor_command p) ready_file)
       (st_reconnect (fp_state p) \<and> \<not> op_no_reconnect o1) rounds 1 (nth_backoff 0) (s\<lparr>su_world := w\<rparr>)"
  using assms by (simp add: run_tunnel_supervisor_def nth_backoff_0)

text \<open>Without reconnecting there is one run, whose result is returned.\<close>

lemma supervise_once:
  "supervise_loop forward False rounds i b s =
     (case forward (rd_run (rounds i)) s of (r, s') \<Rightarrow>
        Some (case rd_ended (rounds i) of Some e \<Rightarrow> Inl e | None \<Rightarrow> r, s'))"
  by (subst supervise_loop.simps) (simp split: prod.split option.split)

lemma supervise_last_round:
  assumes "round_end (rounds i) = Some e" and "forward (rd_run (rounds i)) s = (r, s1)"
  shows "supervise_loop forward True rounds i b s =
     Some (Inl e, if rd_ended (rounds i) = None then s1\<lparr>su_waits := su_waits s1 @ [b]\<rparr> else s1)"
  using assms by (subst supervise_loop.simps) (auto simp: round_end_def split: option.splits)

section \<open>Properties\<close>


definition demo_process :: cli_process where
  "demo_process = \<lparr>cp_getenv = (\<lambda>k. if k = ''PATH'' then ''/usr/bin'' else if k = ''HOME'' then ''/home/me'' else []),
     cp_environ = [''PATH=/usr/bin'', ''HOME=/home/me''], cp_executable = Inr ''/opt/dc/dev-connect'',
     cp_goos = ''linux'', cp_unmarshal = (\<lambda>_. Inr demo_config), cp_probe = io_return 55221,
     cp_now = ''2026-02-28T10:11:12Z'', cp_random = Inr [10, 27], cp_nano = 0, cp_uptime = (\<lambda>_. ''1m0s'')\<rparr>"

definition demo_cli_options :: cli_options where
  "demo_cli_options = default_options\<lparr>op_config_path := ''/c/config.yaml'', op_kubectl_path := ''/usr/bin/kubectl''\<rparr>"

definition demo_session :: session_state where
  "demo_session = zero_state\<lparr>st_session_id := ''0a1b'', st_target := ''dev'', st_gateway := ''g1'', st_namespace := ''ns'',
     st_local_port := 55221, st_started_at := ''2026-02-28T10:11:12Z'', st_reconnect := True\<rparr>"

definition demo_files :: "string \<Rightarrow> world" where
  "demo_files data = \<lparr>w_nodes = [''/c/config.yaml'' \<mapsto> File [] 420, ''/usr/bin/kubectl'' \<mapsto> File [] 493, ''/s'' \<mapsto> Dir 448,
        ''/s/session.json'' \<mapsto> File data 384],
      w_umask = 18, w_fault = (\<lambda>t op p. False), w_short = (\<lambda>t. 0), w_clock = 0, w_procs = []\<rparr>"

definition demo_supervisor_run :: supervisor_run where
  "demo_supervisor_run = \<lparr>su_world = demo_files (projr (marshal_state demo_session)),
     su_started = [], su_printed = [], su_waits = []\<rparr>"

lemma demo_supervisor_calm: "calm (su_world demo_supervisor_run)"
  by (simp add: calm_def demo_supervisor_run_def demo_files_def)

lemma demo_load:
  "fst (cli_load_config (cp_unmarshal demo_process) (cp_getenv demo_process) (cp_goos demo_process) demo_cli_options
     (demo_files data)) = Inr \<lparr>lo_config = fill_refs demo_config, lo_path = ''/c/config.yaml''\<rparr>"
  by code_simp

lemma demo_session_ok: "state_ok demo_session" "validate_state demo_session = Inr ()"
  by code_simp+

lemma demo_clean: "path_clean ''/s/session.json'' = ''/s/session.json''" "path_clean ''/usr/bin/kubectl'' = ''/usr/bin/kubectl''"
  by code_simp+

lemma demo_session_path: "session_path ''/s'' = ''/s/session.json''"
  by code_simp

lemma demo_cluster: "selected_cluster (fill_refs demo_config) demo_cli_options = Inr (the (map_of (cfg_clusters demo_config) ''c1''))"
  by code_simp

lemma demo_gateway: "map_of (cfg_gateways (fill_refs demo_config)) ''g1'' = Some (the (map_of (cfg_gateways demo_config) ''g1''))"
  by code_simp

lemma session_load_nodes: "leaves w_nodes (session_load d)"
  unfolding session_load_def by ((intro frame; simp add: leaves_def)+)

lemma demo_setup:
  "\<exists>w. supervisor_setup demo_process demo_cli_options ''/s'' ''dev'' (su_world demo_supervisor_run) =
     (Inr \<lparr>fp_state = demo_session, fp_cluster = the (map_of (cfg_clusters demo_config) ''c1''),
           fp_gateway = the (map_of (cfg_gateways demo_config) ''g1''), fp_path = ''/usr/bin/kubectl''\<rparr>, w)"
proof -
  let ?w = "su_world demo_supervisor_run"
  obtain w1 where load: "cli_load_config (cp_unmarshal demo_process) (cp_getenv demo_process) (cp_goos demo_process)
      demo_cli_options ?w = (Inr \<lparr>lo_config = fill_refs demo_config, lo_path = ''/c/config.yaml''\<rparr>, w1)"
    using demo_load by (metis demo_supervisor_run_def prod.collapse supervisor_run.select_convs(1))
  have same: "w_nodes w1 = w_nodes ?w" "calm w1"
    using leaves_result [OF load_config_leaves(1) load [unfolded cli_load_config_def]]
      leaves_result [OF load_config_leaves(2) [THEN leaves_calm] load [unfolded cli_load_config_def]]
      demo_supervisor_calm by simp_all
  obtain data where data: "marshal_state demo_session = Inr data" "unmarshal_state data = Inr demo_session"
    using unmarshal_marshal [OF demo_session_ok] by blast
  have "file_at w1 (session_path ''/s'') = Some data"
    unfolding file_at_def lookup_node_def same(1) demo_session_path using data(1) by (simp add: demo_supervisor_run_def demo_files_def demo_clean)
  then obtain w2 where session: "session_load ''/s'' w1 = (Inr demo_session, w2)" and w2: "w_nodes w2 = w_nodes ?w" "calm w2"
    using session_load_file [OF same(2)] data(2) leaves_result [OF session_load_nodes] same
      leaves_result [OF session_load_leaves(1) [THEN leaves_calm]]
    by (metis prod.collapse)
  have "executable_at ''linux'' w2 ''/usr/bin/kubectl''"
    unfolding executable_at_def lookup_node_def w2(1) by (simp add: demo_supervisor_run_def demo_files_def demo_clean executable_bits_def)
  then have path: "kubectl_path_for demo_process demo_cli_options cl w2 = (Inr ''/usr/bin/kubectl'', bump w2)" for cl
    using executable_path_calm [OF w2(2)]
    by (simp add: kubectl_path_for_def resolve_local_executable_def resolve_executable_for_os_def demo_cli_options_def
        demo_process_def is_abs_def)
  show ?thesis
    using load session path
    by (simp add: supervisor_setup_def io_bind_def demo_cluster demo_gateway demo_session_def)
qed

text \<open>Two runs end by themselves; the context ends during the wait after the third.\<close>

definition demo_rounds :: "nat \<Rightarrow> supervised_round" where
  "demo_rounds i = \<lparr>rd_run = Forwarded [''Forwarding from 127.0.0.1:55221 -> 22''] (Some (Exit_Error 1 [])),
     rd_ended = None, rd_interrupted = (if i < 3 then None else Some (Err ''context canceled'' []))\<rparr>"


text \<open>
  What \<open>connect\<close> knows when the start of the supervisor returns: a result is the process that was
  started, and its ready file exists; at the deadline the process group of the supervisor
  has been ended; otherwise the process ended by itself or was never started.
\<close>

fun wait_deadline :: "string \<Rightarrow> wait_run \<Rightarrow> world \<Rightarrow> world option" where
  "wait_deadline ready_file (Wait_Tick change rest) w =
     (case os_stat ready_file (change w) of (Inr info, w) \<Rightarrow> None | (Inl e, w) \<Rightarrow> wait_deadline ready_file rest w)"
| "wait_deadline ready_file (Wait_Exited change e) w = None"
| "wait_deadline ready_file (Wait_Deadline change e) w = Some (change w)"

lemma await_supervisor_ready:
  "await_supervisor ready_file pid run w = (Inr res, w') \<Longrightarrow>
   res = \<lparr>tr_ready = True, tr_attempts = 1, tr_pid = pid\<rparr> \<and> lookup_node w' ready_file \<noteq> None"
  by (induction ready_file pid run w rule: await_supervisor.induct)
    (auto simp: os_stat_def split: prod.splits sum.splits if_splits option.splits)

lemma terminated_group:
  assumes "calm w" and "1 < pid" and "group_leader w pid"
  shows "\<not> list_ex (\<lambda>(q, g). g = pid) (w_procs (snd (terminate_process pid w)))"
  using kill_group [OF assms(1,2)] kill_nothing [OF assms(2) _ assms(3)] assms(2)
  by (cases "list_ex (\<lambda>(q, g). g = pid) (w_procs w)") (auto simp: terminate_process_def list_ex_iff)

text \<open>Four wrapped steps in a row, and what follows them.\<close>

lemma four_steps_Inr:
  assumes "io_bind (io_wrap m1 [] a) (\<lambda>x. io_bind (io_wrap m2 [] b) (\<lambda>_. io_bind (io_wrap m3 [] c) (\<lambda>_.
      io_bind (io_wrap m4 [] (d x)) (k x)))) w = (Inr t, w')"
  obtains w0 x w1 w2 y w3 where "a w = (Inr x, w0)" and "d x w1 = (Inr y, w2)" and "k x y w2 = (Inr t, w')"
  using assms by (auto simp: io_bind_eq_Inr)

lemma four_steps_Inl:
  assumes "io_bind (io_wrap m1 [] a) (\<lambda>x. io_bind (io_wrap m2 [] b) (\<lambda>_. io_bind (io_wrap m3 [] c) (\<lambda>_.
      io_bind (io_wrap m4 [] (d x)) (k x)))) w = (Inl e, w')"
  obtains (failed) m y where "e = Wrap m [] y" and "m = m1 \<or> m = m2 \<or> m = m3 \<or> m = m4"
    | (after) x w1 y w2 where "d x w1 = (Inr y, w2)" and "k x y w2 = (Inl e, w')"
  using assms by (auto simp: io_bind_eq_Inl io_wrap_eq_Inl)

lemma spawn_supervisor_Inr:
  assumes "spawn_supervisor sc cp o1 config_path r w = (Inr t, w')"
    and "rf = supervisor_ready_file (cr_session_dir r)"
    and "args = supervisor_args o1 config_path (cr_target_name r) (cr_session_dir r) rf"
  obtains exe w1 w2 pid where "cp_executable cp = Inr exe" and "sc_start sc exe args w1 = (Inr pid, w2)"
    and "await_supervisor rf pid (sc_wait sc exe args) w2 = (Inr t, w')"
  using assms(1) unfolding spawn_supervisor_def Let_def assms(2,3)
  by (rule four_steps_Inr) (simp add: that assms(2,3))

text \<open>The errors of a supervisor that could not be started or ended by itself.\<close>

fun supervisor_failed :: "go_error \<Rightarrow> bool" where
  "supervisor_failed (Wrap m as x) = List.member [''resolve dev-connect executable: %w'', ''create session directory: %w'',
     ''open supervisor log: %w'', ''start tunnel supervisor: %w'', ''tunnel supervisor exited before readiness: %w''] m"
| "supervisor_failed (Err m as) = (m = ''tunnel supervisor exited before readiness'')"
| "supervisor_failed e = False"

lemma supervisor_failedI:
  "m = ''resolve dev-connect executable: %w'' \<or> m = ''create session directory: %w'' \<or>
   m = ''open supervisor log: %w'' \<or> m = ''start tunnel supervisor: %w'' \<Longrightarrow> supervisor_failed (Wrap m [] x)"
  "supervisor_failed (Wrap ''tunnel supervisor exited before readiness: %w'' [] x)"
  "supervisor_failed (Err ''tunnel supervisor exited before readiness'' [])"
  by auto

lemma spawn_supervisor_Inl:
  assumes "spawn_supervisor sc cp o1 config_path r w = (Inl e, w')"
    and "rf = supervisor_ready_file (cr_session_dir r)"
    and "args = supervisor_args o1 config_path (cr_target_name r) (cr_session_dir r) rf"
  obtains (failed) "supervisor_failed e"
    | (waited) exe w1 w2 pid where "sc_start sc exe args w1 = (Inr pid, w2)"
      and "await_supervisor rf pid (sc_wait sc exe args) w2 = (Inl e, w')"
  using assms(1) unfolding spawn_supervisor_def Let_def
proof (cases rule: four_steps_Inl)
  case (failed m y)
  then show ?thesis using that(1) supervisor_failedI(1) by blast
next
  case (after x w1 y w2)
  then show ?thesis using that(2) assms(2,3) by blast
qed

lemma await_supervisor_failed:
  "await_supervisor ready_file pid run w = (Inl e, w') \<Longrightarrow>
   (case wait_deadline ready_file run w of
      Some w1 \<Rightarrow> w' = snd (terminate_process pid w1) | None \<Rightarrow> supervisor_failed e)"
  by (induction ready_file pid run w rule: await_supervisor.induct)
    (auto simp: supervisor_failedI split: prod.splits sum.splits)


definition demo_prepared :: connect_result where
  "demo_prepared = \<lparr>cr_target_name = ''dev'', cr_target = the (map_of (cfg_targets demo_config) ''dev''),
     cr_gateway_name = ''g1'', cr_gateway = the (map_of (cfg_gateways demo_config) ''g1''),
     cr_local_host = ''127.0.0.1'', cr_local_port = 55221, cr_ssh_files = session_files_in ''/s/ssh'',
     cr_session_dir = ''/s'', cr_state = demo_session\<rparr>"

definition demo_machine :: "world machine" where
  "demo_machine = \<lparr>mc_started = [], mc_state = \<lparr>w_nodes = [''/s'' \<mapsto> Dir 448], w_umask = 18,
     w_fault = (\<lambda>t op p. False), w_short = (\<lambda>t. 0), w_clock = 0, w_procs = []\<rparr>\<rparr>"

text \<open>A supervisor that runs as process 4711 and never becomes ready.\<close>

definition silent_supervisor :: supervisor_child where
  "silent_supervisor = \<lparr>sc_start = (\<lambda>exe args w. (Inr 4711, w\<lparr>w_procs := (4711, 4711) # w_procs w\<rparr>)),
     sc_wait = (\<lambda>exe args. Wait_Tick id (Wait_Deadline id (Err ''context deadline exceeded'' [])))\<rparr>"


definition stale_machine :: "world machine" where
  "stale_machine = \<lparr>mc_started = [], mc_state = \<lparr>w_nodes = [''/s'' \<mapsto> Dir 448,
       ''/s/supervisor.ready'' \<mapsto> File (''ready'' @ [newline]) 384], w_umask = 18,
     w_fault = (\<lambda>t op p. False), w_short = (\<lambda>t. 0), w_clock = 0, w_procs = []\<rparr>\<rparr>"

text \<open>
  Nothing removes the ready file of an earlier session: where it still exists, a start succeeds
  at the first tick, whatever becomes of the new supervisor, even if it ends at once.
\<close>

lemma stale_ready_file_accepted:
  "fst (start_tunnel_supervisor ch \<lparr>sc_start = (\<lambda>exe args w. (Inr 4711, w)),
       sc_wait = (\<lambda>exe args. Wait_Tick id (Wait_Exited id (Some e)))\<rparr>
     demo_process demo_cli_options config_path cl demo_prepared stale_machine) =
   Inr \<lparr>tr_ready = True, tr_attempts = 1, tr_pid = 4711\<rparr>"
proof -
  have "fst (spawn_supervisor \<lparr>sc_start = (\<lambda>exe args w. (Inr 4711, w)),
       sc_wait = (\<lambda>exe args. Wait_Tick id (Wait_Exited id (Some e)))\<rparr>
     demo_process demo_cli_options config_path demo_prepared (mc_state stale_machine)) =
    Inr \<lparr>tr_ready = True, tr_attempts = 1, tr_pid = 4711\<rparr>" by code_simp
  then show ?thesis by (simp add: start_tunnel_supervisor_def demo_process_def on_world_apply)
qed

end
