(* ===== verification/Json_Compact.thy ===== *)
theory Json_Compact
  imports Json_Codec
begin

text \<open>
  The form \<open>json.Encoder\<close> writes: without spaces or line breaks, with the same escapes as the
  indented form of \<open>Json_Codec\<close>, and read back by the same parser.
\<close>

fun compact :: "json \<Rightarrow> string"
  and compact_elements :: "json list \<Rightarrow> string"
  and compact_members :: "(string \<times> json) list \<Rightarrow> string" where
  "compact JNull = ''null''"
| "compact (JBool b) = (if b then ''true'' else ''false'')"
| "compact (JNum n) = n"
| "compact (JStr s) = quoted s"
| "compact (JArr vs) = CHR ''['' # compact_elements vs @ '']''"
| "compact (JObj ms) = CHR ''{'' # compact_members ms @ ''}''"
| "compact_elements [] = []"
| "compact_elements (v # vs) = compact v @ (if vs = [] then [] else CHR '','' # compact_elements vs)"
| "compact_members [] = []"
| "compact_members ((k, v) # ms) =
     (quoted k @ CHR '':'' # compact v) @ (if ms = [] then [] else CHR '','' # compact_members ms)"

text \<open>\<open>Encode\<close> ends the text with a line break.\<close>

definition encode_line :: "json \<Rightarrow> string" where
  "encode_line v = compact v @ [CHR 0x0A]"

lemma compact_hd:
  "json_ok v \<Longrightarrow> \<exists>c t. compact v = c # t \<and> \<not> is_space c \<and> c \<noteq> CHR '']'' \<and> c \<noteq> CHR ''}'' \<and> c \<noteq> CHR '',''"
proof (cases v)
  case (JNum n)
  assume "json_ok v"
  then obtain c t where "n = c # t" "c \<in> insert (CHR ''-'') (set digit_chars)"
    using show_int_hd [of "read_int n"] JNum by auto
  then show ?thesis using JNum by (auto simp: is_space_def digit_chars_def)
qed (auto simp: is_space_def quoted_def)

lemma num_stop_close [simp]: "num_stop (CHR '']'' # r)" "num_stop (CHR ''}'' # r)"
  by (simp_all add: num_stop_def is_digit_def between_def code_def)

lemma parse_compact_all:
  "json_ok v \<Longrightarrow> json_size v \<le> n \<Longrightarrow> num_stop r \<Longrightarrow> parse_value n (compact v @ r) = Some (v, r)"
  "vs \<noteq> [] \<Longrightarrow> list_all json_ok vs \<Longrightarrow> elements_size vs \<le> n \<Longrightarrow>
   parse_elements n (compact_elements vs @ CHR '']'' # r) = Some (vs, r)"
  "ms \<noteq> [] \<Longrightarrow> list_all (\<lambda>(k, v). valid_utf8 k \<and> json_ok v) ms \<Longrightarrow> members_size ms \<le> n \<Longrightarrow>
   parse_members n (compact_members ms @ CHR ''}'' # r) = Some (ms, r)"
proof (induction v and vs and ms arbitrary: n r and n r and n r rule: compact_compact_elements_compact_members.induct)
  case 1
  then show ?case by (cases n) (simp_all add: parse_literals [simplified])
next
  case (2 b)
  then show ?case by (cases n; cases b) (simp_all add: parse_literals [simplified])
next
  case (3 x)
  then show ?case by (auto intro: parse_number)
next
  case (4 s)
  then show ?case using parse_string [of s "n - 1" r] by (cases n) simp_all
next
  case (5 vs)
  obtain n' where n: "n = Suc n'" using 5 by (cases n) auto
  show ?case
  proof (cases vs)
    case Nil
    then show ?thesis by (simp add: n is_space_def expect_here)
  next
    case (Cons v vs')
    have "parse_elements n' (compact_elements vs @ CHR '']'' # r) = Some (vs, r)"
      using 5 n Cons by simp
    moreover have "expect (CHR '']'') (compact_elements vs @ x) = None" for x
      using compact_hd [of v] 5 Cons by (auto simp: expect_here)
    ultimately show ?thesis using Cons by (simp add: n is_space_def)
  qed
next
  case (6 ms)
  obtain n' where n: "n = Suc n'" using 6 by (cases n) auto
  show ?case
  proof (cases ms)
    case Nil
    then show ?thesis by (simp add: n is_space_def expect_here)
  next
    case (Cons m ms')
    obtain a v where m: "m = (a, v)" by (cases m)
    have "parse_members n' (compact_members ms @ CHR ''}'' # r) = Some (ms, r)"
      using 6 n Cons by simp
    moreover have "expect (CHR ''}'') (compact_members ms @ x) = None" for x
      using Cons m by (auto simp: expect_here quoted_def is_space_def)
    ultimately show ?thesis using Cons by (simp add: n is_space_def)
  qed
next
  case (8 v vs)
  obtain n' where n: "n = Suc n'" using 8 by (cases n) auto
  have head: "skip_space (compact v @ x) = compact v @ x" for x
    using compact_hd [of v] 8 by auto
  show ?case
  proof (cases "vs = []")
    case True
    have "parse_value n' (compact v @ CHR '']'' # r) = Some (v, CHR '']'' # r)" using 8 n by simp
    then show ?thesis using True n by (simp add: expect_here is_space_def)
  next
    case False
    let ?r = "compact_elements vs @ CHR '']'' # r"
    have "parse_value n' (compact v @ CHR '','' # ?r) = Some (v, CHR '','' # ?r)" using 8 n by simp
    moreover have "parse_elements n' ?r = Some (vs, r)" using 8 n False by simp
    ultimately show ?thesis using False n by (simp add: expect_here is_space_def)
  qed
next
  case (10 a v ms)
  obtain n' where n: "n = Suc n'" using 10 by (cases n) auto
  have key: "scan_string (escape a @ dquote # x) = Some (a, x)" for x
    using 10 by (simp add: scan_string_read_back)
  show ?case
  proof (cases "ms = []")
    case True
    have "parse_value n' (compact v @ CHR ''}'' # r) = Some (v, CHR ''}'' # r)" using 10 n by simp
    then show ?thesis using True n by (simp add: quoted_def key expect_here is_space_def)
  next
    case False
    let ?r = "compact_members ms @ CHR ''}'' # r"
    have "parse_value n' (compact v @ CHR '','' # ?r) = Some (v, CHR '','' # ?r)" using 10 n by simp
    moreover have "parse_members n' ?r = Some (ms, r)" using 10 n False by simp
    ultimately show ?thesis using False n by (simp add: quoted_def key expect_here is_space_def)
  qed
qed simp_all

lemma compact_size:
  "json_ok v \<Longrightarrow> json_size v \<le> length (compact v)"
  "list_all json_ok vs \<Longrightarrow> elements_size vs \<le> Suc (length (compact_elements vs))"
  "list_all (\<lambda>(k, v). valid_utf8 k \<and> json_ok v) ms \<Longrightarrow> members_size ms \<le> Suc (length (compact_members ms))"
proof (induction v and vs and ms rule: compact_compact_elements_compact_members.induct)
  case (3 x)
  then have "x \<noteq> []" using show_int_ne by (metis json_ok.simps(1))
  then show ?case by (cases x) simp_all
qed (auto simp: quoted_def)

lemma parse_compact: "json_ok v \<Longrightarrow> json_parse (encode_line v) = Some v"
proof -
  assume ok: "json_ok v"
  have "json_size v \<le> Suc (Suc (length (compact v)))" using compact_size(1) [OF ok] by simp
  then have "parse_value (Suc (length (compact v @ [CHR 0x0A]))) (compact v @ [CHR 0x0A]) = Some (v, [CHR 0x0A])"
    using parse_compact_all(1) [OF ok] by (simp del: parse_value.simps)
  then show ?thesis
    unfolding json_parse_def encode_line_def by (simp add: skip_space_def is_space_def del: parse_value.simps)
qed

end
