(* ===== verification/Cli_Output.thy ===== *)
theory Cli_Output
  imports Cli_Select Session_State Json_Compact
begin

text \<open>
  \<open>internal/output/output.go\<close>, \<open>internal/logging/logging.go\<close> and the parts of \<open>cmd/dev-connect/main.go\<close>
  that print: the response of a command, its JSON and text forms, and the log record of a
  command with its redaction. The rendering of log records is \<open>log/slog\<close>'s own; the model keeps
  the record that is handed to it.
\<close>

section \<open>Responses\<close>

record response =
  rp_api_version :: string
  rp_status :: string
  rp_server :: string
  rp_session_id :: string
  rp_local_port :: int
  rp_context :: string
  rp_namespace :: string
  rp_gateway :: string
  rp_reconnect :: "bool option"
  rp_uptime :: string
  rp_targets :: "target_summary list"
  rp_clusters :: "cluster_summary list"
  rp_gateways :: "gateway_summary list"
  rp_default_context :: string
  rp_default_gateway :: string
  rp_version :: string
  rp_commit :: string
  rp_build_date :: string
  rp_go_version :: string
  rp_os :: string
  rp_arch :: string

definition empty_response :: response where
  "empty_response = \<lparr>rp_api_version = [], rp_status = [], rp_server = [], rp_session_id = [], rp_local_port = 0,
     rp_context = [], rp_namespace = [], rp_gateway = [], rp_reconnect = None, rp_uptime = [], rp_targets = [],
     rp_clusters = [], rp_gateways = [], rp_default_context = [], rp_default_gateway = [], rp_version = [],
     rp_commit = [], rp_build_date = [], rp_go_version = [], rp_os = [], rp_arch = []\<rparr>"

definition output_api_version :: string where
  "output_api_version = ''v1''"

definition target_json :: "target_summary \<Rightarrow> json" where
  "target_json t = JObj ([(''name'', JStr (ts_name t)), (''gateway'', JStr (ts_gateway_name t))] @ opt_string ''user'' (ts_user t))"

definition cluster_json :: "cluster_summary \<Rightarrow> json" where
  "cluster_json c = JObj ((''name'', JStr (cs_name c)) # opt_string ''kubernetesContext'' (cs_context c))"

definition gateway_json :: "gateway_summary \<Rightarrow> json" where
  "gateway_json g = JObj [(''name'', JStr (gs_name g)), (''namespace'', JStr (gs_namespace g)),
     (''service'', JStr (gs_service g)), (''port'', JNum (show_int (gs_port g)))]"

definition opt_list :: "string \<Rightarrow> json list \<Rightarrow> (string \<times> json) list" where
  "opt_list k vs = (if vs = [] then [] else [(k, JArr vs)])"

definition response_members :: "response \<Rightarrow> (string \<times> json) list" where
  "response_members r =
     (''apiVersion'', JStr (rp_api_version r)) #
     opt_string ''status'' (rp_status r) @ opt_string ''server'' (rp_server r) @
     opt_string ''sessionId'' (rp_session_id r) @ opt_int ''localPort'' (rp_local_port r) @
     opt_string ''kubernetesContext'' (rp_context r) @ opt_string ''namespace'' (rp_namespace r) @
     opt_string ''gateway'' (rp_gateway r) @
     (case rp_reconnect r of None \<Rightarrow> [] | Some b \<Rightarrow> [(''reconnect'', JBool b)]) @
     opt_string ''uptime'' (rp_uptime r) @
     opt_list ''targets'' (map target_json (rp_targets r)) @ opt_list ''clusters'' (map cluster_json (rp_clusters r)) @
     opt_list ''gateways'' (map gateway_json (rp_gateways r)) @
     opt_string ''defaultContext'' (rp_default_context r) @ opt_string ''defaultGateway'' (rp_default_gateway r) @
     opt_string ''version'' (rp_version r) @ opt_string ''commit'' (rp_commit r) @
     opt_string ''buildDate'' (rp_build_date r) @ opt_string ''goVersion'' (rp_go_version r) @
     opt_string ''os'' (rp_os r) @ opt_string ''arch'' (rp_arch r)"

definition write_json :: "response \<Rightarrow> string" where
  "write_json r =
     (let r = (if rp_api_version r = [] then r\<lparr>rp_api_version := output_api_version\<rparr> else r)
      in encode_line (JObj (response_members r)))"

text \<open>What \<open>writeResponse\<close> prints; a failing standard output is not modelled.\<close>

definition write_response :: "cli_options \<Rightarrow> response \<Rightarrow> string" where
  "write_response o1 r =
     (if op_output o1 = ''json'' then write_json r
      else if rp_server r \<noteq> [] then rp_status r @ '' '' @ rp_server r @ [CHR 0x0A]
      else if rp_targets r \<noteq> [] then concat (map (\<lambda>t. ts_name t @ [CHR 0x0A]) (rp_targets r))
      else rp_status r @ [CHR 0x0A])"

section \<open>Logging\<close>

datatype attr_value = Attr_String string | Attr_Int int

record logger =
  lg_json :: bool
  lg_level :: int

definition level_info :: int where
  "level_info = 0"

definition parse_level :: "string \<Rightarrow> int result" where
  "parse_level level =
     (if level = [] \<or> level = ''info'' then Inr level_info
      else if level = ''debug'' then Inr (-4)
      else if level = ''warn'' then Inr 4
      else if level = ''error'' then Inr 8
      else Inl (Err ''unsupported log level'' []))"

definition new_logger :: "string \<Rightarrow> string \<Rightarrow> logger result" where
  "new_logger format level =
     (case parse_level level of
        Inl e \<Rightarrow> Inl e
      | Inr l \<Rightarrow>
          if format = [] \<or> format = ''text'' then Inr \<lparr>lg_json = False, lg_level = l\<rparr>
          else if format = ''json'' then Inr \<lparr>lg_json = True, lg_level = l\<rparr>
          else Inl (Err ''unsupported log format'' []))"

definition redacted :: string where
  "redacted = ''[redacted]''"

definition sensitive_fragments :: "string list" where
  "sensitive_fragments = [''password'', ''privatekey'', ''private_key'', ''token'', ''bearer'', ''authorization'',
     ''credential'', ''kubeconfig'', ''secret'']"

definition is_sensitive_key :: "string \<Rightarrow> bool" where
  "is_sensitive_key key = list_ex (\<lambda>fragment. str_contains (to_lower key) fragment) sensitive_fragments"

definition redact_attr :: "string \<times> attr_value \<Rightarrow> string \<times> attr_value" where
  "redact_attr attr = (if is_sensitive_key (fst attr) then (fst attr, Attr_String redacted) else attr)"

text \<open>A record below the level of the logger is dropped; every attribute passes the redaction.\<close>

definition log_attrs :: "logger \<Rightarrow> int \<Rightarrow> string \<Rightarrow> (string \<times> attr_value) list \<Rightarrow> (string \<times> (string \<times> attr_value) list) option" where
  "log_attrs l level message attrs =
     (if level < lg_level l then None else Some (message, map redact_attr attrs))"

definition log_command :: "cli_options \<Rightarrow> string \<Rightarrow> response \<Rightarrow> (string \<times> (string \<times> attr_value) list) option" where
  "log_command o1 command_name r =
     (case new_logger (op_log_format o1) (op_log_level o1) of
        Inl e \<Rightarrow> None
      | Inr logger \<Rightarrow>
          log_attrs logger level_info ''dev-connect command completed''
            ([(''command'', Attr_String command_name), (''status'', Attr_String (rp_status r))] @
             (if rp_server r \<noteq> [] then [(''server'', Attr_String (rp_server r))] else []) @
             (if rp_session_id r \<noteq> [] then [(''sessionId'', Attr_String (rp_session_id r))] else []) @
             (if 0 < rp_local_port r then [(''localPort'', Attr_Int (rp_local_port r))] else []) @
             (if rp_targets r \<noteq> [] then [(''targetCount'', Attr_Int (int (length (rp_targets r))))] else [])))"

section \<open>Facts\<close>

lemma valid_options_log: "validate_options o1 = Inr () \<Longrightarrow> \<exists>l. new_logger (op_log_format o1) (op_log_level o1) = Inr l"
  by (auto simp: validate_options_def new_logger_def parse_level_def split: if_splits)

text \<open>A text with a sensitive fragment in its name never reaches the log.\<close>

lemma log_attrs_redacts:
  assumes "log_attrs l level m attrs = Some (m', out)" and "(k, v) \<in> set out" and "is_sensitive_key k"
  shows "v = Attr_String redacted"
  using assms by (auto simp: log_attrs_def redact_attr_def split: if_splits)

text \<open>The texts of a response are UTF-8.\<close>

definition response_ok :: "response \<Rightarrow> bool" where
  "response_ok r \<longleftrightarrow>
     list_all valid_utf8 [rp_api_version r, rp_status r, rp_server r, rp_session_id r, rp_context r, rp_namespace r,
       rp_gateway r, rp_uptime r, rp_default_context r, rp_default_gateway r, rp_version r, rp_commit r,
       rp_build_date r, rp_go_version r, rp_os r, rp_arch r] \<and>
     list_all (\<lambda>t. valid_utf8 (ts_name t) \<and> valid_utf8 (ts_gateway_name t) \<and> valid_utf8 (ts_user t)) (rp_targets r) \<and>
     list_all (\<lambda>c. valid_utf8 (cs_name c) \<and> valid_utf8 (cs_context c)) (rp_clusters r) \<and>
     list_all (\<lambda>g. valid_utf8 (gs_name g) \<and> valid_utf8 (gs_namespace g) \<and> valid_utf8 (gs_service g)) (rp_gateways r)"

definition with_api_version :: "response \<Rightarrow> response" where
  "with_api_version r = (if rp_api_version r = [] then r\<lparr>rp_api_version := output_api_version\<rparr> else r)"

lemma opt_string_ok: "valid_utf8 k \<Longrightarrow> valid_utf8 s \<Longrightarrow> list_all (\<lambda>(k, v). valid_utf8 k \<and> json_ok v) (opt_string k s)"
  by (simp add: opt_string_def)

lemma opt_int_ok: "valid_utf8 k \<Longrightarrow> list_all (\<lambda>(k, v). valid_utf8 k \<and> json_ok v) (opt_int k i)"
  by (simp add: opt_int_def)

lemma opt_list_ok: "valid_utf8 k \<Longrightarrow> list_all json_ok vs \<Longrightarrow> list_all (\<lambda>(k, v). valid_utf8 k \<and> json_ok v) (opt_list k vs)"
  by (simp add: opt_list_def)

lemma response_keys:
  "list_all valid_utf8 [''apiVersion'', ''status'', ''server'', ''sessionId'', ''localPort'', ''kubernetesContext'',
     ''namespace'', ''gateway'', ''reconnect'', ''uptime'', ''targets'', ''clusters'', ''gateways'', ''defaultContext'',
     ''defaultGateway'', ''version'', ''commit'', ''buildDate'', ''goVersion'', ''os'', ''arch'', ''name'', ''user'', ''service'',
     ''port'', ''v1'']"
  by code_simp

lemma response_json_ok: "response_ok r \<Longrightarrow> json_ok (JObj (response_members r))"
proof -
  assume ok: "response_ok r"
  note keys = response_keys [unfolded list.pred_inject]
  have "list_all json_ok (map target_json (rp_targets r))" "list_all json_ok (map cluster_json (rp_clusters r))"
      "list_all json_ok (map gateway_json (rp_gateways r))"
    using ok keys by (auto simp: response_ok_def list_all_iff target_json_def cluster_json_def gateway_json_def opt_string_def)
  then show ?thesis
    using ok keys unfolding response_members_def
    by (simp add: response_ok_def opt_string_ok opt_int_ok opt_list_ok split: option.split)
qed

text \<open>What a client reads from the members of a JSON response.\<close>

definition json_string :: "(string \<times> json) list \<Rightarrow> string \<Rightarrow> string" where
  "json_string ms k = (case map_of ms k of Some (JStr s) \<Rightarrow> s | _ \<Rightarrow> [])"

definition json_int :: "(string \<times> json) list \<Rightarrow> string \<Rightarrow> int" where
  "json_int ms k = (case map_of ms k of Some (JNum n) \<Rightarrow> read_int n | _ \<Rightarrow> 0)"

definition json_bool :: "(string \<times> json) list \<Rightarrow> string \<Rightarrow> bool option" where
  "json_bool ms k = (case map_of ms k of Some (JBool b) \<Rightarrow> Some b | _ \<Rightarrow> None)"

lemma map_of_opt:
  "map_of (opt_string k v @ ms) q = (if q = k \<and> v \<noteq> [] then Some (JStr v) else map_of ms q)"
  "map_of (opt_int k i @ ms) q = (if q = k \<and> i \<noteq> 0 then Some (JNum (show_int i)) else map_of ms q)"
  "map_of (opt_list k vs @ ms) q = (if q = k \<and> vs \<noteq> [] then Some (JArr vs) else map_of ms q)"
  "map_of ((case b of None \<Rightarrow> [] | Some c \<Rightarrow> [(k, JBool c)]) @ ms) q =
     (case b of None \<Rightarrow> map_of ms q | Some c \<Rightarrow> if q = k then Some (JBool c) else map_of ms q)"
  "map_of (opt_string k v) q = (if q = k \<and> v \<noteq> [] then Some (JStr v) else None)"
  by (auto simp: opt_string_def opt_int_def opt_list_def split: option.split)

lemma response_read:
  "json_string (response_members r) ''apiVersion'' = rp_api_version r"
  "json_string (response_members r) ''status'' = rp_status r"
  "json_string (response_members r) ''server'' = rp_server r"
  "json_string (response_members r) ''sessionId'' = rp_session_id r"
  "json_int (response_members r) ''localPort'' = rp_local_port r"
  "json_string (response_members r) ''gateway'' = rp_gateway r"
  "json_string (response_members r) ''namespace'' = rp_namespace r"
  "json_bool (response_members r) ''reconnect'' = rp_reconnect r"
  unfolding response_members_def json_string_def json_int_def json_bool_def
  by (simp_all add: map_of_opt del: map_of_append split: option.split)

lemma plain_log_keys:
  "\<not> is_sensitive_key ''command''" "\<not> is_sensitive_key ''status''" "\<not> is_sensitive_key ''server''"
  "\<not> is_sensitive_key ''sessionId''" "\<not> is_sensitive_key ''localPort''" "\<not> is_sensitive_key ''targetCount''"
  by code_simp+

lemma log_command_plain:
  assumes "validate_options o1 = Inr ()"
  shows "case log_command o1 name r of
        None \<Rightarrow> op_log_level o1 = ''warn'' \<or> op_log_level o1 = ''error''
      | Some (m, attrs) \<Rightarrow> list_all (\<lambda>a. \<not> is_sensitive_key (fst a)) attrs"
proof -
  obtain l where l: "new_logger (op_log_format o1) (op_log_level o1) = Inr l" using valid_options_log [OF assms] by blast
  have high: "0 < lg_level l \<Longrightarrow> op_log_level o1 = ''warn'' \<or> op_log_level o1 = ''error''"
    using l by (auto simp: new_logger_def parse_level_def level_info_def split: if_splits)
  show ?thesis
    using high by (simp add: log_command_def l log_attrs_def level_info_def redact_attr_def plain_log_keys)
qed

section \<open>Properties\<close>


definition demo_response :: response where
  "demo_response = empty_response\<lparr>rp_status := ''connected'', rp_server := ''dev'', rp_local_port := 55221,
     rp_reconnect := Some True\<rparr>"


end
