(* ===== verification/Vscode_Launch.thy ===== *)
theory Vscode_Launch
  imports Go_OS Json_Codec Kubectl_Resolve Kubectl_Runner
begin

text \<open>
  \<open>internal/vscode/userdata.go\<close>, \<open>discovery.go\<close> and \<open>launcher.go\<close>: the session-scoped user data
  directory of VS Code, the search for its launcher and the launch itself.
\<close>

section \<open>The user data directory\<close>

definition settings_file :: "string \<Rightarrow> string" where
  "settings_file dir = path_join [path_join [dir, ''User''], ''settings.json'']"

definition user_settings :: "string \<Rightarrow> json" where
  "user_settings ssh_config_path = JObj [(''remote.SSH.configFile'', JStr ssh_config_path)]"

text \<open>A map of strings always has a JSON form.\<close>

definition prepare_user_data_dir :: "string \<Rightarrow> string \<Rightarrow> (unit, world) io" where
  "prepare_user_data_dir dir ssh_config_path =
     (if dir = [] then io_fail (Err ''VS Code user data directory is required'' [])
      else if ssh_config_path = [] then io_fail (Err ''SSH config path is required'' [])
      else
        io_bind (io_wrap ''create VS Code user settings directory: %w'' [] (os_mkdir_all (path_join [dir, ''User'']) 448)) (\<lambda>_.
        io_bind (io_wrap ''write VS Code settings: %w'' []
          (os_write_file (settings_file dir) (marshal_indent (user_settings ssh_config_path) @ [newline]) 384)) (\<lambda>_.
        os_chmod (settings_file dir) 384)))"

definition cleanup_user_data_dir :: "string \<Rightarrow> (unit, world) io" where
  "cleanup_user_data_dir dir =
     (if dir = [] then io_return ()
      else io_wrap ''remove VS Code user data directory: %w'' [] (os_remove_all dir))"

section \<open>Finding the launcher\<close>

text \<open>\<open>exec.LookPath\<close> on Unix: the first executable of that name in the directories of \<open>PATH\<close>.\<close>

definition find_executable :: "string \<Rightarrow> (unit, world) io" where
  "find_executable p = io_bind (os_stat p) (\<lambda>info.
     case info of
       Dir m \<Rightarrow> io_fail (Errno EISDIR)
     | File c m \<Rightarrow> if m AND executable_bits \<noteq> 0 then io_return () else io_fail (Err ''permission denied'' []))"

fun look_in :: "string \<Rightarrow> string list \<Rightarrow> (string, world) io" where
  "look_in file [] = io_fail (Err ''executable file not found in $PATH'' [])"
| "look_in file (dir # rest) =
     (let dir = (if dir = [] then ''.'' else dir); p = path_join [dir, file]
      in io_case (find_executable p) (\<lambda>e. look_in file rest)
           (\<lambda>_. if is_abs p then io_return p
                 else io_fail (Err ''cannot run executable found relative to current directory'' [])))"

definition go_look_path :: "string \<Rightarrow> string \<Rightarrow> (string, world) io" where
  "go_look_path path_env file =
     (if CHR ''/'' \<in> set file then io_bind (find_executable file) (\<lambda>_. io_return file)
      else look_in file (split_list path_env))"

definition file_exists :: "string \<Rightarrow> (bool, world) io" where
  "file_exists p = io_case (os_stat p) (\<lambda>e. io_return False)
     (\<lambda>info. io_return (case info of Dir m \<Rightarrow> False | File c m \<Rightarrow> True))"

record launcher_options =
  vo_goos :: string
  vo_local_app_data :: string
  vo_configured_path :: string
  vo_look_path :: "(string \<Rightarrow> (string, world) io) option"
  vo_exists :: "(string \<Rightarrow> (bool, world) io) option"

definition default_launcher_paths :: "string \<Rightarrow> string \<Rightarrow> string list" where
  "default_launcher_paths goos local_app_data =
     (let bs = [backslash]; bin = bs @ ''Microsoft VS Code'' @ bs @ ''bin'' @ bs @ ''code.cmd''
      in if goos = ''windows'' then
           (if local_app_data \<noteq> []
            then [trim_right local_app_data [backslash, CHR ''/''] @ bs @ ''Programs'' @ bin] else []) @
           [''C:'' @ bs @ ''Program Files'' @ bin, ''C:'' @ bs @ ''Program Files (x86)'' @ bin]
         else if goos = ''darwin'' then
           [''/Applications/Visual Studio Code.app/Contents/Resources/app/bin/code'',
            ''/Applications/Visual Studio Code - Insiders.app/Contents/Resources/app/bin/code'']
         else [''/usr/bin/code'', ''/usr/local/bin/code'', ''/snap/bin/code''])"

fun first_existing :: "(string \<Rightarrow> (bool, world) io) \<Rightarrow> string list \<Rightarrow> (string, world) io \<Rightarrow> (string, world) io" where
  "first_existing exists1 [] otherwise1 = otherwise1"
| "first_existing exists1 (p # ps) otherwise1 =
     io_bind (exists1 p) (\<lambda>b. if b then io_return p else first_existing exists1 ps otherwise1)"

definition launcher_not_found :: go_error where
  "launcher_not_found = Err ''VS Code launcher not found'' []"

definition resolve_launcher :: "string \<Rightarrow> string \<Rightarrow> launcher_options \<Rightarrow> (string, world) io" where
  "resolve_launcher runtime_goos path_env o1 =
     (let look_path = (case vo_look_path o1 of None \<Rightarrow> go_look_path path_env | Some f \<Rightarrow> f);
          exists1 = (case vo_exists o1 of None \<Rightarrow> file_exists | Some f \<Rightarrow> f);
          goos = (if vo_goos o1 = [] then runtime_goos else vo_goos o1);
          defaults = first_existing exists1 (default_launcher_paths goos (vo_local_app_data o1))
            (if vo_configured_path o1 = [] then io_fail launcher_not_found
             else io_bind (exists1 (vo_configured_path o1)) (\<lambda>b.
               if b then io_return (vo_configured_path o1) else io_fail launcher_not_found))
      in io_case (look_path ''code'') (\<lambda>e. defaults)
           (\<lambda>p. io_bind (exists1 p) (\<lambda>b. if b then io_return p else defaults)))"

section \<open>Launching\<close>

record launch_options =
  la_target_alias :: string
  la_user_data_dir :: string
  la_env :: "string list"

record executable_launcher =
  el_path :: string
  el_base_env :: "string list option"

definition remote_ssh_args :: "launch_options \<Rightarrow> string list result" where
  "remote_ssh_args o1 =
     (if la_target_alias o1 = [] then Inl (Err ''target alias is required'' [])
      else Inr ((if la_user_data_dir o1 \<noteq> [] then [''--user-data-dir'', la_user_data_dir o1] else []) @
                [''--remote'', ''ssh-remote+'' @ la_target_alias o1]))"

definition launcher_base_env :: "'s child \<Rightarrow> executable_launcher \<Rightarrow> string list" where
  "launcher_base_env ch l = (case el_base_env l of Some env \<Rightarrow> env | None \<Rightarrow> ch_environ ch)"

definition launch_code :: "'s child \<Rightarrow> executable_launcher \<Rightarrow> launch_options \<Rightarrow> (unit, 's machine) io" where
  "launch_code ch l o1 mc =
     (if el_path l = [] then (Inl (Err ''VS Code launcher path is required'' []), mc)
      else case remote_ssh_args o1 of
             Inl e \<Rightarrow> (Inl e, mc)
           | Inr args \<Rightarrow>
               let env = launcher_base_env ch l @ la_env o1
               in case ch_run ch (el_path l) args env (mc_state mc) of
                    ((out, err, r), s) \<Rightarrow>
                      ((case r of
                          None \<Rightarrow> Inr ()
                        | Some (Process_Exit c e) \<Rightarrow> Inl (Exit_Error c err)
                        | Some (Exec_Failed e) \<Rightarrow> Inl (Wrap ''launch VS Code: %w'' [] e)),
                       \<lparr>mc_started = mc_started mc @ [(el_path l, args, env)], mc_state = s\<rparr>))"

section \<open>Reading only\<close>

lemma nodes_find_executable: "leaves w_nodes (find_executable p)"
  unfolding find_executable_def
  by (auto simp: leaves_def io_bind_def os_stat_def split: prod.splits sum.splits node.splits if_splits)

lemma calm_find_executable: "leaves calm (find_executable p)"
  unfolding find_executable_def
  by (auto simp: leaves_def io_bind_def os_stat_def split: prod.splits sum.splits node.splits if_splits)

lemma look_in_leaves: "leaves w_nodes (look_in file dirs)" "leaves calm (look_in file dirs)"
  by (induction dirs)
    (auto simp: Let_def intro!: leaves_case leaves_if nodes_find_executable calm_find_executable)

lemma go_look_path_leaves: "leaves w_nodes (go_look_path path_env file)" "leaves calm (go_look_path path_env file)"
  unfolding go_look_path_def
  by (intro leaves_if leaves_bind nodes_find_executable calm_find_executable look_in_leaves leaves_return)+

lemma file_exists_calm: "calm w \<Longrightarrow> file_exists p w = (Inr (file_at w p \<noteq> None), bump w)"
  by (auto simp: file_exists_def io_case_def os_stat_def file_at_def split: option.splits node.splits)

lemma file_at_nodes: "w_nodes w' = w_nodes w \<Longrightarrow> file_at w' p = file_at w p"
  by (simp add: file_at_def lookup_node_def)

lemma first_existing_calm:
  assumes "calm w" and "\<And>w'. calm w' \<Longrightarrow> w_nodes w' = w_nodes w \<Longrightarrow> fst (k w') = r"
  shows "fst (first_existing file_exists ps k w) =
     (case find (\<lambda>p. file_at w p \<noteq> None) ps of Some p \<Rightarrow> Inr p | None \<Rightarrow> r)"
  using assms
proof (induction ps arbitrary: w)
  case (Cons p ps)
  have "fst (first_existing file_exists ps k (bump w)) =
      (case find (\<lambda>p. file_at w p \<noteq> None) ps of Some p \<Rightarrow> Inr p | None \<Rightarrow> r)"
    using Cons.IH [of "bump w"] Cons.prems by simp
  then show ?case using file_exists_calm [OF Cons.prems(1)] by (simp add: io_bind_def)
qed simp

section \<open>Files below a directory\<close>

lemma path_stack_clean [simp]: "path_stack (path_clean q) = path_stack q"
  unfolding path_clean_def by (rule path_stack_render [OF path_stack_good])

lemma is_abs_clean [simp]: "is_abs (path_clean q) = is_abs q"
  unfolding path_clean_def by (rule is_abs_render [OF path_stack_good])

lemma path_under_clean: "path_under p (path_clean q) = path_under p q"
  by (simp add: path_under_def)

lemma plain_settings_names [simp]: "plain_name ''User''" "plain_name ''settings.json''"
  by (simp_all add: plain_name_def)

lemma settings_file_under: "path_under dir (path_clean (settings_file dir))"
  by (simp add: settings_file_def path_under_def path_stack_join is_abs_join)

lemma user_settings_ok: "valid_utf8 c \<Longrightarrow> json_ok (user_settings c)"
proof -
  have "valid_utf8 ''remote.SSH.configFile''" by code_simp
  then show "valid_utf8 c \<Longrightarrow> json_ok (user_settings c)" by (simp add: user_settings_def)
qed

lemma removed_below:
  assumes "os_remove_all p w = (Inr (), w')" and "path_under p q" and "p \<noteq> []"
  shows "file_at w' (path_clean q) = None"
  using assms by (auto simp: os_remove_all_def file_at_def lookup_node_def path_under_clean
      split: if_splits option.splits node.splits)

lemma removed_outside:
  assumes "os_remove_all p w = (Inr (), w')" and "\<not> path_under p q"
  shows "file_at w' (path_clean q) = file_at w (path_clean q)"
  using assms by (auto simp: os_remove_all_def file_at_def lookup_node_def path_under_clean
      split: if_splits option.splits node.splits)

section \<open>Properties\<close>

text \<open>
  On a machine without failures the launcher is the first existing file among the \<open>code\<close> found
  in \<open>PATH\<close>, the default places of the system and the configured path, in this order, and
  where none of them exists the search says so.
\<close>

lemma resolve_launcher_search:
  assumes "calm w" and "vo_look_path o1 = None" and "vo_exists o1 = None"
  shows "fst (resolve_launcher runtime_goos path_env o1 w) =
     (case find (\<lambda>p. file_at w p \<noteq> None)
        ((case fst (go_look_path path_env ''code'' w) of Inr p \<Rightarrow> [p] | Inl e \<Rightarrow> []) @
         default_launcher_paths (if vo_goos o1 = [] then runtime_goos else vo_goos o1) (vo_local_app_data o1) @
         (if vo_configured_path o1 = [] then [] else [vo_configured_path o1])) of
        Some p \<Rightarrow> Inr p | None \<Rightarrow> Inl launcher_not_found)"
proof -
  define ps where "ps = default_launcher_paths (if vo_goos o1 = [] then runtime_goos else vo_goos o1) (vo_local_app_data o1)"
  define k where "k = (if vo_configured_path o1 = [] then io_fail launcher_not_found
     else io_bind (file_exists (vo_configured_path o1)) (\<lambda>b.
       if b then io_return (vo_configured_path o1) else io_fail launcher_not_found))"
  define configured where "configured = (if vo_configured_path o1 = [] then [] else [vo_configured_path o1])"
  let ?found = "\<lambda>p. file_at w p \<noteq> None"
  have last: "fst (k w') = (case find ?found configured of Some p \<Rightarrow> Inr p | None \<Rightarrow> Inl launcher_not_found)"
    if "calm w'" "w_nodes w' = w_nodes w" for w'
    using file_exists_calm [OF that(1)] file_at_nodes [OF that(2)] by (simp add: k_def configured_def io_bind_def)
  have defaults: "fst (first_existing file_exists ps k w') =
      (case find ?found (ps @ configured) of Some p \<Rightarrow> Inr p | None \<Rightarrow> Inl launcher_not_found)"
    if c: "calm w'" "w_nodes w' = w_nodes w" for w'
  proof -
    have "fst (first_existing file_exists ps k w') =
        (case find (\<lambda>p. file_at w' p \<noteq> None) ps of Some p \<Rightarrow> Inr p
         | None \<Rightarrow> (case find ?found configured of Some p \<Rightarrow> Inr p | None \<Rightarrow> Inl launcher_not_found))"
      using c(2) by (intro first_existing_calm [OF c(1)] last) simp_all
    then show ?thesis using file_at_nodes [OF c(2)] by (simp add: find_append split: option.split)
  qed
  obtain r w1 where look: "go_look_path path_env ''code'' w = (r, w1)" by fastforce
  have w1: "calm w1" "w_nodes w1 = w_nodes w"
    using leaves_result [OF go_look_path_leaves(2) look] leaves_result [OF go_look_path_leaves(1) look] assms(1) by simp_all
  have run: "resolve_launcher runtime_goos path_env o1 =
      io_case (go_look_path path_env ''code'') (\<lambda>e. first_existing file_exists ps k)
        (\<lambda>p. io_bind (file_exists p) (\<lambda>b. if b then io_return p else first_existing file_exists ps k))"
    unfolding resolve_launcher_def Let_def assms(2,3) option.case ps_def k_def ..
  show ?thesis
  proof (cases r)
    case (Inl e)
    then show ?thesis using look defaults [OF w1] unfolding run by (simp add: io_case_def ps_def configured_def)
  next
    case (Inr p)
    have "file_exists p w1 = (Inr (file_at w p \<noteq> None), bump w1)"
      using file_exists_calm [OF w1(1)] file_at_nodes [OF w1(2)] by simp
    then show ?thesis using look Inr defaults [of "bump w1"] w1 unfolding run
      by (simp add: io_case_def io_bind_def ps_def configured_def)
  qed
qed

definition demo_launcher :: launcher_options where
  "demo_launcher = \<lparr>vo_goos = [], vo_local_app_data = [], vo_configured_path = ''/opt/code'', vo_look_path = None, vo_exists = None\<rparr>"

definition demo_code_world :: world where
  "demo_code_world = \<lparr>w_nodes = [''/bin/code'' \<mapsto> File [] 420, ''/usr/local/bin/code'' \<mapsto> File [] 493, ''/opt/code'' \<mapsto> File [] 493],
     w_umask = 18, w_fault = (\<lambda>t op p. False), w_short = (\<lambda>t. 0), w_clock = 0, w_procs = []\<rparr>"

theorem resolve_launcher_search_witness:
  "fst (resolve_launcher ''linux'' ''/bin'' demo_launcher demo_code_world) = Inr ''/usr/local/bin/code''"
proof -
  have "calm demo_code_world" by (simp add: calm_def demo_code_world_def)
  moreover have "vo_look_path demo_launcher = None" "vo_exists demo_launcher = None" by (simp_all add: demo_launcher_def)
  moreover have "(case find (\<lambda>p. file_at demo_code_world p \<noteq> None)
        ((case fst (go_look_path ''/bin'' ''code'' demo_code_world) of Inr p \<Rightarrow> [p] | Inl e \<Rightarrow> []) @
         default_launcher_paths (if vo_goos demo_launcher = [] then ''linux'' else vo_goos demo_launcher) (vo_local_app_data demo_launcher) @
         (if vo_configured_path demo_launcher = [] then [] else [vo_configured_path demo_launcher])) of
        Some p \<Rightarrow> Inr p | None \<Rightarrow> Inl launcher_not_found) = Inr ''/usr/local/bin/code''"
    by code_simp
  ultimately show ?thesis using resolve_launcher_search by metis
qed

lemma prepared_settings:
  assumes "prepare_user_data_dir dir c w = (Inr (), w1)"
  shows "file_at w1 (settings_file dir) = Some (marshal_indent (user_settings c) @ [newline]) \<and>
     mode_at w1 (settings_file dir) = Some 384 \<and> dir \<noteq> []"
proof -
  let ?f = "settings_file dir" and ?data = "marshal_indent (user_settings c) @ [newline]"
  obtain w0 w3 where wr: "os_write_file ?f ?data 384 w0 = (Inr (), w3)" and ch: "os_chmod ?f 384 w3 = (Inr (), w1)" and dir: "dir \<noteq> []"
    using assms by (auto simp: prepare_user_data_dir_def io_bind_eq_Inr split: if_splits)
  have "file_at w3 ?f = Some ?data" using write_file_ok [OF wr] by simp
  then show ?thesis using chmod_ok [OF ch] dir by auto
qed

text \<open>
  The user settings VS Code is started with name exactly the SSH configuration of the session
  and are readable by the user only; cleaning up leaves nothing at or below the directory, and
  preparing and cleaning up change no file elsewhere.
\<close>

lemma user_data_lifecycle:
  assumes "prepare_user_data_dir dir c w = (Inr (), w1)" and "cleanup_user_data_dir dir w1 = (Inr (), w2)"
    and "valid_utf8 c"
  shows "(\<exists>data. file_at w1 (settings_file dir) = Some data \<and> json_parse data = Some (user_settings c)) \<and>
     mode_at w1 (settings_file dir) = Some 384 \<and>
     (\<forall>q. path_under dir q \<longrightarrow> file_at w2 (path_clean q) = None) \<and>
     (\<forall>q. \<not> path_under dir q \<longrightarrow> file_at w2 (path_clean q) = file_at w (path_clean q))"
proof -
  let ?f = "settings_file dir" and ?data = "marshal_indent (user_settings c) @ [newline]"
  note f = prepared_settings [OF assms(1)]
  then have dir: "dir \<noteq> []" by simp
  obtain w0 w3 where mk: "os_mkdir_all (path_join [dir, ''User'']) 448 w = (Inr (), w0)"
    and wr: "os_write_file ?f ?data 384 w0 = (Inr (), w3)" and ch: "os_chmod ?f 384 w3 = (Inr (), w1)"
    using assms(1) by (auto simp: prepare_user_data_dir_def io_bind_eq_Inr split: if_splits)
  have rm: "os_remove_all dir w1 = (Inr (), w2)" using assms(2) dir by (auto simp: cleanup_user_data_dir_def)
  have "json_parse ?data = Some (user_settings c)"
    using assms(3) user_settings_ok by (intro parse_render_line)
  moreover have "file_at w2 (path_clean q) = None" if "path_under dir q" for q
    using removed_below [OF rm that dir] .
  moreover have "file_at w2 (path_clean q) = file_at w (path_clean q)" if out: "\<not> path_under dir q" for q
  proof -
    have "file_at w2 (path_clean q) = file_at w1 (path_clean q)" by (rule removed_outside [OF rm out])
    also have "\<dots> = file_at w3 (path_clean q)" using chmod_file_at [of ?f 384 w3] ch by simp
    also have "\<dots> = file_at w0 (path_clean q)"
    proof -
      have "path_clean ?f \<noteq> path_clean (path_clean q)" using settings_file_under [of dir] out path_under_clean by metis
      then have "leaves (\<lambda>w. file_at w (path_clean q)) (os_write_file ?f ?data 384)" by (intro frame)
      from leaves_result [OF this wr] show ?thesis .
    qed
    also have "\<dots> = file_at w (path_clean q)" using mkdir_all_file_at [of _ _ w] mk by (metis snd_conv)
    finally show ?thesis .
  qed
  ultimately show ?thesis using f by blast
qed

definition demo_data_world :: world where
  "demo_data_world = \<lparr>w_nodes = [''/s'' \<mapsto> Dir 448, ''/s/session.json'' \<mapsto> File ''{}'' 384], w_umask = 18,
     w_fault = (\<lambda>t op p. False), w_short = (\<lambda>t. 0), w_clock = 0, w_procs = []\<rparr>"

theorem user_data_lifecycle_witness:
  "\<exists>w1 w2. prepare_user_data_dir ''/s/vscode-user-data'' ''/s/ssh/ssh_config'' demo_data_world = (Inr (), w1) \<and>
     cleanup_user_data_dir ''/s/vscode-user-data'' w1 = (Inr (), w2) \<and>
     mode_at w1 (settings_file ''/s/vscode-user-data'') = Some 384 \<and> file_at w2 (path_clean ''/s/session.json'') = Some ''{}''"
proof -
  have "fst (prepare_user_data_dir ''/s/vscode-user-data'' ''/s/ssh/ssh_config'' demo_data_world) = Inr ()" by code_simp
  then obtain w1 where p: "prepare_user_data_dir ''/s/vscode-user-data'' ''/s/ssh/ssh_config'' demo_data_world = (Inr (), w1)"
    by (metis prod.collapse)
  have "fst (cleanup_user_data_dir ''/s/vscode-user-data'' (snd (prepare_user_data_dir ''/s/vscode-user-data''
      ''/s/ssh/ssh_config'' demo_data_world))) = Inr ()" by code_simp
  then obtain w2 where c: "cleanup_user_data_dir ''/s/vscode-user-data'' w1 = (Inr (), w2)"
    using p by (metis prod.collapse snd_conv)
  have "valid_utf8 ''/s/ssh/ssh_config''" by code_simp
  note life = user_data_lifecycle [OF p c this]
  have "\<not> path_under ''/s/vscode-user-data'' ''/s/session.json''"
      "file_at demo_data_world (path_clean ''/s/session.json'') = Some ''{}''" by code_simp+
  with life p c show ?thesis by auto
qed

end
