(* ===== verification/Shell_Script.thy ===== *)
theory Shell_Script
  imports Go_Strings
begin

text \<open>
  How a POSIX shell reads the parts of a script that the program generates: words with single
  quotes and backslashes, \<open>export\<close> lines, and here-documents with a quoted delimiter, whose
  body is taken as it is. A construct outside this fragment is not read (\<open>None\<close>).
\<close>

abbreviation squote :: char where
  "squote \<equiv> CHR 0x27"

abbreviation line_feed :: char where
  "line_feed \<equiv> CHR 0x0A"

section \<open>Words\<close>

text \<open>The word at the head of the text, unquoted, and what follows it.\<close>

definition sh_active :: string where
  "sh_active = [CHR 0x22, CHR 0x60, CHR ''$'', CHR '';'', CHR 0x26, CHR ''|'', CHR ''<'', CHR ''>'', CHR ''('', CHR '')'']"

function sh_word :: "string \<Rightarrow> (string \<times> string) option" where
  "sh_word s =
     (case s of
        [] \<Rightarrow> Some ([], [])
      | c # s1 \<Rightarrow>
          if c = line_feed \<or> c = CHR '' '' \<or> c = CHR 0x09 then Some ([], c # s1)
          else if c = squote then
            (case str_cut squote s1 of
               None \<Rightarrow> None
             | Some (q, rest) \<Rightarrow> map_option (\<lambda>(w, r). (q @ w, r)) (sh_word rest))
          else if c = CHR 0x5C then
            (case s1 of [] \<Rightarrow> None | d # s2 \<Rightarrow> map_option (\<lambda>(w, r). (d # w, r)) (sh_word s2))
          else if List.member sh_active c then None
          else map_option (\<lambda>(w, r). (c # w, r)) (sh_word s1))"
  by pat_completeness auto
termination
  by (relation "measure length") (auto simp: str_cut_Some)

declare sh_word.simps [simp del]

section \<open>Export lines\<close>

definition export_keyword :: string where
  "export_keyword = ''export ''"

text \<open>
  One line of a sourced file: a comment, or \<open>export NAME=word\<close>, or \<open>export NAME="$OTHER"\<close>.
\<close>

definition sh_export :: "string \<Rightarrow> (string \<Rightarrow> string option) \<Rightarrow> (string \<Rightarrow> string option) option" where
  "sh_export line env =
     (if prefix ''#'' line then Some env
      else if \<not> prefix export_keyword line then None
      else case str_cut (CHR ''='') (drop (length export_keyword) line) of
             None \<Rightarrow> None
           | Some (name, rhs) \<Rightarrow>
               if prefix [CHR 0x22, CHR ''$''] rhs \<and> last rhs = CHR 0x22
               then Some (env(name := Some (case env (butlast (drop 2 rhs)) of None \<Rightarrow> [] | Some v \<Rightarrow> v)))
               else case sh_word rhs of
                      Some (v, []) \<Rightarrow> Some (env(name := Some v))
                    | _ \<Rightarrow> None)"

fun sh_source :: "string list \<Rightarrow> (string \<Rightarrow> string option) \<Rightarrow> (string \<Rightarrow> string option) option" where
  "sh_source [] env = Some env"
| "sh_source (line # rest) env = (case sh_export line env of None \<Rightarrow> None | Some env' \<Rightarrow> sh_source rest env')"

lemma sh_source_append:
  "sh_source (a @ b) env = (case sh_source a env of None \<Rightarrow> None | Some env' \<Rightarrow> sh_source b env')"
  by (induction a arbitrary: env) (auto split: option.split)

section \<open>Here-documents\<close>

text \<open>The delimiter of a line with \<open><<'DELIM'\<close>.\<close>

definition here_delim :: "string \<Rightarrow> string option" where
  "here_delim line =
     (case str_index line (''<<'' @ [squote]) of
        None \<Rightarrow> None
      | Some i \<Rightarrow> Some (takeWhile (\<lambda>c. c \<noteq> squote) (drop (i + 3) line)))"

text \<open>The command lines of a script, and the here-documents with the line that reads each.\<close>

function sh_lines :: "string list \<Rightarrow> string list \<times> (string \<times> string list) list" where
  "sh_lines lines =
     (case lines of
        [] \<Rightarrow> ([], [])
      | line # rest \<Rightarrow>
          (case here_delim line of
             None \<Rightarrow> (case sh_lines rest of (cs, ds) \<Rightarrow> (line # cs, ds))
           | Some d \<Rightarrow>
               (case sh_lines (drop 1 (dropWhile (\<lambda>l. l \<noteq> d) rest)) of
                  (cs, ds) \<Rightarrow> (line # cs, (line, takeWhile (\<lambda>l. l \<noteq> d) rest) # ds))))"
  by pat_completeness auto
termination
  by (relation "measure length")
    (auto intro!: le_imp_less_Suc diff_le_self [THEN order_trans] length_dropWhile_le)

declare sh_lines.simps [simp del]

lemma sh_lines_Nil [simp]: "sh_lines [] = ([], [])"
  by (subst sh_lines.simps) simp

lemma sh_lines_plain:
  assumes "list_all (\<lambda>l. here_delim l = None) ls"
  shows "sh_lines (ls @ rest) = (ls @ fst (sh_lines rest), snd (sh_lines rest))"
  using assms
proof (induction ls)
  case (Cons l ls)
  then show ?case by (subst sh_lines.simps) (simp split: prod.split)
qed simp

lemma sh_lines_doc:
  assumes "here_delim line = Some d" and "d \<notin> set body"
  shows "sh_lines (line # body @ d # rest) = (line # fst (sh_lines rest), (line, body) # snd (sh_lines rest))"
proof -
  have ne: "\<forall>l \<in> set body. l \<noteq> d" using assms(2) by blast
  then have "takeWhile (\<lambda>l. l \<noteq> d) (body @ d # rest) = body" "dropWhile (\<lambda>l. l \<noteq> d) (body @ d # rest) = d # rest"
    by (simp_all add: takeWhile_append2 dropWhile_append2)
  then show ?thesis using assms(1) by (subst sh_lines.simps) (simp split: prod.split)
qed

lemma str_split_join_parts:
  "xs \<noteq> [] \<Longrightarrow> str_split c (str_join [c] xs) = concat (map (str_split c) xs)"
proof (induction xs rule: induct_list012)
  case (3 x y ys)
  have "str_split c (x @ c # str_join [c] (y # ys)) = str_split c x @ str_split c (str_join [c] (y # ys))"
    by (rule str_split_append)
  with 3 show ?case by simp
qed simp_all

section \<open>Quoting\<close>

text \<open>What a single-quoted string with \<open>'\''\<close> for each quote is read as.\<close>

definition squote_escape :: string where
  "squote_escape = [squote, CHR 0x5C, squote, squote]"

lemma sh_word_quoted:
  "sh_word (squote # replace_char squote squote_escape v @ squote # rest) =
     map_option (\<lambda>(w, r). (v @ w, r)) (sh_word rest)"
proof (induction "length v" arbitrary: v rule: less_induct)
  case less
  show ?case
  proof (cases "str_cut squote v")
    case None
    then have no: "squote \<notin> set v" by (simp add: str_cut_None)
    then have "replace_char squote squote_escape v = v"
      by (induction v) (auto simp: replace_char_Cons)
    moreover have "str_cut squote (v @ squote # rest) = Some (v, rest)" using no by (simp add: str_cut_Some)
    ultimately show ?thesis by (subst sh_word.simps) simp
  next
    case (Some ab)
    obtain a b where ab: "ab = (a, b)" by (cases ab)
    then have v: "v = a @ squote # b" and no: "squote \<notin> set a" using Some by (simp_all add: str_cut_Some)
    have a: "replace_char squote squote_escape a = a" using no by (induction a) (auto simp: replace_char_Cons)
    let ?t = "squote # replace_char squote squote_escape b @ squote # rest"
    have whole: "replace_char squote squote_escape v @ squote # rest = a @ squote # CHR 0x5C # squote # ?t"
      using a by (simp add: v replace_char_Cons squote_escape_def)
    have cut: "str_cut squote (a @ squote # CHR 0x5C # squote # ?t) = Some (a, CHR 0x5C # squote # ?t)"
      using no by (simp add: str_cut_Some)
    have "sh_word ?t = map_option (\<lambda>(w, r). (b @ w, r)) (sh_word rest)" by (rule less) (simp add: v)
    then have "sh_word (CHR 0x5C # squote # ?t) = map_option (\<lambda>(w, r). (squote # b @ w, r)) (sh_word rest)"
      by (subst sh_word.simps) (cases "sh_word rest"; auto)
    then show ?thesis
      unfolding whole using cut by (subst sh_word.simps) (cases "sh_word rest"; auto simp: v)
  qed
qed

lemma sh_word_Nil [simp]: "sh_word [] = Some ([], [])"
  by (subst sh_word.simps) simp

end
