(* ===== verification/Vscode_Remote.thy ===== *)
theory Vscode_Remote
  imports Shell_Script Json_Codec Kubectl_Runner
begin

text \<open>
  \<open>internal/vscode/remote_setup.go\<close>: the script that prepares the proxy settings of VS Code Server
  on the target, and the \<open>ssh\<close> process that runs it. What \<open>ssh\<close> does with its standard input
  is a parameter; \<open>Shell_Script\<close> says how the remote shell reads the script.
\<close>

section \<open>Options\<close>

record remote_setup_options =
  rso_target_alias :: string
  rso_ssh_config_path :: string
  rso_ssh_path :: string
  rso_http_proxy :: string
  rso_https_proxy :: string
  rso_no_proxy :: string
  rso_proxy_support :: string
  rso_batch_mode :: "bool option"

definition remote_batch_mode :: "bool option \<Rightarrow> bool" where
  "remote_batch_mode value1 = (case value1 of None \<Rightarrow> True | Some b \<Rightarrow> b)"

definition primary_proxy :: "remote_setup_options \<Rightarrow> string" where
  "primary_proxy o1 = (if rso_https_proxy o1 \<noteq> [] then rso_https_proxy o1 else rso_http_proxy o1)"

definition split_no_proxy :: "string \<Rightarrow> string list" where
  "split_no_proxy value1 =
     (if value1 = [] then []
      else filter (\<lambda>p. p \<noteq> []) (map trim_space (str_split (CHR '','') value1)))"

definition shell_quote :: "string \<Rightarrow> string" where
  "shell_quote value1 = squote # replace_char squote [squote, CHR 0x5C, squote, squote] value1 @ [squote]"

section \<open>The script\<close>

text \<open>\<open>encoding/json\<close> writes the keys of a map in sorted order.\<close>

definition remote_settings :: "remote_setup_options \<Rightarrow> (string \<times> json) list" where
  "remote_settings o1 =
     (let proxy_support = (if rso_proxy_support o1 = [] then ''override'' else rso_proxy_support o1)
      in (if split_no_proxy (rso_no_proxy o1) \<noteq> []
          then [(''http.noProxy'', JArr (map JStr (split_no_proxy (rso_no_proxy o1))))] else []) @
         (if primary_proxy o1 \<noteq> [] then [(''http.proxy'', JStr (primary_proxy o1))] else []) @
         [(''http.proxySupport'', JStr proxy_support)])"

definition server_env :: "remote_setup_options \<Rightarrow> string list" where
  "server_env o1 =
     [''# BEGIN dev-connect remote proxy''] @
     (if rso_https_proxy o1 \<noteq> []
      then [''export HTTPS_PROXY='' @ shell_quote (rso_https_proxy o1), ''export https_proxy='' @ shell_quote (rso_https_proxy o1)]
      else []) @
     (if rso_http_proxy o1 \<noteq> []
      then [''export HTTP_PROXY='' @ shell_quote (rso_http_proxy o1), ''export http_proxy='' @ shell_quote (rso_http_proxy o1)]
      else []) @
     (if rso_no_proxy o1 \<noteq> []
      then [''export NO_PROXY='' @ shell_quote (rso_no_proxy o1), ''export no_proxy=\"$NO_PROXY\"'']
      else []) @
     [''# END dev-connect remote proxy'']"

definition env_delim :: string where
  "env_delim = ''DEV_CONNECT_SERVER_ENV''"

definition settings_delim :: string where
  "settings_delim = ''DEV_CONNECT_SETTINGS''"

definition script_start :: "string list" where
  "script_start =
     [''set -eu'',
      ''mkdir -p \"$HOME/.vscode-server\" \"$HOME/.vscode-server/data/Machine\"'',
      []]"

definition env_command :: string where
  "env_command = ''cat > \"$HOME/.vscode-server/server-env-setup\" <<'' @ [squote] @ env_delim @ [squote]"

definition script_middle :: "string list" where
  "script_middle = [''chmod 600 \"$HOME/.vscode-server/server-env-setup\"'', []]"

definition settings_command :: string where
  "settings_command =
     ''cat > \"$HOME/.vscode-server/data/Machine/dev-connect-settings.json\" <<'' @ [squote] @ settings_delim @ [squote]"

definition script_end :: "string list" where
  "script_end =
     [[],
      ''settings=\"$HOME/.vscode-server/data/Machine/settings.json\"'',
      ''desired=\"$HOME/.vscode-server/data/Machine/dev-connect-settings.json\"'',
      ''if command -v python3 >/dev/null 2>&1; then'',
      ''  python3 - \"$settings\" \"$desired\" <<'' @ [squote] @ ''PY'' @ [squote],
      ''import json'',
      ''import sys'',
      ''from pathlib import Path'',
      [],
      ''settings_path = Path(sys.argv[1])'',
      ''desired_path = Path(sys.argv[2])'',
      ''try:'',
      ''    current = json.loads(settings_path.read_text()) if settings_path.exists() else {}'',
      ''    if not isinstance(current, dict):'',
      ''        current = {}'',
      ''except Exception:'',
      ''    current = {}'',
      ''desired = json.loads(desired_path.read_text())'',
      ''current.update(desired)'',
      ''settings_path.write_text(json.dumps(current, indent=2) + \"'' @ [CHR 0x5C] @ ''n\")'',
      ''PY'',
      ''else'',
      ''  cp \"$desired\" \"$settings\"'',
      ''fi'',
      ''chmod 600 \"$settings\"'',
      ''rm -f \"$desired\"'',
      []]"

definition render_remote_setup_script :: "remote_setup_options \<Rightarrow> string" where
  "render_remote_setup_script o1 =
     str_join [line_feed]
       (script_start @ [env_command] @ server_env o1 @ [env_delim] @ script_middle @ [settings_command] @
        [marshal_indent (JObj (remote_settings o1))] @ [settings_delim] @ script_end)"

section \<open>Running it\<close>

definition remote_setup_ssh_args :: "remote_setup_options \<Rightarrow> string list" where
  "remote_setup_ssh_args o1 =
     (let args = [];
          args = (if rso_ssh_config_path o1 \<noteq> [] then args @ [''-F'', rso_ssh_config_path o1] else args);
          args = (if remote_batch_mode (rso_batch_mode o1) then args @ [''-o'', ''BatchMode=yes''] else args)
      in args @ [rso_target_alias o1, ''bash -s''])"

text \<open>\<open>cmd.Run\<close> of \<open>ssh\<close> with its arguments and standard input: its standard error and result.\<close>

type_synonym 's remote_child = "string \<Rightarrow> string list \<Rightarrow> string \<Rightarrow> 's \<Rightarrow> (string \<times> exec_error option) \<times> 's"

definition configure_remote :: "'s remote_child \<Rightarrow> remote_setup_options \<Rightarrow> (unit, 's) io" where
  "configure_remote run o1 s =
     (if rso_target_alias o1 = [] then (Inl (Err ''target alias is required'' []), s)
      else if rso_http_proxy o1 = [] \<and> rso_https_proxy o1 = []
      then (Inl (Err ''remote VS Code setup requires httpProxy or httpsProxy'' []), s)
      else
        let ssh_path = (if rso_ssh_path o1 = [] then ''ssh'' else rso_ssh_path o1)
        in case run ssh_path (remote_setup_ssh_args o1) (render_remote_setup_script o1) s of
             ((err, None), s) \<Rightarrow> (Inr (), s)
           | ((err, Some e), s) \<Rightarrow>
               (Inl (Wrap ''configure remote VS Code server: %w: %s'' [trim_space err] (exec_cause e)), s))"

section \<open>Lines of a JSON text\<close>

text \<open>\<open>indented s\<close>: every line break is followed by a space or a closing bracket.\<close>

fun indented :: "string \<Rightarrow> bool" where
  "indented [] = True"
| "indented (c # s) = ((c = line_feed \<longrightarrow> s \<noteq> [] \<and> hd s \<in> {CHR '' '', CHR ''}'', CHR '']''}) \<and> indented s)"

lemma indented_append: "indented a \<Longrightarrow> indented b \<Longrightarrow> indented (a @ b)"
  by (induction a) auto

lemma indented_plain: "line_feed \<notin> set a \<Longrightarrow> indented a"
  by (induction a) auto

lemma indented_lines:
  "indented s \<Longrightarrow> \<forall>l \<in> set (tl (str_split line_feed s)). l \<noteq> [] \<and> hd l \<in> {CHR '' '', CHR ''}'', CHR '']''}"
proof (induction s)
  case (Cons c s)
  obtain y ys where sp: "str_split line_feed s = y # ys" by (cases "str_split line_feed s") auto
  have "s \<noteq> [] \<Longrightarrow> hd s \<noteq> line_feed \<Longrightarrow> y \<noteq> [] \<and> hd y = hd s"
    using sp by (cases s) (auto split: list.splits)
  with Cons sp show ?case by auto
qed simp

lemma utf8_bytes_high:
  assumes "s \<noteq> []" and "\<not> code (hd s) < 128" and "c \<in> set (take (utf8_len s) s)"
  shows "128 \<le> code c"
proof -
  obtain a s1 where s: "s = a # s1" and a: "\<not> code a < 128" using assms by (cases s) auto
  show ?thesis
  proof (cases s1)
    case Nil
    then show ?thesis using assms(3) a by (simp add: utf8_len_def s)
  next
    case b: (Cons b s2)
    show ?thesis
    proof (cases "between 194 223 a")
      case True
      then have "utf8_len s = (if between 128 191 b then 2 else 0)" using a by (simp add: utf8_len_def s b)
      then show ?thesis using assms(3) a by (auto simp: s b between_def split: if_splits)
    next
      case no2: False
      show ?thesis
      proof (cases s2)
        case Nil
        then show ?thesis using assms(3) a no2 by (simp add: utf8_len_def s b)
      next
        case d: (Cons d s3)
        show ?thesis
        proof (cases "between 224 239 a")
          case True
          then have "utf8_len s = (if between (if code a = 224 then 160 else 128) (if code a = 237 then 159 else 191) b
              \<and> between 128 191 d then 3 else 0)" using a no2 by (simp add: utf8_len_def s b d)
          then show ?thesis using assms(3) a by (auto simp: s b d between_def split: if_splits)
        next
          case no3: False
          show ?thesis
          proof (cases s3)
            case Nil
            then show ?thesis using assms(3) a no2 no3 by (simp add: utf8_len_def s b d)
          next
            case e: (Cons e s4)
            have "utf8_len s = (if between 240 244 a
                \<and> between (if code a = 240 then 144 else 128) (if code a = 244 then 143 else 191) b
                \<and> between 128 191 d \<and> between 128 191 e then 4 else 0)"
              using a no2 no3 by (simp add: utf8_len_def s b d e)
            then show ?thesis using assms(3) a by (auto simp: s b d e between_def split: if_splits)
          qed
        qed
      qed
    qed
  qed
qed

lemma escape_single_line: "line_feed \<notin> set (escape s)"
proof (induction s rule: escape.induct)
  case (1 s)
  have hex: "hex_digit n \<noteq> line_feed" if "0 \<le> n" "n < 16" for n
  proof -
    have "nat n < 16" using that by simp
    then have "hex_digit n \<in> set ''0123456789abcdef''" unfolding hex_digit_def by (intro nth_mem) simp
    then show ?thesis by auto
  qed
  have asc: "line_feed \<notin> set (escape_ascii c)" for c
  proof -
    have "0 \<le> code c div 16 \<and> code c div 16 < 16 \<and> 0 \<le> code c mod 16 \<and> code c mod 16 < 16"
      using code_range [of c] by auto
    then show ?thesis using hex [of "code c div 16"] hex [of "code c mod 16"] by (auto simp: escape_ascii_def)
  qed
  have low: "code line_feed = 10" by (simp add: code_def)
  have chunk: "line_feed \<notin> set (escape_chunk (take (utf8_len s) s))" if "s \<noteq> []" "\<not> code (hd s) < 128"
    using utf8_bytes_high [OF that, of line_feed] low
    by (auto simp: escape_chunk_def)
  show ?case
    using 1 asc chunk by (subst escape.simps) auto
qed

lemma indented_quoted: "indented (quoted s)"
  using escape_single_line by (intro indented_plain) (auto simp: quoted_def)

lemma indented_break: "indented (line_feed # indent (Suc l) @ b)" if "indented b"
proof -
  have "indented (indent (Suc l))" by (rule indented_plain) (simp add: indent_def)
  with that show ?thesis by (simp add: indented_append) (simp add: indent_def)
qed

text \<open>Texts without numbers are enough here.\<close>

fun no_numbers :: "json \<Rightarrow> bool" where
  "no_numbers (JNum n) = False"
| "no_numbers (JArr vs) = list_all no_numbers vs"
| "no_numbers (JObj ms) = list_all (\<lambda>(k, v). no_numbers v) ms"
| "no_numbers v = True"

lemma indented_close: "c \<in> {CHR ''}'', CHR '']''} \<Longrightarrow> indented (line_feed # indent l @ [c])"
  using indented_plain [of "indent l @ [c]"] by (cases l) (auto simp: indent_def)

lemma indented_render:
  "no_numbers v \<Longrightarrow> indented (render l v)"
  "list_all no_numbers vs \<Longrightarrow> 0 < l \<Longrightarrow> indented (render_elements l vs)"
  "list_all (\<lambda>(k, v). no_numbers v) ms \<Longrightarrow> 0 < l \<Longrightarrow> indented (render_members l ms)"
proof (induction l v and l vs and l ms rule: render_render_elements_render_members.induct)
  case (5 l vs)
  then show ?case using indented_close [of "CHR '']''" l] by (auto intro!: indented_append)
next
  case (6 l ms)
  then show ?case using indented_close [of "CHR ''}''" l] by (auto intro!: indented_append)
next
  case (8 l v vs)
  then obtain k where "l = Suc k" by (cases l) auto
  with 8 have "indented (line_feed # indent l @ render l v)" using indented_break [of "render l v" k] by simp
  then show ?case unfolding render_elements.simps using 8 by (intro indented_append) auto
next
  case (10 l k v ms)
  then obtain m where l: "l = Suc m" by (cases l) auto
  have "indented ('': '' @ render l v)" using 10 by (auto simp: indented_append)
  then have "indented (quoted k @ '': '' @ render l v)" by (rule indented_append [OF indented_quoted])
  then have "indented (line_feed # indent l @ quoted k @ '': '' @ render l v)"
    using indented_break [of "quoted k @ '': '' @ render l v" m] l by simp
  then show ?case unfolding render_members.simps using 10 by (intro indented_append) auto
qed (simp_all add: indented_quoted)

section \<open>Reading the script\<close>

lemma sh_word_shell_quote: "sh_word (shell_quote v) = Some (v, [])"
  using sh_word_quoted [of v "[]"] by (simp add: shell_quote_def squote_escape_def)

lemma sh_export_quoted:
  assumes "CHR ''='' \<notin> set name"
  shows "sh_export (''export '' @ name @ ''='' @ shell_quote v) env = Some (env(name \<mapsto> v))"
proof -
  have "str_cut (CHR ''='') (name @ CHR ''='' # shell_quote v) = Some (name, shell_quote v)"
    using assms by (simp add: str_cut_Some)
  then show ?thesis
    using sh_word_shell_quote [of v] by (simp add: sh_export_def export_keyword_def shell_quote_def)
qed

lemma sh_export_variable:
  "sh_export ''export no_proxy=\"$NO_PROXY\"'' env =
     Some (env(''no_proxy'' \<mapsto> (case env ''NO_PROXY'' of None \<Rightarrow> [] | Some v \<Rightarrow> v)))"
  by (simp add: sh_export_def export_keyword_def)

lemma sh_export_comment: "sh_export (CHR ''#'' # l) env = Some env"
  by (simp add: sh_export_def)

lemmas export_lines =
  sh_export_quoted [of "''HTTPS_PROXY''", simplified] sh_export_quoted [of "''https_proxy''", simplified]
  sh_export_quoted [of "''HTTP_PROXY''", simplified] sh_export_quoted [of "''http_proxy''", simplified]
  sh_export_quoted [of "''NO_PROXY''", simplified] sh_export_variable sh_export_comment

lemma server_env_read:
  "\<exists>env'. sh_source (server_env o1) env = Some env' \<and>
     (\<forall>k. env' k =
        (if rso_no_proxy o1 \<noteq> [] \<and> (k = ''NO_PROXY'' \<or> k = ''no_proxy'') then Some (rso_no_proxy o1)
         else if rso_http_proxy o1 \<noteq> [] \<and> (k = ''HTTP_PROXY'' \<or> k = ''http_proxy'') then Some (rso_http_proxy o1)
         else if rso_https_proxy o1 \<noteq> [] \<and> (k = ''HTTPS_PROXY'' \<or> k = ''https_proxy'') then Some (rso_https_proxy o1)
         else env k))"
  unfolding server_env_def sh_source_append
  by (cases "rso_no_proxy o1 = []"; cases "rso_http_proxy o1 = []"; cases "rso_https_proxy o1 = []")
    (simp_all add: export_lines)

lemma server_env_single_lines:
  assumes "line_feed \<notin> set (rso_http_proxy o1)" and "line_feed \<notin> set (rso_https_proxy o1)"
    and "line_feed \<notin> set (rso_no_proxy o1)" and "l \<in> set (server_env o1)"
  shows "line_feed \<notin> set l \<and> l \<noteq> env_delim"
proof -
  have "line_feed \<notin> set (shell_quote v)" if "line_feed \<notin> set v" for v
    using that set_replace_char [of squote "[squote, CHR 0x5C, squote, squote]" v] by (auto simp: shell_quote_def)
  then have q: "line_feed \<notin> set (shell_quote (rso_http_proxy o1))" "line_feed \<notin> set (shell_quote (rso_https_proxy o1))"
      "line_feed \<notin> set (shell_quote (rso_no_proxy o1))" using assms by blast+
  have "list_all (\<lambda>l. line_feed \<notin> set l \<and> l \<noteq> env_delim) (server_env o1)"
    by (simp add: server_env_def env_delim_def q)
  with assms(4) show ?thesis by (simp add: list_all_iff)
qed

lemma settings_lines: "settings_delim \<notin> set (str_split line_feed (marshal_indent (JObj (remote_settings o1))))"
proof -
  let ?t = "marshal_indent (JObj (remote_settings o1))"
  have "no_numbers (JObj (remote_settings o1))" by (auto simp: remote_settings_def Let_def list_all_iff)
  then have "indented ?t" unfolding marshal_indent_def by (rule indented_render)
  note rest = indented_lines [OF this]
  obtain y ys where sp: "str_split line_feed ?t = y # ys" by (cases "str_split line_feed ?t") auto
  have "?t = CHR ''{'' # tl ?t" by (simp add: marshal_indent_def remote_settings_def Let_def)
  then have "y \<noteq> settings_delim"
    using sp by (cases ?t) (auto simp: settings_delim_def split: list.splits)
  moreover have "settings_delim \<notin> set ys" using rest sp by (auto simp: settings_delim_def)
  ultimately show ?thesis using sp by simp
qed

lemma script_delims:
  "here_delim env_command = Some env_delim" "here_delim settings_command = Some settings_delim"
  "list_all (\<lambda>l. here_delim l = None) script_start" "list_all (\<lambda>l. here_delim l = None) script_middle"
  by code_simp+

lemma script_lines_single:
  "concat (map (str_split line_feed) script_start) = script_start"
  "concat (map (str_split line_feed) script_middle) = script_middle"
  "concat (map (str_split line_feed) script_end) = script_end"
  "str_split line_feed env_command = [env_command]" "str_split line_feed settings_command = [settings_command]"
  "str_split line_feed env_delim = [env_delim]" "str_split line_feed settings_delim = [settings_delim]"
  by code_simp+

lemma script_split:
  "str_split line_feed (render_remote_setup_script o1) =
     script_start @ env_command # concat (map (str_split line_feed) (server_env o1)) @ env_delim # script_middle @
       settings_command # str_split line_feed (marshal_indent (JObj (remote_settings o1))) @ settings_delim # script_end"
  unfolding render_remote_setup_script_def
  by (subst str_split_join_parts) (simp_all add: script_lines_single)

text \<open>The here-document of the settings and the fixed rest of the script.\<close>

lemma script_after_env:
  "sh_lines (script_middle @ settings_command # str_split line_feed (marshal_indent (JObj (remote_settings o1))) @
      settings_delim # script_end) =
   (script_middle @ settings_command # fst (sh_lines script_end),
    (settings_command, str_split line_feed (marshal_indent (JObj (remote_settings o1)))) # snd (sh_lines script_end))"
  unfolding sh_lines_plain [OF script_delims(4)] sh_lines_doc [OF script_delims(2) settings_lines] by simp

section \<open>Properties\<close>

text \<open>
  C12: for proxy settings of one line each, the shell of the target runs the fixed commands of the
  script and nothing else; it writes the server environment and the settings as they were
  rendered; sourcing the former gives each proxy variable exactly the configured value,
  whatever quotes, blanks or dollar signs it contains, and leaves every other variable; and the
  latter is JSON with exactly the settings.
\<close>

theorem remote_setup_script_faithful:
  assumes "line_feed \<notin> set (rso_http_proxy o1)" and "line_feed \<notin> set (rso_https_proxy o1)"
    and "line_feed \<notin> set (rso_no_proxy o1)" and "json_ok (JObj (remote_settings o1))"
  shows "sh_lines (str_split line_feed (render_remote_setup_script o1)) =
       (script_start @ env_command # script_middle @ settings_command # fst (sh_lines script_end),
        (env_command, server_env o1) #
        (settings_command, str_split line_feed (marshal_indent (JObj (remote_settings o1)))) # snd (sh_lines script_end)) \<and>
     (\<exists>env'. sh_source (server_env o1) env = Some env' \<and>
        (\<forall>k. env' k =
           (if rso_no_proxy o1 \<noteq> [] \<and> (k = ''NO_PROXY'' \<or> k = ''no_proxy'') then Some (rso_no_proxy o1)
            else if rso_http_proxy o1 \<noteq> [] \<and> (k = ''HTTP_PROXY'' \<or> k = ''http_proxy'') then Some (rso_http_proxy o1)
            else if rso_https_proxy o1 \<noteq> [] \<and> (k = ''HTTPS_PROXY'' \<or> k = ''https_proxy'') then Some (rso_https_proxy o1)
            else env k))) \<and>
     json_parse (marshal_indent (JObj (remote_settings o1))) = Some (JObj (remote_settings o1))"
proof (intro conjI)
  note single = server_env_single_lines [OF assms(1-3)]
  have "concat (map (str_split line_feed) (server_env o1)) = server_env o1"
  proof -
    have "map (str_split line_feed) (server_env o1) = map (\<lambda>l. [l]) (server_env o1)"
      using single by (intro map_cong refl) (simp add: str_split_no_sep)
    then show ?thesis by (simp only: concat_map_singleton map_ident)
  qed
  moreover have "env_delim \<notin> set (server_env o1)" using single by blast
  ultimately show "sh_lines (str_split line_feed (render_remote_setup_script o1)) =
       (script_start @ env_command # script_middle @ settings_command # fst (sh_lines script_end),
        (env_command, server_env o1) #
        (settings_command, str_split line_feed (marshal_indent (JObj (remote_settings o1)))) # snd (sh_lines script_end))"
    unfolding script_split sh_lines_plain [OF script_delims(3)]
    by (simp add: sh_lines_doc [OF script_delims(1)] script_after_env)
  show "json_parse (marshal_indent (JObj (remote_settings o1))) = Some (JObj (remote_settings o1))"
    by (rule parse_render [OF assms(4)])
qed (rule server_env_read)

definition demo_remote :: remote_setup_options where
  "demo_remote = \<lparr>rso_target_alias = ''dev'', rso_ssh_config_path = ''/s/ssh/ssh_config'', rso_ssh_path = [],
     rso_http_proxy = ''http://p:1/$x y'' @ [squote], rso_https_proxy = [], rso_no_proxy = ''a, b'',
     rso_proxy_support = [], rso_batch_mode = None\<rparr>"

theorem remote_setup_script_faithful_witness:
  "\<exists>env'. sh_source (server_env demo_remote) Map.empty = Some env' \<and>
     env' ''http_proxy'' = Some (''http://p:1/$x y'' @ [squote]) \<and> env' ''HTTPS_PROXY'' = None"
proof -
  have single: "line_feed \<notin> set (rso_http_proxy demo_remote)" "line_feed \<notin> set (rso_https_proxy demo_remote)"
      "line_feed \<notin> set (rso_no_proxy demo_remote)" by (simp_all add: demo_remote_def)
  have "json_ok (JObj (remote_settings demo_remote))" by code_simp
  from remote_setup_script_faithful [OF single this, of Map.empty]
  obtain env' where src: "sh_source (server_env demo_remote) Map.empty = Some env'"
    and env: "\<And>k. env' k = (if rso_no_proxy demo_remote \<noteq> [] \<and> (k = ''NO_PROXY'' \<or> k = ''no_proxy'') then Some (rso_no_proxy demo_remote)
            else if rso_http_proxy demo_remote \<noteq> [] \<and> (k = ''HTTP_PROXY'' \<or> k = ''http_proxy'') then Some (rso_http_proxy demo_remote)
            else if rso_https_proxy demo_remote \<noteq> [] \<and> (k = ''HTTPS_PROXY'' \<or> k = ''https_proxy'') then Some (rso_https_proxy demo_remote)
            else None)" by blast
  have "rso_http_proxy demo_remote = ''http://p:1/$x y'' @ [squote]" "rso_https_proxy demo_remote = []"
    by (simp_all add: demo_remote_def)
  with src env [of "''http_proxy''"] env [of "''HTTPS_PROXY''"] show ?thesis by simp
qed

definition injected_remote :: remote_setup_options where
  "injected_remote = demo_remote\<lparr>rso_http_proxy :=
     ''http://p'' @ [line_feed] @ ''DEV_CONNECT_SERVER_ENV'' @ [line_feed] @ ''touch /tmp/x'' @ [line_feed], rso_no_proxy := []\<rparr>"

text \<open>
  Nothing checks the proxy settings for line breaks: a value that contains the delimiter of the
  here-document on a line of its own ends it early, and the lines after it are run as
  commands on the target.
\<close>

lemma remote_setup_script_injection:
  "''touch /tmp/x'' \<in> set (fst (sh_lines (str_split line_feed (render_remote_setup_script injected_remote))))"
proof -
  have env: "concat (map (str_split line_feed) (server_env injected_remote)) =
     [''# BEGIN dev-connect remote proxy'', ''export HTTP_PROXY='' @ squote # ''http://p''] @ env_delim # ''touch /tmp/x'' #
     ([squote] # [''export http_proxy='' @ squote # ''http://p'', env_delim, ''touch /tmp/x'', [squote], ''# END dev-connect remote proxy''])"
    by code_simp
  have "env_delim \<notin> set [''# BEGIN dev-connect remote proxy'', ''export HTTP_PROXY='' @ squote # ''http://p'']"
    by code_simp
  note doc = sh_lines_doc [OF script_delims(1) this]
  have "here_delim ''touch /tmp/x'' = None" by code_simp
  then have cmd: "''touch /tmp/x'' \<in> set (fst (sh_lines (''touch /tmp/x'' # rest)))" for rest
    by (subst sh_lines.simps) (simp split: prod.split)
  show ?thesis
    unfolding script_split sh_lines_plain [OF script_delims(3)] env append_assoc append_Cons [of env_delim]
      append_Cons [of "''touch /tmp/x''"] doc
    using cmd by simp
qed

end
