(* ===== verification/Cli_Commands.thy ===== *)
theory Cli_Commands
  imports Cli_Supervisor Cli_Output Vscode_Launch Vscode_Remote
begin

text \<open>
  The commands of \<open>cmd/dev-connect/main.go\<close>. A command gives the response it logs and prints, or the
  error the process ends with; \<open>Cli_Output\<close> prints the response. The processes it starts are
  parameters: \<open>ch\<close> for \<open>kubectl\<close> and the launcher of VS Code, \<open>sc\<close> for the tunnel supervisor and
  \<open>rm\<close> for the \<open>ssh\<close> of the remote setup.
\<close>

section \<open>Sessions\<close>

definition cleanup_session_artifacts :: "session_state \<Rightarrow> (unit, world) io" where
  "cleanup_session_artifacts s =
     io_bind (remove_managed_block_file (st_user_ssh_config s) (st_target s)) (\<lambda>_.
     io_bind (ssh_cleanup \<lparr>sf_config_path = st_ssh_config s, sf_known_hosts_path = st_known_hosts s\<rparr>) (\<lambda>_.
     cleanup_user_data_dir (st_vscode_dir s)))"

text \<open>\<open>IsStale\<close> asks the system about the recorded process.\<close>

definition session_stale :: "session_state \<Rightarrow> world \<Rightarrow> bool" where
  "session_stale s w = is_stale s (\<lambda>pid. process_exists pid w)"

definition ensure_no_active_session :: "string \<Rightarrow> (unit, world) io" where
  "ensure_no_active_session dir =
     io_case (session_load dir)
       (\<lambda>e. if errors_is e err_not_found then io_return () else io_fail e)
       (\<lambda>s w. if session_stale s w
              then io_bind (cleanup_session_artifacts s) (\<lambda>_. session_clear dir) w
              else io_fail err_locked w)"

definition status_response :: "cli_process \<Rightarrow> string \<Rightarrow> session_state \<Rightarrow> response" where
  "status_response cp status s =
     empty_response
       \<lparr>rp_status := status, rp_server := st_target s, rp_session_id := st_session_id s,
        rp_local_port := st_local_port s, rp_context := st_context s, rp_namespace := st_namespace s,
        rp_gateway := st_gateway s, rp_reconnect := Some (st_reconnect s),
        rp_uptime := (if st_started_at s = zero_time then [] else cp_uptime cp (st_started_at s))\<rparr>"

section \<open>Disconnect, status, list and config\<close>

definition command_session_dir :: "cli_process \<Rightarrow> string result" where
  "command_session_dir cp = session_dir_for (cp_getenv cp) (cp_goos cp)"

definition disconnected :: response where
  "disconnected = empty_response\<lparr>rp_status := ''disconnected''\<rparr>"

definition disconnect_session :: "string \<Rightarrow> (unit, world) io" where
  "disconnect_session dir =
     io_bind
       (io_case (session_load dir)
         (\<lambda>e. if \<not> errors_is e err_not_found then io_fail e else io_return ())
         (\<lambda>s. io_bind (io_ignore (terminate_process (st_pid s))) (\<lambda>_. cleanup_session_artifacts s)))
       (\<lambda>_. session_clear dir)"

definition disconnect_command :: "cli_process \<Rightarrow> (response, world) io" where
  "disconnect_command cp =
     io_bind (io_lift (command_session_dir cp)) (\<lambda>dir.
     io_bind (disconnect_session dir) (\<lambda>_. io_return disconnected))"

definition status_command :: "cli_process \<Rightarrow> (response, world) io" where
  "status_command cp =
     io_bind (io_lift (command_session_dir cp)) (\<lambda>dir.
     io_case (session_load dir)
       (\<lambda>e. if errors_is e err_not_found then io_return disconnected else io_fail e)
       (\<lambda>s w. io_return (status_response cp (if session_stale s w then ''stale'' else ''connected'') s) w))"

definition list_command :: "cli_process \<Rightarrow> cli_options \<Rightarrow> (response, world) io" where
  "list_command cp o1 =
     io_bind (cli_load_config (cp_unmarshal cp) (cp_getenv cp) (cp_goos cp) o1) (\<lambda>loaded.
     let cfg = lo_config loaded
     in io_return (empty_response
          \<lparr>rp_status := ''ok'', rp_targets := target_summaries cfg, rp_clusters := cluster_summaries cfg,
           rp_gateways := gateway_summaries cfg, rp_default_context := default_context_name cfg (op_context o1),
           rp_default_gateway := default_gateway_name cfg (op_context o1) (op_gateway o1)\<rparr>))"

definition config_validate_command :: "cli_process \<Rightarrow> cli_options \<Rightarrow> (response, world) io" where
  "config_validate_command cp o1 =
     io_bind (cli_load_config (cp_unmarshal cp) (cp_getenv cp) (cp_goos cp) o1) (\<lambda>_.
     io_return (empty_response\<lparr>rp_status := ''valid''\<rparr>))"

section \<open>Connect\<close>

text \<open>On an error the handler runs, its own errors are dropped, and the error is returned.\<close>

definition or_abandon :: "('a, 'w) io \<Rightarrow> (unit, 'w) io \<Rightarrow> ('a, 'w) io" where
  "or_abandon m handler = io_case m (\<lambda>e. io_bind handler (\<lambda>_. io_fail e)) io_return"

definition abandon_files :: "connect_result \<Rightarrow> (unit, world machine) io" where
  "abandon_files r = on_world
     (io_bind (io_ignore (ssh_cleanup (cr_ssh_files r))) (\<lambda>_. io_ignore (session_clear (cr_session_dir r))))"

definition abandon_session :: "session_state \<Rightarrow> string \<Rightarrow> (unit, world machine) io" where
  "abandon_session s dir = on_world
     (io_bind (io_ignore (cleanup_session_artifacts s)) (\<lambda>_. io_ignore (session_clear dir)))"

definition connect_options_for ::
  "cli_process \<Rightarrow> cli_options \<Rightarrow> config \<Rightarrow> string \<Rightarrow> string \<Rightarrow> string \<Rightarrow> connect_options" where
  "connect_options_for cp o1 cfg target_name dir ssh_dir =
     \<lparr>co_config = cfg, co_target = target_name, co_context = op_context o1, co_gateway = op_gateway o1,
      co_session_dir = dir, co_ssh_dir = ssh_dir, co_allocate = cli_allocate_port cp, co_now = cp_now cp,
      co_session_id = new_session_id None (cp_random cp) (cp_nano cp), co_reconnect = (\<not> op_no_reconnect o1)\<rparr>"

text \<open>The process id of the supervisor is saved.\<close>

definition record_supervisor :: "connect_result \<Rightarrow> tunnel_result \<Rightarrow> (session_state, world machine) io" where
  "record_supervisor r t =
     (if 0 < tr_pid t then
        (let s = (cr_state r)\<lparr>st_pid := tr_pid t\<rparr>
         in io_bind (or_abandon (on_world (session_save (cr_session_dir r) s)) (abandon_files r)) (\<lambda>_. io_return s))
      else io_return (cr_state r))"

definition managed_block_options :: "config \<Rightarrow> connect_result \<Rightarrow> session_state \<Rightarrow> string \<Rightarrow> user_config_options" where
  "managed_block_options cfg r s path =
     \<lparr>uc_config_path = path, uc_alias = cr_target_name r, uc_user = tg_user (cr_target r),
      uc_identity_file = tg_identity_file (cr_target r), uc_local_host = cr_local_host r,
      uc_local_port = cr_local_port r, uc_known_hosts_path = st_known_hosts s,
      uc_alive_interval = effective_alive_interval (cfg_ssh cfg),
      uc_alive_count_max = effective_alive_count_max (cfg_ssh cfg),
      uc_tcp_keep_alive = effective_tcp_keep_alive (cfg_ssh cfg)\<rparr>"

definition manage_user_config ::
  "cli_process \<Rightarrow> config \<Rightarrow> connect_result \<Rightarrow> session_state \<Rightarrow> (session_state, world machine) io" where
  "manage_user_config cp cfg r s =
     (if \<not> ssh_manage_user_config (cfg_ssh cfg) then io_return s
      else
        (let give_up = abandon_session s (cr_session_dir r)
         in io_bind (or_abandon (io_lift (user_ssh_config_path cp (ssh_user_config_path (cfg_ssh cfg)))) give_up) (\<lambda>path.
            io_bind (or_abandon (on_world (upsert_managed_block (managed_block_options cfg r s path))) give_up) (\<lambda>_.
            let s = s\<lparr>st_user_ssh_config := path\<rparr>
            in io_bind (or_abandon (on_world (session_save (cr_session_dir r) s)) (abandon_session s (cr_session_dir r))) (\<lambda>_.
               io_return s)))))"

definition remote_options_for :: "config \<Rightarrow> string \<Rightarrow> string \<Rightarrow> remote_setup_options" where
  "remote_options_for cfg alias_name ssh_config_path =
     (let rs = vs_remote_setup (cfg_vscode cfg)
      in \<lparr>rso_target_alias = alias_name, rso_ssh_config_path = ssh_config_path, rso_ssh_path = rs_ssh_path rs,
          rso_http_proxy = rs_http_proxy rs, rso_https_proxy = rs_https_proxy rs, rso_no_proxy = rs_no_proxy rs,
          rso_proxy_support = rs_proxy_support rs, rso_batch_mode = rs_batch_mode rs\<rparr>)"

definition launch_vscode ::
  "world child \<Rightarrow> cli_process \<Rightarrow> config \<Rightarrow> string \<Rightarrow> string \<Rightarrow> (unit, world machine) io" where
  "launch_vscode ch cp cfg alias_name user_data_dir =
     (let o1 = \<lparr>la_target_alias = alias_name, la_user_data_dir = user_data_dir, la_env = []\<rparr>;
          code_path = cp_getenv cp ''DEV_CONNECT_CODE_PATH''
      in if code_path \<noteq> [] then launch_code ch \<lparr>el_path = code_path, el_base_env = None\<rparr> o1
         else io_bind (on_world (resolve_launcher (cp_goos cp) (cp_getenv cp ''PATH'')
                \<lparr>vo_goos = [], vo_local_app_data = cp_getenv cp ''LOCALAPPDATA'',
                 vo_configured_path = vs_launcher_path (cfg_vscode cfg), vo_look_path = None, vo_exists = None\<rparr>)) (\<lambda>path.
              launch_code ch \<lparr>el_path = path, el_base_env = None\<rparr> o1))"

definition isolate_user_data ::
  "config \<Rightarrow> connect_result \<Rightarrow> session_state \<Rightarrow> (session_state, world machine) io" where
  "isolate_user_data cfg r s =
     (if \<not> use_isolated_user_data_dir (cfg_vscode cfg) then io_return s
      else
        (let dir = path_join [cr_session_dir r, ''vscode-user-data'']
         in io_bind (or_abandon (on_world (prepare_user_data_dir dir (st_ssh_config s)))
                (abandon_session s (cr_session_dir r))) (\<lambda>_.
            let s = s\<lparr>st_vscode_dir := dir\<rparr>
            in io_bind (or_abandon (on_world (session_save (cr_session_dir r) s)) (abandon_session s (cr_session_dir r))) (\<lambda>_.
               io_return s))))"

definition open_editor ::
  "world child \<Rightarrow> world machine remote_child \<Rightarrow> cli_process \<Rightarrow> cli_options \<Rightarrow> config \<Rightarrow> string \<Rightarrow> connect_result \<Rightarrow>
   session_state \<Rightarrow> (session_state, world machine) io" where
  "open_editor ch rm cp o1 cfg target_name r s =
     (if op_no_code o1 then io_return s
      else
        io_bind (if rs_enabled (vs_remote_setup (cfg_vscode cfg))
                 then or_abandon (configure_remote rm (remote_options_for cfg target_name (st_ssh_config s)))
                        (abandon_session s (cr_session_dir r))
                 else io_return ()) (\<lambda>_.
        io_bind (isolate_user_data cfg r s) (\<lambda>s.
        io_bind (or_abandon (launch_vscode ch cp cfg target_name (st_vscode_dir s)) (abandon_session s (cr_session_dir r))) (\<lambda>_.
        io_return s))))"

text \<open>What follows the start of the supervisor.\<close>

definition finish_connect ::
  "world child \<Rightarrow> world machine remote_child \<Rightarrow> cli_process \<Rightarrow> cli_options \<Rightarrow> config \<Rightarrow> string \<Rightarrow> connect_result \<Rightarrow>
   tunnel_result \<Rightarrow> (response, world machine) io" where
  "finish_connect ch rm cp o1 cfg target_name r t =
     io_bind (record_supervisor r t) (\<lambda>s.
     io_bind (manage_user_config cp cfg r s) (\<lambda>s.
     io_bind (open_editor ch rm cp o1 cfg target_name r s) (\<lambda>s.
     io_return ((status_response cp ''prepared'' s)\<lparr>rp_server := target_name, rp_local_port := cr_local_port r\<rparr>))))"

text \<open>What comes before it: the configuration with its path, the cluster and the prepared session.\<close>

definition begin_connect ::
  "cli_process \<Rightarrow> cli_options \<Rightarrow> string \<Rightarrow> (loaded \<times> cluster \<times> connect_result, world) io" where
  "begin_connect cp o1 target_name =
     io_bind (cli_load_config (cp_unmarshal cp) (cp_getenv cp) (cp_goos cp) o1) (\<lambda>loaded.
     io_bind (io_lift (command_session_dir cp)) (\<lambda>dir.
     io_bind (ensure_no_active_session dir) (\<lambda>_.
     io_bind (io_lift (ssh_dir_for (cp_getenv cp) dir)) (\<lambda>ssh_dir.
     io_bind (io_lift (selected_cluster (lo_config loaded) o1)) (\<lambda>cl.
     io_bind (prepare_session (connect_options_for cp o1 (lo_config loaded) target_name dir ssh_dir)) (\<lambda>r.
     io_return (loaded, cl, r)))))))"

definition connect_command ::
  "world child \<Rightarrow> supervisor_child \<Rightarrow> world machine remote_child \<Rightarrow> cli_process \<Rightarrow> cli_options \<Rightarrow> string \<Rightarrow>
   (response, world machine) io" where
  "connect_command ch sc rm cp o1 target_name =
     io_bind (on_world (begin_connect cp o1 target_name)) (\<lambda>(loaded, cl, r).
     io_bind (or_abandon (run_preflight ch cp o1 cl r) (abandon_files r)) (\<lambda>_.
     io_bind (or_abandon (start_tunnel_supervisor ch sc cp o1 (lo_path loaded) cl r) (abandon_files r)) (\<lambda>t.
     finish_connect ch rm cp o1 (lo_config loaded) target_name r t)))"

section \<open>What the operations leave\<close>

lemma or_abandon_Inr: "or_abandon m h s = (Inr x, s') \<longleftrightarrow> m s = (Inr x, s')"
  by (auto simp: or_abandon_def io_case_def io_bind_def split: prod.splits sum.splits)

text \<open>\<open>quiet h\<close>: an operation that never reports an error.\<close>

definition quiet :: "(unit, 'w) io \<Rightarrow> bool" where
  "quiet h \<longleftrightarrow> (\<forall>s. fst (h s) = Inr ())"

lemma or_abandon_Inl:
  "quiet h \<Longrightarrow> or_abandon m h s = (Inl e, s') \<Longrightarrow> \<exists>s1. m s = (Inl e, s1) \<and> s' = snd (h s1)"
  by (auto simp: or_abandon_def io_case_def io_bind_def quiet_def split: prod.splits sum.splits) (metis fst_conv snd_conv Inl_Inr_False)+

lemma quiet_abandon [simp]: "quiet (abandon_files r)" "quiet (abandon_session s d)"
  by (simp_all add: quiet_def abandon_files_def abandon_session_def on_world_apply io_bind_def)

lemma leaves_or_abandon [frame]: "leaves f m \<Longrightarrow> leaves f h \<Longrightarrow> leaves f (or_abandon m h)"
  unfolding or_abandon_def by (intro frame)

lemma fixed_remove_all: "leaves fixed_part (cleanup_user_data_dir d)"
  unfolding cleanup_user_data_dir_def by (intro frame)

lemma cleanup_artifacts_fixed [frame]: "leaves fixed_part (cleanup_session_artifacts s)"
  unfolding cleanup_session_artifacts_def by (intro frame fixed_remove_all)

text \<open>The observation of the machine that the file operations leave.\<close>

abbreviation machine_part :: "world machine \<Rightarrow> _" where
  "machine_part mc \<equiv> fixed_part (mc_state mc)"

lemma machine_on_world [frame]: "leaves fixed_part m \<Longrightarrow> leaves machine_part (on_world m)"
  by (rule leaves_on_world)

lemma machine_abandon [frame]: "leaves machine_part (abandon_files r)" "leaves machine_part (abandon_session s d)"
  unfolding abandon_files_def abandon_session_def by (intro frame)+

lemma machine_record [frame]: "leaves machine_part (record_supervisor r t)"
  unfolding record_supervisor_def Let_def by (intro frame)

lemma machine_manage [frame]: "leaves machine_part (manage_user_config cp cfg r s)"
  unfolding manage_user_config_def Let_def by (intro frame)

lemma finish_no_code:
  "op_no_code o1 \<Longrightarrow> finish_connect ch rm cp o1 cfg n r t =
     io_bind (record_supervisor r t) (\<lambda>s. io_bind (manage_user_config cp cfg r s) (\<lambda>s.
     io_return ((status_response cp ''prepared'' s)\<lparr>rp_server := n, rp_local_port := cr_local_port r\<rparr>)))"
  by (simp add: finish_connect_def open_editor_def io_bind_def io_return_def)

lemma machine_finish: "op_no_code o1 \<Longrightarrow> leaves machine_part (finish_connect ch rm cp o1 cfg n r t)"
  unfolding finish_no_code by (intro frame)

section \<open>Clearing a session\<close>

lemma session_clear_calm: "calm w \<Longrightarrow> file_at (snd (session_clear d w)) (session_path d) = None"
proof -
  assume calm: "calm w"
  have "ordinary (session_path d)" unfolding session_path_def by (rule ordinary_join) simp
  then show ?thesis
    using calm by (auto simp: session_clear_def io_case_def os_remove_def file_at_def split: option.splits node.splits)
qed

lemma abandon_clears:
  assumes "calm (mc_state mc)"
  shows "file_at (mc_state (snd (abandon_files r mc))) (session_path (cr_session_dir r)) = None"
    and "file_at (mc_state (snd (abandon_session s d mc))) (session_path d) = None"
proof -
  have "calm (snd (ssh_cleanup (cr_ssh_files r) (mc_state mc)))" "calm (snd (cleanup_session_artifacts s (mc_state mc)))"
    using leavesD [OF leaves_calm [OF ssh_cleanup_leaves(1)]] leavesD [OF leaves_calm [OF cleanup_artifacts_fixed]] assms
    by simp_all
  then show "file_at (mc_state (snd (abandon_files r mc))) (session_path (cr_session_dir r)) = None"
      "file_at (mc_state (snd (abandon_session s d mc))) (session_path d) = None"
    by (simp_all add: abandon_files_def abandon_session_def on_world_apply io_bind_def session_clear_calm)
qed

lemma machine_calm: "leaves machine_part m \<Longrightarrow> m mc = (x, mc') \<Longrightarrow> calm (mc_state mc') = calm (mc_state mc)"
  using leaves_result [of machine_part m mc x mc'] by (simp add: calm_fixed_part)

lemma or_abandon_cleared:
  assumes "or_abandon m h mc = (Inl e, mc')" and "quiet h" and "leaves machine_part m" and "calm (mc_state mc)"
    and "\<And>mc. calm (mc_state mc) \<Longrightarrow> Q (snd (h mc))"
  shows "Q mc'"
proof -
  obtain s1 where "m mc = (Inl e, s1)" "mc' = snd (h s1)" using or_abandon_Inl [OF assms(2,1)] by blast
  then show ?thesis using machine_calm [OF assms(3)] assms(4,5) by simp
qed

lemma record_failed:
  assumes "record_supervisor r t mc = (Inl e, mc')" and "calm (mc_state mc)"
  shows "file_at (mc_state mc') (session_path (cr_session_dir r)) = None"
proof -
  let ?m = "on_world (session_save (cr_session_dir r) ((cr_state r)\<lparr>st_pid := tr_pid t\<rparr>))"
  have "or_abandon ?m (abandon_files r) mc = (Inl e, mc')"
    using assms(1) by (auto simp: record_supervisor_def Let_def io_bind_eq_Inl split: if_splits)
  then show ?thesis
    by (rule or_abandon_cleared [where Q = "\<lambda>mc'. file_at (mc_state mc') (session_path (cr_session_dir r)) = None"])
      (simp_all add: assms(2) abandon_clears machine_on_world session_save_leaves)
qed

lemma manage_failed:
  assumes "manage_user_config cp cfg r s mc = (Inl e, mc')" and "calm (mc_state mc)"
  shows "file_at (mc_state mc') (session_path (cr_session_dir r)) = None"
proof -
  let ?Q = "\<lambda>mc'. file_at (mc_state mc') (session_path (cr_session_dir r)) = None"
  let ?h = "abandon_session s (cr_session_dir r)"
  let ?a = "io_lift (user_ssh_config_path cp (ssh_user_config_path (cfg_ssh cfg))) :: (string, world machine) io"
  note step = or_abandon_cleared [where Q = ?Q, OF _ quiet_abandon(2)]
  have on: "ssh_manage_user_config (cfg_ssh cfg)" using assms(1) by (auto simp: manage_user_config_def split: if_splits)
  consider (path) "or_abandon ?a ?h mc = (Inl e, mc')"
    | (upsert) path mc1 where "or_abandon ?a ?h mc = (Inr path, mc1)"
        "or_abandon (on_world (upsert_managed_block (managed_block_options cfg r s path))) ?h mc1 = (Inl e, mc')"
    | (save) path mc1 mc2 where "or_abandon ?a ?h mc = (Inr path, mc1)"
        "or_abandon (on_world (upsert_managed_block (managed_block_options cfg r s path))) ?h mc1 = (Inr (), mc2)"
        "or_abandon (on_world (session_save (cr_session_dir r) (s\<lparr>st_user_ssh_config := path\<rparr>)))
           (abandon_session (s\<lparr>st_user_ssh_config := path\<rparr>) (cr_session_dir r)) mc2 = (Inl e, mc')"
    using assms(1) on by (auto simp: manage_user_config_def Let_def io_bind_eq_Inl)
  then show ?thesis
  proof cases
    case path
    show ?thesis by (rule step [OF path leaves_lift assms(2) abandon_clears(2)])
  next
    case upsert
    then have "calm (mc_state mc1)" using assms(2) by (simp add: or_abandon_Inr)
    from step [OF upsert(2) machine_on_world [OF upsert_leaves(1)] this abandon_clears(2)] show ?thesis .
  next
    case save
    have "mc1 = mc" using save(1) by (simp add: or_abandon_Inr)
    then have "calm (mc_state mc2)"
      using machine_calm [OF machine_on_world [OF upsert_leaves(1)] save(2) [unfolded or_abandon_Inr]] assms(2) by simp
    from step [OF save(3) machine_on_world [OF session_save_leaves(1)] this abandon_clears(2)] show ?thesis .
  qed
qed

lemma finish_failed:
  assumes "finish_connect ch rm cp o1 cfg n r t mc = (Inl e, mc')" and "op_no_code o1" and "calm (mc_state mc)"
  shows "file_at (mc_state mc') (session_path (cr_session_dir r)) = None"
proof -
  consider "record_supervisor r t mc = (Inl e, mc')"
    | s mc1 where "record_supervisor r t mc = (Inr s, mc1)" "manage_user_config cp cfg r s mc1 = (Inl e, mc')"
    using assms(1) unfolding finish_no_code [OF assms(2)] by (auto simp: io_bind_eq_Inl)
  then show ?thesis
  proof cases
    case 1
    then show ?thesis using record_failed assms(3) by blast
  next
    case 2
    then show ?thesis using manage_failed machine_calm [OF machine_record] assms(3) by blast
  qed
qed

section \<open>A finished connect\<close>

definition final_state :: "cli_process \<Rightarrow> config \<Rightarrow> session_state \<Rightarrow> session_state \<Rightarrow> bool" where
  "final_state cp cfg s s' \<longleftrightarrow>
     (if ssh_manage_user_config (cfg_ssh cfg)
      then (\<exists>path. user_ssh_config_path cp (ssh_user_config_path (cfg_ssh cfg)) = Inr path \<and> s' = s\<lparr>st_user_ssh_config := path\<rparr>)
      else s' = s)"

definition session_on_disk :: "string \<Rightarrow> session_state \<Rightarrow> world \<Rightarrow> bool" where
  "session_on_disk dir s w \<longleftrightarrow>
     (\<exists>data. file_at w (session_path dir) = Some data \<and> marshal_state s = Inr data \<and> validate_state s = Inr ())"

lemma session_save_on_disk: "session_save dir s w = (Inr (), w') \<Longrightarrow> session_on_disk dir s w'"
  using session_save_ok by (fastforce simp: session_on_disk_def)

lemma session_on_disk_load:
  assumes "session_on_disk dir s w" and "state_ok s" and "calm w"
  shows "fst (session_load dir w) = Inr s"
  using assms unmarshal_marshal [OF assms(2)] session_load_file [OF assms(3)] by (force simp: session_on_disk_def)

lemma record_ok:
  assumes "record_supervisor r t mc = (Inr s, mc')" and "0 < tr_pid t"
  shows "s = (cr_state r)\<lparr>st_pid := tr_pid t\<rparr> \<and> session_on_disk (cr_session_dir r) s (mc_state mc')"
  using assms session_save_on_disk
  by (fastforce simp: record_supervisor_def Let_def io_bind_eq_Inr or_abandon_Inr on_world_eq)

lemma manage_ok:
  assumes "manage_user_config cp cfg r s mc = (Inr s', mc')" and "session_on_disk (cr_session_dir r) s (mc_state mc)"
  shows "final_state cp cfg s s' \<and> session_on_disk (cr_session_dir r) s' (mc_state mc')"
proof (cases "ssh_manage_user_config (cfg_ssh cfg)")
  case False
  with assms show ?thesis by (simp add: manage_user_config_def final_state_def)
next
  case True
  then obtain path w mc2 where "user_ssh_config_path cp (ssh_user_config_path (cfg_ssh cfg)) = Inr path"
      "s' = s\<lparr>st_user_ssh_config := path\<rparr>" "session_save (cr_session_dir r) s' (mc_state mc2) = (Inr (), w)"
      "mc' = mc2\<lparr>mc_state := w\<rparr>"
    using assms(1) by (auto simp: manage_user_config_def Let_def io_bind_eq_Inr or_abandon_Inr on_world_eq)
  then show ?thesis using True session_save_on_disk by (auto simp: final_state_def)
qed

end
