(* ===== verification/Cli_Sessions.thy ===== *)
theory Cli_Sessions
  imports Cli_Commands
begin

text \<open>
  The life of a session across the commands: what \<open>disconnect\<close> leaves behind, when \<open>connect\<close> is
  refused, what a finished or failed \<open>connect\<close> has recorded, and that the supervisor forwards
  the port that \<open>connect\<close> prepared and validated.
\<close>

section \<open>Ending a process\<close>

lemma terminate_nodes: "leaves w_nodes (terminate_process pid)"
  by (auto simp: leaves_def terminate_process_def kill_process_def io_case_def sys_kill_def Let_def
      split: prod.splits sum.splits if_splits)

lemma terminate_calm: "leaves calm (terminate_process pid)"
proof -
  have "leaves w_fault (terminate_process pid)"
    by (auto simp: leaves_def terminate_process_def kill_process_def io_case_def sys_kill_def Let_def
        split: prod.splits sum.splits if_splits)
  then show ?thesis by (simp add: leaves_def calm_def)
qed

lemma terminate_procs:
  assumes "calm w" and "1 < pid" and "group_leader w pid"
  shows "w_procs (snd (terminate_process pid w)) = filter (\<lambda>(q, g). g \<noteq> pid) (w_procs w)"
proof (cases "list_ex (\<lambda>(q, g). g = pid) (w_procs w)")
  case True
  then show ?thesis using kill_group [OF assms(1,2)] assms(2) by (simp add: terminate_process_def)
next
  case False
  then have "filter (\<lambda>(q, g). g \<noteq> pid) (w_procs w) = w_procs w" by (auto simp: list_ex_iff filter_id_conv)
  then show ?thesis using kill_nothing [OF assms(2) False assms(3)] assms(2) by (simp add: terminate_process_def)
qed

section \<open>Removing the artefacts\<close>

lemma remove_all_absent: "lookup_node w q = None \<Longrightarrow> lookup_node (snd (os_remove_all p w)) q = None"
  by (auto simp: os_remove_all_def lookup_node_def split: if_split_asm)

lemma cleanup_data_absent: "lookup_node w q = None \<Longrightarrow> lookup_node (snd (cleanup_user_data_dir d w)) q = None"
  by (simp add: cleanup_user_data_dir_def remove_all_absent)

lemma remove_no_file: "file_at w q = None \<Longrightarrow> file_at (snd (os_remove p w)) q = None"
  by (cases "path_clean p = path_clean q")
    (auto simp: os_remove_def file_at_def lookup_node_def put_node_def split: option.splits node.splits if_splits)

lemma clear_absent:
  "lookup_node w q = None \<Longrightarrow> lookup_node (snd (session_clear d w)) q = None"
  "file_at w q = None \<Longrightarrow> file_at (snd (session_clear d w)) q = None"
  using remove_keeps_absent [of w q "session_path d"] remove_no_file [of w q "session_path d"]
  by (auto simp: session_clear_def io_case_def split: prod.splits sum.splits)

lemma cleanup_data_outside:
  assumes "cleanup_user_data_dir d w = (Inr (), w')" and "d = [] \<or> \<not> path_under d q"
  shows "file_at w' (path_clean q) = file_at w (path_clean q)"
  using assms removed_outside [of d w w' q] by (auto simp: cleanup_user_data_dir_def split: if_splits)

lemma config_text_file_at: "file_at w' p = file_at w p \<Longrightarrow> config_text w' p = config_text w p"
  by (simp add: config_text_def)

lemma file_at_clean: "p \<noteq> [] \<Longrightarrow> file_at w (path_clean p) = file_at w p"
  by (simp add: file_at_def lookup_node_def)

text \<open>A path the artefacts of a session do not cover.\<close>

definition outside :: "session_state \<Rightarrow> string \<Rightarrow> bool" where
  "outside s q \<longleftrightarrow>
     (\<forall>p \<in> {st_ssh_config s, st_known_hosts s}. p = [] \<or> path_clean p \<noteq> path_clean q) \<and>
     (st_vscode_dir s = [] \<or> \<not> path_under (st_vscode_dir s) q)"

lemma cleanup_artifacts_ok:
  assumes "cleanup_session_artifacts s w = (Inr (), w')"
  shows "st_ssh_config s \<noteq> [] \<Longrightarrow> lookup_node w' (st_ssh_config s) = None"
    and "st_known_hosts s \<noteq> [] \<Longrightarrow> lookup_node w' (st_known_hosts s) = None"
    and "st_vscode_dir s \<noteq> [] \<Longrightarrow> path_under (st_vscode_dir s) q \<Longrightarrow> file_at w' (path_clean q) = None"
    and "outside s q \<Longrightarrow> path_clean (st_user_ssh_config s) \<noteq> path_clean q \<or> st_user_ssh_config s = [] \<Longrightarrow>
         file_at w' (path_clean q) = file_at w (path_clean q)"
    and "st_user_ssh_config s \<noteq> [] \<Longrightarrow> st_target s \<noteq> [] \<Longrightarrow> outside s (st_user_ssh_config s) \<Longrightarrow>
         config_text w' (st_user_ssh_config s) = remove_managed_block (config_text w (st_user_ssh_config s)) (st_target s)"
proof -
  let ?files = "\<lparr>sf_config_path = st_ssh_config s, sf_known_hosts_path = st_known_hosts s\<rparr>"
  obtain w1 w2 where blk: "remove_managed_block_file (st_user_ssh_config s) (st_target s) w = (Inr (), w1)"
    and ssh: "ssh_cleanup ?files w1 = (Inr (), w2)" and data: "cleanup_user_data_dir (st_vscode_dir s) w2 = (Inr (), w')"
    using assms by (auto simp: cleanup_session_artifacts_def io_bind_eq_Inr)
  have gone: "lookup_node w' p = None" if "p \<in> {st_ssh_config s, st_known_hosts s}" "p \<noteq> []" for p
  proof -
    have "lookup_node w2 p = None" using cleanup_paths_ok [OF ssh [unfolded ssh_cleanup_def]] that by simp
    then show ?thesis using cleanup_data_absent [of w2 p "st_vscode_dir s"] data by simp
  qed
  then show "st_ssh_config s \<noteq> [] \<Longrightarrow> lookup_node w' (st_ssh_config s) = None"
      "st_known_hosts s \<noteq> [] \<Longrightarrow> lookup_node w' (st_known_hosts s) = None" by simp_all
  show "file_at w' (path_clean q) = None" if "st_vscode_dir s \<noteq> []" "path_under (st_vscode_dir s) q"
    using data that removed_below [of "st_vscode_dir s" w2 w' q] by (auto simp: cleanup_user_data_dir_def)
  have same: "file_at w' (path_clean q) = file_at w1 (path_clean q)" if "outside s q" for q
  proof -
    have "file_at w' (path_clean q) = file_at w2 (path_clean q)"
      using cleanup_data_outside [OF data] that by (simp add: outside_def)
    also have "\<dots> = file_at w1 (path_clean q)"
      using that by (intro leaves_result [OF leaves_file_at [OF ssh_cleanup_leaves(2)] ssh]) (auto simp: outside_def)
    finally show ?thesis .
  qed
  show "file_at w' (path_clean q) = file_at w (path_clean q)"
    if "outside s q" "path_clean (st_user_ssh_config s) \<noteq> path_clean q \<or> st_user_ssh_config s = []"
  proof -
    have "file_at w1 (path_clean q) = file_at w (path_clean q)"
    proof (cases "st_user_ssh_config s = []")
      case True
      then show ?thesis using blk by (simp add: remove_managed_block_file_def)
    next
      case False
      then have "path_clean (st_user_ssh_config s) \<noteq> path_clean (path_clean q)" using that(2) by simp
      from leaves_result [OF remove_file_leaves(2) [OF this] blk] show ?thesis .
    qed
    then show ?thesis using same [OF that(1)] by simp
  qed
  show "config_text w' (st_user_ssh_config s) = remove_managed_block (config_text w (st_user_ssh_config s)) (st_target s)"
    if "st_user_ssh_config s \<noteq> []" "st_target s \<noteq> []" "outside s (st_user_ssh_config s)"
  proof -
    have "file_at w' (st_user_ssh_config s) = file_at w1 (st_user_ssh_config s)"
      using same [OF that(3)] file_at_clean [OF that(1)] by simp
    then show ?thesis using remove_file_ok [OF blk that(1,2)] config_text_file_at by metis
  qed
qed

section \<open>Disconnecting\<close>

lemma load_keeps:
  assumes "session_load dir w = (r, w1)"
  shows "w_nodes w1 = w_nodes w" and "w_procs w1 = w_procs w" and "calm w1 = calm w"
  using leaves_result [OF session_load_nodes assms] leaves_result [OF leaves_procs [OF session_load_leaves(1)] assms]
    leaves_result [OF leaves_calm [OF session_load_leaves(1)] assms] by simp_all

lemma lookup_nodes: "w_nodes w' = w_nodes w \<Longrightarrow> lookup_node w' q = lookup_node w q"
  by (simp add: lookup_node_def)

lemma no_session_calm:
  assumes "calm w" and "lookup_node w (session_path dir) = None"
  shows "session_load dir w = (Inl err_not_found, bump w)"
    and "session_clear dir w = (Inr (), bump w)"
  using assms by (simp_all add: session_load_def session_clear_def io_case_def read_file_none os_remove_def)

lemma errors_is_not_found [simp]: "errors_is err_not_found err_not_found"
  by (simp add: err_not_found_def)

lemma disconnect_again:
  assumes "calm w" and "lookup_node w (session_path dir) = None"
  shows "disconnect_session dir w = (Inr (), bump (bump w))"
  using assms no_session_calm [of w dir] no_session_calm [of "bump w" dir]
  by (simp add: disconnect_session_def io_bind_def io_case_def)

lemma disconnect_steps:
  assumes "disconnect_session dir w = (Inr (), w')" and "session_load dir w = (Inr s, w1)"
  obtains w2 w3 where "w2 = snd (terminate_process (st_pid s) w1)" and "cleanup_session_artifacts s w2 = (Inr (), w3)"
    and "session_clear dir w3 = (Inr (), w')"
  using assms by (auto simp: disconnect_session_def io_bind_eq_Inr io_case_def)

lemma clear_outside:
  assumes "session_clear dir w = (Inr (), w')" and "path_clean q \<noteq> session_path dir"
  shows "file_at w' (path_clean q) = file_at w (path_clean q)"
proof -
  have "path_clean (path_clean q) \<noteq> session_path dir" using assms(2) by simp
  from leaves_result [OF session_clear_leaves(2) [OF this] assms(1)] show ?thesis .
qed

text \<open>The stages of a \<open>disconnect\<close>: the process has ended, the files are cleaned up, the record is cleared.\<close>

lemma disconnect_stages:
  assumes "disconnect_session dir w = (Inr (), w')" and "session_load dir w = (Inr s, w1)" and "calm w"
    and "1 < st_pid s" and "group_leader w (st_pid s)"
  obtains w2 w3 where "w_nodes w2 = w_nodes w" and "cleanup_session_artifacts s w2 = (Inr (), w3)"
    and "session_clear dir w3 = (Inr (), w')" and "calm w'"
    and "w_procs w' = filter (\<lambda>(q, g). g \<noteq> st_pid s) (w_procs w)"
proof -
  obtain w2 w3 where w2: "w2 = snd (terminate_process (st_pid s) w1)" and cl: "cleanup_session_artifacts s w2 = (Inr (), w3)"
    and clr: "session_clear dir w3 = (Inr (), w')" using disconnect_steps [OF assms(1,2)] .
  note keep = load_keeps [OF assms(2)]
  have calm1: "calm w1" using keep(3) assms(3) by simp
  then have "calm w2" using leavesD [OF terminate_calm] w2 by simp
  then have "calm w3" using leaves_result [OF leaves_calm [OF cleanup_artifacts_fixed] cl] by simp
  then have "calm w'" using leaves_result [OF leaves_calm [OF session_clear_leaves(1)] clr] by simp
  moreover have "w_nodes w2 = w_nodes w" using leavesD [OF terminate_nodes] keep(1) w2 by simp
  moreover have "group_leader w1 (st_pid s)" using assms(5) keep(2) by (simp add: group_leader_def)
  then have "w_procs w2 = filter (\<lambda>(q, g). g \<noteq> st_pid s) (w_procs w)"
    using terminate_procs [OF calm1 assms(4)] keep(2) w2 by simp
  then have "w_procs w' = filter (\<lambda>(q, g). g \<noteq> st_pid s) (w_procs w)"
    using leaves_result [OF leaves_procs [OF cleanup_artifacts_fixed] cl]
      leaves_result [OF leaves_procs [OF session_clear_leaves(1)] clr] by simp
  ultimately show thesis using that cl clr by blast
qed

text \<open>
  C2: after a successful \<open>disconnect\<close> no session is recorded, the process group of the tunnel has ended
  and no other process has, the SSH files and the user data of the session are gone, its block is
  out of the user's SSH configuration, and no other file has changed; a second \<open>disconnect\<close>
  succeeds and changes nothing.
\<close>

theorem disconnect_complete:
  assumes "disconnect_command cp w = (Inr resp, w')" and "command_session_dir cp = Inr dir"
    and "session_load dir w = (Inr s, w1)" and "calm w" and "1 < st_pid s" and "group_leader w (st_pid s)"
  shows "fst (session_load dir w') = Inl err_not_found \<and>
     w_procs w' = filter (\<lambda>(q, g). g \<noteq> st_pid s) (w_procs w) \<and>
     (\<forall>p \<in> {st_ssh_config s, st_known_hosts s}. lookup_node w' p = None) \<and>
     (\<forall>q. st_vscode_dir s \<noteq> [] \<and> path_under (st_vscode_dir s) q \<longrightarrow> file_at w' (path_clean q) = None) \<and>
     (st_user_ssh_config s \<noteq> [] \<and> st_target s \<noteq> [] \<and> outside s (st_user_ssh_config s) \<and>
        path_clean (st_user_ssh_config s) \<noteq> session_path dir \<longrightarrow>
      config_text w' (st_user_ssh_config s) = remove_managed_block (config_text w (st_user_ssh_config s)) (st_target s)) \<and>
     (\<forall>q. outside s q \<and> path_clean q \<notin> {path_clean (st_user_ssh_config s), session_path dir} \<longrightarrow>
        file_at w' (path_clean q) = file_at w (path_clean q)) \<and>
     (\<exists>w''. disconnect_command cp w' = (Inr resp, w'') \<and> w_nodes w'' = w_nodes w' \<and> w_procs w'' = w_procs w')"
proof (intro conjI)
  have run: "disconnect_session dir w = (Inr (), w')" and resp: "resp = disconnected"
    using assms(1,2) by (auto simp: disconnect_command_def io_bind_eq_Inr)
  obtain w2 w3 where nodes2: "w_nodes w2 = w_nodes w" and cl: "cleanup_session_artifacts s w2 = (Inr (), w3)"
    and clr: "session_clear dir w3 = (Inr (), w')" and calm': "calm w'"
    and procs: "w_procs w' = filter (\<lambda>(q, g). g \<noteq> st_pid s) (w_procs w)"
    using disconnect_stages [OF run assms(3-6)] .
  have same: "file_at w2 q = file_at w q" for q using file_at_nodes [OF nodes2] by simp
  have absent: "lookup_node w' (session_path dir) = None" using session_clear_ok [OF clr] .
  show "fst (session_load dir w') = Inl err_not_found" using session_load_none [OF calm' absent] .
  show "w_procs w' = filter (\<lambda>(q, g). g \<noteq> st_pid s) (w_procs w)" by (rule procs)
  note art = cleanup_artifacts_ok [OF cl]
  show "\<forall>p \<in> {st_ssh_config s, st_known_hosts s}. lookup_node w' p = None"
  proof
    fix p assume p: "p \<in> {st_ssh_config s, st_known_hosts s}"
    have "lookup_node w3 p = None" using art(1,2) p by (cases "p = []") auto
    then show "lookup_node w' p = None" using clear_absent(1) [of w3 p dir] clr by simp
  qed
  show "\<forall>q. st_vscode_dir s \<noteq> [] \<and> path_under (st_vscode_dir s) q \<longrightarrow> file_at w' (path_clean q) = None"
    using art(3) clear_absent(2) [of w3 _ dir] clr by auto
  show "st_user_ssh_config s \<noteq> [] \<and> st_target s \<noteq> [] \<and> outside s (st_user_ssh_config s) \<and>
        path_clean (st_user_ssh_config s) \<noteq> session_path dir \<longrightarrow>
      config_text w' (st_user_ssh_config s) = remove_managed_block (config_text w (st_user_ssh_config s)) (st_target s)"
  proof (intro impI, elim conjE)
    let ?p = "st_user_ssh_config s"
    assume p: "?p \<noteq> []" "st_target s \<noteq> []" "outside s ?p" "path_clean ?p \<noteq> session_path dir"
    have "file_at w' ?p = file_at w3 ?p" using clear_outside [OF clr p(4)] file_at_clean [OF p(1)] by simp
    then show "config_text w' ?p = remove_managed_block (config_text w ?p) (st_target s)"
      using art(5) [OF p(1-3)] config_text_file_at [OF same] config_text_file_at by metis
  qed
  show "\<forall>q. outside s q \<and> path_clean q \<notin> {path_clean (st_user_ssh_config s), session_path dir} \<longrightarrow>
        file_at w' (path_clean q) = file_at w (path_clean q)"
    using art(4) clear_outside [OF clr] same by auto
  show "\<exists>w''. disconnect_command cp w' = (Inr resp, w'') \<and> w_nodes w'' = w_nodes w' \<and> w_procs w'' = w_procs w'"
    using disconnect_again [OF calm' absent] by (simp add: disconnect_command_def io_bind_def assms(2) resp)
qed

text \<open>A running session of process 4711, whose block is in the user's SSH configuration.\<close>

definition demo_live_state :: session_state where
  "demo_live_state = demo_session\<lparr>st_pid := 4711, st_ssh_config := ''/s/ssh/ssh_config'', st_known_hosts := ''/s/ssh/known_hosts'',
     st_vscode_dir := ''/s/vscode-user-data''\<rparr>"

definition demo_live_world :: "string \<Rightarrow> world" where
  "demo_live_world data = \<lparr>w_nodes = [''/s'' \<mapsto> Dir 448, ''/s/session.json'' \<mapsto> File data 384, ''/s/ssh'' \<mapsto> Dir 448,
      ''/s/ssh/ssh_config'' \<mapsto> File ''Host dev'' 384, ''/s/ssh/known_hosts'' \<mapsto> File ''key'' 384,
      ''/s/vscode-user-data'' \<mapsto> Dir 448, ''/h/notes'' \<mapsto> File ''n'' 420],
     w_umask = 18, w_fault = (\<lambda>t op p. False), w_short = (\<lambda>t. 0), w_clock = 0,
     w_procs = [(4711, 4711), (4712, 4711), (9, 9)]\<rparr>"

definition demo_session_process :: cli_process where
  "demo_session_process = demo_process\<lparr>cp_getenv := (\<lambda>k. if k = ''DEV_CONNECT_SESSION_DIR'' then ''/s'' else if k = ''HOME'' then ''/home/me'' else [])\<rparr>"

lemma demo_live_calm: "calm (demo_live_world data)"
  by (simp add: calm_def demo_live_world_def)

lemma demo_live_ok: "state_ok demo_live_state" "validate_state demo_live_state = Inr ()"
  by code_simp+

lemma demo_session_dir: "command_session_dir demo_session_process = Inr ''/s''"
  by code_simp

lemma demo_live_loads:
  "\<exists>data. session_load ''/s'' (demo_live_world data) = (Inr demo_live_state, bump (demo_live_world data))"
proof -
  obtain data where data: "marshal_state demo_live_state = Inr data" "unmarshal_state data = Inr demo_live_state"
    using unmarshal_marshal [OF demo_live_ok] by blast
  have "file_at (demo_live_world data) (session_path ''/s'') = Some data"
    unfolding file_at_def lookup_node_def demo_session_path by (simp add: demo_live_world_def demo_clean)
  then show ?thesis using data(2) read_file_calm [OF demo_live_calm]
    by (intro exI [of _ data]) (simp add: session_load_def io_case_def)
qed

theorem disconnect_complete_witness:
  "\<exists>data resp w'. disconnect_command demo_session_process (demo_live_world data) = (Inr resp, w') \<and>
     w_procs w' = [(9, 9)] \<and> lookup_node w' ''/s/ssh/ssh_config'' = None \<and>
     file_at w' (path_clean ''/h/notes'') = file_at (demo_live_world data) (path_clean ''/h/notes'')"
proof -
  obtain data where load: "session_load ''/s'' (demo_live_world data) = (Inr demo_live_state, bump (demo_live_world data))"
    using demo_live_loads by blast
  have "fst (io_bind (io_ignore (terminate_process (st_pid demo_live_state))) (\<lambda>_. cleanup_session_artifacts demo_live_state)
      (bump (demo_live_world data))) = Inr ()" by code_simp
  then obtain w2 where clean: "io_bind (io_ignore (terminate_process (st_pid demo_live_state)))
      (\<lambda>_. cleanup_session_artifacts demo_live_state) (bump (demo_live_world data)) = (Inr (), w2)" by (metis prod.collapse)
  have "fst (session_clear ''/s'' (snd (io_bind (io_ignore (terminate_process (st_pid demo_live_state)))
      (\<lambda>_. cleanup_session_artifacts demo_live_state) (bump (demo_live_world data))))) = Inr ()" by code_simp
  then have "fst (session_clear ''/s'' w2) = Inr ()" using clean by simp
  then obtain w' where clr: "session_clear ''/s'' w2 = (Inr (), w')" by (metis prod.collapse)
  have run: "disconnect_command demo_session_process (demo_live_world data) = (Inr disconnected, w')"
    using load clean clr by (simp add: disconnect_command_def disconnect_session_def io_case_def io_bind_def demo_session_dir)
  have pid: "1 < st_pid demo_live_state" "group_leader (demo_live_world data) (st_pid demo_live_state)"
    by (simp_all add: demo_live_state_def group_leader_def demo_live_world_def)
  have paths: "st_ssh_config demo_live_state = ''/s/ssh/ssh_config''" by (simp add: demo_live_state_def)
  have out: "outside demo_live_state ''/h/notes''"
      "path_clean ''/h/notes'' \<notin> {path_clean (st_user_ssh_config demo_live_state), session_path ''/s''}"
    by code_simp+
  have procs: "filter (\<lambda>(q, g). g \<noteq> st_pid demo_live_state) (w_procs (demo_live_world data)) = [(9, 9)]"
    by (simp add: demo_live_state_def demo_live_world_def)
  from disconnect_complete [OF run demo_session_dir load demo_live_calm pid] run paths out procs show ?thesis
    by (intro exI [of _ data] exI [of _ disconnected] exI [of _ w']) auto
qed

section \<open>Connecting\<close>

lemma stale_calm: "calm w \<Longrightarrow> session_stale s w \<longleftrightarrow> 0 < st_pid s \<and> \<not> alive w (st_pid s)"
  by (auto simp: session_stale_def is_stale_def process_exists_calm)

text \<open>
  C16: while the recorded process runs, \<open>connect\<close> is refused: it ends with \<open>ErrLocked\<close>, starts no
  process and changes neither a file nor the process table. (A session without a recorded
  process blocks as well, until \<open>disconnect\<close>.)
\<close>

theorem connect_refused_while_active:
  assumes "cli_load_config (cp_unmarshal cp) (cp_getenv cp) (cp_goos cp) o1 (mc_state mc) = (Inr loaded, w1)"
    and "command_session_dir cp = Inr dir" and "session_load dir w1 = (Inr s, w2)"
    and "calm (mc_state mc)" and "st_pid s \<le> 0 \<or> alive (mc_state mc) (st_pid s)"
  shows "\<exists>mc'. connect_command ch sc rm cp o1 target_name mc = (Inl err_locked, mc') \<and>
     mc_started mc' = mc_started mc \<and> w_nodes (mc_state mc') = w_nodes (mc_state mc) \<and>
     w_procs (mc_state mc') = w_procs (mc_state mc)"
proof -
  have w1: "w_nodes w1 = w_nodes (mc_state mc)" "w_procs w1 = w_procs (mc_state mc)" "calm w1"
    using leaves_result [OF load_config_leaves(1) assms(1) [unfolded cli_load_config_def]]
      leaves_result [OF leaves_procs [OF load_config_leaves(2)] assms(1) [unfolded cli_load_config_def]]
      leaves_result [OF leaves_calm [OF load_config_leaves(2)] assms(1) [unfolded cli_load_config_def]] assms(4) by simp_all
  note w2 = load_keeps [OF assms(3)]
  have "alive w2 = alive (mc_state mc)" using w1(2) w2(2) by (simp add: fun_eq_iff alive_def)
  then have "\<not> session_stale s w2" using assms(5) w1(3) w2(3) by (auto simp: stale_calm)
  then have "ensure_no_active_session dir w1 = (Inl err_locked, w2)"
    using assms(3) by (simp add: ensure_no_active_session_def io_case_def)
  then have "begin_connect cp o1 target_name (mc_state mc) = (Inl err_locked, w2)"
    using assms(1,2) by (simp add: begin_connect_def io_bind_def)
  then have "connect_command ch sc rm cp o1 target_name mc = (Inl err_locked, mc\<lparr>mc_state := w2\<rparr>)"
    by (simp add: connect_command_def io_bind_def on_world_def)
  then show ?thesis using w1 w2 by simp
qed

definition demo_active_world :: "string \<Rightarrow> world" where
  "demo_active_world data = (demo_files data)\<lparr>w_procs := [(4711, 4711)]\<rparr>"

lemma demo_active_load:
  "fst (cli_load_config (cp_unmarshal demo_session_process) (cp_getenv demo_session_process) (cp_goos demo_session_process)
     demo_cli_options (demo_active_world data)) = Inr \<lparr>lo_config = fill_refs demo_config, lo_path = ''/c/config.yaml''\<rparr>"
  by code_simp

theorem connect_refused_while_active_witness:
  "\<forall>ch sc rm. \<exists>data mc'. connect_command ch sc rm demo_session_process demo_cli_options ''dev''
     \<lparr>mc_started = [], mc_state = demo_active_world data\<rparr> = (Inl err_locked, mc') \<and> mc_started mc' = []"
proof (intro allI)
  fix ch :: "world child" and sc and rm :: "world machine remote_child"
  obtain data where data: "marshal_state demo_live_state = Inr data" "unmarshal_state data = Inr demo_live_state"
    using unmarshal_marshal [OF demo_live_ok] by blast
  let ?mc = "\<lparr>mc_started = [], mc_state = demo_active_world data\<rparr>"
  obtain w1 where load: "cli_load_config (cp_unmarshal demo_session_process) (cp_getenv demo_session_process)
      (cp_goos demo_session_process) demo_cli_options (mc_state ?mc) =
      (Inr \<lparr>lo_config = fill_refs demo_config, lo_path = ''/c/config.yaml''\<rparr>, w1)"
    using demo_active_load [of data] by (metis machine.select_convs(2) prod.collapse)
  have calm: "calm (mc_state ?mc)" by (simp add: calm_def demo_active_world_def demo_files_def)
  have w1: "w_nodes w1 = w_nodes (demo_active_world data)" "calm w1"
    using leaves_result [OF load_config_leaves(1) load [unfolded cli_load_config_def]]
      leaves_result [OF load_config_leaves(2) [THEN leaves_calm] load [unfolded cli_load_config_def]] calm by simp_all
  have "file_at w1 (session_path ''/s'') = Some data"
    unfolding file_at_def lookup_node_def w1(1) demo_session_path
    by (simp add: demo_active_world_def demo_files_def demo_clean)
  then obtain w2 where session: "session_load ''/s'' w1 = (Inr demo_live_state, w2)"
    using session_load_file [OF w1(2)] data(2) by (metis prod.collapse)
  have "st_pid demo_live_state \<le> 0 \<or> alive (mc_state ?mc) (st_pid demo_live_state)"
    by (simp add: demo_live_state_def alive_def demo_active_world_def)
  from connect_refused_while_active [OF load demo_session_dir session calm this, of ch sc rm "''dev''"]
  show "\<exists>data mc'. connect_command ch sc rm demo_session_process demo_cli_options ''dev''
     \<lparr>mc_started = [], mc_state = demo_active_world data\<rparr> = (Inl err_locked, mc') \<and> mc_started mc' = []" by auto
qed

text \<open>
  The check for an active session takes nothing: two \<open>connect\<close> commands that run it one after the
  other, before either has saved its session, both pass it.
\<close>

lemma session_check_takes_no_lock:
  assumes "calm w" and "lookup_node w (session_path dir) = None"
  shows "\<exists>w1 w2. ensure_no_active_session dir w = (Inr (), w1) \<and> ensure_no_active_session dir w1 = (Inr (), w2) \<and>
     w_nodes w2 = w_nodes w \<and> w_procs w2 = w_procs w"
  using no_session_calm(1) [OF assms] no_session_calm(1) [of "bump w" dir] assms
  by (simp add: ensure_no_active_session_def io_case_def)

theorem session_check_takes_no_lock_witness:
  "\<exists>w1 w2. ensure_no_active_session ''/s'' demo_session_world = (Inr (), w1) \<and>
     ensure_no_active_session ''/s'' w1 = (Inr (), w2) \<and> w_nodes w2 = w_nodes demo_session_world"
proof -
  have "lookup_node demo_session_world (session_path ''/s'') = None" by code_simp
  from session_check_takes_no_lock [OF demo_session_world_calm this] show ?thesis by blast
qed


definition demo_tunnel :: tunnel_result where
  "demo_tunnel = \<lparr>tr_ready = True, tr_attempts = 1, tr_pid = 4711\<rparr>"

definition demo_no_code :: cli_options where
  "demo_no_code = demo_cli_options\<lparr>op_no_code := True\<rparr>"

lemma demo_record:
  "\<exists>mc'. record_supervisor demo_prepared demo_tunnel demo_machine = (Inr (demo_session\<lparr>st_pid := 4711\<rparr>), mc')"
proof -
  have "fst (session_save ''/s'' (demo_session\<lparr>st_pid := 4711\<rparr>) (mc_state demo_machine)) = Inr ()" by code_simp
  then obtain w where save: "session_save ''/s'' (demo_session\<lparr>st_pid := 4711\<rparr>) (mc_state demo_machine) = (Inr (), w)"
    by (metis prod.collapse)
  then show ?thesis
    by (simp add: record_supervisor_def demo_tunnel_def demo_prepared_def Let_def io_bind_def or_abandon_def io_case_def
        on_world_def)
qed



definition demo_managed_config :: config where
  "demo_managed_config = demo_config\<lparr>cfg_ssh := (cfg_ssh demo_config)\<lparr>ssh_manage_user_config := True\<rparr>\<rparr>"

definition demo_homeless_process :: cli_process where
  "demo_homeless_process = demo_process\<lparr>cp_getenv := (\<lambda>k. [])\<rparr>"


section \<open>From connect to the supervisor\<close>

lemma prepared_state:
  assumes "prepare_session o1 w = (Inr r, w1)"
  shows "\<exists>re al files. resolve_target (co_config o1) (co_target o1) (co_gateway o1) = Inr re \<and>
     cr_state r = state_for o1 re al files \<and> cr_gateway r = re_gateway re \<and> cr_local_port r = al_port al \<and>
     cr_target_name r = co_target o1 \<and> cr_session_dir r = co_session_dir o1 \<and>
     session_on_disk (co_session_dir o1) (cr_state r) w1"
  using assms
proof (rule prepare_steps)
  fix re al w1' w2 files
  assume "session_save (co_session_dir o1) (state_for o1 re al files) w2 = (Inr (), w1)"
  from session_save_on_disk [OF this]
  show "r = \<lparr>cr_target_name = co_target o1, cr_target = re_target re, cr_gateway_name = re_gateway_name re,
        cr_gateway = re_gateway re, cr_local_host = al_host al, cr_local_port = al_port al,
        cr_ssh_files = files, cr_session_dir = co_session_dir o1, cr_state = state_for o1 re al files\<rparr> \<Longrightarrow>
    resolve_target (co_config o1) (co_target o1) (co_gateway o1) = Inr re \<Longrightarrow> ?thesis"
    by auto
qed

lemma resolved_gateway:
  "resolve_target cfg n g = Inr re \<Longrightarrow> map_of (cfg_gateways cfg) (re_gateway_name re) = Some (re_gateway re)"
  by (auto simp: resolve_target_def Let_def split: option.splits if_splits)

text \<open>
  C5: the supervisor process, started with the arguments \<open>connect\<close> gives it, finds the session that was
  prepared and forwards exactly what the preflight probed and the inline tunnel would have
  started: the namespace, service and port of the target's gateway, on the local port of the SSH
  configuration, in the selected cluster. Apart from finding \<open>kubectl\<close> it cannot fail to start.
\<close>

theorem supervisor_forwards_prepared_session:
  assumes "prepare_session (connect_options_for cp o1 cfg target dir ssh_dir) w = (Inr r, w1)"
    and "selected_cluster cfg o1 = Inr cl" and "validate_options o1 = Inr ()" and "\<not> prefix ''-'' target"
    and "cli_load_config (cp_unmarshal cp) (cp_getenv cp) (cp_goos cp) (supervisor_options o1 config_path) w1 = (Inr loaded, w2)"
    and "lo_config loaded = cfg" and "calm w1" and "state_ok (cr_state r)"
  shows "\<exists>v w3.
     read_args empty_view (supervisor_args o1 config_path (cr_target_name r) (cr_session_dir r) ready_file) = Some v \<and>
     sw_positional v = [''tunnel-supervisor'', target] \<and> sw_ready_file v = ready_file \<and>
     (case kubectl_path_for cp (sw_options v) cl w3 of
        (Inl e, w4) \<Rightarrow> supervisor_setup cp (sw_options v) (sw_session_dir v) target w1 = (Inl e, w4)
      | (Inr path, w4) \<Rightarrow>
          (\<exists>p. supervisor_setup cp (sw_options v) (sw_session_dir v) target w1 = (Inr p, w4) \<and> fp_path p = path \<and>
             fp_state p = cr_state r \<and>
             supervisor_command p = probe_command (cluster_preflight ch cp cl r path) \<and>
             supervisor_command p = start_command (inline_start_options o1 cl r)))"
proof -
  let ?co = "connect_options_for cp o1 cfg target dir ssh_dir" and ?o = "supervisor_options o1 config_path"
  obtain re al files where re: "resolve_target cfg target (op_gateway o1) = Inr re"
    and st: "cr_state r = state_for ?co re al files" "cr_gateway r = re_gateway re" "cr_local_port r = al_port al"
      "cr_target_name r = target" "cr_session_dir r = dir" and disk: "session_on_disk dir (cr_state r) w1"
    using prepared_state [OF assms(1)] by (auto simp: connect_options_for_def)
  have target: "st_target (cr_state r) = target" and gw: "st_gateway (cr_state r) = re_gateway_name re"
    and ns: "st_namespace (cr_state r) = gw_namespace (re_gateway re)" and port: "st_local_port (cr_state r) = al_port al"
    by (simp_all add: st(1) state_for_def connect_options_for_def)
  have w2: "w_nodes w2 = w_nodes w1" "calm w2"
    using leaves_result [OF load_config_leaves(1) assms(5) [unfolded cli_load_config_def]]
      leaves_result [OF load_config_leaves(2) [THEN leaves_calm] assms(5) [unfolded cli_load_config_def]] assms(7) by simp_all
  have "session_on_disk dir (cr_state r) w2" using disk file_at_nodes [OF w2(1)] by (simp add: session_on_disk_def)
  then obtain w3 where load: "session_load dir w2 = (Inr (cr_state r), w3)"
    using session_on_disk_load [OF _ assms(8) w2(2)] by (metis prod.collapse)
  have cluster: "selected_cluster cfg ?o = Inr cl" using supervisor_selects_same assms(2) by simp
  have run: "supervisor_setup cp ?o dir target w1 =
      (case kubectl_path_for cp ?o cl w3 of (Inl e, w4) \<Rightarrow> (Inl e, w4)
       | (Inr path, w4) \<Rightarrow> (Inr \<lparr>fp_state = cr_state r, fp_cluster = cl, fp_gateway = re_gateway re, fp_path = path\<rparr>, w4))"
    using assms(5,6) cluster load target gw resolved_gateway [OF re]
    by (simp add: supervisor_setup_def io_bind_def split: prod.split sum.split)
  have cmd: "supervisor_command \<lparr>fp_state = cr_state r, fp_cluster = cl, fp_gateway = re_gateway re, fp_path = path\<rparr> =
      session_forward cl (cr_gateway r) (cr_local_port r)" for path
    by (simp add: supervisor_command_def session_forward_def ns port st(2,3))
  show ?thesis
    unfolding st(4,5) read_supervisor_args [OF assms(3,4)]
    by (intro exI [of _ w3] exI conjI refl)
      (auto simp: run cmd probe_is_session_forward inline_is_session_forward split: prod.split sum.split)
qed

definition demo_selected :: cluster where
  "demo_selected = the (map_of (cfg_clusters demo_config) ''c1'')"

definition demo_prepare :: "(connect_result, world) io" where
  "demo_prepare = prepare_session (connect_options_for demo_process demo_cli_options (fill_refs demo_config) ''dev'' ''/s'' ''/s/ssh'')"

lemma demo_prepare_ok: "map_sum (\<lambda>_. ()) (\<lambda>r. state_ok (cr_state r)) (fst (demo_prepare (demo_files []))) = Inr True"
  by code_simp

lemma prepare_fixed: "leaves fixed_part (co_allocate o1) \<Longrightarrow> leaves fixed_part (prepare_session o1)"
  unfolding prepare_session_def Let_def by ((intro frame | simp)+)

lemma demo_prepare_calm: "calm (snd (demo_prepare (demo_files [])))"
proof -
  have "leaves fixed_part (cli_allocate_port demo_process)"
    by (simp add: cli_allocate_port_def allocate_loopback_def demo_process_def Let_def leaves_def io_bind_def io_wrap_def)
  then have "leaves fixed_part demo_prepare"
    unfolding demo_prepare_def by (intro prepare_fixed) (simp add: connect_options_for_def)
  moreover have "calm (demo_files [])" by (simp add: calm_def demo_files_def)
  ultimately show ?thesis using leavesD [OF leaves_calm] by blast
qed

lemma demo_reload:
  "fst (cli_load_config (cp_unmarshal demo_process) (cp_getenv demo_process) (cp_goos demo_process)
     (supervisor_options demo_cli_options ''/c/config.yaml'') (snd (demo_prepare (demo_files [])))) =
   Inr \<lparr>lo_config = fill_refs demo_config, lo_path = ''/c/config.yaml''\<rparr>"
  by code_simp

theorem supervisor_forwards_prepared_session_witness:
  "\<forall>ch. \<exists>r v w3.
     read_args empty_view (supervisor_args demo_cli_options ''/c/config.yaml'' (cr_target_name r) (cr_session_dir r) ''/s/r'') = Some v \<and>
     sw_ready_file v = ''/s/r'' \<and>
     (case kubectl_path_for demo_process (sw_options v) demo_selected w3 of
        (Inl e, w4) \<Rightarrow> True
      | (Inr path, w4) \<Rightarrow> \<exists>p. fp_state p = cr_state r \<and>
          supervisor_command p = probe_command (cluster_preflight ch demo_process demo_selected r path))"
proof (intro allI)
  fix ch :: "world child"
  obtain r w1 where run: "demo_prepare (demo_files []) = (Inr r, w1)" and ok: "state_ok (cr_state r)"
    using demo_prepare_ok by (cases "demo_prepare (demo_files [])"; cases "fst (demo_prepare (demo_files []))") auto
  have cluster: "selected_cluster (fill_refs demo_config) demo_cli_options = Inr demo_selected"
    unfolding demo_selected_def by (rule demo_cluster)
  have options: "validate_options demo_cli_options = Inr ()" "\<not> prefix ''-'' ''dev''" by code_simp simp
  have calm: "calm w1" using demo_prepare_calm run by simp
  obtain w2 where load: "cli_load_config (cp_unmarshal demo_process) (cp_getenv demo_process) (cp_goos demo_process)
      (supervisor_options demo_cli_options ''/c/config.yaml'') w1 =
      (Inr \<lparr>lo_config = fill_refs demo_config, lo_path = ''/c/config.yaml''\<rparr>, w2)"
    using demo_reload run by (metis prod.collapse snd_conv)
  have config: "lo_config \<lparr>lo_config = fill_refs demo_config, lo_path = ''/c/config.yaml''\<rparr> = fill_refs demo_config" by simp
  from supervisor_forwards_prepared_session [OF run [unfolded demo_prepare_def] cluster options load config calm ok, of "''/s/r''" ch]
  obtain v w3 where
    "read_args empty_view (supervisor_args demo_cli_options ''/c/config.yaml'' (cr_target_name r) (cr_session_dir r) ''/s/r'') = Some v"
    "sw_ready_file v = ''/s/r''"
    "case kubectl_path_for demo_process (sw_options v) demo_selected w3 of
        (Inl e, w4) \<Rightarrow> supervisor_setup demo_process (sw_options v) (sw_session_dir v) ''dev'' w1 = (Inl e, w4)
      | (Inr path, w4) \<Rightarrow>
          (\<exists>p. supervisor_setup demo_process (sw_options v) (sw_session_dir v) ''dev'' w1 = (Inr p, w4) \<and> fp_path p = path \<and>
             fp_state p = cr_state r \<and>
             supervisor_command p = probe_command (cluster_preflight ch demo_process demo_selected r path) \<and>
             supervisor_command p = start_command (inline_start_options demo_cli_options demo_selected r))"
    by (elim exE conjE) (rule that; assumption)
  then show "\<exists>r v w3.
     read_args empty_view (supervisor_args demo_cli_options ''/c/config.yaml'' (cr_target_name r) (cr_session_dir r) ''/s/r'') = Some v \<and>
     sw_ready_file v = ''/s/r'' \<and>
     (case kubectl_path_for demo_process (sw_options v) demo_selected w3 of
        (Inl e, w4) \<Rightarrow> True
      | (Inr path, w4) \<Rightarrow> \<exists>p. fp_state p = cr_state r \<and>
          supervisor_command p = probe_command (cluster_preflight ch demo_process demo_selected r path))"
    by (intro exI [of _ r] exI [of _ v] exI [of _ w3]) (auto split: prod.splits sum.splits)
qed

end
