(* ===== verification/Cli_Main.thy ===== *)
theory Cli_Main
  imports Cli_Sessions
begin

text \<open>
  The process around the commands of \<open>cmd/dev-connect/main.go\<close>: the options are checked first, the
  command runs, its response is logged and printed, and an error ends the process with status
  1. Reading the arguments is \<open>cobra\<close>'s: the model starts from the parsed options and the chosen
  command. The hidden \<open>tunnel-supervisor\<close> command is \<open>Cli_Supervisor.run_tunnel_supervisor\<close>; \<open>help\<close> prints
  the text \<open>cobra\<close> generates. What an error prints on standard error is left out.
\<close>

section \<open>Commands\<close>

text \<open>The variables the linker sets, with the version and architecture of the Go runtime.\<close>

record build =
  bd_version :: string
  bd_commit :: string
  bd_date :: string
  bd_go_version :: string
  bd_arch :: string

datatype cli_command =
    Connect_Command string
  | Disconnect_Command
  | Status_Command
  | List_Command
  | Version_Command
  | Config_Location_Command
  | Config_Validate_Command

definition version_response :: "build \<Rightarrow> cli_process \<Rightarrow> response" where
  "version_response bd cp =
     empty_response
       \<lparr>rp_api_version := output_api_version, rp_status := ''ok'', rp_version := bd_version bd, rp_commit := bd_commit bd,
        rp_build_date := bd_date bd, rp_go_version := bd_go_version bd, rp_os := cp_goos cp, rp_arch := bd_arch bd\<rparr>"

type_synonym log_record = "(string \<times> (string \<times> attr_value) list) option"

text \<open>\<open>respond\<close>: the last two calls of a command.\<close>

definition respond :: "cli_options \<Rightarrow> string \<Rightarrow> (response, 'w) io \<Rightarrow> (string \<times> log_record, 'w) io" where
  "respond o1 name m = io_bind m (\<lambda>r. io_return (write_response o1 r, log_command o1 name r))"

fun run_command ::
  "world child \<Rightarrow> supervisor_child \<Rightarrow> world machine remote_child \<Rightarrow> cli_process \<Rightarrow> build \<Rightarrow> cli_options \<Rightarrow>
   cli_command \<Rightarrow> (string \<times> log_record, world machine) io" where
  "run_command ch sc rm cp bd o1 (Connect_Command target_name) =
     respond o1 ''connect'' (connect_command ch sc rm cp o1 target_name)"
| "run_command ch sc rm cp bd o1 Disconnect_Command = respond o1 ''disconnect'' (on_world (disconnect_command cp))"
| "run_command ch sc rm cp bd o1 Status_Command = respond o1 ''status'' (on_world (status_command cp))"
| "run_command ch sc rm cp bd o1 List_Command = respond o1 ''list'' (on_world (list_command cp o1))"
| "run_command ch sc rm cp bd o1 Version_Command = io_return (write_json (version_response bd cp), None)"
| "run_command ch sc rm cp bd o1 Config_Location_Command =
     io_bind (on_world (config_location (cp_getenv cp) (cp_goos cp) o1)) (\<lambda>path. io_return (path @ [CHR 0x0A], None))"
| "run_command ch sc rm cp bd o1 Config_Validate_Command =
     respond o1 ''config validate'' (on_world (config_validate_command cp o1))"

record cli_result =
  cx_code :: int
  cx_stdout :: string
  cx_log :: log_record

definition cli_main ::
  "world child \<Rightarrow> supervisor_child \<Rightarrow> world machine remote_child \<Rightarrow> cli_process \<Rightarrow> build \<Rightarrow> cli_options \<Rightarrow>
   cli_command \<Rightarrow> world machine \<Rightarrow> cli_result \<times> world machine" where
  "cli_main ch sc rm cp bd o1 command mc =
     (case io_bind (io_lift (validate_options o1)) (\<lambda>_. run_command ch sc rm cp bd o1 command) mc of
        (Inl e, mc) \<Rightarrow> (\<lparr>cx_code = 1, cx_stdout = [], cx_log = None\<rparr>, mc)
      | (Inr (out, log), mc) \<Rightarrow> (\<lparr>cx_code = 0, cx_stdout = out, cx_log = log\<rparr>, mc))"

section \<open>Commands that only look\<close>

definition looks_only :: "cli_command \<Rightarrow> bool" where
  "looks_only command \<longleftrightarrow> command \<in> {Status_Command, List_Command, Version_Command, Config_Location_Command, Config_Validate_Command}"

text \<open>\<open>kept\<close>: what a command may not change.\<close>

definition kept :: "world machine \<Rightarrow> _" where
  "kept mc = (mc_started mc, w_nodes (mc_state mc), fixed_part (mc_state mc))"

lemma kept_on_world: "leaves w_nodes m \<Longrightarrow> leaves fixed_part m \<Longrightarrow> leaves kept (on_world m)"
  by (simp add: leaves_def kept_def on_world_apply)

lemma stat_nodes: "leaves w_nodes (os_stat p)"
  by (simp add: leaves_def os_stat_def)

lemma location_looks: "leaves w_nodes (config_location getenv goos o1)" "leaves fixed_part (config_location getenv goos o1)"
  unfolding config_location_def Let_def by (intro frame stat_nodes)+

lemma status_looks: "leaves w_nodes (status_command cp)" "leaves fixed_part (status_command cp)"
proof -
  have reply: "leaves f (\<lambda>w. io_return (r w) w)" for f :: "world \<Rightarrow> 'a" and r :: "world \<Rightarrow> response"
    by (simp add: leaves_def)
  show "leaves w_nodes (status_command cp)" unfolding status_command_def by (intro frame session_load_nodes reply)
  show "leaves fixed_part (status_command cp)" unfolding status_command_def by (intro frame session_load_leaves reply)
qed

lemma list_looks:
  "leaves w_nodes (list_command cp o1)" "leaves fixed_part (list_command cp o1)"
  "leaves w_nodes (config_validate_command cp o1)" "leaves fixed_part (config_validate_command cp o1)"
  unfolding list_command_def config_validate_command_def cli_load_config_def Let_def by (intro frame)+

lemma respond_looks: "leaves f m \<Longrightarrow> leaves f (respond o1 name m)"
  unfolding respond_def by (intro frame)

lemma run_looks: "looks_only command \<Longrightarrow> leaves kept (run_command ch sc rm cp bd o1 command)"
  by (cases command)
    (auto simp: looks_only_def intro!: respond_looks kept_on_world status_looks list_looks location_looks frame)

section \<open>The path of the configuration\<close>

text \<open>The path a user or the environment names; it wins over the default places.\<close>

definition named_config :: "(string \<Rightarrow> string) \<Rightarrow> cli_options \<Rightarrow> string" where
  "named_config getenv o1 = (if op_config_path o1 \<noteq> [] then op_config_path o1 else getenv ''DEV_CONNECT_CONFIG'')"

text \<open>\<open>config location\<close> on a machine without failures of its own.\<close>

definition location_spec :: "world \<Rightarrow> string \<Rightarrow> string" where
  "location_spec w dir =
     (let default_path = path_join [dir, default_file_name]; development_path = path_join [''.'', default_file_name]
      in if lookup_node w default_path = None \<and> lookup_node w development_path \<noteq> None then development_path else default_path)"

lemma stat_calm:
  "calm w \<Longrightarrow> os_stat p w = ((case lookup_node w p of None \<Rightarrow> Inl (Errno ENOENT) | Some n \<Rightarrow> Inr n), bump w)"
  by (simp add: os_stat_def)

lemma location_named: "named_config getenv o1 \<noteq> [] \<Longrightarrow> fst (config_location getenv goos o1 w) = Inr (named_config getenv o1)"
  by (auto simp: named_config_def config_location_def io_return_def)

lemma location_default:
  assumes "named_config getenv o1 = []" and "default_dir_for goos (getenv ''HOME'') (getenv ''APPDATA'') = Inr dir" and "calm w"
  shows "fst (config_location getenv goos o1 w) = Inr (location_spec w dir)"
  using assms
  by (simp add: named_config_def config_location_def io_bind_def io_case_def io_fail_def io_return_def stat_calm Let_def
      location_spec_def split: if_splits option.split)

lemma loaded_first:
  assumes "cli_load_config unmarshal getenv goos o1 w = (Inr lo, w')" and "calm w"
  shows "\<exists>dir. default_dir_for goos (getenv ''HOME'') (getenv ''APPDATA'') = Inr dir \<and>
     find (\<lambda>c. lookup_node w c \<noteq> None)
       [op_config_path o1, getenv ''DEV_CONNECT_CONFIG'', path_join [dir, default_file_name],
        path_join [''.'', default_file_name]] = Some (lo_path lo)"
proof -
  let ?l = "cli_loader getenv o1"
  have "(case candidates goos (getenv ''HOME'') (getenv ''APPDATA'') ?l of
      Inl e \<Rightarrow> Inl e | Inr cs \<Rightarrow> load_spec unmarshal w cs) = Inr lo"
    using load_config_functional [OF assms(2), of unmarshal goos "getenv ''HOME''" "getenv ''APPDATA''" ?l] assms(1)
    by (simp add: cli_load_config_def)
  then obtain cs where cs: "candidates goos (getenv ''HOME'') (getenv ''APPDATA'') ?l = Inr cs" "load_spec unmarshal w cs = Inr lo"
    by (auto split: sum.splits)
  from cs(2) have "find (\<lambda>c. lookup_node w c \<noteq> None) cs = Some (lo_path lo)"
    by (auto simp: load_spec_def split: option.splits sum.splits)
  moreover obtain dir where "default_dir_for goos (getenv ''HOME'') (getenv ''APPDATA'') = Inr dir"
      "cs = [op_config_path o1, getenv ''DEV_CONNECT_CONFIG'', path_join [dir, default_file_name], path_join [''.'', default_file_name]]"
    using cs(1) by (simp add: candidates_def cli_loader_def Let_def split: sum.splits)
  ultimately show ?thesis by blast
qed

section \<open>Properties\<close>

text \<open>
  C25: \<open>config location\<close> prints the path of the configuration that the other commands read, exactly if
  the path the options or the environment name exists; a named path that is missing is printed
  all the same, although the commands skip it and read another file.
\<close>

theorem config_location_is_loaded:
  assumes "cli_load_config unmarshal getenv goos o1 w = (Inr lo, w')" and "calm w"
  shows "fst (config_location getenv goos o1 w) = Inr (lo_path lo) \<longleftrightarrow>
     named_config getenv o1 = [] \<or> lookup_node w (named_config getenv o1) \<noteq> None"
proof -
  obtain dir where dir: "default_dir_for goos (getenv ''HOME'') (getenv ''APPDATA'') = Inr dir"
    and first: "find (\<lambda>c. lookup_node w c \<noteq> None)
       [op_config_path o1, getenv ''DEV_CONNECT_CONFIG'', path_join [dir, default_file_name],
        path_join [''.'', default_file_name]] = Some (lo_path lo)"
    using loaded_first [OF assms] by blast
  show ?thesis
  proof (cases "named_config getenv o1 = []")
    case True
    then have "op_config_path o1 = []" "getenv ''DEV_CONNECT_CONFIG'' = []" by (auto simp: named_config_def split: if_splits)
    then have "lo_path lo = location_spec w dir" using first by (auto simp: location_spec_def Let_def split: if_splits)
    then show ?thesis using location_default [OF True dir assms(2)] True by simp
  next
    case False
    then have "named_config getenv o1 = lo_path lo \<longleftrightarrow> lookup_node w (named_config getenv o1) \<noteq> None"
      using first by (auto simp: named_config_def split: if_splits)
    then show ?thesis using location_named [OF False] False by simp
  qed
qed

theorem config_location_is_loaded_witness:
  "\<forall>data. fst (config_location (cp_getenv demo_process) (cp_goos demo_process) demo_cli_options (demo_files data)) =
     Inr ''/c/config.yaml''"
proof
  fix data
  obtain w' where run: "cli_load_config (cp_unmarshal demo_process) (cp_getenv demo_process) (cp_goos demo_process)
      demo_cli_options (demo_files data) = (Inr \<lparr>lo_config = fill_refs demo_config, lo_path = ''/c/config.yaml''\<rparr>, w')"
    using demo_load [of data] by (metis prod.collapse)
  have calm: "calm (demo_files data)" by (simp add: calm_def demo_files_def)
  have "lookup_node (demo_files data) (named_config (cp_getenv demo_process) demo_cli_options) \<noteq> None" by code_simp
  with config_location_is_loaded [OF run calm]
  show "fst (config_location (cp_getenv demo_process) (cp_goos demo_process) demo_cli_options (demo_files data)) =
     Inr ''/c/config.yaml''" by simp
qed

text \<open>
  C24: with invalid options no command does anything, and \<open>status\<close>, \<open>list\<close>, \<open>version\<close>, \<open>config location\<close> and
  \<open>config validate\<close> change no file, end no process and start none. The exit status is 0 with the
  response printed, or 1 with nothing printed and nothing logged.
\<close>

theorem looking_commands_change_nothing:
  assumes "cli_main ch sc rm cp bd o1 command mc = (x, mc')" and "looks_only command \<or> validate_options o1 \<noteq> Inr ()"
  shows "mc_started mc' = mc_started mc \<and> w_nodes (mc_state mc') = w_nodes (mc_state mc) \<and>
     w_procs (mc_state mc') = w_procs (mc_state mc) \<and>
     (cx_code x = 1 \<and> cx_stdout x = [] \<and> cx_log x = None \<or>
      cx_code x = 0 \<and> validate_options o1 = Inr () \<and>
      fst (run_command ch sc rm cp bd o1 command mc) = Inr (cx_stdout x, cx_log x))"
proof -
  let ?run = "io_bind (io_lift (validate_options o1)) (\<lambda>_. run_command ch sc rm cp bd o1 command)"
  have "snd (?run mc) = mc'" using assms(1) by (auto simp: cli_main_def split: prod.splits sum.splits)
  moreover have "kept (snd (?run mc)) = kept mc"
  proof (cases "validate_options o1")
    case (Inl e)
    then show ?thesis by (simp add: io_bind_def)
  next
    case (Inr u)
    then have "looks_only command" using assms(2) by auto
    then show ?thesis using leavesD [OF run_looks] Inr by (simp add: io_bind_def)
  qed
  ultimately have "kept mc' = kept mc" by simp
  moreover have "cx_code x = 1 \<and> cx_stdout x = [] \<and> cx_log x = None \<or>
      cx_code x = 0 \<and> validate_options o1 = Inr () \<and>
      fst (run_command ch sc rm cp bd o1 command mc) = Inr (cx_stdout x, cx_log x)"
    using assms(1) by (auto simp: cli_main_def io_bind_def split: prod.splits sum.splits)
  ultimately show ?thesis by (simp add: kept_def fixed_part_def)
qed

definition demo_build :: build where
  "demo_build = \<lparr>bd_version = ''dev'', bd_commit = ''unknown'', bd_date = ''unknown'', bd_go_version = ''go1.26'', bd_arch = ''amd64''\<rparr>"

theorem looking_commands_change_nothing_witness:
  "\<forall>ch sc rm. \<exists>x mc'. cli_main ch sc rm demo_session_process demo_build default_options Status_Command demo_machine = (x, mc') \<and>
     mc_started mc' = [] \<and> w_nodes (mc_state mc') = w_nodes (mc_state demo_machine)"
proof (intro allI)
  fix ch sc rm
  obtain x mc' where run: "cli_main ch sc rm demo_session_process demo_build default_options Status_Command demo_machine = (x, mc')"
    by (meson surj_pair)
  have "looks_only Status_Command \<or> validate_options default_options \<noteq> Inr ()" by (simp add: looks_only_def)
  from looking_commands_change_nothing [OF run this] run
  show "\<exists>x mc'. cli_main ch sc rm demo_session_process demo_build default_options Status_Command demo_machine = (x, mc') \<and>
     mc_started mc' = [] \<and> w_nodes (mc_state mc') = w_nodes (mc_state demo_machine)"
    by (auto simp: demo_machine_def)
qed

end
