(* ===== verification/Utf8_Text.thy ===== *)
theory Utf8_Text
  imports Json_Codec Go_Paths
begin

text \<open>
  UTF-8 text is closed under what the program does with it: concatenation, cutting at ASCII
  characters, and the path operations, which cut at \<open>/\<close> and join with it.
\<close>

definition ascii :: "string \<Rightarrow> bool" where
  "ascii s \<longleftrightarrow> list_all (\<lambda>c. code c < 128) s"

lemma utf8_len_append:
  assumes "utf8_len s \<noteq> 0"
  shows "utf8_len (s @ r) = utf8_len s"
  using utf8_len_take [OF assms, of "drop (utf8_len s) s @ r"] by (simp flip: append_assoc)

lemma valid_utf8_append: "valid_utf8 a \<Longrightarrow> valid_utf8 b \<Longrightarrow> valid_utf8 (a @ b)"
proof (induction a rule: valid_utf8.induct)
  case (1 a)
  show ?case
  proof (cases "a = []")
    case True
    then show ?thesis using 1 by simp
  next
    case False
    then have len: "utf8_len a \<noteq> 0" and rest: "valid_utf8 (drop (utf8_len a) a)"
      using 1(2) by (simp_all add: valid_utf8.simps [of a] split: if_splits)
    have "valid_utf8 (drop (utf8_len a) a @ b)" using 1(1) [OF False len rest 1(3)] .
    then show ?thesis
      using len utf8_len_le [of a] by (subst valid_utf8.simps) (simp add: utf8_len_append)
  qed
qed

lemma valid_utf8_Cons: "code c < 128 \<Longrightarrow> valid_utf8 s \<Longrightarrow> valid_utf8 (c # s)"
  by (subst valid_utf8.simps) (simp add: utf8_len_pos)

lemma ascii_valid: "ascii s \<Longrightarrow> valid_utf8 s"
  by (induction s) (simp_all add: ascii_def valid_utf8_Cons)

text \<open>The bytes of a character that follow its first one are not ASCII.\<close>

lemma utf8_tail:
  assumes "0 < i" and "i < utf8_len s"
  shows "\<not> code (s ! i) < 128"
proof -
  have small: "i = 1 \<or> i = 2 \<or> i = 3" if "i < 4" using assms(1) that by auto
  have "utf8_len s \<le> 4" by (auto simp: utf8_len_def split: list.split)
  then show ?thesis
    using small assms
    by (auto simp: utf8_len_def between_def eval_nat_numeral split: list.splits if_splits)
qed

lemma valid_utf8_cut: "code c < 128 \<Longrightarrow> valid_utf8 (a @ c # b) \<Longrightarrow> valid_utf8 a \<and> valid_utf8 b"
proof (induction "length a" arbitrary: a rule: less_induct)
  case less
  let ?s = "a @ c # b"
  have len: "utf8_len ?s \<noteq> 0" and rest: "valid_utf8 (drop (utf8_len ?s) ?s)"
    using less.prems(2) by (simp_all add: valid_utf8.simps [of ?s] split: if_splits)
  show ?case
  proof (cases "a = []")
    case True
    then show ?thesis using rest less.prems(1) by (simp add: utf8_len_pos)
  next
    case False
    let ?n = "utf8_len ?s"
    have n: "?n \<le> length a"
    proof (rule ccontr)
      assume "\<not> ?n \<le> length a"
      then have "\<not> code (?s ! length a) < 128" using utf8_tail [of "length a" ?s] False by simp
      then show False using less.prems(1) by simp
    qed
    have here: "utf8_len a = ?n"
      using utf8_len_take [OF len, of "drop ?n a"] n by simp
    have "valid_utf8 (drop ?n a @ c # b)" using rest n by simp
    from less.hyps [OF _ less.prems(1) this] len False
    have "valid_utf8 (drop ?n a)" "valid_utf8 b" by simp_all
    then show ?thesis using False len here by (simp add: valid_utf8.simps [of a])
  qed
qed

section \<open>Paths\<close>

lemma str_split_valid: "code c < 128 \<Longrightarrow> valid_utf8 s \<Longrightarrow> p \<in> set (str_split c s) \<Longrightarrow> valid_utf8 p"
proof (induction "length s" arbitrary: s rule: less_induct)
  case less
  show ?case
  proof (cases "c \<in> set s")
    case False
    then show ?thesis using less.prems by (simp add: str_split_no_sep)
  next
    case True
    then obtain a b where s: "s = a @ c # b" "c \<notin> set a" by (meson split_list_first)
    have valid: "valid_utf8 a" "valid_utf8 b" using valid_utf8_cut less.prems(1,2) s(1) by blast+
    show ?thesis
      using less.prems(3) valid less.hyps [of b] less.prems(1) s by (auto simp: str_split_append str_split_no_sep)
  qed
qed

lemma str_join_valid: "valid_utf8 sep \<Longrightarrow> \<forall>p \<in> set ps. valid_utf8 p \<Longrightarrow> valid_utf8 (str_join sep ps)"
  by (induction sep ps rule: str_join.induct) (auto intro!: valid_utf8_append)

lemma clean_step_set: "set (clean_step rooted st c) \<subseteq> insert c (set st)"
  by (cases st) (simp_all add: clean_step_def insert_commute subset_insertI subset_insertI2)

lemma foldl_clean_set: "set (foldl (clean_step rooted) st cs) \<subseteq> set st \<union> set cs"
proof (induction cs arbitrary: st)
  case (Cons c cs)
  show ?case using Cons.IH [of "clean_step rooted st c"] clean_step_set [of rooted st c] by (auto simp del: set_append)
qed simp

lemma slash_valid: "code (CHR ''/'') < 128" "valid_utf8 ''/''" "valid_utf8 ''.''"
  by code_simp+

lemma path_clean_valid: "valid_utf8 p \<Longrightarrow> valid_utf8 (path_clean p)"
proof -
  assume p: "valid_utf8 p"
  have "\<forall>c \<in> set (str_split (CHR ''/'') p). valid_utf8 c" using str_split_valid [OF slash_valid(1) p] by blast
  then have "\<forall>c \<in> set (path_stack p). valid_utf8 c"
    using foldl_clean_set [of "is_abs p" "[]" "str_split (CHR ''/'') p"] by (auto simp: path_stack_def)
  then have "valid_utf8 (str_join ''/'' (path_stack p))" using str_join_valid slash_valid(2) by blast
  then show ?thesis using slash_valid by (auto simp: path_clean_def render_path_def intro: valid_utf8_Cons)
qed

lemma path_join_valid: "\<forall>e \<in> set es. valid_utf8 e \<Longrightarrow> valid_utf8 (path_join es)"
proof -
  assume "\<forall>e \<in> set es. valid_utf8 e"
  then have "\<forall>e \<in> set (dropWhile (\<lambda>e. e = []) es). valid_utf8 e" by (auto dest: set_dropWhileD)
  then have "valid_utf8 (str_join ''/'' (dropWhile (\<lambda>e. e = []) es))" using str_join_valid slash_valid(2) by blast
  then show ?thesis unfolding path_join_def by (auto intro: path_clean_valid split: list.split)
qed

end
