(* ===== verification/Cli_Wellformed.thy ===== *)
theory Cli_Wellformed
  imports Cli_Sessions Utf8_Text
begin

text \<open>
  Every session state that \<open>connect\<close> saves can be read back: its texts are UTF-8, its numbers fit
  64 bits and its start time is an RFC 3339 time, given a process and a configuration of
  which this holds.
\<close>

section \<open>What the process and the configuration provide\<close>

text \<open>
  The environment and the decoded YAML document are UTF-8; the clock is formatted by \<open>time\<close>; the
  random source yields bytes and a port number fits \<open>int\<close>.
\<close>

definition process_ok :: "cli_process \<Rightarrow> bool" where
  "process_ok cp \<longleftrightarrow> (\<forall>k. valid_utf8 (cp_getenv cp k)) \<and> valid_utf8 (cp_now cp) \<and> rfc3339 (cp_now cp) \<and>
     (\<forall>bs. cp_random cp = Inr bs \<longrightarrow> list_all (\<lambda>b. 0 \<le> b \<and> b < 256) bs) \<and>
     (\<forall>w p w'. cp_probe cp w = (Inr p, w') \<longrightarrow> int64 p)"

definition config_texts :: "config \<Rightarrow> string list" where
  "config_texts cfg = map fst (cfg_targets cfg) @ map fst (cfg_gateways cfg) @
     map (\<lambda>(n, g). gw_namespace g) (cfg_gateways cfg) @ map (\<lambda>(n, cl). cl_context cl) (cfg_clusters cfg) @
     [ssh_user_config_path (cfg_ssh cfg)]"

definition config_text_ok :: "config \<Rightarrow> bool" where
  "config_text_ok cfg \<longleftrightarrow> list_all valid_utf8 (config_texts cfg)"

lemma config_text_lookup:
  assumes "config_text_ok cfg"
  shows "map_of (cfg_targets cfg) n = Some t \<Longrightarrow> valid_utf8 n"
    and "map_of (cfg_gateways cfg) m = Some g \<Longrightarrow> valid_utf8 m \<and> valid_utf8 (gw_namespace g)"
    and "map_of (cfg_clusters cfg) k = Some cl \<Longrightarrow> valid_utf8 (cl_context cl)"
    and "valid_utf8 (ssh_user_config_path (cfg_ssh cfg))"
  using assms by (auto simp: config_text_ok_def config_texts_def list_all_iff ball_Un dest!: map_of_SomeD)

section \<open>The parts of a state\<close>

lemma hex_digit_ascii: "0 \<le> n \<Longrightarrow> n < 16 \<Longrightarrow> code (hex_digit n) < 128"
proof -
  assume "0 \<le> n" "n < 16"
  then have "hex_digit n \<in> set ''0123456789abcdef''" unfolding hex_digit_def by (intro nth_mem) simp
  moreover have "list_all (\<lambda>c. code c < 128) ''0123456789abcdef''" by code_simp
  ultimately show ?thesis unfolding list_all_iff by blast
qed

lemma hex_bytes_valid: "list_all (\<lambda>b. 0 \<le> b \<and> b < 256) bs \<Longrightarrow> valid_utf8 (hex_bytes bs)"
  by (rule ascii_valid) (induction bs, auto simp: hex_bytes_def ascii_def intro!: hex_digit_ascii)

lemma show_int_valid: "valid_utf8 (show_int i)"
proof (rule ascii_valid)
  have "list_all (\<lambda>c. code c < 128) (CHR ''-'' # digit_chars)" by code_simp
  then show "ascii (show_int i)" using set_show_int [of i] unfolding ascii_def list_all_iff by auto
qed

lemma session_id_valid: "process_ok cp \<Longrightarrow> valid_utf8 (new_session_id None (cp_random cp) (cp_nano cp))"
proof -
  assume ok: "process_ok cp"
  have "valid_utf8 ''session-''" by code_simp
  then have "valid_utf8 (''session-'' @ show_int (cp_nano cp))" using valid_utf8_append show_int_valid by blast
  then show ?thesis
    using ok unfolding new_session_id_def process_ok_def option.case
    by (cases "cp_random cp") (simp_all only: sum.case hex_bytes_valid)
qed

lemma port_int64: "process_ok cp \<Longrightarrow> cli_allocate_port cp w = (Inr al, w') \<Longrightarrow> int64 (al_port al)"
  by (auto simp: cli_allocate_port_def Let_def allocate_loopback_def io_bind_eq_Inr io_wrap_def go_atoi_def process_ok_def
      split: if_splits sum.splits prod.splits) blast

lemma trim_right_valid: "valid_utf8 s \<Longrightarrow> ascii cs \<Longrightarrow> valid_utf8 (trim_right s cs)"
proof -
  assume s: "valid_utf8 s" and cs: "ascii cs"
  let ?a = "trim_right s cs" and ?b = "rev (takeWhile (\<lambda>c. c \<in> set cs) (rev s))"
  have eq: "s = ?a @ ?b"
    unfolding trim_right_def by (metis rev_append rev_rev_ident takeWhile_dropWhile_id)
  show ?thesis
  proof (cases ?b)
    case Nil
    then show ?thesis using eq s by simp
  next
    case (Cons c r)
    then have "c \<in> set cs" by (metis list.set_intros(1) set_rev set_takeWhileD)
    then have "code c < 128" using cs by (simp add: ascii_def list_all_iff)
    then show ?thesis using valid_utf8_cut eq s Cons by metis
  qed
qed

lemma session_names: "valid_utf8 ''ssh''" "valid_utf8 ''session''" "valid_utf8 ''ssh_config''" "valid_utf8 ''known_hosts''"
    "valid_utf8 ''vscode-user-data''" "valid_utf8 ''/.ssh/config''" "valid_utf8 ''.ssh''" "valid_utf8 ''config''"
    "ascii ''/''"
  by code_simp+

lemma user_path_valid:
  assumes "process_ok cp" and "valid_utf8 p" and "user_ssh_config_path cp p = Inr path"
  shows "valid_utf8 path"
proof -
  have env: "valid_utf8 (cp_getenv cp k)" for k using assms(1) by (simp add: process_ok_def)
  have join: "valid_utf8 (path_join [b, ''.ssh'', ''config''])" if "valid_utf8 b" for b
    using that session_names by (intro path_join_valid) auto
  have trim: "valid_utf8 (trim_right b ''/'' @ ''/.ssh/config'')" if "valid_utf8 b" for b
    using that session_names by (intro valid_utf8_append trim_right_valid) auto
  show ?thesis
    using assms(2,3) env join trim
    by (auto simp: user_ssh_config_path_def default_user_config_path_for_def Let_def split: if_splits)
qed

section \<open>The states of connect\<close>

text \<open>Text and number fields apart from the ones the supervisor, the user configuration and the editor add.\<close>

lemma state_ok_updates:
  assumes "state_ok s"
  shows "int64 pid \<Longrightarrow> state_ok (s\<lparr>st_pid := pid\<rparr>)"
    and "valid_utf8 p \<Longrightarrow> state_ok (s\<lparr>st_user_ssh_config := p\<rparr>)"
    and "valid_utf8 p \<Longrightarrow> state_ok (s\<lparr>st_vscode_dir := p\<rparr>)"
  using assms by (simp_all add: state_ok_def)

lemma prepared_state_ok:
  assumes "prepare_session (connect_options_for cp o1 cfg target dir ssh_dir) w = (Inr r, w')"
    and "process_ok cp" and "config_text_ok cfg" and "valid_utf8 dir" and "valid_utf8 ssh_dir"
  shows "state_ok (cr_state r)"
  using assms(1)
proof (rule prepare_steps)
  let ?o = "connect_options_for cp o1 cfg target dir ssh_dir"
  fix re al w1 w2 files
  assume re: "resolve_target (co_config ?o) (co_target ?o) (co_gateway ?o) = Inr re"
    and al: "co_allocate ?o w = (Inr al, w1)"
    and files: "write_session_files (session_options_for ?o re al (effective_ssh_dir ?o)) w1 = (Inr files, w2)"
    and r: "r = \<lparr>cr_target_name = co_target ?o, cr_target = re_target re, cr_gateway_name = re_gateway_name re,
        cr_gateway = re_gateway re, cr_local_host = al_host al, cr_local_port = al_port al,
        cr_ssh_files = files, cr_session_dir = co_session_dir ?o, cr_state = state_for ?o re al files\<rparr>"
  note looked = config_text_lookup [OF assms(3)]
  have opts: "co_config ?o = cfg" "co_target ?o = target" "co_session_dir ?o = dir" "co_ssh_dir ?o = ssh_dir"
      "co_context ?o = op_context o1" "co_allocate ?o = cli_allocate_port cp" "co_now ?o = cp_now cp"
      "co_session_id ?o = new_session_id None (cp_random cp) (cp_nano cp)"
    by (simp_all add: connect_options_for_def)
  have "valid_utf8 target \<and> valid_utf8 (re_gateway_name re) \<and> valid_utf8 (gw_namespace (re_gateway re))"
    using re looked(1,2) unfolding opts by (auto simp: resolve_target_def Let_def split: option.splits if_splits)
  moreover have "valid_utf8 (kubernetes_context cfg (op_context o1))"
    using looked(3) by (auto simp: kubernetes_context_def split: option.split)
  moreover have "valid_utf8 (effective_ssh_dir ?o)"
    unfolding effective_ssh_dir_def opts using assms(4,5) session_names(1) by (auto intro!: path_join_valid)
  then have "valid_utf8 (sf_config_path files)" "valid_utf8 (sf_known_hosts_path files)"
    using write_session_files_files [OF files, THEN conjunct1] session_names by (auto simp: session_files_in_def session_options_dir intro!: path_join_valid)
  moreover have "int64 (al_port al)" using port_int64 [OF assms(2)] al unfolding opts by blast
  moreover have "valid_utf8 (cp_now cp)" "rfc3339 (cp_now cp)" using assms(2) by (simp_all add: process_ok_def)
  ultimately show ?thesis
    using session_id_valid [OF assms(2)] unfolding r by (simp add: state_ok_def state_for_def opts zero_state_def int64_def)
qed

lemma default_dir_valid:
  assumes "valid_utf8 home" and "valid_utf8 app_data" and "default_dir_for goos home app_data = Inr dir"
  shows "valid_utf8 dir"
proof -
  have tails: "valid_utf8 ([CHR 0x5C] @ ''dev-connect'')" "valid_utf8 ''/Library/Application Support/dev-connect''"
      "valid_utf8 ''/.config/dev-connect''" "ascii [CHR 0x5C, CHR ''/'']" by code_simp+
  have base: "valid_utf8 (trim_right s cs @ tail)" if "valid_utf8 s" "ascii cs" "valid_utf8 tail" for s cs tail
    using that valid_utf8_append trim_right_valid by blast
  note bases = base [OF assms(2) tails(4,1)] base [OF assms(1) session_names(9) tails(2)] base [OF assms(1) session_names(9) tails(3)]
  show ?thesis
    using assms(3) bases by (auto simp: default_dir_for_def split: if_splits)
qed

lemma command_dirs_valid:
  assumes "process_ok cp"
  shows "command_session_dir cp = Inr dir \<Longrightarrow> valid_utf8 dir"
    and "valid_utf8 dir \<Longrightarrow> ssh_dir_for (cp_getenv cp) dir = Inr ssh_dir \<Longrightarrow> valid_utf8 ssh_dir"
proof -
  have env: "valid_utf8 (cp_getenv cp k)" for k using assms by (simp add: process_ok_def)
  show "command_session_dir cp = Inr dir \<Longrightarrow> valid_utf8 dir"
    using env session_names default_dir_valid [of "cp_getenv cp ''HOME''" "cp_getenv cp ''APPDATA''" "cp_goos cp"]
    by (auto simp: command_session_dir_def session_dir_for_def split: if_splits sum.splits intro!: path_join_valid)
  show "valid_utf8 dir \<Longrightarrow> ssh_dir_for (cp_getenv cp) dir = Inr ssh_dir \<Longrightarrow> valid_utf8 ssh_dir"
    using env session_names by (auto simp: ssh_dir_for_def split: if_splits intro!: path_join_valid)
qed

lemma begin_steps:
  assumes "begin_connect cp o1 target w = (Inr (loaded, cl, r), w')"
  obtains dir ssh_dir w1 w2 where
    "cli_load_config (cp_unmarshal cp) (cp_getenv cp) (cp_goos cp) o1 w = (Inr loaded, w1)"
    and "command_session_dir cp = Inr dir" and "ensure_no_active_session dir w1 = (Inr (), w2)"
    and "ssh_dir_for (cp_getenv cp) dir = Inr ssh_dir" and "selected_cluster (lo_config loaded) o1 = Inr cl"
    and "prepare_session (connect_options_for cp o1 (lo_config loaded) target dir ssh_dir) w2 = (Inr r, w')"
  using assms by (auto simp: begin_connect_def io_bind_eq_Inr)

lemma begin_state_ok:
  assumes "begin_connect cp o1 target w = (Inr (loaded, cl, r), w')" and "process_ok cp" and "config_text_ok (lo_config loaded)"
  shows "state_ok (cr_state r) \<and> valid_utf8 (cr_session_dir r)"
  using assms(1)
proof (rule begin_steps)
  fix dir ssh_dir w2
  assume dir: "command_session_dir cp = Inr dir" and ssh: "ssh_dir_for (cp_getenv cp) dir = Inr ssh_dir"
    and prep: "prepare_session (connect_options_for cp o1 (lo_config loaded) target dir ssh_dir) w2 = (Inr r, w')"
  have d: "valid_utf8 dir" using command_dirs_valid(1) [OF assms(2) dir] .
  have s: "valid_utf8 ssh_dir" using command_dirs_valid(2) [OF assms(2) d ssh] .
  have "cr_session_dir r = dir" using prepared_state [OF prep] by (auto simp: connect_options_for_def)
  then show ?thesis using prepared_state_ok [OF prep assms(2,3) d s] d by simp
qed

lemma record_state_ok:
  "record_supervisor r t mc = (Inr s, mc') \<Longrightarrow> state_ok (cr_state r) \<Longrightarrow> int64 (tr_pid t) \<Longrightarrow> state_ok s"
  by (auto simp: record_supervisor_def Let_def io_bind_eq_Inr state_ok_updates split: if_splits)

lemma manage_state_ok:
  assumes "manage_user_config cp cfg r s mc = (Inr s', mc')" and "state_ok s" and "process_ok cp" and "config_text_ok cfg"
  shows "state_ok s'"
  using assms(1,2) user_path_valid [OF assms(3) config_text_lookup(4) [OF assms(4)]]
  by (auto simp: manage_user_config_def Let_def io_bind_eq_Inr or_abandon_Inr state_ok_updates split: if_splits)

lemma editor_state_ok:
  assumes "open_editor ch rm cp o1 cfg n r s mc = (Inr s', mc')" and "state_ok s" and "valid_utf8 (cr_session_dir r)"
  shows "state_ok s'"
proof -
  have "valid_utf8 (path_join [cr_session_dir r, ''vscode-user-data''])"
    using assms(3) session_names by (intro path_join_valid) auto
  then show ?thesis
    using assms(1,2)
    by (auto simp: open_editor_def isolate_user_data_def Let_def io_bind_eq_Inr state_ok_updates split: if_splits)
qed

section \<open>Properties\<close>

text \<open>
  C7: every state of a session that \<open>connect\<close> saves (prepared, with the process of the supervisor,
  with the user's SSH configuration, with the user data of the editor) is well formed: it has
  a JSON form that is read back as the same state. In particular the session that is on disk
  when the editor starts is loaded as it was saved.
\<close>

theorem connect_states_well_formed:
  assumes "begin_connect cp o1 target w = (Inr (loaded, cl, r), w')" and "process_ok cp" and "config_text_ok (lo_config loaded)"
    and "record_supervisor r t mc = (Inr s1, mc1)" and "int64 (tr_pid t)" and "0 < tr_pid t"
    and "manage_user_config cp (lo_config loaded) r s1 mc1 = (Inr s2, mc2)"
    and "open_editor ch rm cp o1 (lo_config loaded) target r s2 mc2 = (Inr s3, mc3)"
  shows "(\<forall>s \<in> {cr_state r, s1, s2, s3}. state_ok s \<and>
        (validate_state s = Inr () \<longrightarrow> (\<exists>data. marshal_state s = Inr data \<and> unmarshal_state data = Inr s))) \<and>
     (calm (mc_state mc2) \<longrightarrow> fst (session_load (cr_session_dir r) (mc_state mc2)) = Inr s2)"
proof
  have r: "state_ok (cr_state r)" "valid_utf8 (cr_session_dir r)" using begin_state_ok [OF assms(1-3)] by blast+
  have s1: "state_ok s1" using record_state_ok [OF assms(4) r(1) assms(5)] .
  have s2: "state_ok s2" using manage_state_ok [OF assms(7) s1 assms(2,3)] .
  have s3: "state_ok s3" using editor_state_ok [OF assms(8) s2 r(2)] .
  have "\<forall>s \<in> {cr_state r, s1, s2, s3}. state_ok s" using r(1) s1 s2 s3 by simp
  then show "\<forall>s \<in> {cr_state r, s1, s2, s3}. state_ok s \<and>
        (validate_state s = Inr () \<longrightarrow> (\<exists>data. marshal_state s = Inr data \<and> unmarshal_state data = Inr s))"
    using unmarshal_marshal by blast
  have "session_on_disk (cr_session_dir r) s2 (mc_state mc2)"
    using manage_ok [OF assms(7)] record_ok [OF assms(4,6)] by blast
  then show "calm (mc_state mc2) \<longrightarrow> fst (session_load (cr_session_dir r) (mc_state mc2)) = Inr s2"
    using session_on_disk_load s2 by blast
qed

definition demo_fresh :: world where
  "demo_fresh = \<lparr>w_nodes = [''/c/config.yaml'' \<mapsto> File [] 420, ''/usr/bin/kubectl'' \<mapsto> File [] 493, ''/s'' \<mapsto> Dir 448],
      w_umask = 18, w_fault = (\<lambda>t op p. False), w_short = (\<lambda>t. 0), w_clock = 0, w_procs = []\<rparr>"

definition demo_begin :: "(loaded \<times> cluster \<times> connect_result, world) io" where
  "demo_begin = begin_connect demo_session_process demo_no_code ''dev''"

definition demo_saved :: "(session_state, world machine) io" where
  "demo_saved = (\<lambda>mc. case demo_begin (mc_state mc) of
     (Inl e, w) \<Rightarrow> (Inl e, mc)
   | (Inr (loaded, cl, r), w) \<Rightarrow>
       io_bind (record_supervisor r demo_tunnel) (\<lambda>s. manage_user_config demo_session_process (lo_config loaded) r s)
         \<lparr>mc_started = [], mc_state = w\<rparr>)"

lemma demo_begins:
  "map_sum (\<lambda>_. ()) (\<lambda>(loaded, cl, r). lo_config loaded = fill_refs demo_config) (fst (demo_begin demo_fresh)) = Inr True"
  by code_simp

lemma demo_saves: "\<not> isl (fst (demo_saved \<lparr>mc_started = [], mc_state = demo_fresh\<rparr>))"
  by code_simp

lemma demo_process_ok: "process_ok demo_session_process"
proof -
  have "valid_utf8 ''/s''" "valid_utf8 ''/home/me''" "valid_utf8 ''2026-02-28T10:11:12Z''" "rfc3339 ''2026-02-28T10:11:12Z''"
    by code_simp+
  then show ?thesis
    by (simp add: process_ok_def demo_session_process_def demo_process_def int64_def)
qed

lemma demo_config_text_ok: "config_text_ok (fill_refs demo_config)"
  by code_simp

lemma ensure_fixed: "leaves fixed_part (ensure_no_active_session dir)"
proof -
  have "leaves fixed_part (\<lambda>w. if session_stale s w then io_bind (cleanup_session_artifacts s) (\<lambda>_. session_clear dir) w
      else io_fail err_locked w)" for s
  proof -
    have "leaves fixed_part (io_bind (cleanup_session_artifacts s) (\<lambda>_. session_clear dir))" by (intro frame session_clear_leaves)
    then show ?thesis by (simp add: leaves_def)
  qed
  then show ?thesis unfolding ensure_no_active_session_def by (intro leaves_case session_load_leaves) (auto intro: frame)
qed

lemma begin_fixed: "leaves fixed_part (cli_allocate_port cp) \<Longrightarrow> leaves fixed_part (begin_connect cp o1 target)"
  unfolding begin_connect_def cli_load_config_def
  by (intro frame ensure_fixed prepare_fixed) (simp add: connect_options_for_def)

theorem connect_states_well_formed_witness:
  "\<exists>loaded cl r w' s mc'. demo_begin demo_fresh = (Inr (loaded, cl, r), w') \<and>
     demo_saved \<lparr>mc_started = [], mc_state = demo_fresh\<rparr> = (Inr s, mc') \<and> state_ok s \<and>
     fst (session_load (cr_session_dir r) (mc_state mc')) = Inr s"
proof -
  obtain loaded cl r w' where run: "demo_begin demo_fresh = (Inr (loaded, cl, r), w')" and cfg: "lo_config loaded = fill_refs demo_config"
    using demo_begins by (cases "demo_begin demo_fresh"; cases "fst (demo_begin demo_fresh)") auto
  let ?mc = "\<lparr>mc_started = [], mc_state = w'\<rparr>"
  obtain s mc' where saved: "demo_saved \<lparr>mc_started = [], mc_state = demo_fresh\<rparr> = (Inr s, mc')"
    using demo_saves by (metis isl_def prod.collapse sum.exhaust)
  then obtain s1 mc1 where rec: "record_supervisor r demo_tunnel ?mc = (Inr s1, mc1)"
    and man: "manage_user_config demo_session_process (lo_config loaded) r s1 mc1 = (Inr s, mc')"
    unfolding demo_saved_def by (auto simp: run io_bind_eq_Inr)
  have editor: "open_editor ch rm demo_session_process demo_no_code (lo_config loaded) ''dev'' r s mc' = (Inr s, mc')" for ch rm
    by (simp add: open_editor_def demo_no_code_def io_return_def)
  have cfg_ok: "config_text_ok (lo_config loaded)" unfolding cfg by (rule demo_config_text_ok)
  have pid: "int64 (tr_pid demo_tunnel)" "0 < tr_pid demo_tunnel" by (simp_all add: demo_tunnel_def int64_def)
  have "leaves fixed_part (cli_allocate_port demo_session_process)"
    by (simp add: cli_allocate_port_def allocate_loopback_def demo_session_process_def demo_process_def Let_def leaves_def
        io_bind_def io_wrap_def)
  then have "leaves calm demo_begin" unfolding demo_begin_def by (intro leaves_calm begin_fixed)
  from leaves_result [OF this run] have "calm w'" by (simp add: calm_def demo_fresh_def)
  then have "calm (mc_state mc')"
    using machine_calm [OF machine_record rec] machine_calm [OF machine_manage man] by simp
  with connect_states_well_formed [OF run [unfolded demo_begin_def] demo_process_ok cfg_ok rec pid man editor] run saved
  show ?thesis by blast
qed

end
