(* ===== verification/Cli_Cycle.thy ===== *)
theory Cli_Cycle
  imports Cli_Wellformed
begin

text \<open>
  Commands one after the other: a \<open>connect\<close> and the \<open>disconnect\<close> that follows it, two overlapping
  \<open>connect\<close> commands, and the order of what \<open>connect\<close> starts for the editor.
\<close>

section \<open>The steps of a connect that manages the user's configuration\<close>

lemma record_keeps:
  assumes "record_supervisor r t mc = (Inr s, mc')" and "path_clean q \<noteq> session_path (cr_session_dir r)"
  shows "file_at (mc_state mc') q = file_at (mc_state mc) q"
  using assms(1) leaves_result [OF session_save_leaves(2) [OF assms(2)]]
  by (auto simp: record_supervisor_def Let_def io_bind_eq_Inr or_abandon_Inr on_world_eq split: if_splits)

lemma managed_steps:
  assumes "manage_user_config cp cfg r s mc = (Inr s', mc')" and "ssh_manage_user_config (cfg_ssh cfg)"
    and "user_ssh_config_path cp (ssh_user_config_path (cfg_ssh cfg)) = Inr p"
  obtains v where "upsert_managed_block (managed_block_options cfg r s p) (mc_state mc) = (Inr (), v)"
    and "s' = s\<lparr>st_user_ssh_config := p\<rparr>" and "session_save (cr_session_dir r) s' v = (Inr (), mc_state mc')"
  using assms by (auto simp: manage_user_config_def Let_def io_bind_eq_Inr or_abandon_Inr on_world_eq)

text \<open>The files the managed connect adds, beside the user's configuration.\<close>

definition session_paths :: "connect_result \<Rightarrow> string set" where
  "session_paths r = {session_path (cr_session_dir r), sf_config_path (cr_ssh_files r), sf_known_hosts_path (cr_ssh_files r)}"

lemma prepared_files:
  assumes "prepare_session o1 w = (Inr r, w')"
  shows "st_ssh_config (cr_state r) = sf_config_path (cr_ssh_files r) \<and>
     st_known_hosts (cr_state r) = sf_known_hosts_path (cr_ssh_files r) \<and>
     st_target (cr_state r) = co_target o1 \<and> st_vscode_dir (cr_state r) = [] \<and>
     path_clean (sf_config_path (cr_ssh_files r)) = sf_config_path (cr_ssh_files r) \<and>
     path_clean (sf_known_hosts_path (cr_ssh_files r)) = sf_known_hosts_path (cr_ssh_files r) \<and>
     sf_config_path (cr_ssh_files r) \<noteq> [] \<and> sf_known_hosts_path (cr_ssh_files r) \<noteq> []"
  using assms
proof (rule prepare_steps)
  fix re al w1 w2 files
  assume files: "write_session_files (session_options_for o1 re al (effective_ssh_dir o1)) w1 = (Inr files, w2)"
    and r: "r = \<lparr>cr_target_name = co_target o1, cr_target = re_target re, cr_gateway_name = re_gateway_name re,
        cr_gateway = re_gateway re, cr_local_host = al_host al, cr_local_port = al_port al,
        cr_ssh_files = files, cr_session_dir = co_session_dir o1, cr_state = state_for o1 re al files\<rparr>"
  have "files = session_files_in (effective_ssh_dir o1)" using write_session_files_files [OF files, THEN conjunct1] by simp
  then show ?thesis
    by (simp add: r state_for_def zero_state_def session_files_in_def path_join_ne)
qed

section \<open>Connecting and disconnecting\<close>

lemma managed_cycle:
  assumes rec: "record_supervisor r t mc = (Inr s1, mc1)" and man: "manage_user_config cp cfg r s1 mc1 = (Inr s, mc2)"
    and managed: "ssh_manage_user_config (cfg_ssh cfg)" "user_ssh_config_path cp (ssh_user_config_path (cfg_ssh cfg)) = Inr p"
    and pid: "0 < tr_pid t" and names: "cr_target_name r = st_target (cr_state r)" "st_vscode_dir (cr_state r) = []"
    and files: "st_ssh_config (cr_state r) = sf_config_path (cr_ssh_files r)"
      "st_known_hosts (cr_state r) = sf_known_hosts_path (cr_ssh_files r)"
    and later: "w_nodes w = w_nodes (mc_state mc2)"
    and load: "session_load (cr_session_dir r) w = (Inr s, w1)" and disc: "disconnect_session (cr_session_dir r) w = (Inr (), w')"
    and hf: "hash_free (managed_block_options cfg r s1 p)" and nb: "no_block (cr_target_name r) (config_text (mc_state mc) p)"
    and p: "path_clean p \<notin> path_clean ` session_paths r"
  shows "config_text w' p = trim_left (config_text (mc_state mc) p) line_breaks"
    and "path_clean q \<noteq> path_clean p \<Longrightarrow> path_clean q \<notin> path_clean ` session_paths r \<Longrightarrow>
         file_at w' (path_clean q) = file_at (mc_state mc) (path_clean q)"
    and "f \<in> session_paths r \<Longrightarrow> lookup_node w' f = None"
proof -
  let ?o = "managed_block_options cfg r s1 p" and ?d = "cr_session_dir r"
  have o: "uc_config_path ?o = p" "uc_alias ?o = cr_target_name r" by (simp_all add: managed_block_options_def)
  have clean_session: "path_clean (session_path ?d) = session_path ?d" by (simp add: session_path_def)
  have s1: "s1 = (cr_state r)\<lparr>st_pid := tr_pid t\<rparr>" using record_ok [OF rec pid] by blast
  obtain v where up: "upsert_managed_block ?o (mc_state mc1) = (Inr (), v)" and s: "s = s1\<lparr>st_user_ssh_config := p\<rparr>"
    and save: "session_save ?d s v = (Inr (), mc_state mc2)" using managed_steps [OF man managed] .
  have ne: "p \<noteq> []" "cr_target_name r \<noteq> []"
    using upsert_ok(1) [OF up] by (auto simp: validate_user_config_def o split: if_splits)
  obtain w2 w3 where w2: "w2 = snd (terminate_process (st_pid s) w1)" and cl: "cleanup_session_artifacts s w2 = (Inr (), w3)"
    and clr: "session_clear ?d w3 = (Inr (), w')" using disconnect_steps [OF disc load] .
  have nodes: "w_nodes w2 = w_nodes (mc_state mc2)"
    using leavesD [OF terminate_nodes] load_keeps(1) [OF load] w2 later by simp
  note same = file_at_nodes [OF nodes]
  have gone: "lookup_node w3 f = None" if "f \<in> {sf_config_path (cr_ssh_files r), sf_known_hosts_path (cr_ssh_files r)}" for f
    using cleanup_artifacts_ok(1,2) [OF cl] that files by (cases "f = []") (auto simp: s s1)
  show "f \<in> session_paths r \<Longrightarrow> lookup_node w' f = None"
    using session_clear_ok [OF clr] clear_absent(1) [of w3 f ?d] gone clr by (auto simp: session_paths_def)
  have p_free: "path_clean p \<noteq> session_path ?d" "outside s p"
    using p clean_session names files by (auto simp: session_paths_def outside_def s s1)
  have "config_text (mc_state mc1) p = config_text (mc_state mc) p"
    by (rule config_text_file_at) (rule record_keeps [OF rec p_free(1)])
  moreover have "config_text (mc_state mc2) p = config_text v p"
    by (rule config_text_file_at) (rule leaves_result [OF session_save_leaves(2) [OF p_free(1)] save])
  ultimately have after: "config_text w2 p =
      prepend_managed_block (config_text (mc_state mc) p) (render_managed_block ?o)"
    using upsert_ok(2) [OF up] remove_of_no_block [OF nb] config_text_file_at [OF same, of p] by (simp add: o config_text_def)
  have "config_text w3 p = remove_managed_block (config_text w2 p) (cr_target_name r)"
    using cleanup_artifacts_ok(5) [OF cl] ne p_free(2) by (simp add: s s1 names(1))
  moreover have "config_text w' p = config_text w3 p"
    by (rule config_text_file_at) (use clear_outside [OF clr p_free(1)] file_at_clean [OF ne(1)] in simp)
  moreover have "no_block (uc_alias ?o) (config_text (mc_state mc) p)" using nb by (simp add: o)
  ultimately show "config_text w' p = trim_left (config_text (mc_state mc) p) line_breaks"
    using after remove_prepended [OF hf] by (simp add: o)
  show "file_at w' (path_clean q) = file_at (mc_state mc) (path_clean q)"
    if q: "path_clean q \<noteq> path_clean p" "path_clean q \<notin> path_clean ` session_paths r"
  proof -
    have q_free: "path_clean q \<noteq> session_path ?d" "outside s q"
      using q(2) clean_session names files by (auto simp: session_paths_def outside_def s s1)
    then have q2: "path_clean (path_clean q) \<noteq> session_path ?d" by simp
    have "file_at w' (path_clean q) = file_at w2 (path_clean q)"
      using clear_outside [OF clr q_free(1)] cleanup_artifacts_ok(4) [OF cl q_free(2)] q(1) by (simp add: s)
    also have "\<dots> = file_at v (path_clean q)"
      using same leaves_result [OF session_save_leaves(2) [OF q2] save] by simp
    also have "\<dots> = file_at (mc_state mc1) (path_clean q)"
      by (rule leaves_result [OF upsert_leaves(2) up]) (use q(1) in \<open>simp add: o\<close>)
    also have "\<dots> = file_at (mc_state mc) (path_clean q)" by (rule record_keeps [OF rec q2])
    finally show ?thesis .
  qed
qed

section \<open>Properties\<close>


text \<open>A user with a configuration of the user's own, and a configuration that manages it.\<close>

definition demo_managed_process :: cli_process where
  "demo_managed_process = demo_session_process\<lparr>cp_unmarshal := (\<lambda>_. Inr demo_managed_config)\<rparr>"

definition demo_owner :: world where
  "demo_owner = demo_fresh\<lparr>w_nodes := (w_nodes demo_fresh)(''/home/me/.ssh/config'' \<mapsto> File (''Host own'' @ [nl]) 420)\<rparr>"

definition demo_managed_begin :: "(loaded \<times> cluster \<times> connect_result, world) io" where
  "demo_managed_begin = begin_connect demo_managed_process demo_no_code ''dev''"

definition demo_steps :: "(session_state \<times> config \<times> connect_result, world machine) io" where
  "demo_steps = (\<lambda>mc. case demo_managed_begin (mc_state mc) of
     (Inl e, w) \<Rightarrow> (Inl e, mc)
   | (Inr (loaded, cl, r), w) \<Rightarrow>
       io_bind (io_bind (record_supervisor r demo_tunnel) (\<lambda>s. manage_user_config demo_managed_process (lo_config loaded) r s))
         (\<lambda>s. io_return (s, lo_config loaded, r)) \<lparr>mc_started = [], mc_state = w\<rparr>)"

definition demo_user_config :: string where
  "demo_user_config = ''/home/me/.ssh/config''"

lemma demo_steps_ok:
  "map_sum (\<lambda>_. ()) (\<lambda>(s, cfg, r). cfg = fill_refs demo_managed_config \<and> cr_session_dir r = ''/s'' \<and>
      hash_free (managed_block_options cfg r (cr_state r) demo_user_config) \<and>
      path_clean demo_user_config \<notin> path_clean ` {session_path (cr_session_dir r), sf_config_path (cr_ssh_files r),
        sf_known_hosts_path (cr_ssh_files r)})
     (fst (demo_steps \<lparr>mc_started = [], mc_state = demo_owner\<rparr>)) = Inr True"
  by code_simp

lemma demo_managed:
  "user_ssh_config_path demo_managed_process (ssh_user_config_path (cfg_ssh (fill_refs demo_managed_config))) = Inr demo_user_config"
  "ssh_manage_user_config (cfg_ssh (fill_refs demo_managed_config))" "config_text_ok (fill_refs demo_managed_config)"
  "config_text (snd (demo_managed_begin demo_owner)) demo_user_config = ''Host own'' @ [nl]" "no_block ''dev'' (''Host own'' @ [nl])"
  by code_simp+

text \<open>What \<open>disconnect\<close> does once it has read the session.\<close>

definition demo_ends :: "world machine \<Rightarrow> bool" where
  "demo_ends mc = (case demo_steps mc of
     (Inl e, mc) \<Rightarrow> False
   | (Inr (s, cfg, r), mc) \<Rightarrow>
       (case io_bind (io_bind (io_ignore (terminate_process (st_pid s))) (\<lambda>_. cleanup_session_artifacts s))
          (\<lambda>_. session_clear ''/s'') (bump (mc_state mc)) of (Inl e, w) \<Rightarrow> False | (Inr u, w) \<Rightarrow> True))"

lemma demo_ends: "demo_ends \<lparr>mc_started = [], mc_state = demo_owner\<rparr>"
  by code_simp

lemma demo_calm_after:
  assumes "demo_managed_begin demo_owner = (Inr (loaded, cl, r), w1)"
    and "record_supervisor r demo_tunnel \<lparr>mc_started = [], mc_state = w1\<rparr> = (Inr s1, mc1)"
    and "manage_user_config demo_managed_process (lo_config loaded) r s1 mc1 = (Inr s, mc')"
  shows "calm (mc_state mc')"
proof -
  have "leaves fixed_part (cli_allocate_port demo_managed_process)"
    by (simp add: cli_allocate_port_def allocate_loopback_def demo_managed_process_def demo_session_process_def demo_process_def
        Let_def leaves_def io_bind_def io_wrap_def)
  then have "leaves calm demo_managed_begin" unfolding demo_managed_begin_def by (intro leaves_calm begin_fixed)
  from leaves_result [OF this assms(1)] have "calm w1" by (simp add: calm_def demo_owner_def demo_fresh_def)
  then show ?thesis using machine_calm [OF machine_record assms(2)] machine_calm [OF machine_manage assms(3)] by simp
qed


section \<open>Two connects at a time\<close>

lemma disconnect_procs:
  assumes "disconnect_session dir w = (Inr (), w')" and "session_load dir w = (Inr s, w1)" and "calm w"
    and "1 < st_pid s" and "group_leader w (st_pid s)"
  shows "w_procs w' = filter (\<lambda>(q, g). g \<noteq> st_pid s) (w_procs w)" and "lookup_node w' (session_path dir) = None" and "calm w'"
proof -
  obtain w2 w3 where w2: "w2 = snd (terminate_process (st_pid s) w1)" and cl: "cleanup_session_artifacts s w2 = (Inr (), w3)"
    and clr: "session_clear dir w3 = (Inr (), w')" using disconnect_steps [OF assms(1,2)] .
  note keep = load_keeps [OF assms(2)]
  have "group_leader w1 (st_pid s)" using assms(5) keep(2) by (simp add: group_leader_def)
  then have "w_procs w2 = filter (\<lambda>(q, g). g \<noteq> st_pid s) (w_procs w)"
    using terminate_procs [of w1 "st_pid s"] assms(3,4) keep(2,3) w2 by simp
  then show "w_procs w' = filter (\<lambda>(q, g). g \<noteq> st_pid s) (w_procs w)"
    using leaves_result [OF leaves_procs [OF cleanup_artifacts_fixed] cl]
      leaves_result [OF leaves_procs [OF session_clear_leaves(1)] clr] by simp
  show "lookup_node w' (session_path dir) = None" using session_clear_ok [OF clr] .
  show "calm w'"
    using leavesD [OF terminate_calm] w2 keep(3) assms(3) leaves_result [OF leaves_calm [OF cleanup_artifacts_fixed] cl]
      leaves_result [OF leaves_calm [OF session_clear_leaves(1)] clr] by simp
qed


definition first_session :: session_state where
  "first_session = demo_session\<lparr>st_pid := 11\<rparr>"

definition second_session :: session_state where
  "second_session = demo_session\<lparr>st_pid := 12\<rparr>"

definition demo_two :: world where
  "demo_two = \<lparr>w_nodes = [''/s'' \<mapsto> Dir 448], w_umask = 18, w_fault = (\<lambda>t op p. False), w_short = (\<lambda>t. 0), w_clock = 0,
     w_procs = [(11, 11), (12, 12)]\<rparr>"

definition demo_both :: "(unit, world) io" where
  "demo_both = io_bind (session_save ''/s'' first_session) (\<lambda>_. session_save ''/s'' second_session)"

lemma demo_both_ok: "fst (demo_both demo_two) = Inr ()"
  by code_simp

lemma demo_both_ends:
  "fst (io_bind (io_bind (io_ignore (terminate_process (st_pid second_session))) (\<lambda>_. cleanup_session_artifacts second_session))
     (\<lambda>_. session_clear ''/s'') (bump (snd (demo_both demo_two)))) = Inr ()"
  by code_simp


end
