(* ===== verification/Cli_Editor.thy ===== *)
theory Cli_Editor
  imports Cli_Sessions
begin

text \<open>
  The last part of \<open>connect\<close>: the remote setup, the isolated user data and the launch of the
  editor, in this order, and what is in place when the editor starts.
\<close>

section \<open>Looking for the launcher reads only\<close>

lemma file_exists_nodes: "leaves w_nodes (file_exists p)"
proof -
  have "leaves w_nodes (os_stat p)" by (simp add: leaves_def os_stat_def)
  then show ?thesis unfolding file_exists_def by (intro frame)
qed

lemma first_existing_nodes: "leaves w_nodes m \<Longrightarrow> leaves w_nodes (first_existing file_exists ps m)"
  by (induction ps) (auto intro!: frame file_exists_nodes)

lemma resolve_launcher_nodes:
  assumes "vo_look_path o1 = None" and "vo_exists o1 = None"
  shows "leaves w_nodes (resolve_launcher goos path_env o1)"
  unfolding resolve_launcher_def assms option.case Let_def
  by (intro frame first_existing_nodes file_exists_nodes go_look_path_leaves)

section \<open>The launch\<close>

lemma launch_code_ok:
  assumes "launch_code ch l o1 mc = (Inr (), mc')"
  obtains args out err where "remote_ssh_args o1 = Inr args"
    and "ch_run ch (el_path l) args (launcher_base_env ch l @ la_env o1) (mc_state mc) = ((out, err, None), mc_state mc')"
    and "mc_started mc' = mc_started mc @ [(el_path l, args, launcher_base_env ch l @ la_env o1)]"
  using assms by (auto simp: launch_code_def Let_def split: if_splits sum.splits prod.splits option.splits exec_error.splits)

lemma launch_vscode_ok:
  assumes "launch_vscode ch cp cfg n dir mc = (Inr (), mc')"
  obtains path args out err and mc0 :: "world machine" where
    "remote_ssh_args \<lparr>la_target_alias = n, la_user_data_dir = dir, la_env = []\<rparr> = Inr args"
    and "mc_started mc0 = mc_started mc" and "w_nodes (mc_state mc0) = w_nodes (mc_state mc)"
    and "ch_run ch path args (ch_environ ch) (mc_state mc0) = ((out, err, None), mc_state mc')"
    and "mc_started mc' = mc_started mc @ [(path, args, ch_environ ch)]"
proof -
  let ?o = "\<lparr>la_target_alias = n, la_user_data_dir = dir, la_env = []\<rparr>"
  let ?v = "\<lparr>vo_goos = [], vo_local_app_data = cp_getenv cp ''LOCALAPPDATA'',
       vo_configured_path = vs_launcher_path (cfg_vscode cfg), vo_look_path = None, vo_exists = None\<rparr>"
  obtain path mc0 where launch: "launch_code ch \<lparr>el_path = path, el_base_env = None\<rparr> ?o mc0 = (Inr (), mc')"
    and mc0: "mc_started mc0 = mc_started mc" "w_nodes (mc_state mc0) = w_nodes (mc_state mc)"
  proof (cases "cp_getenv cp ''DEV_CONNECT_CODE_PATH'' = []")
    case False
    with assms that show ?thesis by (auto simp: launch_vscode_def Let_def)
  next
    case True
    then obtain path w where look: "resolve_launcher (cp_goos cp) (cp_getenv cp ''PATH'') ?v (mc_state mc) = (Inr path, w)"
      and run: "launch_code ch \<lparr>el_path = path, el_base_env = None\<rparr> ?o (mc\<lparr>mc_state := w\<rparr>) = (Inr (), mc')"
      using assms by (auto simp: launch_vscode_def Let_def io_bind_eq_Inr on_world_eq)
    have "leaves w_nodes (resolve_launcher (cp_goos cp) (cp_getenv cp ''PATH'') ?v)" by (rule resolve_launcher_nodes) simp_all
    then have "w_nodes w = w_nodes (mc_state mc)" using look by (rule leaves_result)
    then show ?thesis using that [OF run] by simp
  qed
  obtain args out err where "remote_ssh_args ?o = Inr args"
      "ch_run ch path args (ch_environ ch) (mc_state mc0) = ((out, err, None), mc_state mc')"
      "mc_started mc' = mc_started mc0 @ [(path, args, ch_environ ch)]"
    using launch_code_ok [OF launch] by (auto simp: launcher_base_env_def)
  then show ?thesis using that [of args mc0 path out err] mc0 by simp
qed

section \<open>The user data\<close>

lemma isolate_ok:
  assumes "isolate_user_data cfg r s mc = (Inr s', mc')" and "use_isolated_user_data_dir (cfg_vscode cfg)"
  defines "dir \<equiv> path_join [cr_session_dir r, ''vscode-user-data'']"
  shows "s' = s\<lparr>st_vscode_dir := dir\<rparr> \<and> session_on_disk (cr_session_dir r) s' (mc_state mc') \<and>
     file_at (mc_state mc') (settings_file dir) = Some (marshal_indent (user_settings (st_ssh_config s)) @ [newline]) \<and>
     mc_started mc' = mc_started mc"
proof -
  obtain w1 where prep: "prepare_user_data_dir dir (st_ssh_config s) (mc_state mc) = (Inr (), w1)"
    and s': "s' = s\<lparr>st_vscode_dir := dir\<rparr>" and save: "session_save (cr_session_dir r) s' w1 = (Inr (), mc_state mc')"
    and started: "mc_started mc' = mc_started mc"
    using assms(1,2) unfolding dir_def
    by (auto simp: isolate_user_data_def Let_def io_bind_eq_Inr or_abandon_Inr on_world_eq)
  have "path_clean (settings_file dir) \<noteq> session_path (cr_session_dir r)"
    unfolding settings_file_def session_path_def by (subst path_clean_join, simp) (rule path_join_names_differ; simp)
  then have "file_at (mc_state mc') (settings_file dir) = file_at w1 (settings_file dir)"
    using leaves_result [OF session_save_leaves(2) save] by blast
  then show ?thesis using prepared_settings [OF prep] session_save_on_disk [OF save] s' started by simp
qed

lemma isolate_off:
  "\<not> use_isolated_user_data_dir (cfg_vscode cfg) \<Longrightarrow> isolate_user_data cfg r s mc = (Inr s, mc)"
  by (simp add: isolate_user_data_def io_return_def)

section \<open>Properties\<close>

text \<open>
  C21: the editor is the last process \<open>connect\<close> starts, with the prepared target. When it starts, the
  remote setup, where it is enabled, has succeeded, and with isolated user data its settings
  file names the SSH configuration of the session and the session on disk records its directory,
  so that a later \<open>disconnect\<close> can remove it.
\<close>

theorem editor_starts_last:
  assumes "open_editor ch rm cp o1 cfg n r s mc = (Inr s', mc')" and "\<not> op_no_code o1" and "valid_utf8 (st_ssh_config s)"
  shows "\<exists>path args out err (mc0 :: world machine).
     mc_started mc' = mc_started mc0 @ [(path, args, ch_environ ch)] \<and>
     ch_run ch path args (ch_environ ch) (mc_state mc0) = ((out, err, None), mc_state mc') \<and>
     args = (if st_vscode_dir s' \<noteq> [] then [''--user-data-dir'', st_vscode_dir s'] else []) @ [''--remote'', ''ssh-remote+'' @ n] \<and>
     (rs_enabled (vs_remote_setup (cfg_vscode cfg)) \<longrightarrow>
        (\<exists>mc1. configure_remote rm (remote_options_for cfg n (st_ssh_config s)) mc = (Inr (), mc1) \<and>
           mc_started mc0 = mc_started mc1)) \<and>
     (use_isolated_user_data_dir (cfg_vscode cfg) \<longrightarrow>
        session_on_disk (cr_session_dir r) s' (mc_state mc0) \<and>
        (\<exists>data. file_at (mc_state mc0) (settings_file (st_vscode_dir s')) = Some data \<and>
           json_parse data = Some (user_settings (st_ssh_config s))))"
proof -
  let ?ro = "remote_options_for cfg n (st_ssh_config s)" and ?iso = "use_isolated_user_data_dir (cfg_vscode cfg)"
  obtain mc1 mc2 where remote: "rs_enabled (vs_remote_setup (cfg_vscode cfg)) \<longrightarrow> configure_remote rm ?ro mc = (Inr (), mc1)"
    and iso: "isolate_user_data cfg r s mc1 = (Inr s', mc2)"
    and launch: "launch_vscode ch cp cfg n (st_vscode_dir s') mc2 = (Inr (), mc')"
    using assms(1,2) by (auto simp: open_editor_def io_bind_eq_Inr or_abandon_Inr split: if_splits)
  obtain path args out err and mc0 :: "world machine" where args: "remote_ssh_args \<lparr>la_target_alias = n, la_user_data_dir = st_vscode_dir s', la_env = []\<rparr> = Inr args"
    and mc0: "mc_started mc0 = mc_started mc2" "w_nodes (mc_state mc0) = w_nodes (mc_state mc2)"
    and child: "ch_run ch path args (ch_environ ch) (mc_state mc0) = ((out, err, None), mc_state mc')"
    and started: "mc_started mc' = mc_started mc2 @ [(path, args, ch_environ ch)]"
    by (rule launch_vscode_ok [OF launch])
  note same = file_at_nodes [OF mc0(2)]
  have started1: "mc_started mc2 = mc_started mc1" using isolate_ok [OF iso] isolate_off [of cfg r s mc1] iso by (cases ?iso) auto
  have args': "args = (if st_vscode_dir s' \<noteq> [] then [''--user-data-dir'', st_vscode_dir s'] else []) @ [''--remote'', ''ssh-remote+'' @ n]"
    using args by (auto simp: remote_ssh_args_def split: if_splits)
  have data: "session_on_disk (cr_session_dir r) s' (mc_state mc0)"
      "\<exists>data. file_at (mc_state mc0) (settings_file (st_vscode_dir s')) = Some data \<and> json_parse data = Some (user_settings (st_ssh_config s))"
    if ?iso
  proof -
    note ok = isolate_ok [OF iso that]
    then have "session_on_disk (cr_session_dir r) s' (mc_state mc2)" by blast
    then show "session_on_disk (cr_session_dir r) s' (mc_state mc0)" unfolding session_on_disk_def same .
    have "json_parse (marshal_indent (user_settings (st_ssh_config s)) @ [newline]) = Some (user_settings (st_ssh_config s))"
      using assms(3) user_settings_ok by (intro parse_render_line)
    then show "\<exists>data. file_at (mc_state mc0) (settings_file (st_vscode_dir s')) = Some data \<and>
        json_parse data = Some (user_settings (st_ssh_config s))" using ok by (simp add: same)
  qed
  show ?thesis
    by (rule exI [of _ path], rule exI [of _ args], rule exI [of _ out], rule exI [of _ err], rule exI [of _ mc0])
      (use started child args' remote data mc0(1) started1 in simp)
qed

text \<open>A launcher and an \<open>ssh\<close> that end well, and a configuration with both options on.\<close>

definition willing_child :: "world child" where
  "willing_child = \<lparr>ch_environ = [''HOME=/home/me''], ch_run = (\<lambda>path args env w. (([], [], None), w)),
     ch_select = (\<lambda>path args env w. (Inr (Process_Ended None), w)),
     ch_poll = (\<lambda>path args env w. (Inr (7, Tick [] [] (Poll_Context_Done (Err ''deadline'' []))), w))\<rparr>"

definition willing_remote :: "world machine remote_child" where
  "willing_remote = (\<lambda>path args script mc. (([], None), mc))"

definition demo_editor_config :: config where
  "demo_editor_config = demo_config\<lparr>cfg_vscode := \<lparr>vs_launcher_path = [], vs_isolated = Some True,
     vs_remote_setup = (vs_remote_setup (cfg_vscode demo_config))\<lparr>rs_enabled := True, rs_http_proxy := ''http://p''\<rparr>\<rparr>\<rparr>"

definition demo_editor_process :: cli_process where
  "demo_editor_process = demo_process\<lparr>cp_getenv := (\<lambda>k. if k = ''DEV_CONNECT_CODE_PATH'' then ''/usr/bin/code'' else [])\<rparr>"

definition demo_open :: "(session_state, world machine) io" where
  "demo_open = open_editor willing_child willing_remote demo_editor_process demo_cli_options demo_editor_config ''dev'' demo_prepared
     demo_live_state"

lemma demo_opens: "map_sum (\<lambda>_. ()) st_vscode_dir (fst (demo_open demo_machine)) = Inr ''/s/vscode-user-data''"
  by code_simp

theorem editor_starts_last_witness:
  "\<exists>s mc' path args env (mc0 :: world machine) data. demo_open demo_machine = (Inr s, mc') \<and>
     mc_started mc' = mc_started mc0 @ [(path, args, env)] \<and>
     args = [''--user-data-dir'', ''/s/vscode-user-data'', ''--remote'', ''ssh-remote+dev''] \<and>
     file_at (mc_state mc0) (settings_file ''/s/vscode-user-data'') = Some data \<and>
     json_parse data = Some (user_settings (st_ssh_config demo_live_state))"
proof -
  obtain s mc' where run: "demo_open demo_machine = (Inr s, mc')" and dir: "st_vscode_dir s = ''/s/vscode-user-data''"
    using demo_opens by (cases "demo_open demo_machine"; cases "fst (demo_open demo_machine)") auto
  have opts: "\<not> op_no_code demo_cli_options" "use_isolated_user_data_dir (cfg_vscode demo_editor_config)" by code_simp+
  have "valid_utf8 (st_ssh_config demo_live_state)" by code_simp
  from editor_starts_last [OF run [unfolded demo_open_def] opts(1) this] opts(2) dir
  obtain path args mc0 where "mc_started mc' = mc_started (mc0 :: world machine) @ [(path, args, ch_environ willing_child)]"
      "args = [''--user-data-dir'', ''/s/vscode-user-data''] @ [''--remote'', ''ssh-remote+'' @ ''dev'']"
      "\<exists>data. file_at (mc_state mc0) (settings_file ''/s/vscode-user-data'') = Some data \<and>
         json_parse data = Some (user_settings (st_ssh_config demo_live_state))"
    by auto
  then show ?thesis using run by auto
qed

end
