(* ===== verification/Port_Probe.thy ===== *)
theory Port_Probe
  imports Connect_Prepare
begin

text \<open>
  \<open>internal/port/port.go\<close> with the loopback TCP ports of the machine: the probe listens on port 0,
  reads the port the kernel chose from the listener and closes it again.
\<close>

section \<open>TCP listeners\<close>

text \<open>A \<open>net.TCPAddr\<close>; the address is \<open>None\<close> for the nil IP of a text that is none.\<close>

record tcp_addr =
  ta_ip :: "int list option"
  ta_port :: int

text \<open>The dynamic type of a \<open>net.Addr\<close>.\<close>

datatype net_addr = Tcp_Address tcp_addr | Other_Address string

text \<open>What the program calls of package \<open>net\<close>; \<open>'l\<close> is the listener.\<close>

record ('l, 'w) net_calls =
  nc_resolve :: "string \<Rightarrow> (tcp_addr, 'w) io"
  nc_listen :: "tcp_addr \<Rightarrow> ('l, 'w) io"
  nc_addr :: "'l \<Rightarrow> net_addr"
  nc_close :: "'l \<Rightarrow> (unit, 'w) io"

text \<open>A deferred call runs whatever the body returns; here its own error is dropped.\<close>

definition deferring :: "(unit, 'w) io \<Rightarrow> ('a, 'w) io \<Rightarrow> ('a, 'w) io" where
  "deferring later m = (\<lambda>w. case m w of (r, w1) \<Rightarrow> (r, snd (later w1)))"

definition default_port_probe :: "('l, 'w) net_calls \<Rightarrow> (int, 'w) io" where
  "default_port_probe net =
     io_bind (io_wrap ''resolve loopback: %w'' [] (nc_resolve net ''127.0.0.1:0'')) (\<lambda>addr.
     io_bind (io_wrap ''listen on loopback: %w'' [] (nc_listen net addr)) (\<lambda>listener.
     deferring (nc_close net listener)
       (case nc_addr net listener of
          Tcp_Address a \<Rightarrow> io_return (ta_port a)
        | Other_Address t \<Rightarrow> io_fail (Err ''unexpected listener address type %T'' [t]))))"

definition allocate_port :: "('l, 'w) net_calls \<Rightarrow> (allocation, 'w) io" where
  "allocate_port net = allocate_loopback (default_port_probe net)"

text \<open>\<open>net.ParseIP\<close> of a dotted IPv4 address; the hosts of the program are no IPv6 addresses.\<close>

definition ip_part :: "string \<Rightarrow> int option" where
  "ip_part s =
     (if s \<noteq> [] \<and> list_all is_digit s \<and> length s \<le> 3 \<and> (prefix ''0'' s \<longrightarrow> s = ''0'') \<and> read_digits s \<le> 255
      then Some (read_digits s) else None)"

definition parse_ipv4 :: "string \<Rightarrow> int list option" where
  "parse_ipv4 s =
     (let parts = map ip_part (str_split (CHR ''.'') s)
      in if length parts = 4 \<and> None \<notin> set parts then Some (map the parts) else None)"

definition allocation_addr :: "allocation \<Rightarrow> tcp_addr" where
  "allocation_addr a = \<lparr>ta_ip = parse_ipv4 (al_host a), ta_port = al_port a\<rparr>"

section \<open>The contract of the loopback ports\<close>

text \<open>
  What the allocation relies on: a listener on port 0 of the loopback address has a free TCP port
  of its own between 1 and 65535, and closing it frees exactly that port.
\<close>

definition loopback_any :: tcp_addr where
  "loopback_any = \<lparr>ta_ip = Some [127, 0, 0, 1], ta_port = 0\<rparr>"

locale loopback_ports =
  fixes net :: "('l, 'w) net_calls" and bound :: "'w \<Rightarrow> int set"
  assumes resolve: "nc_resolve net ''127.0.0.1:0'' w = (Inr addr, w') \<Longrightarrow> addr = loopback_any \<and> bound w' = bound w"
    and listen: "nc_listen net loopback_any w = (Inr l, w') \<Longrightarrow>
        \<exists>p. nc_addr net l = Tcp_Address \<lparr>ta_ip = Some [127, 0, 0, 1], ta_port = p\<rparr> \<and>
          0 < p \<and> p \<le> 65535 \<and> p \<notin> bound w \<and> bound w' = insert p (bound w)"
    and listen_fails: "nc_listen net addr w = (Inl e, w') \<Longrightarrow> bound w' = bound w"
    and resolve_fails: "nc_resolve net s w = (Inl e, w') \<Longrightarrow> bound w' = bound w"
    and close: "nc_addr net l = Tcp_Address a \<Longrightarrow> bound (snd (nc_close net l w)) = bound w - {ta_port a}"
begin

lemma probe_free:
  assumes "default_port_probe net w = (Inr p, w')"
  shows "0 < p \<and> p \<le> 65535 \<and> p \<notin> bound w \<and> bound w' = bound w"
proof -
  obtain addr w1 l w2 where res: "nc_resolve net ''127.0.0.1:0'' w = (Inr addr, w1)"
    and lis: "nc_listen net addr w1 = (Inr l, w2)"
    and body: "deferring (nc_close net l)
       (case nc_addr net l of
          Tcp_Address a \<Rightarrow> io_return (ta_port a)
        | Other_Address t \<Rightarrow> io_fail (Err ''unexpected listener address type %T'' [t])) w2 = (Inr p, w')"
    using assms by (auto simp: default_port_probe_def io_bind_eq_Inr)
  have addr: "addr = loopback_any" "bound w1 = bound w" using resolve [OF res] by simp_all
  obtain q where q: "nc_addr net l = Tcp_Address \<lparr>ta_ip = Some [127, 0, 0, 1], ta_port = q\<rparr>"
      "0 < q" "q \<le> 65535" "q \<notin> bound w1" "bound w2 = insert q (bound w1)"
    using listen lis addr(1) by blast
  have "p = q" "w' = snd (nc_close net l w2)" using body by (auto simp: q(1) deferring_def)
  then show ?thesis using q addr(2) close [OF q(1), of w2] by simp
qed

lemma allocation_free:
  assumes "allocate_port net w = (Inr a, w')"
  shows "al_host a = ''127.0.0.1'' \<and> 0 < al_port a \<and> al_port a \<le> 65535 \<and> al_port a \<notin> bound w \<and> bound w' = bound w"
  using assms probe_free by (auto simp: allocate_port_def allocate_loopback_def io_bind_eq_Inr)

end

section \<open>The ports of the machine\<close>

text \<open>
  The loopback ports in use and the kernel's choice for port 0, which depends on them. Without a
  free choice, or for a port in use, \<open>listen\<close> fails.
\<close>

record network =
  nw_bound :: "int list"
  nw_choice :: "int list \<Rightarrow> int"

definition listen_port :: "tcp_addr \<Rightarrow> (int, network) io" where
  "listen_port addr w =
     (let p = (if ta_port addr = 0 then nw_choice w (nw_bound w) else ta_port addr)
      in if 0 < p \<and> p \<le> 65535 \<and> p \<notin> set (nw_bound w) then (Inr p, w\<lparr>nw_bound := p # nw_bound w\<rparr>)
         else (Inl (Err ''bind: address already in use'' []), w))"

definition close_port :: "int \<Rightarrow> (unit, network) io" where
  "close_port p w = (Inr (), w\<lparr>nw_bound := removeAll p (nw_bound w)\<rparr>)"

definition loopback_net :: "(int, network) net_calls" where
  "loopback_net =
     \<lparr>nc_resolve = (\<lambda>s. io_return loopback_any), nc_listen = listen_port,
      nc_addr = (\<lambda>p. Tcp_Address \<lparr>ta_ip = Some [127, 0, 0, 1], ta_port = p\<rparr>), nc_close = close_port\<rparr>"

interpretation machine_ports: loopback_ports loopback_net "\<lambda>w. set (nw_bound w)"
  by unfold_locales
    (auto simp: loopback_net_def listen_port_def close_port_def loopback_any_def Let_def split: if_splits)

lemma probe_machine: "allocate_port loopback_net w = (Inr a, w') \<Longrightarrow> w' = w\<lparr>nw_bound := nw_bound w\<rparr>"
  by (auto simp: allocate_port_def allocate_loopback_def default_port_probe_def deferring_def loopback_net_def listen_port_def
      close_port_def loopback_any_def io_bind_eq_Inr Let_def split: if_splits)

section \<open>Properties\<close>

text \<open>
  C23: an allocated port is a TCP port of the loopback address, between 1 and 65535, that nothing listens
  on, and the probe has released it again: a listener on the address of the allocation succeeds
  at once. But nothing reserves it: the next allocation may give the same port.
\<close>

theorem allocated_port_free:
  assumes "allocate_port loopback_net w = (Inr a, w')"
  shows "0 < al_port a \<and> al_port a \<le> 65535 \<and> al_port a \<notin> set (nw_bound w) \<and>
     allocation_addr a = \<lparr>ta_ip = Some [127, 0, 0, 1], ta_port = al_port a\<rparr> \<and>
     fst (listen_port (allocation_addr a) w') = Inr (al_port a) \<and> fst (allocate_port loopback_net w') = Inr a"
proof -
  note free = machine_ports.allocation_free [OF assms]
  have same: "w' = w" using probe_machine [OF assms] by simp
  have "parse_ipv4 ''127.0.0.1'' = Some [127, 0, 0, 1]" by code_simp
  then have addr: "allocation_addr a = \<lparr>ta_ip = Some [127, 0, 0, 1], ta_port = al_port a\<rparr>"
    using free by (simp add: allocation_addr_def)
  then have "fst (listen_port (allocation_addr a) w') = Inr (al_port a)" using free same by (simp add: listen_port_def Let_def)
  then show ?thesis using free addr assms same by simp
qed

definition demo_network :: network where
  "demo_network = \<lparr>nw_bound = [8080], nw_choice = (\<lambda>used. 49152 + int (length used))\<rparr>"

theorem allocated_port_free_witness:
  "\<exists>a w'. allocate_port loopback_net demo_network = (Inr a, w') \<and> al_port a = 49153 \<and> fst (allocate_port loopback_net w') = Inr a"
proof -
  have "map_sum (\<lambda>_. ()) al_port (fst (allocate_port loopback_net demo_network)) = Inr 49153" by code_simp
  then obtain a w' where run: "allocate_port loopback_net demo_network = (Inr a, w')" and p: "al_port a = 49153"
    by (cases "allocate_port loopback_net demo_network"; cases "fst (allocate_port loopback_net demo_network)") auto
  from allocated_port_free [OF run] run p show ?thesis by blast
qed

end
