(* ===== verification/Fake_Kubectl.thy ===== *)
theory Fake_Kubectl
  imports Preflight Go_OS
begin

text \<open>
  \<open>tests/fakes/kubectl/main.go\<close>: the executable the integration tests put in the place of
  \<open>kubectl\<close>, and what the real runner, the preflight and the tunnel make of its answers.
\<close>

section \<open>The executable\<close>

text \<open>\<open>fa_exit\<close> is the status the process ends with, or \<open>None\<close> where it waits to be stopped.\<close>

record fake_answer =
  fa_stdout :: string
  fa_stderr :: string
  fa_exit :: "int option"

fun contains_arg :: "string list \<Rightarrow> string \<Rightarrow> bool" where
  "contains_arg [] want = False"
| "contains_arg (a # args) want = (if a = want then True else contains_arg args want)"

text \<open>The port of the last argument with a colon.\<close>

fun forwarded_port :: "string \<Rightarrow> string list \<Rightarrow> string" where
  "forwarded_port local_port [] = local_port"
| "forwarded_port local_port (a # args) =
     forwarded_port (case str_cut (CHR '':'') a of Some (before, after) \<Rightarrow> before | None \<Rightarrow> local_port) args"

definition fake_kubectl :: "(string \<Rightarrow> string) \<Rightarrow> string list \<Rightarrow> fake_answer" where
  "fake_kubectl getenv args =
     (let joined = str_join '' '' args
      in if contains_arg args ''version''
         then \<lparr>fa_stdout = ''Client Version: v1.30.0'' @ [newline] @ ''Server Version: v1.30.0'' @ [newline],
               fa_stderr = [], fa_exit = Some 0\<rparr>
         else if str_contains joined ''auth can-i create pods/portforward''
         then (let can_i = getenv ''DEV_CONNECT_FAKE_KUBECTL_CAN_I'';
                   can_i = (if can_i = [] then ''yes'' else can_i)
               in \<lparr>fa_stdout = can_i @ [newline], fa_stderr = [], fa_exit = Some (if can_i \<noteq> ''yes'' then 1 else 0)\<rparr>)
         else if contains_arg args ''config'' \<and> contains_arg args ''current-context''
         then (let context_name = getenv ''DEV_CONNECT_FAKE_KUBECTL_CONTEXT'';
                   context_name = (if context_name = [] then ''rancher-dev'' else context_name)
               in \<lparr>fa_stdout = context_name @ [newline], fa_stderr = [], fa_exit = Some 0\<rparr>)
         else if contains_arg args ''port-forward''
         then \<lparr>fa_stdout = ''Forwarding from 127.0.0.1:'' @ forwarded_port ''55221'' args @ '' -> 22'' @ [newline],
               fa_stderr = [], fa_exit = None\<rparr>
         else \<lparr>fa_stdout = [], fa_stderr = ''unexpected kubectl args: '' @ joined @ [newline], fa_exit = Some 9\<rparr>)"

text \<open>A write at the end of an open file; a failing one may leave the first bytes behind.\<close>

definition append_data :: "string \<Rightarrow> string \<Rightarrow> (unit, world) io" where
  "append_data p data w =
     (case lookup_node w p of
        Some (File c m) \<Rightarrow>
          if faulty w FWrite p
          then (Inl (Errno EIO), bump (put_node w p (Some (File (c @ take (w_short w (w_clock w)) data) m))))
          else (Inr (), bump (put_node w p (Some (File (c @ data) m))))
      | _ \<Rightarrow> (Inl (Errno EIO), bump w))"

definition record_invocation :: "(string \<Rightarrow> string) \<Rightarrow> string list \<Rightarrow> (unit, world) io" where
  "record_invocation getenv args =
     (let path = getenv ''DEV_CONNECT_FAKE_KUBECTL_LOG''
      in if path = [] then io_return ()
         else io_case (os_open_append path 384)
                (\<lambda>_. io_return ())
                (\<lambda>_. io_bind (io_ignore (append_data path (str_join [CHR 0x00] args @ [newline])))
                  (\<lambda>_. io_ignore (os_close path))))"

definition fake_kubectl_main :: "(string \<Rightarrow> string) \<Rightarrow> string list \<Rightarrow> (fake_answer, world) io" where
  "fake_kubectl_main getenv args =
     io_bind (record_invocation getenv args) (\<lambda>_. io_return (fake_kubectl getenv args))"

section \<open>How it tells the commands apart\<close>

text \<open>
  It looks for its key words anywhere among the arguments, so a value of the configuration
  must not be one of them.
\<close>

definition plain_value :: "string \<Rightarrow> bool" where
  "plain_value v \<longleftrightarrow> CHR '' '' \<notin> set v \<and> v \<notin> {''version'', ''can-i'', ''config''}"

lemma contains_arg_iff: "contains_arg args want \<longleftrightarrow> want \<in> set args"
  by (induction args) auto

lemma forwarded_port_last:
  "CHR '':'' \<notin> set p \<Longrightarrow> forwarded_port local_port (args @ [p @ CHR '':'' # q]) = p"
proof (induction args arbitrary: local_port)
  case Nil
  then have "str_cut (CHR '':'') (p @ CHR '':'' # q) = Some (p, q)" by (simp add: str_cut_Some)
  then show ?case by simp
qed simp

lemma base_args_set: "set (base_args k c n) \<subseteq> {''--kubeconfig'', ''--context'', ''-n'', k, c, n}"
  by (auto simp: base_args_def Let_def)

text \<open>A word between two spaces of the joined arguments is one of the arguments.\<close>

lemma joined_word:
  assumes "\<forall>a \<in> set args. CHR '' '' \<notin> set a" and "CHR '' '' \<notin> set word"
    and "str_join '' '' args = a @ '' '' @ word @ '' '' @ b"
  shows "word \<in> set args"
proof -
  have "args \<noteq> []" using assms(3) by auto
  then have "args = str_split (CHR '' '') (a @ CHR '' '' # (word @ CHR '' '' # b))"
    using str_split_join [of args "CHR '' ''"] assms(1,3) by simp
  also have "\<dots> = str_split (CHR '' '') a @ [word] @ str_split (CHR '' '') b"
    by (simp only: str_split_append str_split_no_sep [OF assms(2)])
  finally show ?thesis by (metis in_set_conv_decomp append_Cons append_Nil)
qed

lemma not_auth:
  assumes "\<forall>a \<in> set args. CHR '' '' \<notin> set a" and "''can-i'' \<notin> set args"
  shows "\<not> str_contains (str_join '' '' args) ''auth can-i create pods/portforward''"
proof
  assume "str_contains (str_join '' '' args) ''auth can-i create pods/portforward''"
  then obtain a b where "str_join '' '' args = a @ ''auth can-i create pods/portforward'' @ b"
    by (auto simp: str_contains_iff)
  then have "str_join '' '' args = (a @ ''auth'') @ '' '' @ ''can-i'' @ '' '' @ (''create pods/portforward'' @ b)"
    by simp
  from joined_word [OF assms(1) _ this] assms(2) show False by simp
qed

lemma fake_version: "fa_exit (fake_kubectl getenv (cmd_args (version_command o1))) = Some 0"
  by (simp add: fake_kubectl_def version_command_def contains_arg_iff)

text \<open>The answer to the permission check is the configured one.\<close>

definition fake_permission :: "(string \<Rightarrow> string) \<Rightarrow> string" where
  "fake_permission getenv =
     (let can_i = getenv ''DEV_CONNECT_FAKE_KUBECTL_CAN_I'' in if can_i = [] then ''yes'' else can_i)"

lemma fake_auth:
  assumes "plain_value (au_kubeconfig o1)" and "plain_value (au_context o1)" and "plain_value (au_namespace o1)"
    and "au_verb o1 = ''create''" and "au_resource o1 = ''pods/portforward''"
  shows "fake_kubectl getenv (cmd_args (auth_can_i_command o1)) =
    \<lparr>fa_stdout = fake_permission getenv @ [newline], fa_stderr = [],
     fa_exit = Some (if fake_permission getenv \<noteq> ''yes'' then 1 else 0)\<rparr>"
proof -
  let ?b = "base_args (au_kubeconfig o1) (au_context o1) (au_namespace o1)"
  have words: "str_join '' '' [''auth'', ''can-i'', ''create'', ''pods/portforward''] = ''auth can-i create pods/portforward''"
    by simp
  have "str_contains (str_join '' '' (?b @ [''auth'', ''can-i'', ''create'', ''pods/portforward'']))
          ''auth can-i create pods/portforward''"
  proof (cases "?b = []")
    case True
    then show ?thesis unfolding True append_Nil words using str_contains_infix [of "[]" _ "[]"] by simp
  next
    case False
    then have "str_join '' '' (?b @ [''auth'', ''can-i'', ''create'', ''pods/portforward'']) =
      (str_join '' '' ?b @ '' '') @ ''auth can-i create pods/portforward'' @ []"
      by (simp only: str_join_append words append_assoc append_Nil2 list.simps not_False_eq_True)
    then show ?thesis by (simp only: str_contains_infix)
  qed
  moreover have "''version'' \<notin> set (?b @ [''auth'', ''can-i'', ''create'', ''pods/portforward''])"
    using base_args_set [of "au_kubeconfig o1" "au_context o1" "au_namespace o1"] assms(1-3)
    by (auto simp: plain_value_def)
  ultimately show ?thesis
    by (simp add: fake_kubectl_def auth_can_i_command_def contains_arg_iff assms(4,5) fake_permission_def Let_def)
qed

lemma fake_forward:
  assumes "plain_value (pf_kubeconfig o1)" and "plain_value (pf_context o1)" and "plain_value (pf_namespace o1)"
    and "CHR '' '' \<notin> set (pf_service o1)"
  shows "fake_kubectl getenv (cmd_args (port_forward_command o1)) =
    \<lparr>fa_stdout = ''Forwarding from 127.0.0.1:'' @ show_int (pf_local_port o1) @ '' -> 22'' @ [newline],
     fa_stderr = [], fa_exit = None\<rparr>"
proof -
  let ?b = "base_args (pf_kubeconfig o1) (pf_context o1) (pf_namespace o1)"
  let ?p = "show_int (pf_local_port o1)" and ?q = "show_int (pf_remote_port o1)"
  let ?args = "?b @ [''port-forward'', ''service/'' @ pf_service o1, ?p @ '':'' @ ?q]"
  have no: "c \<notin> set (show_int i)" if "c = CHR '':'' \<or> c = CHR '' ''" for c i
    using that by (intro show_int_avoids) (auto simp: digit_chars_def)
  have pair: "v \<noteq> ?p @ '':'' @ ?q" if "CHR '':'' \<notin> set v" for v
    using that by auto
  have keys: "''version'' \<notin> set ?args \<and> ''can-i'' \<notin> set ?args \<and> ''config'' \<notin> set ?args"
    using base_args_set [of "pf_kubeconfig o1" "pf_context o1" "pf_namespace o1"] assms(1-3)
      pair [of "''version''"] pair [of "''can-i''"] pair [of "''config''"]
    by (auto simp: plain_value_def)
  have "\<forall>a \<in> set ?args. CHR '' '' \<notin> set a"
    using base_args_set [of "pf_kubeconfig o1" "pf_context o1" "pf_namespace o1"] assms no [of "CHR '' ''"]
    by (fastforce simp: plain_value_def)
  from not_auth [OF this] keys have "\<not> str_contains (str_join '' '' ?args) ''auth can-i create pods/portforward''" by blast
  moreover have "forwarded_port d ?args = ?p" for d
    using forwarded_port_last [of ?p d "?b @ [''port-forward'', ''service/'' @ pf_service o1]" ?q] no [of "CHR '':''"] by simp
  moreover have "''port-forward'' \<in> set ?args" by simp
  ultimately show ?thesis using keys
    unfolding fake_kubectl_def port_forward_command_def command.simps contains_arg_iff Let_def by simp
qed

section \<open>The fake in the place of kubectl\<close>

text \<open>
  The child processes of a runner whose path leads to the fake. A run that is waited for ends
  by itself or is killed with the error \<open>stopped\<close> of the context; the readers and the ticker of
  the other two see the output before the end of the process.
\<close>

definition env_value :: "string list \<Rightarrow> string \<Rightarrow> string" where
  "env_value env k = (case env_get ''linux'' env k of Some v \<Rightarrow> v | None \<Rightarrow> [])"

definition exit_status :: "fake_answer \<Rightarrow> go_error \<Rightarrow> exec_error option" where
  "exit_status a stopped =
     (case fa_exit a of
        Some c \<Rightarrow> if c = 0 then None else Some (Process_Exit c (Err ''exit status %d'' [show_int c]))
      | None \<Rightarrow> Some (Process_Exit (- 1) stopped))"

fun got_lines :: "stream \<Rightarrow> string list \<Rightarrow> select_run \<Rightarrow> select_run" where
  "got_lines s [] k = k"
| "got_lines s (l # ls) k = Got s l (got_lines s ls k)"

definition run_fake :: "string list \<Rightarrow> string list \<Rightarrow> (fake_answer \<Rightarrow> 'a) \<Rightarrow> world \<Rightarrow> 'a \<times> world" where
  "run_fake args env view w =
     (view (fake_kubectl (env_value env) args), snd (fake_kubectl_main (env_value env) args w))"

definition fake_child :: "string list \<Rightarrow> int \<Rightarrow> go_error \<Rightarrow> world child" where
  "fake_child environ pid stopped =
     \<lparr>ch_environ = environ,
      ch_run = (\<lambda>path args env. run_fake args env (\<lambda>a. (fa_stdout a, fa_stderr a, exit_status a stopped))),
      ch_select = (\<lambda>path args env. run_fake args env (\<lambda>a.
        Inr (got_lines Std_Out (butlast (str_split newline (fa_stdout a)))
              (got_lines Std_Err (butlast (str_split newline (fa_stderr a)))
                (if fa_exit a = None then Context_Done stopped else Process_Ended (exit_status a stopped)))))),
      ch_poll = (\<lambda>path args env. run_fake args env (\<lambda>a.
        Inr (pid, Tick (fa_stdout a) (fa_stderr a)
              (if fa_exit a = None then Poll_Context_Done stopped
               else Poll_Ended (fa_stdout a) (fa_stderr a) (exit_status a stopped)))))\<rparr>"

lemma fake_main_answers: "fst (fake_kubectl_main getenv args w) = Inr (fake_kubectl getenv args)"
  by (simp add: fake_kubectl_main_def record_invocation_def io_simps Let_def split: prod.splits sum.splits)

definition forwarding_line :: "int \<Rightarrow> string" where
  "forwarding_line local_port = ''Forwarding from 127.0.0.1:'' @ show_int local_port @ '' -> 22''"

lemma forwarding_ready [simp]: "is_ready_output (forwarding_line p @ t)"
  unfolding is_ready_output_def forwarding_line_def str_contains_iff
  by (rule exI [of _ "[]"]) simp

lemma forwarding_one_line [simp]: "str_split newline (forwarding_line p @ [newline]) = [forwarding_line p, []]"
proof -
  have "newline \<notin> set (show_int p)" by (intro show_int_avoids) (auto simp: digit_chars_def)
  then have "newline \<notin> set (forwarding_line p)" by (simp add: forwarding_line_def)
  then show ?thesis by (simp add: str_split_append str_split_no_sep)
qed

lemma permission_trimmed: "trim_space (''yes'' @ [newline]) = ''yes''"
  by code_simp

lemma run_fake_apply: "run_fake args env view w = (view (fake_kubectl (env_value env) args), snd (fake_kubectl_main (env_value env) args w))"
  by (simp add: run_fake_def)

text \<open>What the three operations of the runner make of an answer of the fake.\<close>

abbreviation fake_runner :: "string list \<Rightarrow> int \<Rightarrow> go_error \<Rightarrow> string \<Rightarrow> world machine runner" where
  "fake_runner env pid stopped path \<equiv>
     executable_as_runner (fake_child [] pid stopped) \<lparr>er_path = path, er_base_env = Some env\<rparr>"

lemma merge_env_Nil: "merge_env env [] = env"
  by (simp add: merge_env_def)

named_theorems fake_simps \<open>unfolding a run of the fake through the runner\<close>

declare executable_as_runner_def [fake_simps] executable_run_def [fake_simps] execute_def [fake_simps]
  executable_run_until_ready_def [fake_simps] executable_start_until_ready_def [fake_simps]
  invocation_def [fake_simps] base_env_def [fake_simps] fake_child_def [fake_simps] run_fake_apply [fake_simps]
  exit_status_def [fake_simps] ended_outcome_def [fake_simps] merge_env_Nil [fake_simps]

lemma fake_run_outcome:
  assumes "path \<noteq> []" and "cmd_env c = []"
    and "fake_kubectl (env_value env) (cmd_args c) = \<lparr>fa_stdout = out, fa_stderr = err, fa_exit = Some k\<rparr>" and "0 \<le> k"
  shows "\<exists>mc'. r_run (fake_runner env pid stopped path) c mc =
    ((\<lparr>rr_stdout = out, rr_stderr = err, rr_exit = k\<rparr>, if k = 0 then None else Some (Exit_Error k err)), mc')"
  using assms by (auto simp: fake_simps Let_def)

lemma fake_forward_outcome:
  assumes "path \<noteq> []" and "cmd_env c = []"
    and "fake_kubectl (env_value env) (cmd_args c) =
      \<lparr>fa_stdout = forwarding_line p @ [newline], fa_stderr = [], fa_exit = None\<rparr>"
  shows "\<exists>mc'. run_port_forward_probe (fake_runner env pid stopped path) c mc =
      ((\<lparr>rr_stdout = forwarding_line p @ [newline], rr_stderr = [], rr_exit = 0\<rparr>, None), mc')"
    and "\<exists>mc'. executable_start_until_ready (fake_child [] pid stopped) \<lparr>er_path = path, er_base_env = Some env\<rparr>
        c (Some is_ready_output) mc =
      (Inr \<lparr>sp_pid = pid, sp_stdout = forwarding_line p @ [newline], sp_stderr = []\<rparr>, mc')"
  using assms forwarding_ready [of p "[]"]
  by (simp_all add: fake_simps run_port_forward_probe_def ready_output_def)

section \<open>Properties\<close>

definition fake_options :: "string list \<Rightarrow> int \<Rightarrow> go_error \<Rightarrow> string \<Rightarrow> start_options \<Rightarrow> world machine preflight_options" where
  "fake_options env pid stopped path o1 =
     \<lparr>po_runner = Some (fake_runner env pid stopped path), po_namespace = ts_namespace o1, po_service = ts_service o1,
      po_local_port = ts_local_port o1, po_remote_port = ts_remote_port o1, po_context = ts_context o1,
      po_kubeconfig = ts_kubeconfig o1\<rparr>"

definition fake_values :: "start_options \<Rightarrow> bool" where
  "fake_values o1 \<longleftrightarrow> plain_value (ts_kubeconfig o1) \<and> plain_value (ts_context o1) \<and> plain_value (ts_namespace o1) \<and>
     CHR '' '' \<notin> set (ts_service o1)"

lemma fake_probe:
  assumes "fake_values o1"
  shows "fake_kubectl getenv (cmd_args (start_command o1)) =
    \<lparr>fa_stdout = forwarding_line (ts_local_port o1) @ [newline], fa_stderr = [], fa_exit = None\<rparr>"
  using assms unfolding start_command_def by (subst fake_forward) (simp_all add: fake_values_def forwarding_line_def)

lemma fake_validates:
  assumes "path \<noteq> []" and "fake_values o1"
  shows "fst (preflight_validate (fake_options env pid stopped path o1) mc) =
      (if fake_permission (env_value env) = ''yes''
       then (\<lparr>pr_connectivity = True, pr_rbac = True, pr_functional = True\<rparr>, None)
       else (\<lparr>pr_connectivity = True, pr_rbac = False, pr_functional = False\<rparr>,
             Some (Wrap ''verify kubectl port-forward RBAC: %w'' [] (Exit_Error 1 []))))"
proof -
  let ?o = "fake_options env pid stopped path o1" and ?R = "fake_runner env pid stopped path"
  have cmds: "cmd_env (connectivity_command ?o) = []" "cmd_env (rbac_command ?o) = []" "cmd_env (start_command o1) = []"
    by (simp_all add: connectivity_command_def rbac_command_def start_command_def version_command_def
        auth_can_i_command_def port_forward_command_def)
  have probe: "probe_command ?o = start_command o1" by (simp add: probe_command_def start_command_def fake_options_def)
  have R: "po_runner ?o = Some ?R" by (simp add: fake_options_def)
  have auth: "fake_kubectl (env_value env) (cmd_args (rbac_command ?o)) =
    \<lparr>fa_stdout = fake_permission (env_value env) @ [newline], fa_stderr = [],
     fa_exit = Some (if fake_permission (env_value env) \<noteq> ''yes'' then 1 else 0)\<rparr>"
    using assms(2) unfolding rbac_command_def by (subst fake_auth) (simp_all add: fake_values_def fake_options_def)
  obtain a b where "fake_kubectl (env_value env) (cmd_args (connectivity_command ?o)) = \<lparr>fa_stdout = a, fa_stderr = b, fa_exit = Some 0\<rparr>"
    using fake_version [of "env_value env"] unfolding connectivity_command_def by (metis fake_answer.surjective old.unit.exhaust)
  from fake_run_outcome [OF assms(1) cmds(1) this]
  obtain r m1 where one: "r_run ?R (connectivity_command ?o) mc = ((r, None), m1)" by fastforce
  show ?thesis
  proof (cases "fake_permission (env_value env) = ''yes''")
    case True
    obtain m2 where two: "r_run ?R (rbac_command ?o) m1 = ((\<lparr>rr_stdout = ''yes'' @ [newline], rr_stderr = [], rr_exit = 0\<rparr>, None), m2)"
      using fake_run_outcome [OF assms(1) cmds(2) auth, of pid stopped m1] True by auto
    obtain m3 where three: "run_port_forward_probe ?R (start_command o1) m2 =
        ((\<lparr>rr_stdout = forwarding_line (ts_local_port o1) @ [newline], rr_stderr = [], rr_exit = 0\<rparr>, None), m3)"
      using fake_forward_outcome(1) [OF assms(1) cmds(3) fake_probe [OF assms(2)]] by blast
    show ?thesis using True permission_trimmed
      by (simp add: preflight_validate_def R one two probe three del: append.simps)
  next
    case False
    obtain r m2 where "r_run ?R (rbac_command ?o) m1 = ((r, Some (Exit_Error 1 [])), m2)"
      using fake_run_outcome [OF assms(1) cmds(2) auth, of pid stopped m1] False by auto
    then show ?thesis using False by (simp add: preflight_validate_def R one)
  qed
qed

text \<open>
  With the fake executable in the place of \<open>kubectl\<close> and no configured value among its key words,
  the preflight passes all three checks and the tunnel is ready at its first attempt, when
  the fake grants the permission; when it denies it, the preflight stops at the permission
  check with the exit status 1 of the fake.
\<close>

lemma fake_kubectl_serves_preflight:
  assumes "path \<noteq> []" and "fake_values o1"
  shows "fst (preflight_validate (fake_options env pid stopped path o1) mc) =
      (if fake_permission (env_value env) = ''yes''
       then (\<lparr>pr_connectivity = True, pr_rbac = True, pr_functional = True\<rparr>, None)
       else (\<lparr>pr_connectivity = True, pr_rbac = False, pr_functional = False\<rparr>,
             Some (Wrap ''verify kubectl port-forward RBAC: %w'' [] (Exit_Error 1 [])))) \<and>
    map_option fst (tunnel_start \<lparr>sv_runner = Some (fake_runner env pid stopped path), sv_max_reconnects = n\<rparr> o1 mc) =
      Some (\<lparr>tr_ready = True, tr_attempts = 1, tr_pid = pid\<rparr>, None)"
proof
  have "cmd_env (start_command o1) = []" by (simp add: start_command_def port_forward_command_def)
  from fake_forward_outcome(2) [OF assms(1) this fake_probe [OF assms(2)]]
  obtain mc' where "executable_start_until_ready (fake_child [] pid stopped) \<lparr>er_path = path, er_base_env = Some env\<rparr>
      (start_command o1) (Some is_ready_output) mc =
    (Inr \<lparr>sp_pid = pid, sp_stdout = forwarding_line (ts_local_port o1) @ [newline], sp_stderr = []\<rparr>, mc')" by blast
  moreover have "sint (1 :: 64 word) \<le> sint (attempts_allowed (ts_reconnect o1) n)"
    by (simp add: attempts_allowed_def Let_def)
  ultimately show "map_option fst (tunnel_start \<lparr>sv_runner = Some (fake_runner env pid stopped path), sv_max_reconnects = n\<rparr> o1 mc) =
      Some (\<lparr>tr_ready = True, tr_attempts = 1, tr_pid = pid\<rparr>, None)"
    by (simp add: tunnel_start_def attempt_loop.simps executable_as_runner_def)
qed (rule fake_validates [OF assms])

definition fake_machine :: "world machine" where
  "fake_machine = \<lparr>mc_started = [],
     mc_state = \<lparr>w_nodes = (\<lambda>p. None), w_umask = 0, w_fault = (\<lambda>t op p. False), w_short = (\<lambda>t. 0), w_clock = 0, w_procs = []\<rparr>\<rparr>"

theorem fake_kubectl_serves_preflight_witness:
  "fst (preflight_validate (fake_options [''DEV_CONNECT_FAKE_KUBECTL_CAN_I=no''] 41 (Err ''stopped'' []) ''/bin/kubectl'' demo_start)
      fake_machine) =
     (\<lparr>pr_connectivity = True, pr_rbac = False, pr_functional = False\<rparr>,
      Some (Wrap ''verify kubectl port-forward RBAC: %w'' [] (Exit_Error 1 []))) \<and>
   map_option fst (tunnel_start \<lparr>sv_runner = Some (fake_runner [] 41 (Err ''stopped'' []) ''/bin/kubectl''), sv_max_reconnects = 3\<rparr>
      demo_start fake_machine) = Some (\<lparr>tr_ready = True, tr_attempts = 1, tr_pid = 41\<rparr>, None)"
proof -
  have v: "fake_values demo_start" by (simp add: fake_values_def plain_value_def demo_start_def)
  have denied: "fake_permission (env_value [''DEV_CONNECT_FAKE_KUBECTL_CAN_I=no'']) \<noteq> ''yes''" by code_simp
  note serves = fake_kubectl_serves_preflight [of "''/bin/kubectl''" demo_start _ 41 "Err ''stopped'' []" fake_machine 3]
  show ?thesis
    using serves [of "[''DEV_CONNECT_FAKE_KUBECTL_CAN_I=no'']"] serves [of "[]"] v denied by simp
qed

text \<open>A context with the name of a key word is taken for the command.\<close>

lemma fake_key_word_context:
  "fst (preflight_validate (fake_options [] 41 (Err ''stopped'' []) ''/bin/kubectl'' (demo_start\<lparr>ts_context := ''version''\<rparr>))
      fake_machine) =
   (\<lparr>pr_connectivity = True, pr_rbac = False, pr_functional = False\<rparr>, Some err_permission_denied)"
proof -
  have "trim_space (''Client Version: v1.30.0'' @ [newline] @ ''Server Version: v1.30.0'' @ [newline]) \<noteq> ''yes''" by code_simp
  then show ?thesis
    by (simp add: preflight_validate_def fake_options_def fake_simps demo_start_def connectivity_command_def rbac_command_def
        version_command_def auth_can_i_command_def fake_kubectl_def contains_arg_iff base_args_def Let_def)
qed

section \<open>The log of invocations\<close>

text \<open>
  On a machine without failures of its own every invocation adds one line, from which the
  arguments can be read back.
\<close>

lemma record_invocation_appends:
  assumes "calm w" and "getenv ''DEV_CONNECT_FAKE_KUBECTL_LOG'' = path" and "path \<noteq> []" and "file_at w path = Some log"
  shows "file_at (snd (record_invocation getenv args w)) path = Some (log @ str_join [CHR 0x00] args @ [newline])"
  using assms
  by (auto simp: record_invocation_def io_simps Let_def os_open_append_def append_data_def os_close_def file_at_def
      faulty_def calm_def lookup_node_def bump_def put_node_def split: option.splits node.splits if_splits)

lemma record_invocation_creates:
  assumes "calm w" and "getenv ''DEV_CONNECT_FAKE_KUBECTL_LOG'' = path" and "path \<noteq> []"
    and "lookup_node w path = None" and "is_dir w (path_dir path)"
  shows "file_at (snd (record_invocation getenv args w)) path = Some (str_join [CHR 0x00] args @ [newline])"
  using assms
  by (auto simp: record_invocation_def io_simps Let_def os_open_append_def append_data_def os_close_def file_at_def
      faulty_def calm_def lookup_node_def bump_def put_node_def split: option.splits node.splits if_splits)

lemma record_invocation_reads_back:
  assumes "args \<noteq> []" and "\<forall>a \<in> set args. CHR 0x00 \<notin> set a \<and> newline \<notin> set a"
  shows "map (str_split (CHR 0x00)) (butlast (str_split newline (str_join [CHR 0x00] args @ [newline]))) = [args]"
proof -
  have "newline \<notin> set (str_join [CHR 0x00] args)"
    using set_str_join [of "[CHR 0x00]" args] assms(2) by auto
  then have "str_split newline (str_join [CHR 0x00] args @ [newline]) = [str_join [CHR 0x00] args, []]"
    by (simp add: str_split_append str_split_no_sep)
  then show ?thesis using str_split_join [of args "CHR 0x00"] assms by simp
qed

end
