(* ===== verification/Mock_Ssh_Server.thy ===== *)
theory Mock_Ssh_Server
  imports Base_Prelude
begin

text \<open>
  \<open>internal/testsupport/sshserver/server.go\<close>, the SSH server of the integration tests: its accept
  loop, the goroutines that serve the connections and the calls of \<open>Close\<close>, as a step relation
  in which each of them can take its next step at any time. The SSH protocol belongs to
  \<open>golang.org/x/crypto/ssh\<close>; what a client does on a connection is an argument.
\<close>

section \<open>Host key and start\<close>

text \<open>\<open>'k\<close> is a signer. Both steps of \<open>NewSigner\<close> are arguments: the generation of a key and its wrapping.\<close>

definition new_signer :: "'p result \<Rightarrow> ('p \<Rightarrow> 'k result) \<Rightarrow> 'k result" where
  "new_signer generated signer_from_key =
     (case generated of
        Inl e \<Rightarrow> Inl (Wrap ''generate host key: %w'' [] e)
      | Inr private_key \<Rightarrow>
          (case signer_from_key private_key of
             Inl e \<Rightarrow> Inl (Wrap ''create SSH signer: %w'' [] e)
           | Inr signer \<Rightarrow> Inr signer))"

record 'k server_config =
  sc_no_client_auth :: bool
  sc_server_version :: string
  sc_host_keys :: "'k list"

text \<open>The accept loop has ended exactly if the channel \<open>done\<close> is closed.\<close>

datatype accept_loop = Accepting | Loop_Ended

text \<open>
  \<open>sync.Once\<close> runs its function for the first caller; the others wait until it has returned.
  The function closes the listener and then receives from \<open>done\<close>.
\<close>

datatype once_state = Once_Fresh | Once_Closing nat | Once_Receiving nat "go_error option" | Once_Done

datatype close_call = Close_Entered | Close_Returned "go_error option"

text \<open>What the goroutine of a connection does, in this order.\<close>

datatype conn_action = Discard_Requests | Reject_Channel string | Accept_Channel bool | Greet string
  | Close_Channel | Close_Ssh | Close_Conn

record 'k mock_server =
  ms_addr :: string
  ms_config :: "'k server_config"
  ms_listening :: bool
  ms_backlog :: "nat list"
  ms_accepted :: "nat list"
  ms_handlers :: "nat \<Rightarrow> conn_action list"
  ms_loop :: accept_loop
  ms_once :: once_state
  ms_calls :: "nat \<Rightarrow> close_call option"

definition new_mock_server :: "string \<Rightarrow> 'k \<Rightarrow> 'k mock_server" where
  "new_mock_server addr signer =
     \<lparr>ms_addr = addr,
      ms_config = \<lparr>sc_no_client_auth = True, sc_server_version = ''SSH-2.0-dev-connect-test'', sc_host_keys = [] @ [signer]\<rparr>,
      ms_listening = True, ms_backlog = [], ms_accepted = [], ms_handlers = (\<lambda>_. []), ms_loop = Accepting,
      ms_once = Once_Fresh, ms_calls = (\<lambda>_. None)\<rparr>"

text \<open>\<open>listen\<close> is \<open>net.Listen\<close>; it gives the address of the listener.\<close>

definition start_mock_server :: "(string \<Rightarrow> string \<Rightarrow> (string, 'w) io) \<Rightarrow> 'k option \<Rightarrow> ('k mock_server, 'w) io" where
  "start_mock_server listen signer =
     (case signer of
        None \<Rightarrow> io_fail (Err ''host key signer is required'' [])
      | Some signer \<Rightarrow>
          io_bind (io_wrap ''listen: %w'' [] (listen ''tcp'' ''127.0.0.1:0''))
            (\<lambda>addr. io_return (new_mock_server addr signer)))"

section \<open>A connection\<close>

text \<open>
  A client: whether the handshake succeeds, and the channels it opens with their types and
  whether they can be accepted.
\<close>

record ssh_client =
  cl_handshake :: bool
  cl_channels :: "(string \<times> bool) list"

definition greeting :: string where
  "greeting = ''dev-connect mock ssh server'' @ [CHR 0x0A]"

fun serve_channels :: "(string \<times> bool) list \<Rightarrow> conn_action list" where
  "serve_channels [] = []"
| "serve_channels ((channel_type, accepts) # channels) =
     (if channel_type \<noteq> ''session'' then Reject_Channel channel_type # serve_channels channels
      else if \<not> accepts then Accept_Channel False # serve_channels channels
      else Accept_Channel True # Discard_Requests # Greet greeting # Close_Channel # serve_channels channels)"

definition handle_conn :: "ssh_client \<Rightarrow> conn_action list" where
  "handle_conn client =
     (if \<not> cl_handshake client then [Close_Conn]
      else Discard_Requests # serve_channels (cl_channels client) @ [Close_Ssh, Close_Conn])"

section \<open>The goroutines\<close>

inductive server_step :: "(nat \<Rightarrow> ssh_client) \<Rightarrow> 'k mock_server \<Rightarrow> 'k mock_server \<Rightarrow> bool" for clients where
  Client_Dials: "ms_listening s \<Longrightarrow> c \<notin> set (ms_backlog s @ ms_accepted s) \<Longrightarrow>
    server_step clients s (s\<lparr>ms_backlog := ms_backlog s @ [c]\<rparr>)"
| Close_Called: "ms_calls s i = None \<Longrightarrow> server_step clients s (s\<lparr>ms_calls := (ms_calls s)(i \<mapsto> Close_Entered)\<rparr>)"
| Accept_Conn: "ms_loop s = Accepting \<Longrightarrow> ms_listening s \<Longrightarrow> ms_backlog s = c # cs \<Longrightarrow>
    server_step clients s (s\<lparr>ms_backlog := cs, ms_accepted := ms_accepted s @ [c],
      ms_handlers := (ms_handlers s)(c := handle_conn (clients c))\<rparr>)"
| Accept_Fails: "ms_loop s = Accepting \<Longrightarrow> server_step clients s (s\<lparr>ms_loop := Loop_Ended\<rparr>)"
| Handler_Acts: "ms_handlers s c = a # rest \<Longrightarrow>
    server_step clients s (s\<lparr>ms_handlers := (ms_handlers s)(c := rest)\<rparr>)"
| Once_Enters: "ms_once s = Once_Fresh \<Longrightarrow> ms_calls s i = Some Close_Entered \<Longrightarrow>
    server_step clients s (s\<lparr>ms_once := Once_Closing i\<rparr>)"
| Listener_Closes: "ms_once s = Once_Closing i \<Longrightarrow>
    server_step clients s (s\<lparr>ms_listening := False, ms_backlog := [], ms_once := Once_Receiving i err\<rparr>)"
| Done_Received: "ms_once s = Once_Receiving i err \<Longrightarrow> ms_loop s = Loop_Ended \<Longrightarrow>
    server_step clients s (s\<lparr>ms_once := Once_Done, ms_calls := (ms_calls s)(i \<mapsto> Close_Returned err)\<rparr>)"
| Once_Passed: "ms_once s = Once_Done \<Longrightarrow> ms_calls s i = Some Close_Entered \<Longrightarrow>
    server_step clients s (s\<lparr>ms_calls := (ms_calls s)(i \<mapsto> Close_Returned None)\<rparr>)"

definition server_reachable :: "(nat \<Rightarrow> ssh_client) \<Rightarrow> 'k mock_server \<Rightarrow> bool" where
  "server_reachable clients s \<longleftrightarrow> (\<exists>addr signer. (server_step clients)\<^sup>*\<^sup>* (new_mock_server addr signer) s)"

section \<open>Invariant\<close>

text \<open>
  The function of the \<open>Once\<close> is run by a call that has not returned; once the listener is closed
  no client waits, and a call returns only after the listener was closed and the loop has ended.
\<close>

definition server_ok :: "'k mock_server \<Rightarrow> bool" where
  "server_ok s \<longleftrightarrow>
     (case ms_once s of
        Once_Fresh \<Rightarrow> ms_listening s
      | Once_Closing i \<Rightarrow> ms_listening s \<and> ms_calls s i = Some Close_Entered
      | Once_Receiving i err \<Rightarrow> \<not> ms_listening s \<and> ms_calls s i = Some Close_Entered
      | Once_Done \<Rightarrow> \<not> ms_listening s \<and> ms_loop s = Loop_Ended) \<and>
     (\<not> ms_listening s \<longrightarrow> ms_backlog s = []) \<and>
     (\<forall>i e. ms_calls s i = Some (Close_Returned e) \<longrightarrow> ms_once s = Once_Done)"

lemma server_ok_init: "server_ok (new_mock_server addr signer)"
  by (simp add: server_ok_def new_mock_server_def)

lemma server_ok_step: "server_step clients s s' \<Longrightarrow> server_ok s \<Longrightarrow> server_ok s'"
  by (induction rule: server_step.induct) (auto simp: server_ok_def split: once_state.splits if_splits)

lemma server_ok_steps: "(server_step clients)\<^sup>*\<^sup>* s s' \<Longrightarrow> server_ok s \<Longrightarrow> server_ok s'"
  by (induction rule: rtranclp_induct) (auto intro: server_ok_step)

lemma server_ok_reachable: "server_reachable clients s \<Longrightarrow> server_ok s"
  by (auto simp: server_reachable_def intro: server_ok_steps [OF _ server_ok_init])

section \<open>Connections\<close>

text \<open>Every accepted session channel is greeted and closed, and the connection is closed last.\<close>

lemma serve_channels_greets:
  "length (filter (\<lambda>a. a = Greet greeting) (serve_channels channels)) =
     length (filter (\<lambda>(t, ok). t = ''session'' \<and> ok) channels) \<and>
   length (filter (\<lambda>a. a = Close_Channel) (serve_channels channels)) =
     length (filter (\<lambda>(t, ok). t = ''session'' \<and> ok) channels) \<and>
   Close_Conn \<notin> set (serve_channels channels) \<and> Close_Ssh \<notin> set (serve_channels channels)"
  by (induction channels rule: serve_channels.induct) auto

lemma handle_conn_closes: "\<exists>before. handle_conn client = before @ [Close_Conn] \<and> Close_Conn \<notin> set before"
  using serve_channels_greets [of "cl_channels client"]
  by (cases "cl_handshake client")
    (auto simp: handle_conn_def intro!: exI [of _ "Discard_Requests # serve_channels (cl_channels client) @ [Close_Ssh]"])

section \<open>After Close\<close>

definition closed_down :: "'k mock_server \<Rightarrow> bool" where
  "closed_down s \<longleftrightarrow> \<not> ms_listening s \<and> ms_backlog s = [] \<and> ms_loop s = Loop_Ended"

lemma closed_down_step:
  assumes "server_step clients s s'" and "closed_down s" and "server_ok s"
  shows "closed_down s' \<and> ms_accepted s' = ms_accepted s \<and> (\<forall>c. suffix (ms_handlers s' c) (ms_handlers s c))"
  using assms by (cases rule: server_step.cases) (auto simp: closed_down_def server_ok_def suffix_ConsI)

lemma closed_down_steps:
  assumes "(server_step clients)\<^sup>*\<^sup>* s s'" and "closed_down s" and "server_ok s"
  shows "closed_down s' \<and> ms_accepted s' = ms_accepted s \<and> (\<forall>c. suffix (ms_handlers s' c) (ms_handlers s c))"
  using assms(1)
proof (induction rule: rtranclp_induct)
  case base
  then show ?case using assms by simp
next
  case (step t u)
  have "server_ok t" using server_ok_steps [OF step(1) assms(3)] .
  with closed_down_step [OF step(2)] step.IH show ?case by (metis suffix_order.trans)
qed

lemma returned_closed: "server_ok s \<Longrightarrow> ms_calls s i = Some (Close_Returned e) \<Longrightarrow> closed_down s"
  by (auto simp: server_ok_def closed_down_def)

section \<open>The way of a call to its return\<close>

definition close_distance :: "'k mock_server \<Rightarrow> nat \<Rightarrow> nat" where
  "close_distance s i =
     (if ms_calls s i \<noteq> Some Close_Entered then 0
      else case ms_once s of
             Once_Fresh \<Rightarrow> 5
           | Once_Closing j \<Rightarrow> if i = j then 3 else 4
           | Once_Receiving j err \<Rightarrow> (if ms_loop s = Accepting then 2 else 1) + (if i = j then 0 else 1)
           | Once_Done \<Rightarrow> 1)"

lemma distance_step:
  assumes "server_step clients s s'" and "ms_calls s i = Some Close_Entered" and "server_ok s"
  shows "close_distance s' i \<le> close_distance s i \<and> ms_calls s' i \<noteq> None"
  using assms by (cases rule: server_step.cases) (auto simp: close_distance_def split: once_state.splits)

lemma distance_helped:
  assumes "ms_calls s i = Some Close_Entered" and "server_ok s"
  shows "\<exists>s'. server_step clients s s' \<and> close_distance s' i < close_distance s i"
proof -
  have nearer: ?thesis if "server_step clients s t" and "close_distance t i < close_distance s i" for t
    using that by blast
  show ?thesis
  proof (cases "ms_once s")
    case Once_Fresh
    show ?thesis by (rule nearer [OF Once_Enters [OF Once_Fresh assms(1)]]) (simp add: close_distance_def assms(1) Once_Fresh)
  next
    case (Once_Closing j)
    show ?thesis by (rule nearer [OF Listener_Closes [OF Once_Closing, where err = None]]) (simp add: close_distance_def assms(1) Once_Closing)
  next
    case (Once_Receiving j err)
    show ?thesis
    proof (cases "ms_loop s")
      case Accepting
      show ?thesis by (rule nearer [OF Accept_Fails [OF Accepting]]) (simp add: close_distance_def assms(1) Once_Receiving Accepting)
    next
      case Loop_Ended
      show ?thesis by (rule nearer [OF Done_Received [OF Once_Receiving Loop_Ended]]) (simp add: close_distance_def assms(1) Once_Receiving Loop_Ended)
    qed
  next
    case Once_Done
    show ?thesis by (rule nearer [OF Once_Passed [OF Once_Done assms(1)]]) (simp add: close_distance_def assms(1) Once_Done)
  qed
qed

text \<open>From any state of the goroutines the call can be brought to its return in as many steps.\<close>

lemma close_returns_from:
  assumes "ms_calls s i = Some Close_Entered" and "server_ok s"
  shows "\<exists>s' n e. n \<le> close_distance s i \<and> (server_step clients ^^ n) s s' \<and> ms_calls s' i = Some (Close_Returned e)"
  using assms
proof (induction "close_distance s i" arbitrary: s rule: less_induct)
  case less
  obtain t where t: "server_step clients s t" "close_distance t i < close_distance s i"
    using distance_helped [OF less.prems] by blast
  show ?case
  proof (cases "ms_calls t i = Some Close_Entered")
    case True
    from less.hyps [OF t(2) True server_ok_step [OF t(1) less.prems(2)]]
    obtain s' n e where n: "n \<le> close_distance t i" "(server_step clients ^^ n) t s'" "ms_calls s' i = Some (Close_Returned e)"
      by blast
    have "(server_step clients ^^ Suc n) s s'" using t(1) n(2) by (rule relpowp_Suc_I2)
    moreover have "Suc n \<le> close_distance s i" using n(1) t(2) by simp
    ultimately show ?thesis using n(3) by blast
  next
    case False
    with distance_step [OF t(1) less.prems] obtain e where "ms_calls t i = Some (Close_Returned e)"
      by (cases "ms_calls t i") (auto intro: close_call.exhaust)
    moreover have "(server_step clients ^^ 1) s t" using t(1) by (simp only: relpowp_1)
    moreover have "1 \<le> close_distance s i" using t(2) by simp
    ultimately show ?thesis by blast
  qed
qed

section \<open>Starting\<close>

lemma start_mock_server_outcome:
  "start_mock_server listen None w = (Inl (Err ''host key signer is required'' []), w)"
  "start_mock_server listen (Some signer) w = (r, w') \<Longrightarrow>
     (case r of Inl e \<Rightarrow> \<exists>cause. e = Wrap ''listen: %w'' [] cause \<and> listen ''tcp'' ''127.0.0.1:0'' w = (Inl cause, w')
      | Inr s \<Rightarrow> listen ''tcp'' ''127.0.0.1:0'' w = (Inr (ms_addr s), w') \<and>
          sc_host_keys (ms_config s) = [signer] \<and> server_reachable clients s)"
  by (auto simp: start_mock_server_def io_simps new_mock_server_def server_reachable_def split: prod.splits sum.splits)

section \<open>Properties\<close>

text \<open>
  C40: After a call of \<open>Close\<close> has returned, the listener is closed, the accept loop has ended and no
  connection is accepted any more, whatever runs on; and until it returns, no step of any
  goroutine or client takes the call away from its return, which at most five steps of the
  server's own goroutines bring about: \<open>Close\<close> cannot deadlock.
\<close>

theorem server_close_completes:
  assumes "server_reachable clients s" and "ms_calls s i = Some c"
  shows "case c of
      Close_Returned e \<Rightarrow> closed_down s \<and>
        (\<forall>s'. (server_step clients)\<^sup>*\<^sup>* s s' \<longrightarrow> closed_down s' \<and> ms_accepted s' = ms_accepted s)
    | Close_Entered \<Rightarrow> close_distance s i \<le> 5 \<and>
        (\<forall>s'. server_step clients s s' \<longrightarrow> close_distance s' i \<le> close_distance s i) \<and>
        (\<exists>s' n e. n \<le> close_distance s i \<and> (server_step clients ^^ n) s s' \<and> ms_calls s' i = Some (Close_Returned e))"
proof (cases c)
  case Close_Entered
  then have entered: "ms_calls s i = Some Close_Entered" using assms(2) by simp
  have ok: "server_ok s" using assms(1) by (rule server_ok_reachable)
  have "close_distance s i \<le> 5" by (simp add: close_distance_def split: once_state.split)
  moreover have "\<forall>s'. server_step clients s s' \<longrightarrow> close_distance s' i \<le> close_distance s i"
    by (intro allI impI conjunct1 [OF distance_step [OF _ entered ok]])
  moreover note close_returns_from [OF entered ok]
  ultimately show ?thesis unfolding Close_Entered close_call.case by (intro conjI)
next
  case (Close_Returned e)
  have ok: "server_ok s" using assms(1) by (rule server_ok_reachable)
  have "closed_down s" using ok assms(2) unfolding Close_Returned by (rule returned_closed)
  then show ?thesis using closed_down_steps [OF _ _ ok] unfolding Close_Returned close_call.case by blast
qed

text \<open>A run in which a client is accepted, \<open>Close\<close> is called and returns while the client is still served.\<close>

definition demo_clients :: "nat \<Rightarrow> ssh_client" where
  "demo_clients c = \<lparr>cl_handshake = True, cl_channels = [(''session'', True)]\<rparr>"

definition demo_entered :: "string mock_server" where
  "demo_entered = (new_mock_server ''127.0.0.1:40022'' ''key'')
     \<lparr>ms_accepted := [7], ms_handlers := (\<lambda>_. [])(7 := handle_conn (demo_clients 7)), ms_calls := [1 \<mapsto> Close_Entered]\<rparr>"

definition demo_closed :: "string mock_server" where
  "demo_closed = demo_entered\<lparr>ms_listening := False, ms_loop := Loop_Ended, ms_once := Once_Done, ms_calls := [1 \<mapsto> Close_Returned None]\<rparr>"

text \<open>The connection's goroutine takes its next step.\<close>

definition demo_served :: "string mock_server" where
  "demo_served = demo_closed\<lparr>ms_handlers := (ms_handlers demo_closed)(7 := tl (ms_handlers demo_closed 7))\<rparr>"

lemma demo_entered_reachable: "server_reachable demo_clients demo_entered"
proof -
  let ?a = "new_mock_server ''127.0.0.1:40022'' ''key''"
  let ?b = "?a\<lparr>ms_backlog := [7]\<rparr>"
  let ?c = "?a\<lparr>ms_accepted := [7], ms_handlers := (\<lambda>_. [])(7 := handle_conn (demo_clients 7))\<rparr>"
  note new = new_mock_server_def
  have "server_step demo_clients ?a ?b" using Client_Dials [of ?a 7 demo_clients] by (simp add: new)
  moreover have "server_step demo_clients ?b ?c" using Accept_Conn [of ?b 7 "[]" demo_clients] by (simp add: new)
  moreover have "server_step demo_clients ?c demo_entered"
    using Close_Called [of ?c 1 demo_clients] by (simp add: new demo_entered_def)
  ultimately have "(server_step demo_clients)\<^sup>*\<^sup>* ?a demo_entered" by (meson converse_rtranclp_into_rtranclp rtranclp.rtrancl_refl)
  then show ?thesis unfolding server_reachable_def by blast
qed

lemma demo_closing: "(server_step demo_clients)\<^sup>*\<^sup>* demo_entered demo_closed"
proof -
  let ?e = "demo_entered\<lparr>ms_once := Once_Closing 1\<rparr>"
  let ?f = "demo_entered\<lparr>ms_listening := False, ms_once := Once_Receiving 1 None\<rparr>"
  let ?g = "?f\<lparr>ms_loop := Loop_Ended\<rparr>"
  note new = new_mock_server_def demo_entered_def
  have "server_step demo_clients demo_entered ?e" using Once_Enters [of demo_entered 1 demo_clients] by (simp add: new)
  moreover have "server_step demo_clients ?e ?f" using Listener_Closes [of ?e 1 demo_clients None] by (simp add: new)
  moreover have "server_step demo_clients ?f ?g" using Accept_Fails [of ?f demo_clients] by (simp add: new)
  moreover have "server_step demo_clients ?g demo_closed"
    using Done_Received [of ?g 1 None demo_clients] by (simp add: new demo_closed_def)
  ultimately show ?thesis by (meson converse_rtranclp_into_rtranclp rtranclp.rtrancl_refl)
qed

lemma demo_closed_reachable: "server_reachable demo_clients demo_closed"
  using demo_entered_reachable demo_closing unfolding server_reachable_def by (meson rtranclp_trans)

lemma demo_serving: "(server_step demo_clients)\<^sup>*\<^sup>* demo_closed demo_served"
proof -
  have "ms_handlers demo_closed 7 = Discard_Requests # tl (ms_handlers demo_closed 7)"
    by (simp add: demo_closed_def demo_entered_def handle_conn_def demo_clients_def)
  from Handler_Acts [OF this, of demo_clients] show ?thesis unfolding demo_served_def by (rule r_into_rtranclp)
qed

theorem server_close_completes_witness:
  "close_distance demo_entered 1 = 5 \<and>
   (\<exists>s' n e. n \<le> 5 \<and> (server_step demo_clients ^^ n) demo_entered s' \<and> ms_calls s' 1 = Some (Close_Returned e)) \<and>
   closed_down demo_served \<and> ms_accepted demo_served = [7]"
proof -
  have calls: "ms_calls demo_entered 1 = Some Close_Entered" "ms_calls demo_closed 1 = Some (Close_Returned None)"
    and accepted: "ms_accepted demo_closed = [7]"
    by (simp_all add: demo_entered_def demo_closed_def new_mock_server_def)
  have d: "close_distance demo_entered 1 = 5" by (simp add: close_distance_def demo_entered_def new_mock_server_def)
  show ?thesis
    using server_close_completes [OF demo_entered_reachable calls(1)] d
      server_close_completes [OF demo_closed_reachable calls(2)] demo_serving accepted
    unfolding close_call.case by (intro conjI) (assumption | simp)+
qed

text \<open>\<open>Close\<close> does not wait for the connections: this one still has its client to greet.\<close>

lemma close_leaves_connection:
  "server_reachable demo_clients demo_closed \<and> ms_calls demo_closed 1 = Some (Close_Returned None) \<and>
   Greet greeting \<in> set (ms_handlers demo_closed 7)"
  using demo_closed_reachable by (simp add: demo_closed_def demo_entered_def handle_conn_def demo_clients_def)

end
