(* ===== verification/Process_Groups.thy ===== *)
theory Process_Groups
  imports Session_State
begin

text \<open>
  The attributes with which background processes are started (\<open>background_process_unix.go\<close> and
  \<open>background_process_windows.go\<close> of \<open>cmd/dev-connect\<close> and \<open>internal/kubectl\<close>), the process groups
  this gives on Unix, and \<open>internal/session/process_windows.go\<close>, the Windows side of looking for and
  ending a process, whose system calls are arguments.
\<close>

section \<open>Attributes of a command\<close>

text \<open>\<open>syscall.SysProcAttr\<close> with the field of each system that the program sets.\<close>

record sys_proc_attr =
  sa_setpgid :: bool
  sa_creation_flags :: "32 word"

record exec_cmd =
  xc_path :: string
  xc_args :: "string list"
  xc_attr :: "sys_proc_attr option"

text \<open>\<open>exec.Command\<close>\<close>

definition exec_command :: "string \<Rightarrow> string list \<Rightarrow> exec_cmd" where
  "exec_command path args = \<lparr>xc_path = path, xc_args = args, xc_attr = None\<rparr>"

definition configure_background_process_unix :: "exec_cmd \<Rightarrow> exec_cmd" where
  "configure_background_process_unix cmd = cmd\<lparr>xc_attr := Some \<lparr>sa_setpgid = True, sa_creation_flags = 0\<rparr>\<rparr>"

definition configure_detached_command_unix :: "exec_cmd \<Rightarrow> exec_cmd" where
  "configure_detached_command_unix cmd = cmd\<lparr>xc_attr := Some \<lparr>sa_setpgid = True, sa_creation_flags = 0\<rparr>\<rparr>"

definition create_new_process_group :: "32 word" where
  "create_new_process_group = 0x200"

definition configure_background_process_windows :: "exec_cmd \<Rightarrow> exec_cmd" where
  "configure_background_process_windows cmd =
     cmd\<lparr>xc_attr := Some \<lparr>sa_setpgid = False, sa_creation_flags = create_new_process_group\<rparr>\<rparr>"

definition configure_detached_command_windows :: "exec_cmd \<Rightarrow> exec_cmd" where
  "configure_detached_command_windows cmd =
     cmd\<lparr>xc_attr := Some \<lparr>sa_setpgid = False, sa_creation_flags = create_new_process_group\<rparr>\<rparr>"

section \<open>Process groups on Unix\<close>

text \<open>
  \<open>cmd.Start\<close> from a process of group \<open>parent\<close>, where the kernel gives the child the process id \<open>pid\<close>:
  with \<open>Setpgid\<close> the child leads a group of its own, without it joins the group of its parent.
\<close>

definition child_group :: "exec_cmd \<Rightarrow> int \<Rightarrow> int \<Rightarrow> int" where
  "child_group cmd parent pid =
     (case xc_attr cmd of Some a \<Rightarrow> if sa_setpgid a then pid else parent | None \<Rightarrow> parent)"

definition start_child :: "exec_cmd \<Rightarrow> int \<Rightarrow> int \<Rightarrow> world \<Rightarrow> world" where
  "start_child cmd parent pid w = w\<lparr>w_procs := (pid, child_group cmd parent pid) # w_procs w\<rparr>"

text \<open>\<open>connect\<close> starts the supervisor, and the supervisor its \<open>kubectl\<close> with a plain command.\<close>

definition start_supervised :: "(exec_cmd \<Rightarrow> exec_cmd) \<Rightarrow> exec_cmd \<Rightarrow> exec_cmd \<Rightarrow> int \<Rightarrow> int \<Rightarrow> int \<Rightarrow> world \<Rightarrow> world" where
  "start_supervised configure supervisor kubectl parent sv kub w =
     start_child kubectl (child_group (configure supervisor) parent sv) kub (start_child (configure supervisor) parent sv w)"

lemma terminate_group:
  assumes "calm w" and "1 < pid" and "list_ex (\<lambda>(q, g). g = pid) (w_procs w)"
  shows "terminate_process pid w = (Inr (), bump (w\<lparr>w_procs := filter (\<lambda>(q, g). g \<noteq> pid) (w_procs w)\<rparr>))"
  using kill_group [OF assms] assms(2) by (simp add: terminate_process_def io_wrap_def)

text \<open>Without a group of that number the signal goes to the one process.\<close>

lemma terminate_alone:
  assumes "calm w" and "1 < pid" and "\<not> list_ex (\<lambda>(q, g). g = pid) (w_procs w)" and "alive w pid"
  shows "w_procs (snd (terminate_process pid w)) = filter (\<lambda>(q, g). q \<noteq> pid) (w_procs w)"
proof -
  have "list_ex (\<lambda>(q, g). q = pid) (w_procs w)" using assms(4) by (auto simp: alive_def list_ex_iff)
  then show ?thesis using assms(1-3)
    by (simp add: terminate_process_def io_wrap_def kill_process_def io_case_def sys_kill_def Let_def case_prod_unfold)
qed

section \<open>Windows\<close>

text \<open>
  The calls of \<open>golang.org/x/sys/windows\<close> and the process that runs \<open>taskkill\<close>; \<open>'h\<close> is a handle,
  \<open>wc_query_limited\<close> the constant \<open>PROCESS_QUERY_LIMITED_INFORMATION\<close>.
\<close>

record ('h, 'w) windows_calls =
  wc_query_limited :: "32 word"
  wc_open_process :: "32 word \<Rightarrow> bool \<Rightarrow> 32 word \<Rightarrow> ('h, 'w) io"
  wc_close_handle :: "'h \<Rightarrow> (unit, 'w) io"
  wc_run :: "exec_cmd \<Rightarrow> (unit, 'w) io"

definition process_exists_windows :: "('h, 'w) windows_calls \<Rightarrow> int \<Rightarrow> 'w \<Rightarrow> bool \<times> 'w" where
  "process_exists_windows wc pid w =
     (if pid \<le> 0 then (False, w)
      else case wc_open_process wc (wc_query_limited wc) False (word_of_int pid) w of
             (Inl e, w1) \<Rightarrow> (False, w1)
           | (Inr handle, w1) \<Rightarrow> (True, snd (io_ignore (wc_close_handle wc handle) w1)))"

definition terminate_process_windows :: "('h, 'w) windows_calls \<Rightarrow> int \<Rightarrow> (unit, 'w) io" where
  "terminate_process_windows wc pid =
     wc_run wc (exec_command ''taskkill'' [''/PID'', show_int pid, ''/T'', ''/F''])"

text \<open>
  The process id is cut to 32 bits on its way to the kernel: two ids of a session file that
  differ by a multiple of 2^32 are the same process.
\<close>

lemma process_exists_windows_wraps:
  assumes "0 < pid" and "0 \<le> k"
  shows "process_exists_windows wc (pid + k * 2 ^ 32) = process_exists_windows wc pid"
proof -
  have "0 < pid + k * 2 ^ 32" using assms by (simp add: add_pos_nonneg)
  moreover have "(word_of_int (pid + k * 2 ^ 32) :: 32 word) = word_of_int pid"
    by (simp only: word_of_int_eq_iff take_bit_eq_mod) simp
  ultimately show ?thesis using assms(1) by (simp add: process_exists_windows_def fun_eq_iff)
qed

lemma process_exists_windows_opened:
  assumes "wc_open_process wc (wc_query_limited wc) False (word_of_int pid) w = (r, w1)"
  shows "fst (process_exists_windows wc pid w) \<longleftrightarrow> 0 < pid \<and> (\<exists>handle. r = Inr handle)"
  using assms by (cases r) (auto simp: process_exists_windows_def)

section \<open>Properties\<close>

text \<open>
  C22: Ending the recorded process id ends the supervisor and the \<open>kubectl\<close> it started and nothing else,
  because \<open>configureDetachedCommand\<close> gives the supervisor a process group of its own, which its
  children join; a supervisor started without that attribute would leave its \<open>kubectl\<close> behind.
\<close>

theorem detached_supervisor_ends_with_kubectl:
  assumes "calm w" and "1 < sv" and "0 < kub" and "kub \<noteq> sv"
    and "list_all (\<lambda>(q, g). q \<noteq> sv \<and> g \<noteq> sv) (w_procs w)" and "parent \<noteq> sv"
  shows "w_procs (snd (terminate_process sv
        (start_supervised configure_detached_command_unix (exec_command exe args) (exec_command kubectl kargs) parent sv kub w)))
      = w_procs w \<and>
    w_procs (snd (terminate_process sv
        (start_supervised (\<lambda>cmd. cmd) (exec_command exe args) (exec_command kubectl kargs) parent sv kub w)))
      = (kub, parent) # w_procs w"
proof
  have kept: "filter (\<lambda>(q, g). g \<noteq> sv) (w_procs w) = w_procs w" "filter (\<lambda>(q, g). q \<noteq> sv) (w_procs w) = w_procs w"
    using assms(5) by (auto simp: list_all_iff filter_id_conv)
  let ?d = "start_supervised configure_detached_command_unix (exec_command exe args) (exec_command kubectl kargs) parent sv kub w"
  have d: "w_procs ?d = (kub, sv) # (sv, sv) # w_procs w" "calm ?d"
    using assms(1) by (simp_all add: start_supervised_def start_child_def child_group_def configure_detached_command_unix_def
        exec_command_def calm_def)
  have "list_ex (\<lambda>(q, g). g = sv) (w_procs ?d)" by (simp add: d(1))
  from terminate_group [OF d(2) assms(2) this] show "w_procs (snd (terminate_process sv ?d)) = w_procs w"
    using kept by (simp add: d(1))
  let ?p = "start_supervised (\<lambda>cmd. cmd) (exec_command exe args) (exec_command kubectl kargs) parent sv kub w"
  have p: "w_procs ?p = (kub, parent) # (sv, parent) # w_procs w" "calm ?p"
    using assms(1) by (simp_all add: start_supervised_def start_child_def child_group_def exec_command_def calm_def)
  have "\<not> list_ex (\<lambda>(q, g). g = sv) (w_procs ?p)" "alive ?p sv"
    using assms(5,6) by (auto simp: p(1) alive_def list_ex_iff list_all_iff)
  from terminate_alone [OF p(2) assms(2) this] show "w_procs (snd (terminate_process sv ?p)) = (kub, parent) # w_procs w"
    using kept assms(4) by (simp add: p(1))
qed

theorem detached_supervisor_ends_with_kubectl_witness:
  "w_procs (snd (terminate_process 500
      (start_supervised configure_detached_command_unix (exec_command ''/bin/dev-connect'' []) (exec_command ''/bin/kubectl'' [])
        9 500 501 demo_session_world))) = w_procs demo_session_world"
proof -
  have "list_all (\<lambda>(q, g). q \<noteq> 500 \<and> g \<noteq> 500) (w_procs demo_session_world)" by code_simp
  from detached_supervisor_ends_with_kubectl [OF demo_session_world_calm _ _ _ this, of 501 9 "''/bin/dev-connect''" "[]" "''/bin/kubectl''" "[]"]
  show ?thesis by simp
qed

end
