(* ===== verification/Supervisor_Forward.thy ===== *)
theory Supervisor_Forward
  imports Cli_Supervisor
begin

text \<open>
  \<open>runSupervisedPortForward\<close> of \<open>cmd/dev-connect/main.go\<close> as the system of goroutines it is: the
  child process, the two goroutines of \<open>scanSupervisorOutput\<close> with the pipes they read, the
  \<open>sync.Once\<close> they share, the channel \<open>scanDone\<close> and the goroutine that waits for the process and
  for both of them. Every outcome is one of the sequential \<open>run_supervised_port_forward\<close>.
\<close>

section \<open>The goroutines\<close>

text \<open>
  A scanner reads; has printed a ready line and calls \<open>readyOnce.Do\<close>; writes the ready file
  inside of it; or has sent to \<open>scanDone\<close>.
\<close>

datatype scan_phase = Reading | At_Once | Writing | Done_Sent

datatype ready_once = Not_Run | Running | Has_Run

text \<open>The main goroutine: in \<open>cmd.Wait\<close>, receiving the k-th value from \<open>scanDone\<close>, or returned.\<close>

datatype forward_phase = In_Wait | Receiving nat "go_error option" | Forward_Returned "go_error option"

text \<open>
  \<open>fw_exit\<close> is the end of the process, \<open>fw_chan\<close> the number of values in \<open>scanDone\<close>, \<open>fw_closed\<close>
  whether it is closed, \<open>fw_panicked\<close> whether a goroutine has sent to the closed channel, and
  \<open>fw_writes\<close> the number of times the ready file was written; \<open>fw_lines\<close> records the lines the
  scanners have read.
\<close>

record forward_state =
  fw_run :: supervisor_run
  fw_pipe :: "stream \<Rightarrow> string list"
  fw_scan :: "stream \<Rightarrow> scan_phase"
  fw_once :: ready_once
  fw_exit :: "go_error option option"
  fw_chan :: nat
  fw_closed :: bool
  fw_panicked :: bool
  fw_writes :: nat
  fw_lines :: "string list"
  fw_main :: forward_phase

definition forward_init :: "supervisor_run \<Rightarrow> forward_state" where
  "forward_init s = \<lparr>fw_run = s, fw_pipe = (\<lambda>_. []), fw_scan = (\<lambda>_. Reading), fw_once = Not_Run, fw_exit = None,
     fw_chan = 0, fw_closed = False, fw_panicked = False, fw_writes = 0, fw_lines = [], fw_main = In_Wait\<rparr>"

definition print_line :: "string \<Rightarrow> supervisor_run \<Rightarrow> supervisor_run" where
  "print_line line s = s\<lparr>su_printed := su_printed s @ [line]\<rparr>"

definition write_ready :: "string \<Rightarrow> supervisor_run \<Rightarrow> supervisor_run" where
  "write_ready ready_file s = s\<lparr>su_world := snd (os_write_file ready_file (''ready'' @ [newline]) 384 (su_world s))\<rparr>"

text \<open>
  \<open>Wait\<close> closes the reading ends of the pipes, so that only a prefix of what is left in them can
  still be read. A scanner ends at the end of the output or at an error, such as a line that
  is too long, at any time.
\<close>

inductive forward_step :: "string \<Rightarrow> forward_state \<Rightarrow> forward_state \<Rightarrow> bool" for ready_file :: string where
  Kubectl_Writes: "fw_exit s = None \<Longrightarrow>
    forward_step ready_file s (s\<lparr>fw_pipe := (fw_pipe s)(st := fw_pipe s st @ [l])\<rparr>)"
| Kubectl_Ends: "fw_exit s = None \<Longrightarrow> forward_step ready_file s (s\<lparr>fw_exit := Some e\<rparr>)"
| Scanner_Reads: "fw_scan s st = Reading \<Longrightarrow> fw_pipe s st = l # rest \<Longrightarrow>
    forward_step ready_file s (s\<lparr>fw_pipe := (fw_pipe s)(st := rest), fw_run := print_line l (fw_run s), fw_lines := fw_lines s @ [l],
      fw_scan := (fw_scan s)(st := if is_ready_output l then At_Once else Reading)\<rparr>)"
| Scanner_Enters: "fw_scan s st = At_Once \<Longrightarrow> fw_once s = Not_Run \<Longrightarrow>
    forward_step ready_file s (s\<lparr>fw_once := Running, fw_scan := (fw_scan s)(st := Writing)\<rparr>)"
| Scanner_Writes: "fw_scan s st = Writing \<Longrightarrow>
    forward_step ready_file s (s\<lparr>fw_run := write_ready ready_file (fw_run s), fw_writes := Suc (fw_writes s),
      fw_once := Has_Run, fw_scan := (fw_scan s)(st := Reading)\<rparr>)"
| Scanner_Passes: "fw_scan s st = At_Once \<Longrightarrow> fw_once s = Has_Run \<Longrightarrow>
    forward_step ready_file s (s\<lparr>fw_scan := (fw_scan s)(st := Reading)\<rparr>)"
| Scanner_Ends: "fw_scan s st = Reading \<Longrightarrow>
    forward_step ready_file s (s\<lparr>fw_scan := (fw_scan s)(st := Done_Sent), fw_chan := Suc (fw_chan s),
      fw_panicked := (fw_panicked s \<or> fw_closed s)\<rparr>)"
| Wait_Ends: "fw_main s = In_Wait \<Longrightarrow> fw_exit s = Some e \<Longrightarrow> \<forall>st. prefix (p st) (fw_pipe s st) \<Longrightarrow>
    forward_step ready_file s (s\<lparr>fw_pipe := p, fw_main := Receiving 0 e\<rparr>)"
| Main_Receives: "fw_main s = Receiving k e \<Longrightarrow> k < 2 \<Longrightarrow> fw_chan s = Suc n \<Longrightarrow>
    forward_step ready_file s (s\<lparr>fw_chan := n, fw_main := Receiving (Suc k) e\<rparr>)"
| Main_Returns: "fw_main s = Receiving 2 e \<Longrightarrow>
    forward_step ready_file s (s\<lparr>fw_closed := True, fw_main := Forward_Returned e\<rparr>)"

definition forward_reachable :: "string \<Rightarrow> supervisor_run \<Rightarrow> forward_state \<Rightarrow> bool" where
  "forward_reachable ready_file s0 s \<longleftrightarrow> (forward_step ready_file)\<^sup>*\<^sup>* (forward_init s0) s"

section \<open>The sequential form\<close>

text \<open>The lines printed are what counts: the ready file is written once if one of them is ready.\<close>

definition after_lines :: "string \<Rightarrow> bool \<Rightarrow> string list \<Rightarrow> supervisor_run \<Rightarrow> supervisor_run" where
  "after_lines ready_file once ls s =
     (let s = s\<lparr>su_printed := su_printed s @ ls\<rparr> in if \<not> once \<and> list_ex is_ready_output ls then write_ready ready_file s else s)"

lemma scan_after_lines: "scan_supervisor_output ready_file once ls s = after_lines ready_file once ls s"
proof (induction ready_file once ls s rule: scan_supervisor_output.induct)
  case (2 ready_file once line rest s)
  then show ?case by (auto simp: after_lines_def write_ready_def Let_def)
qed (simp add: after_lines_def Let_def)

section \<open>Invariant\<close>

text \<open>How many scanners have sent, and how many values the main goroutine has taken.\<close>

definition sent_count :: "forward_state \<Rightarrow> nat" where
  "sent_count s = (if fw_scan s Std_Out = Done_Sent then 1 else 0) + (if fw_scan s Std_Err = Done_Sent then 1 else 0)"

definition taken_count :: "forward_state \<Rightarrow> nat" where
  "taken_count s = (case fw_main s of In_Wait \<Rightarrow> 0 | Receiving k e \<Rightarrow> k | Forward_Returned e \<Rightarrow> 2)"

definition run_ok :: "string \<Rightarrow> supervisor_run \<Rightarrow> forward_state \<Rightarrow> bool" where
  "run_ok ready_file s0 s \<longleftrightarrow>
     fw_run s = (let r = s0\<lparr>su_printed := su_printed s0 @ fw_lines s\<rparr>
                 in if fw_once s = Has_Run then write_ready ready_file r else r)"

definition once_ok :: "forward_state \<Rightarrow> bool" where
  "once_ok s \<longleftrightarrow>
     (list_ex is_ready_output (fw_lines s) \<longleftrightarrow>
        fw_once s \<noteq> Not_Run \<or> fw_scan s Std_Out = At_Once \<or> fw_scan s Std_Err = At_Once) \<and>
     (fw_once s = Running \<longleftrightarrow> fw_scan s Std_Out = Writing \<or> fw_scan s Std_Err = Writing) \<and>
     \<not> (fw_scan s Std_Out = Writing \<and> fw_scan s Std_Err = Writing) \<and>
     fw_writes s = (if fw_once s = Has_Run then 1 else 0)"

definition count_ok :: "forward_state \<Rightarrow> bool" where
  "count_ok s \<longleftrightarrow>
     sent_count s = fw_chan s + taken_count s \<and> \<not> fw_panicked s \<and>
     (fw_closed s \<longleftrightarrow> (case fw_main s of Forward_Returned e \<Rightarrow> True | _ \<Rightarrow> False)) \<and>
     (case fw_main s of In_Wait \<Rightarrow> True | Receiving k e \<Rightarrow> fw_exit s = Some e \<and> k \<le> 2 | Forward_Returned e \<Rightarrow> fw_exit s = Some e)"

lemma run_ok_step: "forward_step ready_file s s' \<Longrightarrow> once_ok s \<Longrightarrow> run_ok ready_file s0 s \<Longrightarrow> run_ok ready_file s0 s'"
proof (induction rule: forward_step.induct)
  case (Scanner_Reads s st l rest)
  then show ?case by (simp add: run_ok_def print_line_def write_ready_def Let_def)
next
  case (Scanner_Writes s st)
  then have "fw_once s = Running" by (cases st) (simp_all add: once_ok_def)
  with Scanner_Writes show ?case by (simp add: run_ok_def Let_def)
qed (simp_all add: run_ok_def once_ok_def Let_def)

lemma once_ok_step: "forward_step ready_file s s' \<Longrightarrow> once_ok s \<Longrightarrow> once_ok s'"
proof (induction rule: forward_step.induct)
  case (Scanner_Reads s st l rest)
  then show ?case by (cases st; cases "fw_once s") (auto simp: once_ok_def)
next
  case (Scanner_Enters s st)
  then show ?case by (cases st) (auto simp: once_ok_def)
next
  case (Scanner_Writes s st)
  then show ?case by (cases st) (auto simp: once_ok_def)
next
  case (Scanner_Passes s st)
  then show ?case by (cases st) (auto simp: once_ok_def)
next
  case (Scanner_Ends s st)
  then show ?case by (cases st) (auto simp: once_ok_def)
qed (simp_all add: once_ok_def)

lemma count_ok_step: "forward_step ready_file s s' \<Longrightarrow> count_ok s \<Longrightarrow> count_ok s'"
proof (induction rule: forward_step.induct)
  case (Scanner_Reads s st l rest)
  then show ?case by (cases st; cases "fw_main s") (auto simp: count_ok_def sent_count_def taken_count_def)
next
  case (Scanner_Enters s st)
  then show ?case by (cases st; cases "fw_main s") (auto simp: count_ok_def sent_count_def taken_count_def)
next
  case (Scanner_Writes s st)
  then show ?case by (cases st; cases "fw_main s") (auto simp: count_ok_def sent_count_def taken_count_def)
next
  case (Scanner_Passes s st)
  then show ?case by (cases st; cases "fw_main s") (auto simp: count_ok_def sent_count_def taken_count_def)
next
  case (Scanner_Ends s st)
  then show ?case
    by (cases st; cases "fw_main s") (auto simp: count_ok_def sent_count_def taken_count_def split: forward_phase.splits if_splits)
qed (auto simp: count_ok_def sent_count_def taken_count_def split: forward_phase.splits)

definition forward_ok :: "string \<Rightarrow> supervisor_run \<Rightarrow> forward_state \<Rightarrow> bool" where
  "forward_ok ready_file s0 s \<longleftrightarrow> run_ok ready_file s0 s \<and> once_ok s \<and> count_ok s"

lemma forward_ok_reachable: "forward_reachable ready_file s0 s \<Longrightarrow> forward_ok ready_file s0 s"
  unfolding forward_reachable_def
proof (induction rule: rtranclp_induct)
  case base
  show ?case
    by (simp add: forward_ok_def run_ok_def once_ok_def count_ok_def forward_init_def sent_count_def taken_count_def Let_def)
next
  case (step s s')
  then show ?case using run_ok_step once_ok_step count_ok_step by (simp add: forward_ok_def)
qed

text \<open>When the main goroutine has returned, both scanners have ended and none is in the \<open>Once\<close>.\<close>

lemma returned_scans:
  assumes "count_ok s" and "fw_main s = Forward_Returned e"
  shows "fw_scan s st = Done_Sent \<and> fw_chan s = 0 \<and> fw_exit s = Some e"
  using assms by (cases st; cases "fw_main s") (auto simp: count_ok_def sent_count_def taken_count_def split: if_splits)

lemma returned_run:
  assumes "forward_ok ready_file s0 s" and "fw_main s = Forward_Returned e"
  shows "fw_run s = scan_supervisor_output ready_file False (fw_lines s) s0"
proof -
  have "fw_scan s st = Done_Sent" for st using returned_scans assms by (auto simp: forward_ok_def)
  then have "fw_once s = Has_Run \<longleftrightarrow> list_ex is_ready_output (fw_lines s)"
    using assms(1) by (cases "fw_once s") (auto simp: forward_ok_def once_ok_def)
  then show ?thesis using assms(1) by (simp add: scan_after_lines after_lines_def forward_ok_def run_ok_def Let_def)
qed

section \<open>The way to the return\<close>

text \<open>
  Once \<open>kubectl\<close> has ended, a scanner has the lines left in its pipe and its own phase ahead of it,
  and the main goroutine its receptions.
\<close>

fun phase_distance :: "scan_phase \<Rightarrow> nat" where
  "phase_distance At_Once = 3"
| "phase_distance Writing = 2"
| "phase_distance Reading = 1"
| "phase_distance Done_Sent = 0"

definition scan_distance :: "forward_state \<Rightarrow> stream \<Rightarrow> nat" where
  "scan_distance s st = 4 * length (fw_pipe s st) + phase_distance (fw_scan s st)"

definition main_distance :: "forward_phase \<Rightarrow> nat" where
  "main_distance m = (case m of In_Wait \<Rightarrow> 4 | Receiving k e \<Rightarrow> 3 - k | Forward_Returned e \<Rightarrow> 0)"

definition forward_distance :: "forward_state \<Rightarrow> nat" where
  "forward_distance s = scan_distance s Std_Out + scan_distance s Std_Err + main_distance (fw_main s)"

lemmas distance_defs = forward_distance_def scan_distance_def main_distance_def

lemma forward_distance_step:
  "forward_step ready_file s s' \<Longrightarrow> fw_exit s \<noteq> None \<Longrightarrow> forward_distance s' < forward_distance s \<and> fw_exit s' \<noteq> None"
proof (induction rule: forward_step.induct)
  case (Scanner_Reads s st l rest)
  then show ?case by (cases st) (simp_all add: distance_defs)
next
  case (Scanner_Enters s st)
  then show ?case by (cases st) (simp_all add: distance_defs)
next
  case (Scanner_Writes s st)
  then show ?case by (cases st) (simp_all add: distance_defs)
next
  case (Scanner_Passes s st)
  then show ?case by (cases st) (simp_all add: distance_defs)
next
  case (Scanner_Ends s st)
  then show ?case by (cases st) (simp_all add: distance_defs)
next
  case (Wait_Ends s e p)
  then have "length (p st) \<le> length (fw_pipe s st)" for st by (simp add: prefix_length_le)
  from this [of Std_Out] this [of Std_Err] Wait_Ends show ?case by (simp add: distance_defs)
qed (simp_all add: distance_defs)

lemma scanner_can_step:
  assumes "once_ok s" and "fw_scan s st \<noteq> Done_Sent"
  shows "\<exists>s'. forward_step ready_file s s'"
proof (cases "fw_scan s st")
  case Reading
  then show ?thesis using Scanner_Ends by blast
next
  case At_Once
  show ?thesis
  proof (cases "fw_once s")
    case Not_Run
    with At_Once show ?thesis using Scanner_Enters by blast
  next
    case Running
    then obtain st' where "fw_scan s st' = Writing" using assms(1) by (auto simp: once_ok_def)
    then show ?thesis using Scanner_Writes by blast
  next
    case Has_Run
    with At_Once show ?thesis using Scanner_Passes by blast
  qed
next
  case Writing
  then show ?thesis using Scanner_Writes by blast
qed (use assms(2) in simp)

lemma forward_can_step:
  assumes "forward_ok ready_file s0 s" and "fw_exit s = Some x" and "\<forall>e. fw_main s \<noteq> Forward_Returned e"
  shows "\<exists>s'. forward_step ready_file s s'"
proof (cases "\<exists>st. fw_scan s st \<noteq> Done_Sent")
  case True
  then show ?thesis using scanner_can_step assms(1) by (auto simp: forward_ok_def)
next
  case False
  then have two: "fw_chan s + taken_count s = 2" using assms(1) by (simp add: forward_ok_def count_ok_def sent_count_def)
  show ?thesis
  proof (cases "fw_main s")
    case In_Wait
    from Wait_Ends [OF this assms(2), of "fw_pipe s" ready_file] show ?thesis by auto
  next
    case (Receiving k e)
    show ?thesis
    proof (cases "k = 2")
      case True
      with Receiving show ?thesis using Main_Returns by blast
    next
      case False
      have "k \<le> 2" using assms(1) Receiving by (simp add: forward_ok_def count_ok_def)
      with False two Receiving obtain n where "k < 2" "fw_chan s = Suc n"
        by (cases "fw_chan s") (auto simp: taken_count_def)
      with Receiving show ?thesis using Main_Receives by blast
    qed
  next
    case (Forward_Returned e)
    then show ?thesis using assms(3) by blast
  qed
qed

lemma returned_no_step:
  assumes "forward_ok ready_file s0 s" and "fw_main s = Forward_Returned e" and "forward_step ready_file s s'"
  shows False
proof -
  have "fw_scan s st = Done_Sent" and "fw_exit s = Some e" for st
    using returned_scans assms(1,2) by (auto simp: forward_ok_def)
  then show False using assms(2,3) by (auto elim: forward_step.cases)
qed

section \<open>Properties\<close>

text \<open>The state in which \<open>cmd.Start\<close> has started \<open>kubectl\<close>.\<close>

definition forward_started :: "string \<Rightarrow> string list \<Rightarrow> command \<Rightarrow> supervisor_run \<Rightarrow> supervisor_run" where
  "forward_started path env c s = s\<lparr>su_started := su_started s @ [(path, cmd_args c, merge_command_env env (cmd_env c))]\<rparr>"

text \<open>
  C19: Whatever the interleaving of the goroutines, an outcome of \<open>runSupervisedPortForward\<close> is that
  of the sequential form on the lines the scanners have read: it returns the end of the
  process, and the ready file was written once if one of the lines was ready and not at all
  otherwise; no goroutine ever sends to the closed channel.
\<close>

theorem supervised_forward_refines:
  assumes "forward_reachable ready_file (forward_started path env c s0) s"
  shows "\<not> fw_panicked s \<and> fw_writes s \<le> 1 \<and>
    (case fw_main s of
       Forward_Returned e \<Rightarrow> fw_exit s = Some e \<and>
         fw_writes s = (if list_ex is_ready_output (fw_lines s) then 1 else 0) \<and>
         run_supervised_port_forward path env c ready_file (Forwarded (fw_lines s) e) s0 =
           ((case e of Some e \<Rightarrow> Inl e | None \<Rightarrow> Inr ()), fw_run s)
     | _ \<Rightarrow> True)"
proof -
  have ok: "forward_ok ready_file (forward_started path env c s0) s" using assms by (rule forward_ok_reachable)
  have safe: "\<not> fw_panicked s \<and> fw_writes s \<le> 1" using ok by (simp add: forward_ok_def count_ok_def once_ok_def)
  show ?thesis
  proof (cases "fw_main s")
    case (Forward_Returned e)
    have scans: "fw_scan s st = Done_Sent" and exit: "fw_exit s = Some e" for st
      using returned_scans [OF _ Forward_Returned] ok by (auto simp: forward_ok_def)
    have "fw_writes s = (if list_ex is_ready_output (fw_lines s) then 1 else 0)"
      using ok scans by (cases "fw_once s") (auto simp: forward_ok_def once_ok_def)
    then show ?thesis using safe exit returned_run [OF ok Forward_Returned]
      by (simp add: Forward_Returned run_supervised_port_forward_def forward_started_def Let_def split: option.split)
  qed (use safe in simp_all)
qed

text \<open>
  C20: When \<open>kubectl\<close> has ended, \<open>runSupervisedPortForward\<close> returns under every schedule: each step of
  any goroutine brings the return nearer, and no step is possible exactly when the main
  goroutine has returned, so that it cannot wait for a scanner for ever.
\<close>

theorem supervised_forward_returns:
  assumes "forward_reachable ready_file s0 s" and "fw_exit s \<noteq> None"
  shows "(\<forall>s'. forward_step ready_file s s' \<longrightarrow> forward_distance s' < forward_distance s \<and> fw_exit s' \<noteq> None) \<and>
    ((\<forall>s'. \<not> forward_step ready_file s s') \<longleftrightarrow> (\<exists>e. fw_main s = Forward_Returned e))"
proof -
  have ok: "forward_ok ready_file s0 s" using assms(1) by (rule forward_ok_reachable)
  have "(\<forall>s'. \<not> forward_step ready_file s s') \<longleftrightarrow> (\<exists>e. fw_main s = Forward_Returned e)"
    using forward_can_step [OF ok] returned_no_step [OF ok] assms(2) by blast
  then show ?thesis using forward_distance_step assms(2) by blast
qed

text \<open>A run in which \<open>kubectl\<close> prints that it forwards and then ends with an error.\<close>

definition demo_forward :: supervisor_run where
  "demo_forward = \<lparr>su_world = mc_state demo_machine, su_started = [], su_printed = [], su_waits = []\<rparr>"

definition demo_line :: string where
  "demo_line = ''Forwarding from 127.0.0.1:4022 -> 22''"

definition demo_lost :: go_error where
  "demo_lost = Err ''lost connection to pod'' []"

definition demo_ended :: "supervisor_run \<Rightarrow> forward_state" where
  "demo_ended s = (forward_init s)\<lparr>fw_run := print_line demo_line s, fw_lines := [demo_line], fw_pipe := (\<lambda>_. [])(Std_Out := []),
     fw_scan := (\<lambda>_. Reading)(Std_Out := At_Once), fw_exit := Some (Some demo_lost)\<rparr>"

definition demo_returned :: "supervisor_run \<Rightarrow> forward_state" where
  "demo_returned s = (demo_ended s)\<lparr>fw_run := write_ready ''/s/r'' (print_line demo_line s), fw_writes := 1, fw_once := Has_Run,
     fw_scan := (\<lambda>_. Reading)(Std_Out := Done_Sent, Std_Err := Done_Sent), fw_main := Forward_Returned (Some demo_lost), fw_closed := True\<rparr>"

lemma demo_line_ready: "is_ready_output demo_line"
  by code_simp

lemma demo_ended_reachable: "forward_reachable ''/s/r'' s (demo_ended s)"
proof -
  let ?a = "forward_init s"
  let ?b = "?a\<lparr>fw_pipe := (\<lambda>_. [])(Std_Out := [demo_line])\<rparr>"
  let ?c = "(demo_ended s)\<lparr>fw_exit := None\<rparr>"
  note defs = forward_init_def demo_ended_def
  have "forward_step ''/s/r'' ?a ?b" using Kubectl_Writes [of ?a "''/s/r''" Std_Out demo_line] by (simp add: defs)
  moreover have "forward_step ''/s/r'' ?b ?c"
    using Scanner_Reads [of ?b Std_Out demo_line "[]" "''/s/r''"] demo_line_ready by (simp add: defs)
  moreover have "forward_step ''/s/r'' ?c (demo_ended s)"
    using Kubectl_Ends [of ?c "''/s/r''" "Some demo_lost"] by (simp add: defs)
  ultimately show ?thesis unfolding forward_reachable_def by (meson converse_rtranclp_into_rtranclp rtranclp.rtrancl_refl)
qed

lemma demo_returning: "(forward_step ''/s/r'')\<^sup>*\<^sup>* (demo_ended s) (demo_returned s)"
proof -
  let ?a = "demo_ended s"
  let ?b = "?a\<lparr>fw_once := Running, fw_scan := (\<lambda>_. Reading)(Std_Out := Writing)\<rparr>"
  let ?c = "?a\<lparr>fw_run := write_ready ''/s/r'' (print_line demo_line s), fw_writes := 1, fw_once := Has_Run,
     fw_scan := (\<lambda>_. Reading)(Std_Out := Reading)\<rparr>"
  let ?d = "?c\<lparr>fw_scan := (\<lambda>_. Reading)(Std_Out := Done_Sent), fw_chan := 1\<rparr>"
  let ?e = "?c\<lparr>fw_scan := (\<lambda>_. Reading)(Std_Out := Done_Sent, Std_Err := Done_Sent), fw_chan := 2\<rparr>"
  let ?f = "?e\<lparr>fw_main := Receiving 0 (Some demo_lost)\<rparr>"
  let ?g = "?e\<lparr>fw_main := Receiving 1 (Some demo_lost), fw_chan := 1\<rparr>"
  let ?h = "?e\<lparr>fw_main := Receiving 2 (Some demo_lost), fw_chan := 0\<rparr>"
  let ?r = "forward_step ''/s/r''"
  note defs = forward_init_def demo_ended_def
  have "?r ?a ?b" using Scanner_Enters [of ?a Std_Out "''/s/r''"] by (simp add: defs)
  moreover have "?r ?b ?c" using Scanner_Writes [of ?b Std_Out "''/s/r''"] by (simp add: defs)
  moreover have "?r ?c ?d" using Scanner_Ends [of ?c Std_Out "''/s/r''"] by (simp add: defs)
  moreover have "?r ?d ?e" using Scanner_Ends [of ?d Std_Err "''/s/r''"] by (simp add: defs numeral_2_eq_2)
  moreover have "?r ?e ?f" using Wait_Ends [of ?e "Some demo_lost" "fw_pipe ?e" "''/s/r''"] by (simp add: defs)
  moreover have "?r ?f ?g" using Main_Receives [of ?f 0 "Some demo_lost" 1 "''/s/r''"] by (simp add: defs)
  moreover have "?r ?g ?h" using Main_Receives [of ?g 1 "Some demo_lost" 0 "''/s/r''"] by (simp add: defs numeral_2_eq_2)
  moreover have "?r ?h (demo_returned s)"
    using Main_Returns [of ?h "Some demo_lost" "''/s/r''"] by (simp add: defs demo_returned_def)
  ultimately show ?thesis by (meson converse_rtranclp_into_rtranclp rtranclp.rtrancl_refl)
qed

lemma demo_returned_reachable: "forward_reachable ''/s/r'' s (demo_returned s)"
  using demo_ended_reachable demo_returning unfolding forward_reachable_def by (meson rtranclp_trans)

theorem supervised_forward_refines_witness:
  "run_supervised_port_forward ''/usr/bin/kubectl'' [] \<lparr>cmd_args = [''port-forward''], cmd_env = []\<rparr> ''/s/r''
      (Forwarded [demo_line] (Some demo_lost)) demo_forward =
     (Inl demo_lost, fw_run (demo_returned (forward_started ''/usr/bin/kubectl'' [] \<lparr>cmd_args = [''port-forward''], cmd_env = []\<rparr> demo_forward)))"
proof -
  have "fw_main (demo_returned s) = Forward_Returned (Some demo_lost)" "fw_lines (demo_returned s) = [demo_line]" for s
    by (simp_all add: demo_returned_def demo_ended_def)
  then show ?thesis using supervised_forward_refines [OF demo_returned_reachable] by simp
qed

theorem supervised_forward_returns_witness:
  "forward_distance (demo_ended demo_forward) = 8 \<and>
   (\<exists>s'. forward_step ''/s/r'' (demo_ended demo_forward) s') \<and>
   (\<nexists>s'. forward_step ''/s/r'' (demo_returned demo_forward) s')"
proof -
  have exits: "fw_exit (demo_ended demo_forward) \<noteq> None" "fw_exit (demo_returned demo_forward) \<noteq> None"
    and mains: "fw_main (demo_ended demo_forward) = In_Wait" "fw_main (demo_returned demo_forward) = Forward_Returned (Some demo_lost)"
    and d: "forward_distance (demo_ended demo_forward) = 8"
    by (simp_all add: demo_ended_def demo_returned_def forward_init_def distance_defs)
  show ?thesis
    using supervised_forward_returns [OF demo_ended_reachable exits(1)]
      supervised_forward_returns [OF demo_returned_reachable exits(2)] mains d by auto
qed

end
