(* ===== verification/Test_Vectors.thy ===== *)
theory Test_Vectors
  imports Cli_Main Port_Probe
begin

text \<open>
  The expectations of the repository's own tests, evaluated on the model: each lemma names the
  test function whose input and expected output it takes.
\<close>

section \<open>sshconfig/userconfig_test.go\<close>

text \<open>TestDefaultUserConfigPathForOS\<close>

lemma user_config_paths:
  "default_user_config_path_for ''darwin'' ''/Users/alice'' [] = Inr ''/Users/alice/.ssh/config''"
  "default_user_config_path_for ''linux'' ''/home/alice'' [] = Inr ''/home/alice/.ssh/config''"
  "default_user_config_path_for ''windows'' [] (''C:'' @ [CHR 0x5C] @ ''Users'') = Inr (''C:'' @ [CHR 0x5C] @ ''Users/.ssh/config'')"
  "default_user_config_path_for ''windows'' (''C:'' @ [CHR 0x5C] @ ''Users'') [] = Inr (''C:'' @ [CHR 0x5C] @ ''Users/.ssh/config'')"
  by code_simp+

definition lines_of :: "string list \<Rightarrow> string" where
  "lines_of ls = str_join [nl] ls"

definition user_text :: string where
  "user_text = lines_of [''Host github.com'', ''  User git'', [], ''# BEGIN dev-connect dev01'', ''Host dev01'',
     ''  HostName 127.0.0.1'', ''  Port 10000'', ''# END dev-connect dev01'', []]"

text \<open>TestUpsertManagedBlockReplacesExistingManagedBlockAndPreservesUserContent\<close>

lemma upsert_replaces:
  "let c = prepend_managed_block (remove_managed_block user_text ''dev01'') (render_managed_block (demo_block ''dev01''))
   in str_contains c ''Port 55221'' \<and> \<not> str_contains c ''Port 10000'' \<and> str_contains c (lines_of [''Host github.com'', ''  User git''])"
  by code_simp

text \<open>TestRemoveManagedBlockRemovesOnlyMatchingManagedBlock\<close>

lemma remove_matching:
  "remove_managed_block (lines_of [''# BEGIN dev-connect dev01'', ''Host dev01'', ''# END dev-connect dev01'', [],
      ''Host github.com'', [], ''# BEGIN dev-connect dev02'', ''Host dev02'', ''# END dev-connect dev02'', []]) ''dev01'' =
   lines_of [''Host github.com'', [], ''# BEGIN dev-connect dev02'', ''Host dev02'', ''# END dev-connect dev02'', []]"
  by code_simp

section \<open>config/config_test.go and the defaults\<close>

lemma default_dirs:
  "default_dir_for ''linux'' ''/home/alice/'' [] = Inr ''/home/alice/.config/dev-connect''"
  "default_dir_for ''darwin'' ''/Users/alice'' [] = Inr ''/Users/alice/Library/Application Support/dev-connect''"
  "default_dir_for ''windows'' [] (''C:'' @ [CHR 0x5C] @ ''A'' @ [CHR 0x5C]) = Inr (''C:'' @ [CHR 0x5C] @ ''A'' @ [CHR 0x5C] @ ''dev-connect'')"
  "isl (default_dir_for ''linux'' [] [])"
  by code_simp+

text \<open>TestSSHKeepAliveDefaults, TestVSCodeIsolatedUserDataDirDefaultsToTrue, TestVSCodeRemoteSetupBatchModeDefaultsToTrue\<close>

lemma config_defaults:
  "effective_alive_interval (cfg_ssh demo_config) = 30" "effective_tcp_keep_alive (cfg_ssh demo_config)"
  "use_isolated_user_data_dir (cfg_vscode demo_config)" "use_batch_mode (vs_remote_setup (cfg_vscode demo_config))"
  by code_simp+

section \<open>proxy/env_test.go\<close>

text \<open>TestBuildEnvAppliesOverridesWithoutMutatingBase, TestBuildEnvReturnsCopyWhenDisabled\<close>

lemma build_env_overrides:
  "let env = build_env_for_os ''linux'' [''PATH=/usr/bin'', ''HTTPS_PROXY=http://enterprise.example'']
       \<lparr>pc_enabled = True, pc_http = ''http://h'', pc_https = ''http://s'', pc_no_proxy = ''localhost''\<rparr>
   in list_all (\<lambda>e. e \<in> set env) [''PATH=/usr/bin'', ''HTTPS_PROXY=http://s'', ''HTTP_PROXY=http://h'', ''NO_PROXY=localhost'']
      \<and> ''HTTPS_PROXY=http://enterprise.example'' \<notin> set env"
  "build_env_for_os ''linux'' [''PATH=/usr/bin'']
     \<lparr>pc_enabled = False, pc_http = [], pc_https = ''http://ignored.example'', pc_no_proxy = []\<rparr> = [''PATH=/usr/bin'']"
  by code_simp+

text \<open>TestBuildEnvReplacesWindowsProxyVariablesCaseInsensitively\<close>

lemma build_env_windows:
  "build_env_for_os ''windows'' [''Path=C:'', ''Https_Proxy=http://enterprise.example'', ''No_Proxy=localhost'']
     \<lparr>pc_enabled = True, pc_http = [], pc_https = ''http://o'', pc_no_proxy = ''localhost,127.0.0.1''\<rparr> =
   [''Path=C:'', ''HTTPS_PROXY=http://o'', ''NO_PROXY=localhost,127.0.0.1'']"
  by code_simp

section \<open>kubectl/command_test.go\<close>

text \<open>TestBuildPortForwardServiceCommand, TestBuildAuthCanICommand, TestBuildVersionCommand\<close>

lemma kubectl_commands:
  "cmd_args (port_forward_command \<lparr>pf_namespace = ''dev-connect'', pf_service = ''gw'', pf_local_port = 55221, pf_remote_port = 22,
      pf_context = ''platform-dev'', pf_kubeconfig = ''/tmp/kubeconfig''\<rparr>) =
   [''--kubeconfig'', ''/tmp/kubeconfig'', ''--context'', ''platform-dev'', ''-n'', ''dev-connect'', ''port-forward'',
    ''service/gw'', ''55221:22'']"
  "cmd_args (auth_can_i_command \<lparr>au_namespace = ''dev-connect'', au_verb = ''create'', au_resource = ''pods/portforward'',
      au_context = ''platform-dev'', au_kubeconfig = []\<rparr>) =
   [''--context'', ''platform-dev'', ''-n'', ''dev-connect'', ''auth'', ''can-i'', ''create'', ''pods/portforward'']"
  "cmd_args (version_command \<lparr>ve_context = ''platform-dev'', ve_kubeconfig = ''/tmp/kubeconfig''\<rparr>) =
   [''--kubeconfig'', ''/tmp/kubeconfig'', ''--context'', ''platform-dev'', ''version'']"
  by code_simp+

section \<open>vscode tests\<close>

text \<open>TestDefaultLauncherPathsWindows, TestDefaultLauncherPathsLinux\<close>

lemma launcher_paths:
  "hd (default_launcher_paths ''darwin'' []) = ''/Applications/Visual Studio Code.app/Contents/Resources/app/bin/code''"
  "default_launcher_paths ''linux'' [] = [''/usr/bin/code'', ''/usr/local/bin/code'', ''/snap/bin/code'']"
  "length (default_launcher_paths ''windows'' ''C:'') = 3" "length (default_launcher_paths ''windows'' []) = 2"
  by code_simp+

text \<open>TestRenderRemoteSetupScriptWritesProxyEnvironment, TestRenderRemoteSetupScriptEscapesShellValues\<close>

definition test_setup :: remote_setup_options where
  "test_setup = \<lparr>rso_target_alias = ''dev01'', rso_ssh_config_path = ''/tmp/ssh_config'', rso_ssh_path = [],
     rso_http_proxy = ''http://p/a'' @ [squote] @ ''b'', rso_https_proxy = ''http://s'', rso_no_proxy = ''localhost, 127.0.0.1,.svc'',
     rso_proxy_support = [], rso_batch_mode = None\<rparr>"

lemma split_no_proxy_test: "split_no_proxy ''localhost, 127.0.0.1,.svc'' = [''localhost'', ''127.0.0.1'', ''.svc'']"
  by code_simp

lemma remote_env:
  "server_env test_setup =
     [''# BEGIN dev-connect remote proxy'', ''export HTTPS_PROXY='' @ [squote] @ ''http://s'' @ [squote],
      ''export https_proxy='' @ [squote] @ ''http://s'' @ [squote],
      ''export HTTP_PROXY='' @ [squote] @ ''http://p/a'' @ [squote, CHR 0x5C, squote, squote] @ ''b'' @ [squote],
      ''export http_proxy='' @ [squote] @ ''http://p/a'' @ [squote, CHR 0x5C, squote, squote] @ ''b'' @ [squote],
      ''export NO_PROXY='' @ [squote] @ ''localhost, 127.0.0.1,.svc'' @ [squote],
      ''export no_proxy='' @ [dquote] @ ''$NO_PROXY'' @ [dquote], ''# END dev-connect remote proxy'']"
  "map_of (remote_settings test_setup) ''http.proxy'' = Some (JStr ''http://s'')"
  "map_of (remote_settings test_setup) ''http.proxySupport'' = Some (JStr ''override'')"
  by code_simp+

text \<open>TestRemoteSetupSSHArgsDefaultsToBatchMode, TestRemoteSetupSSHArgsCanDisableBatchMode\<close>

lemma remote_ssh_args_test:
  "remote_setup_ssh_args test_setup = [''-F'', ''/tmp/ssh_config'', ''-o'', ''BatchMode=yes'', ''dev01'', ''bash -s'']"
  "remote_setup_ssh_args (test_setup\<lparr>rso_batch_mode := Some False\<rparr>) = [''-F'', ''/tmp/ssh_config'', ''dev01'', ''bash -s'']"
  by code_simp+

section \<open>cmd/dev-connect/main_test.go\<close>

text \<open>TestKubectlBaseEnvReplacesWindowsKubeconfigCaseInsensitively, TestKubectlBaseEnvKeepsProxyOverrides\<close>

lemma kubectl_env_test:
  "kubectl_base_env_from [''Path=C:'', ''kubeconfig=old''] ''windows'' demo_proxy_off ''new'' = [''Path=C:'', ''KUBECONFIG=new'']"
  "let env = kubectl_base_env_from [''PATH=/usr/bin''] ''linux''
       \<lparr>pc_enabled = True, pc_http = [], pc_https = ''http://p'', pc_no_proxy = ''localhost''\<rparr> ''/k.yaml''
   in list_all (\<lambda>e. e \<in> set env) [''KUBECONFIG=/k.yaml'', ''HTTPS_PROXY=http://p'', ''NO_PROXY=localhost'',
        ''https_proxy=http://p'', ''no_proxy=localhost'']"
  by code_simp+

text \<open>TestVersionOutputsVersionedJSON, TestStatusOutputsVersionedJSON, TestInvalidOutputFlagFails\<close>

lemma version_output:
  "write_json (version_response demo_build demo_process) =
     [CHR ''{''] @ str_join '','' (map (\<lambda>(k, v). [dquote] @ k @ [dquote, CHR '':'', dquote] @ v @ [dquote])
       [(''apiVersion'', ''v1''), (''status'', ''ok''), (''version'', ''dev''), (''commit'', ''unknown''), (''buildDate'', ''unknown''),
        (''goVersion'', ''go1.26''), (''os'', ''linux''), (''arch'', ''amd64'')]) @ [CHR ''}'', nl]"
  by code_simp

lemma text_output:
  "write_response default_options disconnected = ''disconnected'' @ [nl]"
  "write_response default_options demo_response = ''connected dev'' @ [nl]"
  "isl (validate_options (default_options\<lparr>op_output := ''yaml''\<rparr>))" "validate_options default_options = Inr ()"
  by code_simp+

text \<open>TestConnectRequiresContextWhenMultipleContextsAreConfigured\<close>

lemma several_contexts:
  "selected_cluster (demo_config\<lparr>cfg_contexts := cfg_contexts demo_config @ [(''test'', \<lparr>cx_cluster = ''c1'', cx_gateway = ''g1''\<rparr>)]\<rparr>)
     default_options = Inl (Err ''context is required when multiple contexts are configured'' [])"
  by code_simp

section \<open>logging, tunnel and port tests\<close>

text \<open>TestLoggerRedactsSensitiveAttributes, TestNewRejectsInvalidFormatAndLevel\<close>

lemma logging_test:
  "list_all is_sensitive_key [''password'', ''bearerToken'', ''sshPrivateKey'', ''kubeconfig'', ''proxyCredentials'']"
  "\<not> is_sensitive_key ''target''" "isl (new_logger ''xml'' ''info'')" "isl (new_logger ''json'' ''verbose'')"
  by code_simp+

text \<open>TestOutputIndicatesReadiness, TestSupervisorReconnectsOnceAfterTransientFailure, TestSupervisorDoesNotReconnectWhenDisabled\<close>

definition test_start :: "bool \<Rightarrow> start_options" where
  "test_start reconnect = \<lparr>ts_namespace = ''dev-connect'', ts_service = ''gw'', ts_local_port = 55221, ts_remote_port = 22,
     ts_context = [], ts_kubeconfig = [], ts_reconnect = reconnect\<rparr>"

definition test_results :: "run_result list" where
  "test_results = [\<lparr>rr_stdout = [], rr_stderr = ''temporary failure'', rr_exit = 1\<rparr>,
     \<lparr>rr_stdout = ''Forwarding from 127.0.0.1:55221 -> 22'' @ [nl], rr_stderr = [], rr_exit = 0\<rparr>]"

lemma test_ready: "is_ready_output (''Forwarding from 127.0.0.1:55221 -> 22'' @ [nl])" "\<not> is_ready_output []"
  by code_simp+

lemma tunnel_test:
  "map_option (fst \<circ> fst) (tunnel_start \<lparr>sv_runner = Some fake_as_runner, sv_max_reconnects = 1\<rparr> (test_start True)
     (new_fake_runner test_results)) = Some \<lparr>tr_ready = True, tr_attempts = 2, tr_pid = 0\<rparr>"
  "map_option (\<lambda>r. snd (fst r) \<noteq> None) (tunnel_start \<lparr>sv_runner = Some fake_as_runner, sv_max_reconnects = 1\<rparr> (test_start False)
     (new_fake_runner test_results)) = Some True"
  using test_ready
  by (simp_all add: tunnel_start_def attempts_allowed_def test_start_def test_results_def new_fake_runner_def fake_as_runner_def
      fake_run_def attempt_loop.simps)

text \<open>TestTCPAddrHandlesInvalidHost, TestStaleStateDetection, TestStateWithoutProcessIsNotStale\<close>

lemma address_test:
  "allocation_addr \<lparr>al_host = ''not-an-ip'', al_port = 22\<rparr> = \<lparr>ta_ip = None, ta_port = 22\<rparr>"
  "parse_ipv4 ''10.0.0.256'' = None" "parse_ipv4 ''10.00.0.1'' = None" "parse_ipv4 ''10.0.0.1'' = Some [10, 0, 0, 1]"
  "is_stale (zero_state\<lparr>st_pid := 4711\<rparr>) (\<lambda>pid. False)" "\<not> is_stale zero_state (\<lambda>pid. False)"
  by code_simp+

end
