(* ===== verification/Spec2Isabelle.thy ===== *)
theory Spec2Isabelle
  imports Ssh_Config User_Config Proxy_Env Dev_Config Kubectl_Ready Kubectl_Resolve Preflight Connect_Prepare Cli_Main Cli_Cycle Cli_Editor Port_Probe Fake_Kubectl Mock_Ssh_Server Process_Groups Supervisor_Forward Test_Vectors
begin

text \<open>
  A verification library of dev-connect, a command line program that gives VS Code Desktop an
  SSH connection to a development server behind a Kubernetes cluster. \<open>dev-connect connect <target>\<close>
  reads a configuration, allocates a local port, writes an SSH configuration with a pinned
  host key, starts a supervisor process that keeps \<open>kubectl port-forward\<close> running, records the
  session, adds a block to the user's own SSH configuration, prepares VS Code Server on the
  target and opens the editor; \<open>disconnect\<close>, \<open>status\<close>, \<open>list\<close>, \<open>config\<close> and \<open>version\<close> look at or undo that.

  Conventions. A Go function with effects is a function of the state that returns \<open>Inl e\<close> for a
  non-nil error or \<open>Inr x\<close>, with the state afterwards (\<open>Base_Prelude\<close>). A struct is a record, a
  Go string a list of bytes, a Go map the list of its entries in the order of iteration,
  which Go leaves open, so that theorems cover every order. The process sees a \<open>world\<close> (\<open>Go_OS\<close>):
  files with modes, running processes with their groups and, at every step, a failure the
  machine may inject, so a theorem over all worlds covers a failure of every single
  operation; \<open>calm\<close> worlds have none. Child processes are records of functions (\<open>child\<close>,
  \<open>supervisor_child\<close>, \<open>remote_child\<close>) over which the theorems quantify. \<open>leaves f m\<close> says that an operation
  never changes the observation \<open>f\<close>, and is proved by the rules of the collection \<open>frame\<close>.

  The theories and the code they model.

  Libraries of Go, as far as the program uses them: \<open>Go_Strings\<close> (\<open>strings\<close>, \<open>fmt\<close>, \<open>strconv\<close>),
  \<open>Go_Paths\<close> (\<open>path/filepath\<close>, Unix), \<open>Go_OS\<close> (\<open>os\<close>, \<open>syscall\<close>), \<open>Json_Codec\<close> and \<open>Json_Compact\<close> (the
  indented and the compact printer of \<open>encoding/json\<close> and its parser, with the round trip
  \<open>parse_render\<close>), \<open>Shell_Script\<close> (how a POSIX shell reads the words and here-documents the
  program generates), \<open>Utf8_Text\<close> (UTF-8 is kept by concatenation, cutting and path operations).

  \<open>Ssh_Config\<close>: \<open>internal/sshconfig/sshconfig.go\<close>. The session's \<open>ssh_config\<close> and \<open>known_hosts\<close>, read
  back by the rules of OpenSSH: the alias is bound to the local port and the pinned key.
  \<open>User_Config\<close>: \<open>userconfig.go\<close>, the managed block; inserting, replacing and removing it restores
  the user's bytes, and the cutting loop ends.

  \<open>Proxy_Env\<close>: \<open>internal/proxy/env.go\<close> and the environment helpers of \<open>main.go\<close> and \<open>runner.go\<close>. The
  locale \<open>env_map\<close> states what reading an entry after setting one gives; three setters of the
  program interpret it.

  \<open>Dev_Config\<close>: \<open>internal/config/config.go\<close>. Validation is equivalent to the declarative \<open>config_ok\<close>,
  whatever the order of the maps, and loading takes the first candidate that exists.

  \<open>Kubectl_Command\<close>, \<open>Kubectl_Resolve\<close>, \<open>Kubectl_Runner\<close>, \<open>Kubectl_Ready\<close>: \<open>internal/kubectl\<close>. The commands
  as \<open>kubectl\<close> reads them; the search for its executable; the runners behind the interface
  \<open>Runner\<close> (locale \<open>kubectl_runner\<close>, interpreted on the executable runner over any child process
  and on the fake runner of \<open>fake_test_harness.go\<close>); \<open>RunUntilReady\<close> as the step relation of its
  goroutines, with an invariant over all interleavings and a refinement to the sequential loop.

  \<open>Tunnel_Start\<close> (\<open>internal/tunnel\<close>) and \<open>Preflight\<close> (\<open>internal/preflight\<close>): clients of \<open>kubectl_runner\<close>. The
  attempts are counted in 64-bit words as in Go, so the loop is a \<open>partial_function\<close>; it is
  proved to return within the allowed attempts for every setting but the one whose sum is
  the largest \<open>int\<close>, with which a tunnel that always fails is retried for ever.

  \<open>Session_State\<close> (\<open>internal/session\<close>): the state, its JSON form and file, the lock, the process. The
  locale \<open>session_store\<close> states save, load and clear; \<open>Store\<close> interprets it.
  \<open>Process_Groups\<close>: the attributes of background processes on Unix and Windows, the groups they
  give, and \<open>process_windows.go\<close> over the system calls as parameters.

  \<open>Connect_Prepare\<close> and \<open>Port_Probe\<close>: \<open>internal/connect\<close> and \<open>internal/port\<close>. The prepared session is
  consistent across configuration, files and state; the port probe is a client of the
  locale \<open>loopback_ports\<close>, interpreted on a machine that hands out free ports.

  \<open>Vscode_Launch\<close> and \<open>Vscode_Remote\<close>: \<open>internal/vscode\<close>. User data, the search for the launcher, the
  launch; the remote setup script, read back by \<open>Shell_Script\<close> as the settings that were asked for.

  \<open>cmd/dev-connect/main.go\<close>: \<open>Cli_Select\<close> (options, selections, paths, summaries, the arguments of
  the supervisor), \<open>Cli_Process\<close> (environment, \<open>kubectl\<close>, preflight), \<open>Cli_Supervisor\<close> (both sides of
  the supervisor: waiting for its ready file, and the reconnect loop with its backoff,
  a \<open>partial_function\<close> over an unending sequence of child runs), \<open>Supervisor_Forward\<close> (the goroutines of
  one run, refined to the sequential form and proved to return), \<open>Cli_Output\<close> (with \<open>internal/output\<close> and
  \<open>internal/logging\<close>), \<open>Cli_Commands\<close> (the commands), \<open>Cli_Main\<close> (dispatch, exit status). The theorems
  that span the components are in \<open>Cli_Sessions\<close> (what \<open>connect\<close> records, \<open>disconnect\<close> removes, when
  \<open>connect\<close> is refused, that the supervisor forwards what was prepared), \<open>Cli_Cycle\<close> (\<open>connect\<close> then
  \<open>disconnect\<close> restores the machine; two overlapping \<open>connect\<close> commands), \<open>Cli_Editor\<close> (what is in
  place when the editor starts) and \<open>Cli_Wellformed\<close> (every saved state can be read back).

  Test support: \<open>Fake_Kubectl\<close> (\<open>tests/fakes/kubectl\<close>, put in the place of \<open>kubectl\<close> under the real
  runner, preflight and tunnel) and \<open>Mock_Ssh_Server\<close> (\<open>internal/testsupport/sshserver\<close>, the
  goroutines of its accept loop, connections and \<open>Close\<close>). \<open>Test_Vectors\<close> evaluates the
  expectations of the repository's own tests on the model.

  Bounds. Only \<open>Json_Codec\<close> uses fuel: the parser of a text of length n is run with at least n, and
  \<open>parse_render\<close> shows that this is enough for whatever the printer prints. Integers are kept at
  their width where the program counts with them (attempts, the process id handed to the
  Windows kernel, file modes); elsewhere Go only compares, stores or prints them.

  Not modelled. The parsing of the command line and the help texts are \<open>cobra\<close>'s: the commands
  start from parsed options, and \<open>read_args\<close> of \<open>Cli_Select\<close> reads the flags the program writes for its
  own supervisor. YAML decoding, the SSH protocol, \<open>taskkill\<close>, \<open>kubectl\<close>, \<open>ssh\<close> and the editor are
  parameters. How \<open>log/slog\<close> renders a record, what an error prints on standard error, and a
  failing standard output are left out. Symbolic links, concurrent writers of the same file
  within one operation, and the passage of time (other than the ticks and timeouts a loop
  selects on) are not part of a \<open>world\<close>; the start time of a session is its RFC 3339 text.
  Constants of \<open>encoding/json\<close> field tags are part of the encoders. The files \<open>doc.go\<close> hold no code.
\<close>

end
